(* ===== verification/Prelude.thy ===== *)
theory Prelude
  imports Main "HOL-Library.Word" "HOL-Library.State_Monad"
begin

text \<open>
  Shared vocabulary of the development: the C integer types as machine words, the errno
  values the drivers return, the state monad in which every driver function is written,
  a small Hoare-style calculus over that monad, and the lemmas on words and lists that
  several components use.
\<close>

unbundle bit_operations_syntax

section \<open>C integer types and errno values\<close>

type_synonym u8 = "8 word"
type_synonym u16 = "16 word"
type_synonym u32 = "32 word"
type_synonym u64 = "64 word"

text \<open>A C function that reports errors returns \<open>0\<close> or a count, or a negated errno.\<close>

abbreviation (input) EIO :: int where "EIO \<equiv> 5"
abbreviation (input) EAGAIN :: int where "EAGAIN \<equiv> 11"
abbreviation (input) ENOMEM :: int where "ENOMEM \<equiv> 12"
abbreviation (input) EFAULT :: int where "EFAULT \<equiv> 14"
abbreviation (input) EBUSY :: int where "EBUSY \<equiv> 16"
abbreviation (input) ENODEV :: int where "ENODEV \<equiv> 19"
abbreviation (input) EINVAL :: int where "EINVAL \<equiv> 22"
abbreviation (input) ENOTTY :: int where "ENOTTY \<equiv> 25"
abbreviation (input) EPROTO :: int where "EPROTO \<equiv> 71"
abbreviation (input) ETIMEDOUT :: int where "ETIMEDOUT \<equiv> 110"
abbreviation (input) ERESTARTSYS :: int where "ERESTARTSYS \<equiv> 512"
abbreviation (input) ENOIOCTLCMD :: int where "ENOIOCTLCMD \<equiv> 515"
abbreviation (input) EIOCBQUEUED :: int where "EIOCBQUEUED \<equiv> 529"

section \<open>The state monad of the drivers\<close>

abbreviation ret :: "'a \<Rightarrow> ('s, 'a) state" where
  "ret \<equiv> State_Monad.return"

abbreviation get_st :: "('s, 's) state" where
  "get_st \<equiv> State_Monad.get"

definition modify_st :: "('s \<Rightarrow> 's) \<Rightarrow> ('s, unit) state" where
  "modify_st f = State (\<lambda>s. ((), f s))"

definition gets_st :: "('s \<Rightarrow> 'a) \<Rightarrow> ('s, 'a) state" where
  "gets_st f = State (\<lambda>s. (f s, s))"

text \<open>Statements under a condition, without a result: \<open>if (b) m;\<close>.\<close>

definition when_st :: "bool \<Rightarrow> ('s, unit) state \<Rightarrow> ('s, unit) state" where
  "when_st b m = (if b then m else ret ())"

fun for_each :: "'a list \<Rightarrow> ('a \<Rightarrow> ('s, unit) state) \<Rightarrow> ('s, unit) state" where
  "for_each [] f = ret ()"
| "for_each (x # xs) f = do { _ \<leftarrow> f x; for_each xs f }"

lemma run_modify_st [simp]: "run_state (modify_st f) s = ((), f s)"
  by (simp add: modify_st_def)

lemma run_gets_st [simp]: "run_state (gets_st f) s = (f s, s)"
  by (simp add: gets_st_def)

lemma run_when_st [simp]:
  "run_state (when_st b m) s = (if b then run_state m s else ((), s))"
  by (simp add: when_st_def)

lemma run_if [simp]:
  "run_state (if b then m else n) s = (if b then run_state m s else run_state n s)"
  by simp

lemma run_for_each_append [simp]:
  "run_state (for_each (xs @ ys) f) s = run_state (for_each ys f) (snd (run_state (for_each xs f) s))"
  by (induction xs arbitrary: s) (auto split: prod.split)

abbreviation result_of :: "('s, 'a) state \<Rightarrow> 's \<Rightarrow> 'a" where
  "result_of m s \<equiv> fst (run_state m s)"

abbreviation final_of :: "('s, 'a) state \<Rightarrow> 's \<Rightarrow> 's" where
  "final_of m s \<equiv> snd (run_state m s)"

section \<open>A Hoare calculus over the state monad\<close>

text \<open>
  \<open>hoare P m Q\<close>: from a state with \<open>P\<close>, the program \<open>m\<close> (total by construction) ends
  with a result and a state that satisfy \<open>Q\<close>. The rules are collected in \<open>hoare\<close>.
\<close>

named_theorems hoare_rules "introduction rules of the Hoare calculus"

definition hoare :: "('s \<Rightarrow> bool) \<Rightarrow> ('s, 'a) state \<Rightarrow> ('a \<Rightarrow> 's \<Rightarrow> bool) \<Rightarrow> bool" where
  "hoare P m Q \<longleftrightarrow> (\<forall>s. P s \<longrightarrow> (case run_state m s of (r, s') \<Rightarrow> Q r s'))"

lemma hoareI: "(\<And>s r s'. P s \<Longrightarrow> run_state m s = (r, s') \<Longrightarrow> Q r s') \<Longrightarrow> hoare P m Q"
  by (auto simp: hoare_def split: prod.split)

lemma hoareD: "hoare P m Q \<Longrightarrow> P s \<Longrightarrow> run_state m s = (r, s') \<Longrightarrow> Q r s'"
  by (auto simp: hoare_def split: prod.splits)

lemma hoare_final: "hoare P m (\<lambda>_. Q) \<Longrightarrow> P s \<Longrightarrow> Q (final_of m s)"
  by (cases "run_state m s") (auto simp: hoare_def)

lemma hoare_return: "(\<And>s. P s \<Longrightarrow> Q x s) \<Longrightarrow> hoare P (ret x) Q"
  by (simp add: hoare_def)

lemma hoare_bind:
  "hoare P m R \<Longrightarrow> (\<And>x. hoare (R x) (f x) Q) \<Longrightarrow> hoare P (State_Monad.bind m f) Q"
  by (fastforce simp: hoare_def split: prod.splits)

lemma hoare_conseq:
  "hoare P' m Q' \<Longrightarrow> (\<And>s. P s \<Longrightarrow> P' s) \<Longrightarrow> (\<And>r s. Q' r s \<Longrightarrow> Q r s) \<Longrightarrow> hoare P m Q"
  by (fastforce simp: hoare_def split: prod.splits)

text \<open>
  An invariant \<open>I\<close> kept by a program: the special case the frame and safety properties use.
\<close>

abbreviation keeps :: "('s \<Rightarrow> bool) \<Rightarrow> ('s, 'a) state \<Rightarrow> bool" where
  "keeps I m \<equiv> hoare I m (\<lambda>_. I)"

lemma keeps_return [hoare_rules]: "keeps I (ret x)"
  by (simp add: hoare_def)

lemma keeps_bind [hoare_rules]:
  "keeps I m \<Longrightarrow> (\<And>x. keeps I (f x)) \<Longrightarrow> keeps I (State_Monad.bind m f)"
  by (rule hoare_bind)

lemma keeps_if [hoare_rules]:
  "(b \<Longrightarrow> keeps I m) \<Longrightarrow> (\<not> b \<Longrightarrow> keeps I n) \<Longrightarrow> keeps I (if b then m else n)"
  by simp

lemma keeps_when [hoare_rules]: "(b \<Longrightarrow> keeps I m) \<Longrightarrow> keeps I (when_st b m)"
  by (simp add: hoare_def)

lemma keeps_let [hoare_rules]: "(\<And>x. x = t \<Longrightarrow> keeps I (f x)) \<Longrightarrow> keeps I (let x = t in f x)"
  by simp

lemma keeps_get [hoare_rules]: "keeps I get_st"
  by (simp add: hoare_def)

lemma keeps_gets [hoare_rules]: "keeps I (gets_st f)"
  by (simp add: hoare_def)

lemma keeps_modify: "(\<And>s. I s \<Longrightarrow> I (f s)) \<Longrightarrow> keeps I (modify_st f)"
  by (simp add: hoare_def)

lemma keeps_for_each [hoare_rules]:
  "(\<And>x. x \<in> set xs \<Longrightarrow> keeps I (f x)) \<Longrightarrow> keeps I (for_each xs f)"
  by (induction xs) (auto intro: keeps_return keeps_bind)

lemma keeps_option [hoare_rules]:
  "(z = None \<Longrightarrow> keeps I m) \<Longrightarrow> (\<And>x. z = Some x \<Longrightarrow> keeps I (f x)) \<Longrightarrow>
   keeps I (case z of None \<Rightarrow> m | Some x \<Rightarrow> f x)"
  by (cases z) auto

lemma keeps_list [hoare_rules]:
  "(z = [] \<Longrightarrow> keeps I m) \<Longrightarrow> (\<And>x xs. z = x # xs \<Longrightarrow> keeps I (f x xs)) \<Longrightarrow>
   keeps I (case z of [] \<Rightarrow> m | x # xs \<Rightarrow> f x xs)"
  by (cases z) auto

lemma keeps_prod [hoare_rules]:
  "(\<And>a b. z = (a, b) \<Longrightarrow> keeps I (f a b)) \<Longrightarrow> keeps I (case z of (a, b) \<Rightarrow> f a b)"
  by (cases z) auto

lemma keeps_conj: "keeps I m \<Longrightarrow> keeps J m \<Longrightarrow> keeps (\<lambda>s. I s \<and> J s) m"
  by (fastforce simp: hoare_def split: prod.splits)

section \<open>Words\<close>

definition min_u32 :: "u32 \<Rightarrow> u32 \<Rightarrow> u32" where
  "min_u32 a b = (if a < b then a else b)"

text \<open>Little-endian bytes of a 32-bit word, and big-endian ones.\<close>

definition le_bytes :: "u32 \<Rightarrow> u8 list" where
  "le_bytes w = [ucast w, ucast (drop_bit 8 w), ucast (drop_bit 16 w), ucast (drop_bit 24 w)]"

definition be_bytes :: "u32 \<Rightarrow> u8 list" where
  "be_bytes w = [ucast (drop_bit 24 w), ucast (drop_bit 16 w), ucast (drop_bit 8 w), ucast w]"

lemma length_le_bytes [simp]: "length (le_bytes w) = 4"
  by (simp add: le_bytes_def)

lemma length_be_bytes [simp]: "length (be_bytes w) = 4"
  by (simp add: be_bytes_def)

lemma unat_min_u32 [simp]: "unat (min_u32 a b) = min (unat a) (unat b)"
  by (auto simp: min_u32_def word_less_nat_alt)

lemma u32_bound: "unat (w :: u32) < 4294967296"
proof -
  have "unat w < 2 ^ LENGTH(32)"
    by (rule unsigned_less)
  then show ?thesis by simp
qed

lemma sint_small:
  assumes "unat (w :: u32) < 2147483648"
  shows "sint w = int (unat w)"
proof -
  have "uint w < 2 ^ 31" "- (2 ^ 31) \<le> uint w"
    using assms unsigned_greater_eq [of w] by (simp_all add: uint_nat del: of_nat_unat)
  then have "signed_take_bit 31 (uint w) = uint w"
    by (intro signed_take_bit_int_eq_self)
  then show ?thesis
    by (simp add: sint_uint)
qed

text \<open>The conversion \<open>%08x\<close>.\<close>

definition hex_digit :: "nat \<Rightarrow> char" where
  "hex_digit n = ''0123456789abcdef'' ! (n mod 16)"

definition hex8 :: "u32 \<Rightarrow> string" where
  "hex8 v = map (\<lambda>i. hex_digit (unat (drop_bit (4 * i) v))) [7, 6, 5, 4, 3, 2, 1, 0]"

text \<open>The conversions \<open>%u\<close> and \<open>%d\<close>, and \<open>snprintf\<close> into a buffer of \<open>n\<close> bytes.\<close>

fun dec_nat :: "nat \<Rightarrow> string" where
  "dec_nat n = (if n < 10 then [hex_digit n] else dec_nat (n div 10) @ [hex_digit (n mod 10)])"

declare dec_nat.simps [simp del]

definition dec_int :: "int \<Rightarrow> string" where
  "dec_int i = (if i < 0 then ''-'' @ dec_nat (nat (- i)) else dec_nat (nat i))"

definition snprintf :: "nat \<Rightarrow> string \<Rightarrow> string" where
  "snprintf n s = take (n - 1) s"

section \<open>Lists\<close>

lemma length_concat_const: "(\<And>x. x \<in> set xs \<Longrightarrow> length x = n) \<Longrightarrow> length (concat xs) = n * length xs"
  by (induction xs) auto

lemma map_upt_split:
  "a \<le> b \<Longrightarrow> map f [0..<a] @ map (\<lambda>i. f (a + i)) [0..<b - a] = map f [0..<b]"
  by (rule nth_equalityI) (auto simp: nth_append)

section \<open>Step relations\<close>

text \<open>The states a system can get into, from its initial ones by its steps.\<close>

inductive reach :: "('s \<Rightarrow> bool) \<Rightarrow> ('s \<Rightarrow> 's \<Rightarrow> bool) \<Rightarrow> 's \<Rightarrow> bool"
  for init step where
  start: "init s \<Longrightarrow> reach init step s"
| step: "reach init step s \<Longrightarrow> step s s' \<Longrightarrow> reach init step s'"

text \<open>The contract of a system with an invariant and with a measure that every step lowers.\<close>

locale step_system =
  fixes init inv :: "'s \<Rightarrow> bool" and step :: "'s \<Rightarrow> 's \<Rightarrow> bool" and rank :: "'s \<Rightarrow> nat"
  assumes inv_init: "init s \<Longrightarrow> inv s"
    and inv_step: "inv s \<Longrightarrow> step s s' \<Longrightarrow> inv s'"
    and rank_falls: "inv s \<Longrightarrow> step s s' \<Longrightarrow> rank s' < rank s"
begin

lemma reach_inv: "reach init step s \<Longrightarrow> inv s"
  by (induction rule: reach.induct) (auto intro: inv_init inv_step)

lemma run_bounded:
  assumes "inv (f 0)" "\<And>i. i < n \<Longrightarrow> step (f i) (f (Suc i))"
  shows "n \<le> rank (f 0)"
proof -
  have "i \<le> n \<Longrightarrow> inv (f i) \<and> rank (f i) + i \<le> rank (f 0)" for i
  proof (induction i)
    case (Suc i)
    then show ?case
      using assms(2) [of i] inv_step [of "f i" "f (Suc i)"] rank_falls [of "f i" "f (Suc i)"] by auto
  qed (simp add: assms(1))
  from this [of n] show ?thesis
    by simp
qed

text \<open>From every state of the system a state without a step can be reached.\<close>

lemma reach_end:
  assumes "reach init step s"
  shows "\<exists>s'. reach init step s' \<and> step\<^sup>*\<^sup>* s s' \<and> (\<forall>t. \<not> step s' t)"
  using assms
proof (induction "rank s" arbitrary: s rule: less_induct)
  case less
  show ?case
  proof (cases "\<exists>t. step s t")
    case True
    then obtain t where t: "step s t" by blast
    with less.prems have "reach init step t" "rank t < rank s"
      by (auto intro: reach.step rank_falls reach_inv)
    then show ?thesis
      using less.hyps [of t] t by (meson converse_rtranclp_into_rtranclp)
  next
    case False
    then show ?thesis
      using less.prems by blast
  qed
qed

end

section \<open>Registries\<close>

text \<open>
  The contract of a collection that members are entered in and taken out of: a list of devices,
  the work lists of a group of threads. \<open>members\<close> is the abstract set.
\<close>

locale registry =
  fixes enter leave :: "'e \<Rightarrow> 's \<Rightarrow> 's" and members :: "'s \<Rightarrow> 'e set" and ok :: "'s \<Rightarrow> bool"
  assumes enter_ok: "ok s \<Longrightarrow> e \<notin> members s \<Longrightarrow> ok (enter e s)"
    and enter_members: "ok s \<Longrightarrow> e \<notin> members s \<Longrightarrow> members (enter e s) = insert e (members s)"
    and leave_ok: "ok s \<Longrightarrow> e \<in> members s \<Longrightarrow> ok (leave e s)"
    and leave_members: "ok s \<Longrightarrow> e \<in> members s \<Longrightarrow> members (leave e s) = members s - {e}"
begin

lemma enter_all:
  assumes "ok s" "distinct es" "set es \<inter> members s = {}"
  shows "ok (fold enter es s) \<and> members (fold enter es s) = set es \<union> members s"
  using assms by (induction es arbitrary: s) (auto simp: enter_ok enter_members)

lemma leave_all:
  assumes "ok s" "distinct es" "set es \<subseteq> members s"
  shows "ok (fold leave es s) \<and> members (fold leave es s) = members s - set es"
  using assms
proof (induction es arbitrary: s)
  case (Cons e es)
  then have "set es \<subseteq> members (leave e s)"
    by (auto simp: leave_members)
  then show ?case
    using Cons by (simp add: leave_ok leave_members) blast
qed simp

text \<open>The members may leave in another order than the one they came in.\<close>

lemma enter_leave:
  assumes "ok s" "distinct es" "set es \<inter> members s = {}" "distinct fs" "set fs = set es"
  shows "ok (fold leave fs (fold enter es s)) \<and> members (fold leave fs (fold enter es s)) = members s"
  using enter_all [OF assms(1-3)] leave_all [of "fold enter es s" fs] assms(3-5) by auto

end

end
