(* ===== verification/KernelEnv.thy ===== *)
theory KernelEnv
  imports Prelude
begin

text \<open>
  The world outside the drivers: memory-mapped I/O, the services of the Linux kernel and
  user memory. None of it is code of this repository, so it is a parameter \<open>E\<close> of every
  definition: a record of functions from the history (the list of everything the driver
  has done so far) to the answer. The history itself is the state \<open>kworld\<close>, which each
  driver extends with its own fields.
\<close>

section \<open>Events\<close>

text \<open>
  The kernel services the drivers call, each named by the C function. A name that stands for
  several related calls is the first of them.
\<close>

type_synonym kfn = string

abbreviation (input) K_kzalloc :: kfn where "K_kzalloc \<equiv> ''kzalloc''"
abbreviation (input) K_kfree :: kfn where "K_kfree \<equiv> ''kfree''"
abbreviation (input) K_vmalloc :: kfn where "K_vmalloc \<equiv> ''vmalloc''"
abbreviation (input) K_vfree :: kfn where "K_vfree \<equiv> ''vfree''"
abbreviation (input) K_kmem_cache_create :: kfn where "K_kmem_cache_create \<equiv> ''kmem_cache_create''"
abbreviation (input) K_kmem_cache_destroy :: kfn where "K_kmem_cache_destroy \<equiv> ''kmem_cache_destroy''"
abbreviation (input) K_kmem_cache_alloc :: kfn where "K_kmem_cache_alloc \<equiv> ''kmem_cache_alloc''"
abbreviation (input) K_kmem_cache_free :: kfn where "K_kmem_cache_free \<equiv> ''kmem_cache_free''"
abbreviation (input) K_dma_alloc_coherent :: kfn where "K_dma_alloc_coherent \<equiv> ''dma_alloc_coherent''"
abbreviation (input) K_dma_free_coherent :: kfn where "K_dma_free_coherent \<equiv> ''dma_free_coherent''"
abbreviation (input) K_pci_map_sg :: kfn where "K_pci_map_sg \<equiv> ''pci_map_sg''"
abbreviation (input) K_pci_unmap_sg :: kfn where "K_pci_unmap_sg \<equiv> ''pci_unmap_sg''"
abbreviation (input) K_sg_alloc_table :: kfn where "K_sg_alloc_table \<equiv> ''sg_alloc_table''"
abbreviation (input) K_sg_free_table :: kfn where "K_sg_free_table \<equiv> ''sg_free_table''"
abbreviation (input) K_get_user_pages_fast :: kfn where "K_get_user_pages_fast \<equiv> ''get_user_pages_fast''"
abbreviation (input) K_put_page :: kfn where "K_put_page \<equiv> ''put_page''"
abbreviation (input) K_set_page_dirty_lock :: kfn where "K_set_page_dirty_lock \<equiv> ''set_page_dirty_lock''"
abbreviation (input) K_flush_dcache_page :: kfn where "K_flush_dcache_page \<equiv> ''flush_dcache_page''"
abbreviation (input) K_alloc_chrdev_region :: kfn where "K_alloc_chrdev_region \<equiv> ''alloc_chrdev_region''"
abbreviation (input) K_unregister_chrdev_region :: kfn where "K_unregister_chrdev_region \<equiv> ''unregister_chrdev_region''"
abbreviation (input) K_cdev_init :: kfn where "K_cdev_init \<equiv> ''cdev_init''"
abbreviation (input) K_cdev_add :: kfn where "K_cdev_add \<equiv> ''cdev_add''"
abbreviation (input) K_cdev_del :: kfn where "K_cdev_del \<equiv> ''cdev_del''"
abbreviation (input) K_class_create :: kfn where "K_class_create \<equiv> ''class_create''"
abbreviation (input) K_class_destroy :: kfn where "K_class_destroy \<equiv> ''class_destroy''"
abbreviation (input) K_device_create :: kfn where "K_device_create \<equiv> ''device_create''"
abbreviation (input) K_device_destroy :: kfn where "K_device_destroy \<equiv> ''device_destroy''"
abbreviation (input) K_platform_get_resource :: kfn where "K_platform_get_resource \<equiv> ''platform_get_resource''"
abbreviation (input) K_request_mem_region :: kfn where "K_request_mem_region \<equiv> ''request_mem_region''"
abbreviation (input) K_release_mem_region :: kfn where "K_release_mem_region \<equiv> ''release_mem_region''"
abbreviation (input) K_ioremap :: kfn where "K_ioremap \<equiv> ''ioremap''"
abbreviation (input) K_iounmap :: kfn where "K_iounmap \<equiv> ''iounmap''"
abbreviation (input) K_dma_request_chan :: kfn where "K_dma_request_chan \<equiv> ''dma_request_chan''"
abbreviation (input) K_dma_release_channel :: kfn where "K_dma_release_channel \<equiv> ''dma_release_channel''"
abbreviation (input) K_dma_prep_cyclic :: kfn where "K_dma_prep_cyclic \<equiv> ''dma_prep_cyclic''"
abbreviation (input) K_dma_submit :: kfn where "K_dma_submit \<equiv> ''dma_submit''"
abbreviation (input) K_dma_issue_pending :: kfn where "K_dma_issue_pending \<equiv> ''dma_issue_pending''"
abbreviation (input) K_dma_terminate_all :: kfn where "K_dma_terminate_all \<equiv> ''dma_terminate_all''"
abbreviation (input) K_request_irq :: kfn where "K_request_irq \<equiv> ''request_irq''"
abbreviation (input) K_free_irq :: kfn where "K_free_irq \<equiv> ''free_irq''"
abbreviation (input) K_pci_irq_vector :: kfn where "K_pci_irq_vector \<equiv> ''pci_irq_vector''"
abbreviation (input) K_schedule_work :: kfn where "K_schedule_work \<equiv> ''schedule_work''"
abbreviation (input) K_io_done :: kfn where "K_io_done \<equiv> ''io_done''"
abbreviation (input) K_kthread_create :: kfn where "K_kthread_create \<equiv> ''kthread_create''"
abbreviation (input) K_kthread_stop :: kfn where "K_kthread_stop \<equiv> ''kthread_stop''"
abbreviation (input) K_kthread_wakeup :: kfn where "K_kthread_wakeup \<equiv> ''kthread_wakeup''"
abbreviation (input) K_user_handler :: kfn where "K_user_handler \<equiv> ''user_handler''"
abbreviation (input) K_pci_enable_device :: kfn where "K_pci_enable_device \<equiv> ''pci_enable_device''"
abbreviation (input) K_pci_disable_device :: kfn where "K_pci_disable_device \<equiv> ''pci_disable_device''"
abbreviation (input) K_pci_request_regions :: kfn where "K_pci_request_regions \<equiv> ''pci_request_regions''"
abbreviation (input) K_pci_release_regions :: kfn where "K_pci_release_regions \<equiv> ''pci_release_regions''"
abbreviation (input) K_pci_resource_len :: kfn where "K_pci_resource_len \<equiv> ''pci_resource_len''"
abbreviation (input) K_pci_iomap :: kfn where "K_pci_iomap \<equiv> ''pci_iomap''"
abbreviation (input) K_pci_iounmap :: kfn where "K_pci_iounmap \<equiv> ''pci_iounmap''"
abbreviation (input) K_pci_set_dma_mask :: kfn where "K_pci_set_dma_mask \<equiv> ''pci_set_dma_mask''"
abbreviation (input) K_pci_set_consistent_dma_mask :: kfn where "K_pci_set_consistent_dma_mask \<equiv> ''pci_set_consistent_dma_mask''"
abbreviation (input) K_pci_alloc_irq_vectors :: kfn where "K_pci_alloc_irq_vectors \<equiv> ''pci_alloc_irq_vectors''"
abbreviation (input) K_pci_disable_msix :: kfn where "K_pci_disable_msix \<equiv> ''pci_disable_msix''"
abbreviation (input) K_pci_enable_msi :: kfn where "K_pci_enable_msi \<equiv> ''pci_enable_msi''"
abbreviation (input) K_pci_disable_msi :: kfn where "K_pci_disable_msi \<equiv> ''pci_disable_msi''"
abbreviation (input) K_pci_read_config :: kfn where "K_pci_read_config \<equiv> ''pci_read_config''"
abbreviation (input) K_pci_write_config :: kfn where "K_pci_write_config \<equiv> ''pci_write_config''"
abbreviation (input) K_pcie_capability_set :: kfn where "K_pcie_capability_set \<equiv> ''pcie_capability_set''"
abbreviation (input) K_pcie_set_readrq :: kfn where "K_pcie_set_readrq \<equiv> ''pcie_set_readrq''"
abbreviation (input) K_pci_set_master :: kfn where "K_pci_set_master \<equiv> ''pci_set_master''"
abbreviation (input) K_pci_find_capability :: kfn where "K_pci_find_capability \<equiv> ''pci_find_capability''"
abbreviation (input) K_wait :: kfn where "K_wait \<equiv> ''wait''"
abbreviation (input) K_jiffies :: kfn where "K_jiffies \<equiv> ''jiffies''"
abbreviation (input) K_is_vmalloc :: kfn where "K_is_vmalloc \<equiv> ''is_vmalloc''"
abbreviation (input) K_kthread_should_stop :: kfn where "K_kthread_should_stop \<equiv> ''kthread_should_stop''"
abbreviation (input) K_synchronize_rcu :: kfn where "K_synchronize_rcu \<equiv> ''synchronize_rcu''"
abbreviation (input) K_pci_enable_device_mem :: kfn where "K_pci_enable_device_mem \<equiv> ''pci_enable_device_mem''"
abbreviation (input) K_pci_restore_state :: kfn where "K_pci_restore_state \<equiv> ''pci_restore_state''"
abbreviation (input) K_pci_save_state :: kfn where "K_pci_save_state \<equiv> ''pci_save_state''"
abbreviation (input) K_pci_aer_clear :: kfn where "K_pci_aer_clear \<equiv> ''pci_aer_clear_nonfatal_status''"
abbreviation (input) K_pci_register_driver :: kfn where "K_pci_register_driver \<equiv> ''pci_register_driver''"
abbreviation (input) K_pci_unregister_driver :: kfn where "K_pci_unregister_driver \<equiv> ''pci_unregister_driver''"
abbreviation (input) K_spin_trylock :: kfn where "K_spin_trylock \<equiv> ''spin_trylock''"
abbreviation (input) K_ki_complete :: kfn where "K_ki_complete \<equiv> ''ki_complete''"
abbreviation (input) K_access_ok :: kfn where "K_access_ok \<equiv> ''access_ok''"
abbreviation (input) K_io_remap_pfn_range :: kfn where "K_io_remap_pfn_range \<equiv> ''io_remap_pfn_range''"

text \<open>
  Fields of structures of the kernel's PCI core, read as calls: \<open>dev->no_msi\<close>, \<open>dev->bus\<close> and
  \<open>bus->parent\<close>, \<open>bus->bus_flags\<close>, \<open>pdev->irq\<close>, and the identification of the device. \<open>K_stray\<close> is
  a load from memory whose layout the model does not have.
\<close>

abbreviation (input) K_no_msi :: kfn where "K_no_msi \<equiv> ''no_msi''"
abbreviation (input) K_pci_bus :: kfn where "K_pci_bus \<equiv> ''pci_bus''"
abbreviation (input) K_bus_flags :: kfn where "K_bus_flags \<equiv> ''bus_flags''"
abbreviation (input) K_pdev_irq :: kfn where "K_pdev_irq \<equiv> ''pdev_irq''"
abbreviation (input) K_pdev_id :: kfn where "K_pdev_id \<equiv> ''pdev_id''"
abbreviation (input) K_pci_resource_start :: kfn where "K_pci_resource_start \<equiv> ''pci_resource_start''"
abbreviation (input) K_pci_resource_end :: kfn where "K_pci_resource_end \<equiv> ''pci_resource_end''"
abbreviation (input) K_stray :: kfn where "K_stray \<equiv> ''stray''"

datatype waitq = WqXfer | WqShutdown | WqPerf | WqEvents | WqSha | WqRead | WqWrite | WqThread

datatype lockid = LkEngine | LkDesc | LkDev | LkEvents | LkSha | LkThread | LkList | LkChar

datatype ev =
    MmioW u64 u32                  \<comment> \<open>iowrite32 (address, value)\<close>
  | MmioR u64 u32                  \<comment> \<open>ioread32 (address, value returned)\<close>
  | KCall kfn "u64 list" int       \<comment> \<open>kernel call (function, arguments, result)\<close>
  | Wake waitq "nat list"          \<comment> \<open>wake-up of a wait queue\<close>
  | MemZero u64 nat                \<comment> \<open>coherent memory cleared (address, bytes)\<close>
  | Oops                           \<comment> \<open>a divide error or a bad access: the kernel ends the task here\<close>
  | Lock lockid "nat list"
  | Unlock lockid "nat list"
  | ToUser u64 "u8 list" nat       \<comment> \<open>copy_to_user (address, bytes offered, bytes not copied)\<close>
  | FromUser u64 nat nat           \<comment> \<open>copy_from_user (address, bytes asked, bytes not copied)\<close>
  | DmaOut u64 "u8 list"           \<comment> \<open>a buffer handed to a DMA channel (bus address, contents)\<close>

type_synonym history = "ev list"

text \<open>The answers of the hardware, the kernel and user space, as functions of the history.\<close>

record env =
  mmio_rd :: "history \<Rightarrow> u64 \<Rightarrow> u32"
  kres :: "history \<Rightarrow> kfn \<Rightarrow> u64 list \<Rightarrow> int"
  umem :: "history \<Rightarrow> u64 \<Rightarrow> u8"
  ufault :: "history \<Rightarrow> u64 \<Rightarrow> nat \<Rightarrow> nat"
  dma_mem :: "history \<Rightarrow> u64 \<Rightarrow> u32"
  dma_map :: "history \<Rightarrow> (u64 \<times> u32 \<times> u32) list \<Rightarrow> (u64 \<times> u32) list"
  dma_bus :: "history \<Rightarrow> u64 \<Rightarrow> u64"
  pinned :: "history \<Rightarrow> u64 \<Rightarrow> nat \<Rightarrow> u64 list"
  works :: "history \<Rightarrow> nat"

text \<open>
  \<open>dma_mem\<close> is coherent memory written by the device (completion records, poll-mode
  write-backs), \<open>dma_map\<close> the bus segments that \<open>pci_map_sg\<close> makes of a list of
  (page, length, offset) entries, \<open>dma_bus\<close> the bus address of a coherent allocation,
  \<open>pinned\<close> the pages of a user range that \<open>get_user_pages_fast\<close> returns, and \<open>works\<close>
  the number of times the deferred engine work runs while the driver sleeps in a wait.
\<close>

record kworld =
  tr :: history

text \<open>The last argument of \<open>llseek\<close>.\<close>

datatype whence = SEEK_SET | SEEK_CUR | SEEK_END | SEEK_OTHER

section \<open>Primitive operations\<close>

definition emit :: "ev \<Rightarrow> ('a kworld_scheme, unit) state" where
  "emit e = modify_st (\<lambda>s. s\<lparr>tr := tr s @ [e]\<rparr>)"

definition iowrite32 :: "u32 \<Rightarrow> u64 \<Rightarrow> ('a kworld_scheme, unit) state" where
  "iowrite32 v a = emit (MmioW a v)"

definition ioread32 :: "env \<Rightarrow> u64 \<Rightarrow> ('a kworld_scheme, u32) state" where
  "ioread32 E a = do {
     h \<leftarrow> gets_st tr;
     _ \<leftarrow> emit (MmioR a (mmio_rd E h a));
     ret (mmio_rd E h a) }"

definition kcall :: "env \<Rightarrow> kfn \<Rightarrow> u64 list \<Rightarrow> ('a kworld_scheme, int) state" where
  "kcall E f args = do {
     h \<leftarrow> gets_st tr;
     _ \<leftarrow> emit (KCall f args (kres E h f args));
     ret (kres E h f args) }"

text \<open>A call whose result the driver ignores (the kernel function returns void).\<close>

definition kproc :: "kfn \<Rightarrow> u64 list \<Rightarrow> ('a kworld_scheme, unit) state" where
  "kproc f args = emit (KCall f args 0)"

text \<open>A call that returns a pointer; \<open>0\<close> is \<open>NULL\<close>.\<close>

definition kptr :: "env \<Rightarrow> kfn \<Rightarrow> u64 list \<Rightarrow> ('a kworld_scheme, u64) state" where
  "kptr E f args = do { r \<leftarrow> kcall E f args; ret (of_int r) }"

definition wake_up :: "waitq \<Rightarrow> nat list \<Rightarrow> ('a kworld_scheme, unit) state" where
  "wake_up q i = emit (Wake q i)"

definition lock_acquire :: "lockid \<Rightarrow> nat list \<Rightarrow> ('a kworld_scheme, unit) state" where
  "lock_acquire l i = emit (Lock l i)"

definition lock_release :: "lockid \<Rightarrow> nat list \<Rightarrow> ('a kworld_scheme, unit) state" where
  "lock_release l i = emit (Unlock l i)"

text \<open>\<open>copy_to_user\<close> and \<open>copy_from_user\<close> return the number of bytes not copied.\<close>

definition copy_to_user :: "env \<Rightarrow> u64 \<Rightarrow> u8 list \<Rightarrow> ('a kworld_scheme, nat) state" where
  "copy_to_user E a bs = do {
     h \<leftarrow> gets_st tr;
     _ \<leftarrow> emit (ToUser a bs (ufault E h a (length bs)));
     ret (ufault E h a (length bs)) }"

definition user_bytes :: "env \<Rightarrow> history \<Rightarrow> u64 \<Rightarrow> nat \<Rightarrow> u8 list" where
  "user_bytes E h a n = map (\<lambda>i. umem E h (a + of_nat i)) [0..<n]"

definition copy_from_user :: "env \<Rightarrow> u64 \<Rightarrow> nat \<Rightarrow> ('a kworld_scheme, nat \<times> u8 list) state" where
  "copy_from_user E a n = do {
     h \<leftarrow> gets_st tr;
     _ \<leftarrow> emit (FromUser a n (ufault E h a n));
     ret (ufault E h a n, user_bytes E h a n) }"

definition mem_zero :: "u64 \<Rightarrow> nat \<Rightarrow> ('a kworld_scheme, unit) state" where
  "mem_zero a n = emit (MemZero a n)"

text \<open>A load from coherent memory, which the device may have written.\<close>

definition mem_read :: "env \<Rightarrow> u64 \<Rightarrow> ('a kworld_scheme, u32) state" where
  "mem_read E a = gets_st (\<lambda>s. dma_mem E (tr s) a)"

lemma run_mem_zero [simp]: "run_state (mem_zero a n) s = ((), s\<lparr>tr := tr s @ [MemZero a n]\<rparr>)"
  by (simp add: mem_zero_def emit_def)

lemma run_mem_read [simp]: "run_state (mem_read E a) s = (dma_mem E (tr s) a, s)"
  by (simp add: mem_read_def)

lemma run_emit [simp]: "run_state (emit e) s = ((), s\<lparr>tr := tr s @ [e]\<rparr>)"
  by (simp add: emit_def)

lemma run_iowrite32 [simp]: "run_state (iowrite32 v a) s = ((), s\<lparr>tr := tr s @ [MmioW a v]\<rparr>)"
  by (simp add: iowrite32_def)

lemma run_ioread32 [simp]:
  "run_state (ioread32 E a) s =
     (mmio_rd E (tr s) a, s\<lparr>tr := tr s @ [MmioR a (mmio_rd E (tr s) a)]\<rparr>)"
  by (simp add: ioread32_def)

lemma run_kcall [simp]:
  "run_state (kcall E f args) s =
     (kres E (tr s) f args, s\<lparr>tr := tr s @ [KCall f args (kres E (tr s) f args)]\<rparr>)"
  by (simp add: kcall_def)

lemma run_kproc [simp]: "run_state (kproc f args) s = ((), s\<lparr>tr := tr s @ [KCall f args 0]\<rparr>)"
  by (simp add: kproc_def)

lemma run_kptr [simp]:
  "run_state (kptr E f args) s =
     (of_int (kres E (tr s) f args), s\<lparr>tr := tr s @ [KCall f args (kres E (tr s) f args)]\<rparr>)"
  by (simp add: kptr_def)

lemma run_wake_up [simp]: "run_state (wake_up q i) s = ((), s\<lparr>tr := tr s @ [Wake q i]\<rparr>)"
  by (simp add: wake_up_def)

lemma run_lock_acquire [simp]:
  "run_state (lock_acquire l i) s = ((), s\<lparr>tr := tr s @ [Lock l i]\<rparr>)"
  by (simp add: lock_acquire_def)

lemma run_lock_release [simp]:
  "run_state (lock_release l i) s = ((), s\<lparr>tr := tr s @ [Unlock l i]\<rparr>)"
  by (simp add: lock_release_def)

lemma run_copy_to_user [simp]:
  "run_state (copy_to_user E a bs) s =
     (ufault E (tr s) a (length bs), s\<lparr>tr := tr s @ [ToUser a bs (ufault E (tr s) a (length bs))]\<rparr>)"
  by (simp add: copy_to_user_def)

lemma run_copy_from_user [simp]:
  "run_state (copy_from_user E a n) s =
     ((ufault E (tr s) a n, user_bytes E (tr s) a n),
      s\<lparr>tr := tr s @ [FromUser a n (ufault E (tr s) a n)]\<rparr>)"
  by (simp add: copy_from_user_def)

lemma length_user_bytes [simp]: "length (user_bytes E h a n) = n"
  by (simp add: user_bytes_def)

text \<open>
  Programs that only append to the history: what the invariants that do not mention it are
  kept by.
\<close>

definition tr_free :: "('a kworld_scheme \<Rightarrow> bool) \<Rightarrow> bool" where
  "tr_free I \<longleftrightarrow> (\<forall>s h. I s \<longrightarrow> I (s\<lparr>tr := h\<rparr>))"

lemma tr_freeD: "tr_free I \<Longrightarrow> I s \<Longrightarrow> I (s\<lparr>tr := h\<rparr>)"
  by (simp add: tr_free_def)

lemma keeps_emit [hoare_rules]: "tr_free I \<Longrightarrow> keeps I (emit e)"
  by (simp add: hoare_def tr_free_def)

lemma keeps_iowrite32 [hoare_rules]: "tr_free I \<Longrightarrow> keeps I (iowrite32 v a)"
  by (simp add: hoare_def tr_free_def)

lemma keeps_ioread32 [hoare_rules]: "tr_free I \<Longrightarrow> keeps I (ioread32 E a)"
  by (simp add: hoare_def tr_free_def)

lemma keeps_kcall [hoare_rules]: "tr_free I \<Longrightarrow> keeps I (kcall E f args)"
  by (simp add: hoare_def tr_free_def)

lemma keeps_kproc [hoare_rules]: "tr_free I \<Longrightarrow> keeps I (kproc f args)"
  by (simp add: hoare_def tr_free_def)

lemma keeps_kptr [hoare_rules]: "tr_free I \<Longrightarrow> keeps I (kptr E f args)"
  by (simp add: hoare_def tr_free_def)

lemma keeps_wake_up [hoare_rules]: "tr_free I \<Longrightarrow> keeps I (wake_up q i)"
  by (simp add: hoare_def tr_free_def)

lemma keeps_mem_zero [hoare_rules]: "tr_free I \<Longrightarrow> keeps I (mem_zero a n)"
  by (simp add: hoare_def tr_free_def)

lemma keeps_mem_read [hoare_rules]: "keeps I (mem_read E a)"
  by (simp add: hoare_def)

lemma keeps_lock_acquire [hoare_rules]: "tr_free I \<Longrightarrow> keeps I (lock_acquire l i)"
  by (simp add: hoare_def tr_free_def)

lemma keeps_lock_release [hoare_rules]: "tr_free I \<Longrightarrow> keeps I (lock_release l i)"
  by (simp add: hoare_def tr_free_def)

lemma keeps_copy_to_user [hoare_rules]: "tr_free I \<Longrightarrow> keeps I (copy_to_user E a bs)"
  by (simp add: hoare_def tr_free_def)

lemma keeps_copy_from_user [hoare_rules]: "tr_free I \<Longrightarrow> keeps I (copy_from_user E a n)"
  by (simp add: hoare_def tr_free_def)

section \<open>Readings of the history\<close>

text \<open>
  \<open>calls f h\<close>: the argument lists of the calls of \<open>f\<close> in a history; \<open>writes h\<close>: its
  register writes; \<open>dma_out h\<close>: the bytes it handed to DMA channels.
\<close>

fun calls :: "kfn \<Rightarrow> history \<Rightarrow> u64 list list" where
  "calls f [] = []"
| "calls f (KCall g a r # h) = (if g = f then a # calls f h else calls f h)"
| "calls f (_ # h) = calls f h"

fun writes :: "history \<Rightarrow> (u64 \<times> u32) list" where
  "writes [] = []"
| "writes (MmioW a v # h) = (a, v) # writes h"
| "writes (_ # h) = writes h"

lemma calls_append [simp]: "calls f (h @ h') = calls f h @ calls f h'"
  by (induction f h rule: calls.induct) auto

fun dma_out :: "history \<Rightarrow> u8 list" where
  "dma_out [] = []"
| "dma_out (DmaOut a bs # h) = bs @ dma_out h"
| "dma_out (_ # h) = dma_out h"

lemma dma_out_append [simp]: "dma_out (h @ h') = dma_out h @ dma_out h'"
  by (induction h rule: dma_out.induct) auto

lemma writes_append [simp]: "writes (h @ h') = writes h @ writes h'"
  by (induction h rule: writes.induct) auto


end
