(* ===== verification/Resources.thy ===== *)
theory Resources
  imports KernelEnv "HOL-Library.Multiset"
begin

text \<open>
  The resources a driver holds, read off the history: a call that acquires a resource pushes
  it, with the handle by which it is known, and the call that releases it takes it off the
  top. The result is \<open>None\<close> as soon as a driver releases something other than the last
  resource it acquired. A second reading, \<open>owned\<close>, keeps a multiset and asks only that what is
  released is owned: for memory that is not given back in the reverse order. The locale \<open>bracket\<close> is the contract of a pair of operations such
  as probe and remove.
\<close>

section \<open>What a kernel call acquires or releases\<close>

text \<open>\<open>IS_ERR\<close>: an error pointer is a small negative number.\<close>

definition is_err :: "int \<Rightarrow> bool" where
  "is_err r \<longleftrightarrow> - 4095 \<le> r \<and> r < 0"

definition is_object :: "int \<Rightarrow> bool" where
  "is_object r \<longleftrightarrow> r \<noteq> 0 \<and> \<not> is_err r"

type_synonym resource = "kfn \<times> u64 list"

text \<open>
  \<open>acquires f args r\<close> is the resource a call gives, if any. A call that returns a pointer
  fails with a null or an error pointer, and the resource is known by the pointer (or, for a
  memory region and a device node, by the arguments); a call that returns a status fails with
  a negative one.
\<close>

definition acquires :: "kfn \<Rightarrow> u64 list \<Rightarrow> int \<Rightarrow> resource option" where
  "acquires f args r =
     (if f \<in> {K_kzalloc, K_vmalloc, K_dma_request_chan, K_class_create, K_ioremap, K_dma_alloc_coherent,
               K_pci_iomap, K_kmem_cache_create, K_kmem_cache_alloc}
      then if is_object r then Some (f, [of_int r]) else None
      else if f = K_request_mem_region then if is_object r then Some (f, args) else None
      else if f = K_device_create then if is_object r then Some (f, [args ! 0, args ! 2]) else None
      else if f = K_alloc_chrdev_region then if 0 \<le> r then Some (f, []) else None
      else if f \<in> {K_cdev_add, K_pci_enable_device, K_pci_request_regions, K_pci_alloc_irq_vectors,
                   K_pci_enable_msi, K_pci_register_driver}
      then if 0 \<le> r then Some (f, take 1 args) else None
      else if f = K_request_irq then if 0 \<le> r then Some (f, args) else None
      else None)"

definition releases :: "kfn \<Rightarrow> u64 list \<Rightarrow> resource option" where
  "releases f args =
     (if f = K_kfree then Some (K_kzalloc, args)
      else if f = K_vfree then Some (K_vmalloc, args)
      else if f = K_dma_release_channel then Some (K_dma_request_chan, args)
      else if f = K_class_destroy then Some (K_class_create, args)
      else if f = K_iounmap then Some (K_ioremap, args)
      else if f = K_pci_iounmap then Some (K_pci_iomap, [args ! 1])
      else if f = K_dma_free_coherent then Some (K_dma_alloc_coherent, [args ! 1])
      else if f = K_release_mem_region then Some (K_request_mem_region, args)
      else if f = K_device_destroy then Some (K_device_create, args)
      else if f = K_unregister_chrdev_region then Some (K_alloc_chrdev_region, [])
      else if f = K_cdev_del then Some (K_cdev_add, args)
      else if f = K_pci_disable_device then Some (K_pci_enable_device, args)
      else if f = K_pci_release_regions then Some (K_pci_request_regions, args)
      else if f = K_free_irq then Some (K_request_irq, args)
      else if f = K_pci_disable_msix then Some (K_pci_alloc_irq_vectors, args)
      else if f = K_pci_disable_msi then Some (K_pci_enable_msi, args)
      else if f = K_kmem_cache_destroy then Some (K_kmem_cache_create, args)
      else if f = K_kmem_cache_free then Some (K_kmem_cache_alloc, [args ! 1])
      else if f = K_pci_unregister_driver then Some (K_pci_register_driver, args)
      else None)"

definition pop_res :: "resource \<Rightarrow> resource list \<Rightarrow> resource list option" where
  "pop_res x st = (case st of [] \<Rightarrow> None | y # rest \<Rightarrow> if y = x then Some rest else None)"

definition call_effect :: "kfn \<Rightarrow> u64 list \<Rightarrow> int \<Rightarrow> resource list \<Rightarrow> resource list option" where
  "call_effect f args r st =
     (case acquires f args r of Some x \<Rightarrow> Some (x # st)
      | None \<Rightarrow> (case releases f args of Some x \<Rightarrow> pop_res x st | None \<Rightarrow> Some st))"

fun held_from :: "resource list option \<Rightarrow> history \<Rightarrow> resource list option" where
  "held_from z [] = z"
| "held_from z (KCall f args r # h) = held_from (Option.bind z (call_effect f args r)) h"
| "held_from z (_ # h) = held_from z h"

definition held :: "history \<Rightarrow> resource list option" where
  "held h = held_from (Some []) h"

lemma held_from_append: "held_from z (h @ h') = held_from (held_from z h) h'"
  by (induction z h rule: held_from.induct) auto

lemma held_append [simp]: "held (h @ h') = held_from (held h) h'"
  by (simp add: held_def held_from_append)

lemma held_Nil [simp]: "held [] = Some []"
  by (simp add: held_def)

lemma pop_res_Cons [simp]: "pop_res x (x # st) = Some st"
  by (simp add: pop_res_def)

lemma call_effect_acquire [simp]:
  "call_effect K_kzalloc a r st = Some (if is_object r then (K_kzalloc, [of_int r]) # st else st)"
  "call_effect K_vmalloc a r st = Some (if is_object r then (K_vmalloc, [of_int r]) # st else st)"
  "call_effect K_dma_request_chan a r st =
     Some (if is_object r then (K_dma_request_chan, [of_int r]) # st else st)"
  "call_effect K_class_create a r st =
     Some (if is_object r then (K_class_create, [of_int r]) # st else st)"
  "call_effect K_ioremap a r st = Some (if is_object r then (K_ioremap, [of_int r]) # st else st)"
  "call_effect K_pci_iomap a r st =
     Some (if is_object r then (K_pci_iomap, [of_int r]) # st else st)"
  "call_effect K_dma_alloc_coherent a r st =
     Some (if is_object r then (K_dma_alloc_coherent, [of_int r]) # st else st)"
  "call_effect K_request_mem_region a r st =
     Some (if is_object r then (K_request_mem_region, a) # st else st)"
  "call_effect K_device_create a r st =
     Some (if is_object r then (K_device_create, [a ! 0, a ! 2]) # st else st)"
  "call_effect K_alloc_chrdev_region a r st =
     Some (if 0 \<le> r then (K_alloc_chrdev_region, []) # st else st)"
  "call_effect K_cdev_add a r st = Some (if 0 \<le> r then (K_cdev_add, take 1 a) # st else st)"
  "call_effect K_pci_enable_device a r st =
     Some (if 0 \<le> r then (K_pci_enable_device, take 1 a) # st else st)"
  "call_effect K_pci_request_regions a r st =
     Some (if 0 \<le> r then (K_pci_request_regions, take 1 a) # st else st)"
  "call_effect K_pci_alloc_irq_vectors a r st =
     Some (if 0 \<le> r then (K_pci_alloc_irq_vectors, take 1 a) # st else st)"
  "call_effect K_pci_enable_msi a r st =
     Some (if 0 \<le> r then (K_pci_enable_msi, take 1 a) # st else st)"
  "call_effect K_kmem_cache_create a r st =
     Some (if is_object r then (K_kmem_cache_create, [of_int r]) # st else st)"
  "call_effect K_kmem_cache_alloc a r st =
     Some (if is_object r then (K_kmem_cache_alloc, [of_int r]) # st else st)"
  "call_effect K_pci_register_driver a r st = Some (if 0 \<le> r then (K_pci_register_driver, take 1 a) # st else st)"
  "call_effect K_request_irq a r st = Some (if 0 \<le> r then (K_request_irq, a) # st else st)"
  by (simp_all add: call_effect_def acquires_def releases_def)

lemma call_effect_release [simp]:
  "call_effect K_kfree a r st = pop_res (K_kzalloc, a) st"
  "call_effect K_vfree a r st = pop_res (K_vmalloc, a) st"
  "call_effect K_dma_release_channel a r st = pop_res (K_dma_request_chan, a) st"
  "call_effect K_class_destroy a r st = pop_res (K_class_create, a) st"
  "call_effect K_iounmap a r st = pop_res (K_ioremap, a) st"
  "call_effect K_pci_iounmap a r st = pop_res (K_pci_iomap, [a ! 1]) st"
  "call_effect K_dma_free_coherent a r st = pop_res (K_dma_alloc_coherent, [a ! 1]) st"
  "call_effect K_release_mem_region a r st = pop_res (K_request_mem_region, a) st"
  "call_effect K_device_destroy a r st = pop_res (K_device_create, a) st"
  "call_effect K_unregister_chrdev_region a r st = pop_res (K_alloc_chrdev_region, []) st"
  "call_effect K_cdev_del a r st = pop_res (K_cdev_add, a) st"
  "call_effect K_pci_disable_device a r st = pop_res (K_pci_enable_device, a) st"
  "call_effect K_pci_release_regions a r st = pop_res (K_pci_request_regions, a) st"
  "call_effect K_free_irq a r st = pop_res (K_request_irq, a) st"
  "call_effect K_pci_disable_msix a r st = pop_res (K_pci_alloc_irq_vectors, a) st"
  "call_effect K_pci_disable_msi a r st = pop_res (K_pci_enable_msi, a) st"
  "call_effect K_kmem_cache_destroy a r st = pop_res (K_kmem_cache_create, a) st"
  "call_effect K_kmem_cache_free a r st = pop_res (K_kmem_cache_alloc, [a ! 1]) st"
  "call_effect K_pci_unregister_driver a r st = pop_res (K_pci_register_driver, a) st"
  by (simp_all add: call_effect_def acquires_def releases_def)

text \<open>The calls the drivers make that neither acquire nor release.\<close>

lemma call_effect_other [simp]:
  "call_effect K_platform_get_resource a r st = Some st"
  "call_effect K_cdev_init a r st = Some st"
  "call_effect K_wait a r st = Some st"
  "call_effect K_pci_resource_len a r st = Some st"
  "call_effect K_pci_irq_vector a r st = Some st"
  "call_effect K_pci_read_config a r st = Some st"
  "call_effect K_pci_write_config a r st = Some st"
  "call_effect K_pci_set_dma_mask a r st = Some st"
  "call_effect K_pci_set_consistent_dma_mask a r st = Some st"
  "call_effect K_pcie_capability_set a r st = Some st"
  "call_effect K_pcie_set_readrq a r st = Some st"
  "call_effect K_pci_set_master a r st = Some st"
  "call_effect K_pci_find_capability a r st = Some st"
  "call_effect K_schedule_work a r st = Some st"
  "call_effect K_user_handler a r st = Some st"
  "call_effect K_kthread_create a r st = Some st"
  "call_effect K_kthread_stop a r st = Some st"
  "call_effect K_synchronize_rcu a r st = Some st"
  "call_effect K_no_msi a r st = Some st"
  "call_effect K_pci_bus a r st = Some st"
  "call_effect K_bus_flags a r st = Some st"
  "call_effect K_pdev_irq a r st = Some st"
  "call_effect K_pci_enable_device_mem a r st = Some st"
  "call_effect K_pci_restore_state a r st = Some st"
  "call_effect K_pci_save_state a r st = Some st"
  "call_effect K_pci_aer_clear a r st = Some st"
  "call_effect K_access_ok a r st = Some st"
  "call_effect K_io_remap_pfn_range a r st = Some st"
  "call_effect K_spin_trylock a r st = Some st"
  "call_effect K_ki_complete a r st = Some st"
  "call_effect K_put_page a r st = Some st"
  "call_effect K_set_page_dirty_lock a r st = Some st"
  "call_effect K_flush_dcache_page a r st = Some st"
  "call_effect K_io_done a r st = Some st"
  "call_effect K_stray a r st = Some st"
  by (simp_all add: call_effect_def acquires_def releases_def)

section \<open>The resources a driver owns\<close>

definition pop_own :: "resource \<Rightarrow> resource multiset \<Rightarrow> resource multiset option" where
  "pop_own x M = (if x \<in># M then Some (M - {#x#}) else None)"

definition own_effect :: "kfn \<Rightarrow> u64 list \<Rightarrow> int \<Rightarrow> resource multiset \<Rightarrow> resource multiset option" where
  "own_effect f args r M =
     (case acquires f args r of Some x \<Rightarrow> Some (add_mset x M)
      | None \<Rightarrow> (case releases f args of Some x \<Rightarrow> pop_own x M | None \<Rightarrow> Some M))"

fun owned_from :: "resource multiset option \<Rightarrow> history \<Rightarrow> resource multiset option" where
  "owned_from z [] = z"
| "owned_from z (KCall f args r # h) = owned_from (Option.bind z (own_effect f args r)) h"
| "owned_from z (_ # h) = owned_from z h"

definition owned :: "history \<Rightarrow> resource multiset option" where
  "owned h = owned_from (Some {#}) h"

lemma owned_from_append: "owned_from z (h @ h') = owned_from (owned_from z h) h'"
  by (induction z h rule: owned_from.induct) auto

lemma owned_append [simp]: "owned (h @ h') = owned_from (owned h) h'"
  by (simp add: owned_def owned_from_append)

lemma owned_Nil [simp]: "owned [] = Some {#}"
  by (simp add: owned_def)

lemma pop_own_add [simp]: "pop_own x (add_mset x M) = Some M"
  by (simp add: pop_own_def)

lemma pop_own_swap [simp]: "pop_own x (add_mset y (add_mset x M)) = Some (add_mset y M)"
  by (simp add: pop_own_def)

lemma pop_own_swap2 [simp]:
  "pop_own x (add_mset y (add_mset z (add_mset x M))) = Some (add_mset y (add_mset z M))"
  by (simp add: pop_own_def)

lemma own_effect_acquire [simp]:
  "own_effect K_kzalloc a r st = Some (if is_object r then add_mset (K_kzalloc, [of_int r]) st else st)"
  "own_effect K_vmalloc a r st = Some (if is_object r then add_mset (K_vmalloc, [of_int r]) st else st)"
  "own_effect K_dma_request_chan a r st =
     Some (if is_object r then add_mset (K_dma_request_chan, [of_int r]) st else st)"
  "own_effect K_class_create a r st =
     Some (if is_object r then add_mset (K_class_create, [of_int r]) st else st)"
  "own_effect K_ioremap a r st = Some (if is_object r then add_mset (K_ioremap, [of_int r]) st else st)"
  "own_effect K_pci_iomap a r st =
     Some (if is_object r then add_mset (K_pci_iomap, [of_int r]) st else st)"
  "own_effect K_dma_alloc_coherent a r st =
     Some (if is_object r then add_mset (K_dma_alloc_coherent, [of_int r]) st else st)"
  "own_effect K_request_mem_region a r st =
     Some (if is_object r then add_mset (K_request_mem_region, a) st else st)"
  "own_effect K_device_create a r st =
     Some (if is_object r then add_mset (K_device_create, [a ! 0, a ! 2]) st else st)"
  "own_effect K_alloc_chrdev_region a r st =
     Some (if 0 \<le> r then add_mset (K_alloc_chrdev_region, []) st else st)"
  "own_effect K_cdev_add a r st = Some (if 0 \<le> r then add_mset (K_cdev_add, take 1 a) st else st)"
  "own_effect K_pci_enable_device a r st =
     Some (if 0 \<le> r then add_mset (K_pci_enable_device, take 1 a) st else st)"
  "own_effect K_pci_request_regions a r st =
     Some (if 0 \<le> r then add_mset (K_pci_request_regions, take 1 a) st else st)"
  "own_effect K_pci_alloc_irq_vectors a r st =
     Some (if 0 \<le> r then add_mset (K_pci_alloc_irq_vectors, take 1 a) st else st)"
  "own_effect K_pci_enable_msi a r st =
     Some (if 0 \<le> r then add_mset (K_pci_enable_msi, take 1 a) st else st)"
  "own_effect K_kmem_cache_create a r st =
     Some (if is_object r then add_mset (K_kmem_cache_create, [of_int r]) st else st)"
  "own_effect K_kmem_cache_alloc a r st =
     Some (if is_object r then add_mset (K_kmem_cache_alloc, [of_int r]) st else st)"
  "own_effect K_pci_register_driver a r st = Some (if 0 \<le> r then add_mset (K_pci_register_driver, take 1 a) st else st)"
  "own_effect K_request_irq a r st = Some (if 0 \<le> r then add_mset (K_request_irq, a) st else st)"
  by (simp_all add: own_effect_def acquires_def releases_def)

lemma own_effect_release [simp]:
  "own_effect K_kfree a r st = pop_own (K_kzalloc, a) st"
  "own_effect K_vfree a r st = pop_own (K_vmalloc, a) st"
  "own_effect K_dma_release_channel a r st = pop_own (K_dma_request_chan, a) st"
  "own_effect K_class_destroy a r st = pop_own (K_class_create, a) st"
  "own_effect K_iounmap a r st = pop_own (K_ioremap, a) st"
  "own_effect K_pci_iounmap a r st = pop_own (K_pci_iomap, [a ! 1]) st"
  "own_effect K_dma_free_coherent a r st = pop_own (K_dma_alloc_coherent, [a ! 1]) st"
  "own_effect K_release_mem_region a r st = pop_own (K_request_mem_region, a) st"
  "own_effect K_device_destroy a r st = pop_own (K_device_create, a) st"
  "own_effect K_unregister_chrdev_region a r st = pop_own (K_alloc_chrdev_region, []) st"
  "own_effect K_cdev_del a r st = pop_own (K_cdev_add, a) st"
  "own_effect K_pci_disable_device a r st = pop_own (K_pci_enable_device, a) st"
  "own_effect K_pci_release_regions a r st = pop_own (K_pci_request_regions, a) st"
  "own_effect K_free_irq a r st = pop_own (K_request_irq, a) st"
  "own_effect K_pci_disable_msix a r st = pop_own (K_pci_alloc_irq_vectors, a) st"
  "own_effect K_pci_disable_msi a r st = pop_own (K_pci_enable_msi, a) st"
  "own_effect K_kmem_cache_destroy a r st = pop_own (K_kmem_cache_create, a) st"
  "own_effect K_kmem_cache_free a r st = pop_own (K_kmem_cache_alloc, [a ! 1]) st"
  "own_effect K_pci_unregister_driver a r st = pop_own (K_pci_register_driver, a) st"
  by (simp_all add: own_effect_def acquires_def releases_def)

lemma own_effect_other [simp]:
  "own_effect K_platform_get_resource a r st = Some st"
  "own_effect K_cdev_init a r st = Some st"
  "own_effect K_wait a r st = Some st"
  "own_effect K_pci_resource_len a r st = Some st"
  "own_effect K_pci_irq_vector a r st = Some st"
  "own_effect K_pci_read_config a r st = Some st"
  "own_effect K_pci_write_config a r st = Some st"
  "own_effect K_pci_set_dma_mask a r st = Some st"
  "own_effect K_pci_set_consistent_dma_mask a r st = Some st"
  "own_effect K_pcie_capability_set a r st = Some st"
  "own_effect K_pcie_set_readrq a r st = Some st"
  "own_effect K_pci_set_master a r st = Some st"
  "own_effect K_pci_find_capability a r st = Some st"
  "own_effect K_schedule_work a r st = Some st"
  "own_effect K_user_handler a r st = Some st"
  "own_effect K_kthread_create a r st = Some st"
  "own_effect K_kthread_stop a r st = Some st"
  "own_effect K_synchronize_rcu a r st = Some st"
  "own_effect K_no_msi a r st = Some st"
  "own_effect K_pci_bus a r st = Some st"
  "own_effect K_bus_flags a r st = Some st"
  "own_effect K_pdev_irq a r st = Some st"
  "own_effect K_pci_enable_device_mem a r st = Some st"
  "own_effect K_pci_restore_state a r st = Some st"
  "own_effect K_pci_save_state a r st = Some st"
  "own_effect K_pci_aer_clear a r st = Some st"
  "own_effect K_access_ok a r st = Some st"
  "own_effect K_io_remap_pfn_range a r st = Some st"
  "own_effect K_spin_trylock a r st = Some st"
  "own_effect K_ki_complete a r st = Some st"
  "own_effect K_put_page a r st = Some st"
  "own_effect K_set_page_dirty_lock a r st = Some st"
  "own_effect K_flush_dcache_page a r st = Some st"
  "own_effect K_io_done a r st = Some st"
  "own_effect K_stray a r st = Some st"
  by (simp_all add: own_effect_def acquires_def releases_def)

section \<open>Symbolic execution\<close>

text \<open>
  \<open>sat p Q\<close>: the outcome \<open>p\<close> of a run satisfies \<open>Q\<close>. The rules below run a program one
  statement at a time, with a new name for every answer of the kernel and every history, of
  which only the held resources are kept: the goals they leave are one per path.
\<close>

named_theorems sat_rules "symbolic execution rules"

definition sat :: "'a \<times> 's \<Rightarrow> ('a \<Rightarrow> 's \<Rightarrow> bool) \<Rightarrow> bool" where
  "sat p Q \<longleftrightarrow> (case p of (r, s) \<Rightarrow> Q r s)"

definition answers :: "env \<Rightarrow> kfn \<Rightarrow> int \<Rightarrow> bool" where
  "answers E f r \<longleftrightarrow> (\<exists>h a. r = kres E h f a)"

lemma satD: "sat p Q \<Longrightarrow> p = (r, s) \<Longrightarrow> Q r s"
  by (simp add: sat_def)

lemma sat_return [sat_rules]: "Q r s \<Longrightarrow> sat (run_state (ret r) s) Q"
  by (simp add: sat_def)

lemma sat_if [sat_rules]:
  "(b \<Longrightarrow> sat (run_state m s) Q) \<Longrightarrow> (\<not> b \<Longrightarrow> sat (run_state n s) Q) \<Longrightarrow>
   sat (run_state (if b then m else n) s) Q"
  by simp

lemma sat_bind_if [sat_rules]:
  "(b \<Longrightarrow> sat (run_state (State_Monad.bind m g) s) Q) \<Longrightarrow>
   (\<not> b \<Longrightarrow> sat (run_state (State_Monad.bind n g) s) Q) \<Longrightarrow>
   sat (run_state (State_Monad.bind (if b then m else n) g) s) Q"
  by simp

lemma sat_bind_when [sat_rules]:
  "(b \<Longrightarrow> sat (run_state (State_Monad.bind m g) s) Q) \<Longrightarrow> (\<not> b \<Longrightarrow> sat (run_state (g ()) s) Q) \<Longrightarrow>
   sat (run_state (State_Monad.bind (when_st b m) g) s) Q"
  by (simp add: when_st_def)

lemma sat_bind_return [sat_rules]:
  "sat (run_state (g r) s) Q \<Longrightarrow> sat (run_state (State_Monad.bind (ret r) g) s) Q"
  by simp

lemma sat_bind_assoc [sat_rules]:
  "sat (run_state (State_Monad.bind m (\<lambda>x. State_Monad.bind (f x) g)) s) Q \<Longrightarrow>
   sat (run_state (State_Monad.bind (State_Monad.bind m f) g) s) Q"
  by simp

lemma sat_let [sat_rules]: "(\<And>x. x = t \<Longrightarrow> sat (run_state (m x) s) Q) \<Longrightarrow> sat (run_state (let x = t in m x) s) Q"
  by simp

lemma sat_bind_let [sat_rules]:
  "(\<And>x. x = t \<Longrightarrow> sat (run_state (State_Monad.bind (m x) g) s) Q) \<Longrightarrow>
   sat (run_state (State_Monad.bind (let x = t in m x) g) s) Q"
  by simp

lemma sat_gets [sat_rules]:
  "sat (run_state (g (f s)) s) Q \<Longrightarrow> sat (run_state (State_Monad.bind (gets_st f) g) s) Q"
  by simp

lemma sat_modify [sat_rules]:
  "sat (run_state (g ()) (f s)) Q \<Longrightarrow> sat (run_state (State_Monad.bind (modify_st f) g) s) Q"
  by simp

lemma sat_case_prod [sat_rules]:
  "sat (run_state (f a b) s) Q \<Longrightarrow> sat (run_state (case (a, b) of (x, y) \<Rightarrow> f x y) s) Q"
  by simp

lemma sat_bind_case_prod [sat_rules]:
  "sat (run_state (State_Monad.bind (f a b) g) s) Q \<Longrightarrow>
   sat (run_state (State_Monad.bind (case (a, b) of (x, y) \<Rightarrow> f x y) g) s) Q"
  by simp

lemma sat_when [sat_rules]:
  "(b \<Longrightarrow> sat (run_state m s) Q) \<Longrightarrow> (\<not> b \<Longrightarrow> Q () s) \<Longrightarrow> sat (run_state (when_st b m) s) Q"
  by (simp add: sat_def)

lemma sat_modify_last [sat_rules]: "Q () (f s) \<Longrightarrow> sat (run_state (modify_st f) s) Q"
  by (simp add: sat_def)

lemma sat_kcall [sat_rules]:
  assumes "\<And>r h. answers E f r \<Longrightarrow> held h = Option.bind (held (tr s)) (call_effect f a r) \<Longrightarrow>
    owned h = Option.bind (owned (tr s)) (own_effect f a r) \<Longrightarrow>
    sat (run_state (g r) (s\<lparr>tr := h\<rparr>)) Q"
  shows "sat (run_state (State_Monad.bind (kcall E f a) g) s) Q"
  using assms [of "kres E (tr s) f a" "tr s @ [KCall f a (kres E (tr s) f a)]"]
  by (auto simp: answers_def)

lemma sat_kptr [sat_rules]:
  assumes "\<And>r h. answers E f r \<Longrightarrow> held h = Option.bind (held (tr s)) (call_effect f a r) \<Longrightarrow>
    owned h = Option.bind (owned (tr s)) (own_effect f a r) \<Longrightarrow>
    sat (run_state (g (of_int r)) (s\<lparr>tr := h\<rparr>)) Q"
  shows "sat (run_state (State_Monad.bind (kptr E f a) g) s) Q"
  using assms [of "kres E (tr s) f a" "tr s @ [KCall f a (kres E (tr s) f a)]"]
  by (auto simp: answers_def)

lemma sat_kproc [sat_rules]:
  assumes "\<And>h. held h = Option.bind (held (tr s)) (call_effect f a 0) \<Longrightarrow>
    owned h = Option.bind (owned (tr s)) (own_effect f a 0) \<Longrightarrow>
    sat (run_state (g ()) (s\<lparr>tr := h\<rparr>)) Q"
  shows "sat (run_state (State_Monad.bind (kproc f a) g) s) Q"
  using assms [of "tr s @ [KCall f a 0]"] by simp

lemma sat_kproc_last [sat_rules]:
  assumes "\<And>h. held h = Option.bind (held (tr s)) (call_effect f a 0) \<Longrightarrow>
    owned h = Option.bind (owned (tr s)) (own_effect f a 0) \<Longrightarrow> Q () (s\<lparr>tr := h\<rparr>)"
  shows "sat (run_state (kproc f a) s) Q"
  using assms [of "tr s @ [KCall f a 0]"] by (simp add: sat_def)

lemma sat_iowrite32 [sat_rules]:
  assumes "\<And>h. held h = held (tr s) \<Longrightarrow> owned h = owned (tr s) \<Longrightarrow> sat (run_state (g ()) (s\<lparr>tr := h\<rparr>)) Q"
  shows "sat (run_state (State_Monad.bind (iowrite32 v a) g) s) Q"
  using assms [of "tr s @ [MmioW a v]"] by simp

lemma sat_ioread32 [sat_rules]:
  assumes "\<And>v h. held h = held (tr s) \<Longrightarrow> owned h = owned (tr s) \<Longrightarrow> sat (run_state (g v) (s\<lparr>tr := h\<rparr>)) Q"
  shows "sat (run_state (State_Monad.bind (ioread32 E a) g) s) Q"
  using assms [of "tr s @ [MmioR a (mmio_rd E (tr s) a)]"] by simp

text \<open>A call that answers with a pointer or null.\<close>

definition pointer_answers :: "env \<Rightarrow> kfn \<Rightarrow> bool" where
  "pointer_answers E f \<longleftrightarrow> (\<forall>r. answers E f r \<longrightarrow> 0 \<le> r \<and> r < 2 ^ 64)"

lemma pointer_null: "0 \<le> r \<Longrightarrow> r < 2 ^ 64 \<Longrightarrow> (of_int r = (0 :: u64)) = (r = 0)"
  by (auto simp: word_of_int_eq_0_iff dest: zdvd_imp_le)

lemma pointer_answersD:
  assumes "pointer_answers E f" "answers E f r"
  shows "(of_int r = (0 :: u64)) = (r = 0)" "is_object r = (r \<noteq> 0)"
proof -
  have "0 \<le> r" "r < 2 ^ 64"
    using assms unfolding pointer_answers_def by blast+
  then show "(of_int r = (0 :: u64)) = (r = 0)" "is_object r = (r \<noteq> 0)"
    by (auto simp: pointer_null is_object_def is_err_def)
qed

text \<open>Statements that concern no resource.\<close>

lemma sat_quiet [sat_rules]:
  assumes "\<And>h. held h = held (tr s) \<Longrightarrow> owned h = owned (tr s) \<Longrightarrow> sat (run_state (g ()) (s\<lparr>tr := h\<rparr>)) Q"
  shows "sat (run_state (State_Monad.bind (lock_acquire l i) g) s) Q"
    and "sat (run_state (State_Monad.bind (lock_release l i) g) s) Q"
    and "sat (run_state (State_Monad.bind (wake_up q i) g) s) Q"
    and "sat (run_state (State_Monad.bind (mem_zero a n) g) s) Q"
  using assms [of "tr s @ [Lock l i]"] assms [of "tr s @ [Unlock l i]"] assms [of "tr s @ [Wake q i]"]
    assms [of "tr s @ [MemZero a n]"] by simp_all

lemma sat_quiet_last [sat_rules]:
  assumes "\<And>h. held h = held (tr s) \<Longrightarrow> owned h = owned (tr s) \<Longrightarrow> Q () (s\<lparr>tr := h\<rparr>)"
  shows "sat (run_state (lock_acquire l i) s) Q" and "sat (run_state (lock_release l i) s) Q"
    and "sat (run_state (wake_up q i) s) Q" and "sat (run_state (iowrite32 v a) s) Q"
  using assms [of "tr s @ [Lock l i]"] assms [of "tr s @ [Unlock l i]"] assms [of "tr s @ [Wake q i]"]
    assms [of "tr s @ [MmioW a v]"] by (simp_all add: sat_def)

lemma sat_option [sat_rules]:
  "(z = None \<Longrightarrow> sat (run_state m s) Q) \<Longrightarrow> (\<And>x. z = Some x \<Longrightarrow> sat (run_state (f x) s) Q) \<Longrightarrow>
   sat (run_state (case z of None \<Rightarrow> m | Some x \<Rightarrow> f x) s) Q"
  by (cases z) auto

text \<open>Composition with what is known of the first program.\<close>

lemma sat_bind:
  "sat (run_state m s) P \<Longrightarrow> (\<And>r s'. P r s' \<Longrightarrow> sat (run_state (g r) s') Q) \<Longrightarrow>
   sat (run_state (State_Monad.bind m g) s) Q"
  by (cases "run_state m s") (simp add: sat_def)

lemma sat_weaken: "sat p P \<Longrightarrow> (\<And>r s. P r s \<Longrightarrow> Q r s) \<Longrightarrow> sat p Q"
  by (auto simp: sat_def)

section \<open>Pairs of operations that acquire and release\<close>

text \<open>
  The contract of an operation that builds something and of the one that takes it down again:
  a failed \<open>acquire\<close> leaves the held resources as they were, a successful one adds what the
  state then names, \<open>R\<close>, by means of \<open>put\<close>, and \<open>release\<close> gives that back. \<open>res\<close> reads the held
  resources, \<open>ready\<close> is what \<open>acquire\<close> asks for and \<open>built\<close> what it ensures.
\<close>

locale bracket =
  fixes acquire release :: "('s, int) state"
    and res :: "'s \<Rightarrow> 'm option"
    and put :: "'r \<Rightarrow> 'm \<Rightarrow> 'm"
    and R :: "'s \<Rightarrow> 'r"
    and ready built :: "'s \<Rightarrow> bool"
  assumes acquire_fails:
      "ready s \<Longrightarrow> res s = Some X \<Longrightarrow> run_state acquire s = (r, s') \<Longrightarrow> r \<noteq> 0 \<Longrightarrow> res s' = Some X"
    and acquire_succeeds:
      "ready s \<Longrightarrow> res s = Some X \<Longrightarrow> run_state acquire s = (0, s') \<Longrightarrow>
       res s' = Some (put (R s') X) \<and> built s'"
    and release_gives_back:
      "built s \<Longrightarrow> res s = Some (put (R s) X) \<Longrightarrow> run_state release s = (r, s') \<Longrightarrow> r = 0 \<and> res s' = Some X"
begin

text \<open>A life cycle: acquire, and release again if that succeeded.\<close>

definition life_cycle :: "('s, int) state" where
  "life_cycle = do { r \<leftarrow> acquire; if r \<noteq> 0 then ret r else release }"

lemma life_cycle_neutral:
  assumes "ready s" "res s = Some X" "run_state life_cycle s = (r, s')"
  shows "res s' = Some X"
proof -
  obtain r1 s1 where a: "run_state acquire s = (r1, s1)"
    by fastforce
  obtain r2 s2 where b: "run_state release s1 = (r2, s2)"
    by fastforce
  show ?thesis
  proof (cases "r1 = 0")
    case True
    then have "res s1 = Some (put (R s1) X) \<and> built s1"
      using acquire_succeeds [OF assms(1,2)] a by simp
    then have "res s2 = Some X"
      using release_gives_back b by blast
    then show ?thesis
      using assms(3) a b True by (simp add: life_cycle_def)
  next
    case False
    then show ?thesis
      using acquire_fails [OF assms(1,2) a] a assms(3) by (simp add: life_cycle_def)
  qed
qed

text \<open>Any number of life cycles, one after the other.\<close>

lemma life_cycles_neutral:
  assumes "\<And>s. ready s \<Longrightarrow> ready (final_of life_cycle s)" "ready s" "res s = Some X"
  shows "res (final_of (for_each [0..<n] (\<lambda>_. do { _ \<leftarrow> life_cycle; ret () })) s) = Some X \<and>
    ready (final_of (for_each [0..<n] (\<lambda>_. do { _ \<leftarrow> life_cycle; ret () })) s)"
proof (induction n)
  case (Suc n)
  obtain r s' where c: "run_state life_cycle
      (final_of (for_each [0..<n] (\<lambda>_. do { _ \<leftarrow> life_cycle; ret () })) s) = (r, s')"
    by fastforce
  show ?case
    using life_cycle_neutral [of _ X, OF _ _ c] Suc c assms(1) [of "final_of (for_each [0..<n] (\<lambda>_. do { _ \<leftarrow> life_cycle; ret () })) s"]
    by simp
qed (simp add: assms)

end

end
