(* ===== verification/XdmaTypes.thy ===== *)
theory XdmaTypes
  imports KernelEnv
begin

text \<open>
  The data of the PCIe driver library, from \<open>libxdma.h\<close> and \<open>xdma_mod.h\<close>: register
  constants, register layouts, enumerations and the structures, as records over machine
  words. A pointer is its address (\<open>0\<close> is \<open>NULL\<close>); the coherent ring of hardware
  descriptors that \<open>engine->desc\<close> points to is the field \<open>e_ring\<close>, indexed by descriptor.
  Register and descriptor words are those of a little-endian host, where \<open>cpu_to_le32\<close> is
  the identity.
\<close>

section \<open>Constants\<close>

abbreviation (input) XDMA_BAR_NUM :: nat where "XDMA_BAR_NUM \<equiv> 6"
abbreviation (input) XDMA_BAR_SIZE :: int where "XDMA_BAR_SIZE \<equiv> 0x8000"
abbreviation (input) XDMA_CHANNEL_NUM_MAX :: nat where "XDMA_CHANNEL_NUM_MAX \<equiv> 4"
abbreviation (input) XDMA_MAX_ADJ_BLOCK_SIZE :: u32 where "XDMA_MAX_ADJ_BLOCK_SIZE \<equiv> 0x40"
abbreviation (input) XDMA_PAGE_SIZE :: u32 where "XDMA_PAGE_SIZE \<equiv> 0x1000"
abbreviation (input) RX_STATUS_EOP :: u32 where "RX_STATUS_EOP \<equiv> 1"
abbreviation (input) XDMA_OFS_INT_CTRL :: u64 where "XDMA_OFS_INT_CTRL \<equiv> 0x2000"
abbreviation (input) XDMA_OFS_CONFIG :: u64 where "XDMA_OFS_CONFIG \<equiv> 0x3000"
abbreviation (input) XDMA_ENGINE_XFER_MAX_DESC :: u32 where "XDMA_ENGINE_XFER_MAX_DESC \<equiv> 0x800"
abbreviation (input) XDMA_ENGINE_CREDIT_XFER_MAX_DESC :: u32 where
  "XDMA_ENGINE_CREDIT_XFER_MAX_DESC \<equiv> 0x3FF"
abbreviation (input) XDMA_DESC_BLEN_MAX :: u32 where "XDMA_DESC_BLEN_MAX \<equiv> 0xFFFFFFF"

text \<open>Bits of the SG DMA control register.\<close>

definition XDMA_CTRL_RUN_STOP :: u32 where "XDMA_CTRL_RUN_STOP = push_bit 0 1"
definition XDMA_CTRL_IE_DESC_STOPPED :: u32 where "XDMA_CTRL_IE_DESC_STOPPED = push_bit 1 1"
definition XDMA_CTRL_IE_DESC_COMPLETED :: u32 where "XDMA_CTRL_IE_DESC_COMPLETED = push_bit 2 1"
definition XDMA_CTRL_IE_DESC_ALIGN_MISMATCH :: u32 where
  "XDMA_CTRL_IE_DESC_ALIGN_MISMATCH = push_bit 3 1"
definition XDMA_CTRL_IE_MAGIC_STOPPED :: u32 where "XDMA_CTRL_IE_MAGIC_STOPPED = push_bit 4 1"
definition XDMA_CTRL_IE_IDLE_STOPPED :: u32 where "XDMA_CTRL_IE_IDLE_STOPPED = push_bit 6 1"
definition XDMA_CTRL_IE_READ_ERROR :: u32 where "XDMA_CTRL_IE_READ_ERROR = push_bit 9 0x1F"
definition XDMA_CTRL_IE_DESC_ERROR :: u32 where "XDMA_CTRL_IE_DESC_ERROR = push_bit 19 0x1F"
definition XDMA_CTRL_NON_INCR_ADDR :: u32 where "XDMA_CTRL_NON_INCR_ADDR = push_bit 25 1"
definition XDMA_CTRL_POLL_MODE_WB :: u32 where "XDMA_CTRL_POLL_MODE_WB = push_bit 26 1"

text \<open>Bits of the SG DMA status register.\<close>

definition XDMA_STAT_BUSY :: u32 where "XDMA_STAT_BUSY = push_bit 0 1"
definition XDMA_STAT_DESC_STOPPED :: u32 where "XDMA_STAT_DESC_STOPPED = push_bit 1 1"
definition XDMA_STAT_DESC_COMPLETED :: u32 where "XDMA_STAT_DESC_COMPLETED = push_bit 2 1"
definition XDMA_STAT_ALIGN_MISMATCH :: u32 where "XDMA_STAT_ALIGN_MISMATCH = push_bit 3 1"
definition XDMA_STAT_MAGIC_STOPPED :: u32 where "XDMA_STAT_MAGIC_STOPPED = push_bit 4 1"
definition XDMA_STAT_INVALID_LEN :: u32 where "XDMA_STAT_INVALID_LEN = push_bit 5 1"
definition XDMA_STAT_IDLE_STOPPED :: u32 where "XDMA_STAT_IDLE_STOPPED = push_bit 6 1"
definition XDMA_STAT_DESC_UNSUPP_REQ :: u32 where "XDMA_STAT_DESC_UNSUPP_REQ = push_bit 19 1"
definition XDMA_STAT_DESC_COMPL_ABORT :: u32 where "XDMA_STAT_DESC_COMPL_ABORT = push_bit 20 1"
definition XDMA_STAT_DESC_PARITY_ERR :: u32 where "XDMA_STAT_DESC_PARITY_ERR = push_bit 21 1"
definition XDMA_STAT_DESC_HEADER_EP :: u32 where "XDMA_STAT_DESC_HEADER_EP = push_bit 22 1"
definition XDMA_STAT_DESC_UNEXP_COMPL :: u32 where "XDMA_STAT_DESC_UNEXP_COMPL = push_bit 23 1"
definition XDMA_STAT_H2C_R_UNSUPP_REQ :: u32 where "XDMA_STAT_H2C_R_UNSUPP_REQ = push_bit 9 1"
definition XDMA_STAT_H2C_R_COMPL_ABORT :: u32 where "XDMA_STAT_H2C_R_COMPL_ABORT = push_bit 10 1"
definition XDMA_STAT_H2C_R_PARITY_ERR :: u32 where "XDMA_STAT_H2C_R_PARITY_ERR = push_bit 11 1"
definition XDMA_STAT_H2C_R_HEADER_EP :: u32 where "XDMA_STAT_H2C_R_HEADER_EP = push_bit 12 1"
definition XDMA_STAT_H2C_R_UNEXP_COMPL :: u32 where "XDMA_STAT_H2C_R_UNEXP_COMPL = push_bit 13 1"
definition XDMA_STAT_H2C_W_DECODE_ERR :: u32 where "XDMA_STAT_H2C_W_DECODE_ERR = push_bit 14 1"
definition XDMA_STAT_H2C_W_SLAVE_ERR :: u32 where "XDMA_STAT_H2C_W_SLAVE_ERR = push_bit 15 1"
definition XDMA_STAT_C2H_R_DECODE_ERR :: u32 where "XDMA_STAT_C2H_R_DECODE_ERR = push_bit 9 1"
definition XDMA_STAT_C2H_R_SLAVE_ERR :: u32 where "XDMA_STAT_C2H_R_SLAVE_ERR = push_bit 10 1"

definition XDMA_STAT_COMMON_ERR_MASK :: u32 where
  "XDMA_STAT_COMMON_ERR_MASK =
     XDMA_STAT_ALIGN_MISMATCH OR XDMA_STAT_MAGIC_STOPPED OR XDMA_STAT_INVALID_LEN"
definition XDMA_STAT_DESC_ERR_MASK :: u32 where
  "XDMA_STAT_DESC_ERR_MASK =
     XDMA_STAT_DESC_UNSUPP_REQ OR XDMA_STAT_DESC_COMPL_ABORT OR XDMA_STAT_DESC_PARITY_ERR OR
     XDMA_STAT_DESC_HEADER_EP OR XDMA_STAT_DESC_UNEXP_COMPL"
definition XDMA_STAT_H2C_R_ERR_MASK :: u32 where
  "XDMA_STAT_H2C_R_ERR_MASK =
     XDMA_STAT_H2C_R_UNSUPP_REQ OR XDMA_STAT_H2C_R_COMPL_ABORT OR XDMA_STAT_H2C_R_PARITY_ERR OR
     XDMA_STAT_H2C_R_HEADER_EP OR XDMA_STAT_H2C_R_UNEXP_COMPL"
definition XDMA_STAT_H2C_W_ERR_MASK :: u32 where
  "XDMA_STAT_H2C_W_ERR_MASK = XDMA_STAT_H2C_W_DECODE_ERR OR XDMA_STAT_H2C_W_SLAVE_ERR"
definition XDMA_STAT_C2H_R_ERR_MASK :: u32 where
  "XDMA_STAT_C2H_R_ERR_MASK = XDMA_STAT_C2H_R_DECODE_ERR OR XDMA_STAT_C2H_R_SLAVE_ERR"
definition XDMA_STAT_H2C_ERR_MASK :: u32 where
  "XDMA_STAT_H2C_ERR_MASK =
     XDMA_STAT_COMMON_ERR_MASK OR XDMA_STAT_DESC_ERR_MASK OR
     XDMA_STAT_H2C_R_ERR_MASK OR XDMA_STAT_H2C_W_ERR_MASK"
definition XDMA_STAT_C2H_ERR_MASK :: u32 where
  "XDMA_STAT_C2H_ERR_MASK =
     XDMA_STAT_COMMON_ERR_MASK OR XDMA_STAT_DESC_ERR_MASK OR XDMA_STAT_C2H_R_ERR_MASK"

text \<open>Bits of the descriptor control field, magic numbers, identifiers.\<close>

definition XDMA_DESC_STOPPED :: u32 where "XDMA_DESC_STOPPED = push_bit 0 1"
definition XDMA_DESC_COMPLETED :: u32 where "XDMA_DESC_COMPLETED = push_bit 1 1"
definition XDMA_DESC_EOP :: u32 where "XDMA_DESC_EOP = push_bit 4 1"
definition XDMA_PERF_RUN :: u32 where "XDMA_PERF_RUN = push_bit 0 1"
definition XDMA_PERF_CLEAR :: u32 where "XDMA_PERF_CLEAR = push_bit 1 1"
definition XDMA_PERF_AUTO :: u32 where "XDMA_PERF_AUTO = push_bit 2 1"
abbreviation (input) MAGIC_ENGINE :: u64 where "MAGIC_ENGINE \<equiv> 0xEEEEEEEE"
abbreviation (input) MAGIC_DEVICE :: u64 where "MAGIC_DEVICE \<equiv> 0xDDDDDDDD"
abbreviation (input) MAGIC_CHAR :: u64 where "MAGIC_CHAR \<equiv> 0xCCCCCCCC"
abbreviation (input) XDMA_ID_H2C :: u32 where "XDMA_ID_H2C \<equiv> 0x1fc0"
abbreviation (input) XDMA_ID_C2H :: u32 where "XDMA_ID_C2H \<equiv> 0x1fc1"
abbreviation (input) LS_BYTE_MASK :: u32 where "LS_BYTE_MASK \<equiv> 0xFF"
abbreviation (input) BLOCK_ID_MASK :: u32 where "BLOCK_ID_MASK \<equiv> 0xFFF00000"
abbreviation (input) BLOCK_ID_HEAD :: u32 where "BLOCK_ID_HEAD \<equiv> 0x1FC00000"
abbreviation (input) IRQ_BLOCK_ID :: u32 where "IRQ_BLOCK_ID \<equiv> 0x1fc20000"
abbreviation (input) CONFIG_BLOCK_ID :: u32 where "CONFIG_BLOCK_ID \<equiv> 0x1fc30000"
abbreviation (input) WB_COUNT_MASK :: u32 where "WB_COUNT_MASK \<equiv> 0x00ffffff"
abbreviation (input) WB_ERR_MASK :: u32 where "WB_ERR_MASK \<equiv> 0x80000000"
abbreviation (input) MAX_USER_IRQ :: nat where "MAX_USER_IRQ \<equiv> 16"
abbreviation (input) DESC_MAGIC :: u32 where "DESC_MAGIC \<equiv> 0xAD4B0000"
abbreviation (input) H2C_CHANNEL_OFFSET :: u64 where "H2C_CHANNEL_OFFSET \<equiv> 0x1000"
abbreviation (input) SGDMA_OFFSET_FROM_CHANNEL :: u64 where "SGDMA_OFFSET_FROM_CHANNEL \<equiv> 0x4000"
abbreviation (input) CHANNEL_SPACING :: u64 where "CHANNEL_SPACING \<equiv> 0x100"
abbreviation (input) TARGET_SPACING :: u64 where "TARGET_SPACING \<equiv> 0x1000"
abbreviation (input) BYPASS_MODE_SPACING :: u32 where "BYPASS_MODE_SPACING \<equiv> 0x100"
abbreviation (input) XFER_FLAG_NEED_UNMAP :: u32 where "XFER_FLAG_NEED_UNMAP \<equiv> 1"
abbreviation (input) XFER_FLAG_ST_C2H_EOP_RCVED :: u32 where "XFER_FLAG_ST_C2H_EOP_RCVED \<equiv> 2"
abbreviation (input) XDEV_FLAG_OFFLINE :: u32 where "XDEV_FLAG_OFFLINE \<equiv> 1"
abbreviation (input) ENGINE_SHUTDOWN_NONE :: u32 where "ENGINE_SHUTDOWN_NONE \<equiv> 0"
abbreviation (input) ENGINE_SHUTDOWN_REQUEST :: u32 where "ENGINE_SHUTDOWN_REQUEST \<equiv> 1"
abbreviation (input) ENGINE_SHUTDOWN_IDLE :: u32 where "ENGINE_SHUTDOWN_IDLE \<equiv> 2"

lemmas ctrl_bits =
  XDMA_CTRL_RUN_STOP_def XDMA_CTRL_IE_DESC_STOPPED_def XDMA_CTRL_IE_DESC_COMPLETED_def
  XDMA_CTRL_IE_DESC_ALIGN_MISMATCH_def XDMA_CTRL_IE_MAGIC_STOPPED_def
  XDMA_CTRL_IE_IDLE_STOPPED_def XDMA_CTRL_IE_READ_ERROR_def XDMA_CTRL_IE_DESC_ERROR_def
  XDMA_CTRL_NON_INCR_ADDR_def XDMA_CTRL_POLL_MODE_WB_def

lemmas stat_bits =
  XDMA_STAT_BUSY_def XDMA_STAT_DESC_STOPPED_def XDMA_STAT_DESC_COMPLETED_def
  XDMA_STAT_ALIGN_MISMATCH_def XDMA_STAT_MAGIC_STOPPED_def XDMA_STAT_INVALID_LEN_def
  XDMA_STAT_IDLE_STOPPED_def XDMA_STAT_DESC_UNSUPP_REQ_def XDMA_STAT_DESC_COMPL_ABORT_def
  XDMA_STAT_DESC_PARITY_ERR_def XDMA_STAT_DESC_HEADER_EP_def XDMA_STAT_DESC_UNEXP_COMPL_def
  XDMA_STAT_H2C_R_UNSUPP_REQ_def XDMA_STAT_H2C_R_COMPL_ABORT_def XDMA_STAT_H2C_R_PARITY_ERR_def
  XDMA_STAT_H2C_R_HEADER_EP_def XDMA_STAT_H2C_R_UNEXP_COMPL_def XDMA_STAT_H2C_W_DECODE_ERR_def
  XDMA_STAT_H2C_W_SLAVE_ERR_def XDMA_STAT_C2H_R_DECODE_ERR_def XDMA_STAT_C2H_R_SLAVE_ERR_def
  XDMA_STAT_COMMON_ERR_MASK_def XDMA_STAT_DESC_ERR_MASK_def XDMA_STAT_H2C_R_ERR_MASK_def
  XDMA_STAT_H2C_W_ERR_MASK_def XDMA_STAT_C2H_R_ERR_MASK_def XDMA_STAT_H2C_ERR_MASK_def
  XDMA_STAT_C2H_ERR_MASK_def

lemmas desc_bits = XDMA_DESC_STOPPED_def XDMA_DESC_COMPLETED_def XDMA_DESC_EOP_def

text \<open>The two halves of a bus address: \<open>PCI_DMA_H\<close> and \<open>PCI_DMA_L\<close>.\<close>

definition PCI_DMA_H :: "u64 \<Rightarrow> u32" where
  "PCI_DMA_H a = ucast (drop_bit 16 (drop_bit 16 a))"

definition PCI_DMA_L :: "u64 \<Rightarrow> u32" where
  "PCI_DMA_L a = ucast (a AND 0xffffffff)"

section \<open>Register layouts\<close>

text \<open>
  The registers of \<open>struct engine_regs\<close>, \<open>struct engine_sgdma_regs\<close>,
  \<open>struct interrupt_regs\<close>, \<open>struct config_regs\<close> and \<open>struct sgdma_common_regs\<close> that the
  driver accesses, with their byte offsets in the packed structures.
\<close>

datatype engine_reg =
    R_identifier | R_control | R_control_w1s | R_control_w1c
  | R_status | R_status_rc | R_completed_desc_count | R_alignments
  | R_poll_mode_wb_lo | R_poll_mode_wb_hi
  | R_interrupt_enable_mask | R_interrupt_enable_mask_w1s | R_interrupt_enable_mask_w1c
  | R_perf_ctrl | R_perf_cyc_lo | R_perf_cyc_hi | R_perf_dat_lo | R_perf_dat_hi
  | R_perf_pnd_lo | R_perf_pnd_hi

fun engine_reg_off :: "engine_reg \<Rightarrow> u64" where
  "engine_reg_off R_identifier = 0x00"
| "engine_reg_off R_control = 0x04"
| "engine_reg_off R_control_w1s = 0x08"
| "engine_reg_off R_control_w1c = 0x0c"
| "engine_reg_off R_status = 0x40"
| "engine_reg_off R_status_rc = 0x44"
| "engine_reg_off R_completed_desc_count = 0x48"
| "engine_reg_off R_alignments = 0x4c"
| "engine_reg_off R_poll_mode_wb_lo = 0x88"
| "engine_reg_off R_poll_mode_wb_hi = 0x8c"
| "engine_reg_off R_interrupt_enable_mask = 0x90"
| "engine_reg_off R_interrupt_enable_mask_w1s = 0x94"
| "engine_reg_off R_interrupt_enable_mask_w1c = 0x98"
| "engine_reg_off R_perf_ctrl = 0xc0"
| "engine_reg_off R_perf_cyc_lo = 0xc4"
| "engine_reg_off R_perf_cyc_hi = 0xc8"
| "engine_reg_off R_perf_dat_lo = 0xcc"
| "engine_reg_off R_perf_dat_hi = 0xd0"
| "engine_reg_off R_perf_pnd_lo = 0xd4"
| "engine_reg_off R_perf_pnd_hi = 0xd8"

datatype sgdma_reg = S_identifier | S_first_desc_lo | S_first_desc_hi | S_first_desc_adjacent | S_credits

fun sgdma_reg_off :: "sgdma_reg \<Rightarrow> u64" where
  "sgdma_reg_off S_identifier = 0x00"
| "sgdma_reg_off S_first_desc_lo = 0x80"
| "sgdma_reg_off S_first_desc_hi = 0x84"
| "sgdma_reg_off S_first_desc_adjacent = 0x88"
| "sgdma_reg_off S_credits = 0x8c"

datatype int_reg =
    I_identifier | I_user_int_enable | I_user_int_enable_w1s | I_user_int_enable_w1c
  | I_channel_int_enable | I_channel_int_enable_w1s | I_channel_int_enable_w1c
  | I_user_int_request | I_channel_int_request | I_user_int_pending | I_channel_int_pending
  | I_user_msi_vector nat | I_channel_msi_vector nat

fun int_reg_off :: "int_reg \<Rightarrow> u64" where
  "int_reg_off I_identifier = 0x00"
| "int_reg_off I_user_int_enable = 0x04"
| "int_reg_off I_user_int_enable_w1s = 0x08"
| "int_reg_off I_user_int_enable_w1c = 0x0c"
| "int_reg_off I_channel_int_enable = 0x10"
| "int_reg_off I_channel_int_enable_w1s = 0x14"
| "int_reg_off I_channel_int_enable_w1c = 0x18"
| "int_reg_off I_user_int_request = 0x40"
| "int_reg_off I_channel_int_request = 0x44"
| "int_reg_off I_user_int_pending = 0x48"
| "int_reg_off I_channel_int_pending = 0x4c"
| "int_reg_off (I_user_msi_vector j) = 0x80 + 4 * of_nat j"
| "int_reg_off (I_channel_msi_vector j) = 0xa0 + 4 * of_nat j"

datatype sgdma_common_reg = C_credit_mode_enable | C_credit_mode_enable_w1s | C_credit_mode_enable_w1c

fun sgdma_common_off :: "sgdma_common_reg \<Rightarrow> u64" where
  "sgdma_common_off C_credit_mode_enable = 0x20"
| "sgdma_common_off C_credit_mode_enable_w1s = 0x24"
| "sgdma_common_off C_credit_mode_enable_w1c = 0x28"

section \<open>Enumerations and references\<close>

datatype transfer_state =
    TRANSFER_STATE_NEW | TRANSFER_STATE_SUBMITTED | TRANSFER_STATE_COMPLETED
  | TRANSFER_STATE_FAILED | TRANSFER_STATE_ABORTED

datatype dma_dir = DMA_TO_DEVICE | DMA_FROM_DEVICE

text \<open>
  The enumerators are numbered in the order of the source, from zero; the order of the C
  values is the order of the type.
\<close>

fun state_val :: "transfer_state \<Rightarrow> nat" where
  "state_val TRANSFER_STATE_NEW = 0"
| "state_val TRANSFER_STATE_SUBMITTED = 1"
| "state_val TRANSFER_STATE_COMPLETED = 2"
| "state_val TRANSFER_STATE_FAILED = 3"
| "state_val TRANSFER_STATE_ABORTED = 4"

lemma state_val_inj: "state_val a = state_val b \<Longrightarrow> a = b"
  by (cases a; cases b) auto

instantiation transfer_state :: linorder
begin

definition less_eq_transfer_state :: "transfer_state \<Rightarrow> transfer_state \<Rightarrow> bool" where
  "less_eq_transfer_state a b \<longleftrightarrow> state_val a \<le> state_val b"

definition less_transfer_state :: "transfer_state \<Rightarrow> transfer_state \<Rightarrow> bool" where
  "less_transfer_state a b \<longleftrightarrow> state_val a < state_val b"

instance
  by standard (auto simp: less_eq_transfer_state_def less_transfer_state_def intro: state_val_inj)

end

text \<open>
  An engine is one of the embedded arrays \<open>engine_h2c\<close>, \<open>engine_c2h\<close> of a device (named by
  its address), or the null pointer. A transfer is one of the two embedded in a request
  (\<open>req->tfer[i]\<close>; an index beyond 1 is memory outside the array), or one allocated by
  \<open>xdma_performance_submit\<close>.
\<close>

datatype eng = NoEngine | H2C u64 nat | C2H u64 nat

datatype xref = Tfer u64 nat | PerfXfer u64

text \<open>The names under which their locks and wait queues appear in the history.\<close>

fun eng_key :: "eng \<Rightarrow> nat list" where
  "eng_key NoEngine = []"
| "eng_key (H2C d c) = [0, unat d, c]"
| "eng_key (C2H d c) = [1, unat d, c]"

fun xref_key :: "xref \<Rightarrow> nat list" where
  "xref_key (Tfer r i) = [unat r, i]"
| "xref_key (PerfXfer p) = [unat p]"

section \<open>Structures\<close>

record xdma_desc =
  d_control :: u32
  d_bytes :: u32
  d_src_lo :: u32
  d_src_hi :: u32
  d_dst_lo :: u32
  d_dst_hi :: u32
  d_next_lo :: u32
  d_next_hi :: u32

definition zero_desc :: xdma_desc where
  "zero_desc = \<lparr>d_control = 0, d_bytes = 0, d_src_lo = 0, d_src_hi = 0,
     d_dst_lo = 0, d_dst_hi = 0, d_next_lo = 0, d_next_hi = 0\<rparr>"

text \<open>A completion record of the streaming engine: its two words that are read.\<close>

record xdma_result =
  rs_status :: u32
  rs_length :: u32

record xdma_performance =
  p_version :: u32
  p_transfer_size :: u32
  p_stopped :: u32
  p_iterations :: u32
  p_clock_cycle_count :: u64
  p_data_cycle_count :: u64
  p_pending_count :: u64

text \<open>
  \<open>t_desc_virt\<close> is the index, in the descriptor ring of the engine \<open>t_ring\<close>, of the
  descriptor it points to. The C \<open>int\<close> counters, which the code never makes negative, are
  words as the unsigned fields they are compared with.
\<close>

record xdma_transfer =
  t_ring :: eng
  t_desc_virt :: int
  t_res_virt :: u64
  t_res_bus :: u64
  t_desc_bus :: u64
  t_desc_adjacent :: u32
  t_desc_num :: u32
  t_desc_index :: u32
  t_desc_cmpl :: u32
  t_desc_cmpl_th :: u32
  t_dir :: dma_dir
  t_state :: transfer_state
  t_flags :: u32
  t_cyclic :: bool
  t_last_in_request :: bool
  t_len :: u32
  t_sgt :: u64
  t_cb :: u64

definition zero_transfer :: xdma_transfer where
  "zero_transfer = \<lparr>t_ring = NoEngine, t_desc_virt = 0, t_res_virt = 0, t_res_bus = 0,
     t_desc_bus = 0, t_desc_adjacent = 0, t_desc_num = 0, t_desc_index = 0, t_desc_cmpl = 0,
     t_desc_cmpl_th = 0, t_dir = DMA_TO_DEVICE, t_state = TRANSFER_STATE_NEW, t_flags = 0,
     t_cyclic = False, t_last_in_request = False, t_len = 0, t_sgt = 0, t_cb = 0\<rparr>"

text \<open>The software descriptors \<open>sdesc[]\<close> are pairs (address, length).\<close>

record xdma_request_cb =
  r_sgt :: u64
  r_ep_addr :: u64
  r_aperture :: u32
  r_total_len :: u32
  r_offset :: u32
  r_sg :: nat
  r_sg_idx :: u32
  r_sg_offset :: u32
  r_cb :: u64
  r_sw_desc_idx :: u32
  r_sw_desc_cnt :: u32
  r_sdesc :: "(u64 \<times> u32) list"

definition zero_request :: xdma_request_cb where
  "zero_request = \<lparr>r_sgt = 0, r_ep_addr = 0, r_aperture = 0, r_total_len = 0, r_offset = 0,
     r_sg = 0, r_sg_idx = 0, r_sg_offset = 0, r_cb = 0, r_sw_desc_idx = 0, r_sw_desc_cnt = 0,
     r_sdesc = []\<rparr>"

text \<open>
  A scatter-gather table: its (page, length, offset) entries, and the (bus address, length)
  segments it has once it is mapped.
\<close>

record sg_table =
  g_ents :: "(u64 \<times> u32 \<times> u32) list"
  g_dma :: "(u64 \<times> u32) list"
  g_nents :: nat
  g_orig_nents :: nat

record xdma_io_cb =
  c_buf :: u64
  c_len :: u64
  c_private :: u64
  c_pages_nr :: u32
  c_sgt :: u64
  c_pages :: "u64 list"
  c_pages_ptr :: u64
  c_count :: u32
  c_ep_addr :: u64
  c_req :: u64
  c_write :: bool
  c_io_done :: bool

text \<open>Fields of one kind are kept together; the order is otherwise that of the source.\<close>

record xdma_engine =
  e_magic :: u64
  e_xdev :: u64
  e_name :: string
  e_version :: u32
  e_regs :: u64
  e_sgdma_regs :: u64
  e_bypass_offset :: u32
  e_shutdown :: u32
  e_dir :: dma_dir
  e_addr_align :: u8
  e_len_granularity :: u8
  e_addr_bits :: u8
  e_channel :: nat
  e_streaming :: bool
  e_device_open :: bool
  e_running :: bool
  e_non_incr_addr :: bool
  e_eop_flush :: bool
  e_desc_dequeued :: u32
  e_desc_max :: u32
  e_status :: u32
  e_int_mask_value :: u32
  e_transfer_list :: "xref list"
  e_cyclic_result :: u64
  e_cyclic_result_bus :: u64
  e_perf_buf_virt :: u64
  e_perf_buf_bus :: u64
  e_poll_mode_addr_virt :: u64
  e_poll_mode_bus :: u64
  e_msix_irq_line :: u32
  e_irq_bitmask :: u32
  e_desc_bus :: u64
  e_desc :: u64
  e_desc_idx :: u32
  e_desc_used :: u32
  e_ring :: "int \<Rightarrow> xdma_desc"
  e_xdma_perf :: "xdma_performance option"
  e_cmplthp :: "nat option"
  e_intr_work_cpu :: u32

record xdma_user_irq =
  u_user_idx :: u8
  u_events_irq :: u8
  u_handler :: u64
  u_dev :: u64

record xdma_dev =
  x_magic :: u64
  x_pdev :: u64
  x_idx :: int
  x_flags :: u32
  x_bar :: "nat \<Rightarrow> u64"
  x_user_bar_idx :: int
  x_config_bar_idx :: int
  x_bypass_bar_idx :: int
  x_regions_in_use :: bool
  x_got_regions :: bool
  x_user_max :: nat
  x_c2h_channel_max :: nat
  x_h2c_channel_max :: nat
  x_irq_count :: nat
  x_irq_line :: int
  x_msi_enabled :: bool
  x_msix_enabled :: bool
  x_user_irq :: "nat \<Rightarrow> xdma_user_irq"
  x_mask_irq_user :: u32
  x_engines_num :: nat
  x_mask_irq_h2c :: u32
  x_mask_irq_c2h :: u32

text \<open>The module parameters of the two source files that declare any.\<close>

record params =
  poll_mode :: bool
  interrupt_mode :: u32
  enable_st_c2h_credit :: bool
  desc_blen_max :: u32
  h2c_timeout :: u32
  c2h_timeout :: u32

text \<open>
  The memory of the driver: the structures by their address, the list of devices, and the
  history of the world.
\<close>

record xworld = kworld +
  prm :: params
  engs :: "eng \<Rightarrow> xdma_engine"
  xfers :: "xref \<Rightarrow> xdma_transfer"
  reqs :: "u64 \<Rightarrow> xdma_request_cb"
  cbs :: "u64 \<Rightarrow> xdma_io_cb"
  sgts :: "u64 \<Rightarrow> sg_table"
  xdevs :: "u64 \<Rightarrow> xdma_dev"
  xdev_list :: "u64 list"

section \<open>Access to the structures\<close>

definition upd_eng :: "eng \<Rightarrow> (xdma_engine \<Rightarrow> xdma_engine) \<Rightarrow> ('a xworld_scheme, unit) state" where
  "upd_eng e f = modify_st (\<lambda>s. s\<lparr>engs := (engs s)(e := f (engs s e))\<rparr>)"

definition upd_xfer :: "xref \<Rightarrow> (xdma_transfer \<Rightarrow> xdma_transfer) \<Rightarrow> ('a xworld_scheme, unit) state" where
  "upd_xfer x f = modify_st (\<lambda>s. s\<lparr>xfers := (xfers s)(x := f (xfers s x))\<rparr>)"

definition upd_req :: "u64 \<Rightarrow> (xdma_request_cb \<Rightarrow> xdma_request_cb) \<Rightarrow> ('a xworld_scheme, unit) state" where
  "upd_req r f = modify_st (\<lambda>s. s\<lparr>reqs := (reqs s)(r := f (reqs s r))\<rparr>)"

definition upd_cb :: "u64 \<Rightarrow> (xdma_io_cb \<Rightarrow> xdma_io_cb) \<Rightarrow> ('a xworld_scheme, unit) state" where
  "upd_cb c f = modify_st (\<lambda>s. s\<lparr>cbs := (cbs s)(c := f (cbs s c))\<rparr>)"

definition upd_sgt :: "u64 \<Rightarrow> (sg_table \<Rightarrow> sg_table) \<Rightarrow> ('a xworld_scheme, unit) state" where
  "upd_sgt g f = modify_st (\<lambda>s. s\<lparr>sgts := (sgts s)(g := f (sgts s g))\<rparr>)"

definition upd_xdev :: "u64 \<Rightarrow> (xdma_dev \<Rightarrow> xdma_dev) \<Rightarrow> ('a xworld_scheme, unit) state" where
  "upd_xdev d f = modify_st (\<lambda>s. s\<lparr>xdevs := (xdevs s)(d := f (xdevs s d))\<rparr>)"

definition upd_desc :: "eng \<Rightarrow> int \<Rightarrow> (xdma_desc \<Rightarrow> xdma_desc) \<Rightarrow> ('a xworld_scheme, unit) state" where
  "upd_desc e i f = upd_eng e (\<lambda>g. g\<lparr>e_ring := (e_ring g)(i := f (e_ring g i))\<rparr>)"

lemma run_upd [simp]:
  "run_state (upd_eng e f) s = ((), s\<lparr>engs := (engs s)(e := f (engs s e))\<rparr>)"
  "run_state (upd_xfer x g) s = ((), s\<lparr>xfers := (xfers s)(x := g (xfers s x))\<rparr>)"
  "run_state (upd_req r k) s = ((), s\<lparr>reqs := (reqs s)(r := k (reqs s r))\<rparr>)"
  "run_state (upd_cb c l) s = ((), s\<lparr>cbs := (cbs s)(c := l (cbs s c))\<rparr>)"
  "run_state (upd_sgt t m) s = ((), s\<lparr>sgts := (sgts s)(t := m (sgts s t))\<rparr>)"
  "run_state (upd_xdev d n) s = ((), s\<lparr>xdevs := (xdevs s)(d := n (xdevs s d))\<rparr>)"
  by (simp_all add: upd_eng_def upd_xfer_def upd_req_def upd_cb_def upd_sgt_def upd_xdev_def)

lemma run_upd_desc [simp]:
  "run_state (upd_desc e i f) s =
     ((), s\<lparr>engs := (engs s)(e := (engs s e)\<lparr>e_ring := (e_ring (engs s e))(i := f (e_ring (engs s e) i))\<rparr>)\<rparr>)"
  by (simp add: upd_desc_def)

text \<open>Updates of different fields, put in the order of the record.\<close>

lemma xworld_order [simp]:
  "tr_update a0 (engs_update a1 s) = engs_update a1 (tr_update a0 s)"
  "tr_update a0 (xfers_update a2 s) = xfers_update a2 (tr_update a0 s)"
  "tr_update a0 (reqs_update a3 s) = reqs_update a3 (tr_update a0 s)"
  "tr_update a0 (cbs_update a4 s) = cbs_update a4 (tr_update a0 s)"
  "tr_update a0 (sgts_update a5 s) = sgts_update a5 (tr_update a0 s)"
  "tr_update a0 (xdevs_update a6 s) = xdevs_update a6 (tr_update a0 s)"
  "tr_update a0 (xdev_list_update a7 s) = xdev_list_update a7 (tr_update a0 s)"
  "engs_update a1 (xfers_update a2 s) = xfers_update a2 (engs_update a1 s)"
  "engs_update a1 (reqs_update a3 s) = reqs_update a3 (engs_update a1 s)"
  "engs_update a1 (cbs_update a4 s) = cbs_update a4 (engs_update a1 s)"
  "engs_update a1 (sgts_update a5 s) = sgts_update a5 (engs_update a1 s)"
  "engs_update a1 (xdevs_update a6 s) = xdevs_update a6 (engs_update a1 s)"
  "engs_update a1 (xdev_list_update a7 s) = xdev_list_update a7 (engs_update a1 s)"
  "xfers_update a2 (reqs_update a3 s) = reqs_update a3 (xfers_update a2 s)"
  "xfers_update a2 (cbs_update a4 s) = cbs_update a4 (xfers_update a2 s)"
  "xfers_update a2 (sgts_update a5 s) = sgts_update a5 (xfers_update a2 s)"
  "xfers_update a2 (xdevs_update a6 s) = xdevs_update a6 (xfers_update a2 s)"
  "xfers_update a2 (xdev_list_update a7 s) = xdev_list_update a7 (xfers_update a2 s)"
  "reqs_update a3 (cbs_update a4 s) = cbs_update a4 (reqs_update a3 s)"
  "reqs_update a3 (sgts_update a5 s) = sgts_update a5 (reqs_update a3 s)"
  "reqs_update a3 (xdevs_update a6 s) = xdevs_update a6 (reqs_update a3 s)"
  "reqs_update a3 (xdev_list_update a7 s) = xdev_list_update a7 (reqs_update a3 s)"
  "cbs_update a4 (sgts_update a5 s) = sgts_update a5 (cbs_update a4 s)"
  "cbs_update a4 (xdevs_update a6 s) = xdevs_update a6 (cbs_update a4 s)"
  "cbs_update a4 (xdev_list_update a7 s) = xdev_list_update a7 (cbs_update a4 s)"
  "sgts_update a5 (xdevs_update a6 s) = xdevs_update a6 (sgts_update a5 s)"
  "sgts_update a5 (xdev_list_update a7 s) = xdev_list_update a7 (sgts_update a5 s)"
  "xdevs_update a6 (xdev_list_update a7 s) = xdev_list_update a7 (xdevs_update a6 s)"
  by simp_all

lemma engine_order [simp]:
  "e_shutdown_update a0 (e_running_update a1 g) = e_running_update a1 (e_shutdown_update a0 g)"
  "e_shutdown_update a0 (e_desc_dequeued_update a2 g) = e_desc_dequeued_update a2 (e_shutdown_update a0 g)"
  "e_shutdown_update a0 (e_status_update a3 g) = e_status_update a3 (e_shutdown_update a0 g)"
  "e_shutdown_update a0 (e_transfer_list_update a4 g) = e_transfer_list_update a4 (e_shutdown_update a0 g)"
  "e_shutdown_update a0 (e_desc_idx_update a5 g) = e_desc_idx_update a5 (e_shutdown_update a0 g)"
  "e_shutdown_update a0 (e_desc_used_update a6 g) = e_desc_used_update a6 (e_shutdown_update a0 g)"
  "e_shutdown_update a0 (e_ring_update a7 g) = e_ring_update a7 (e_shutdown_update a0 g)"
  "e_shutdown_update a0 (e_xdma_perf_update a8 g) = e_xdma_perf_update a8 (e_shutdown_update a0 g)"
  "e_running_update a1 (e_desc_dequeued_update a2 g) = e_desc_dequeued_update a2 (e_running_update a1 g)"
  "e_running_update a1 (e_status_update a3 g) = e_status_update a3 (e_running_update a1 g)"
  "e_running_update a1 (e_transfer_list_update a4 g) = e_transfer_list_update a4 (e_running_update a1 g)"
  "e_running_update a1 (e_desc_idx_update a5 g) = e_desc_idx_update a5 (e_running_update a1 g)"
  "e_running_update a1 (e_desc_used_update a6 g) = e_desc_used_update a6 (e_running_update a1 g)"
  "e_running_update a1 (e_ring_update a7 g) = e_ring_update a7 (e_running_update a1 g)"
  "e_running_update a1 (e_xdma_perf_update a8 g) = e_xdma_perf_update a8 (e_running_update a1 g)"
  "e_desc_dequeued_update a2 (e_status_update a3 g) = e_status_update a3 (e_desc_dequeued_update a2 g)"
  "e_desc_dequeued_update a2 (e_transfer_list_update a4 g) = e_transfer_list_update a4 (e_desc_dequeued_update a2 g)"
  "e_desc_dequeued_update a2 (e_desc_idx_update a5 g) = e_desc_idx_update a5 (e_desc_dequeued_update a2 g)"
  "e_desc_dequeued_update a2 (e_desc_used_update a6 g) = e_desc_used_update a6 (e_desc_dequeued_update a2 g)"
  "e_desc_dequeued_update a2 (e_ring_update a7 g) = e_ring_update a7 (e_desc_dequeued_update a2 g)"
  "e_desc_dequeued_update a2 (e_xdma_perf_update a8 g) = e_xdma_perf_update a8 (e_desc_dequeued_update a2 g)"
  "e_status_update a3 (e_transfer_list_update a4 g) = e_transfer_list_update a4 (e_status_update a3 g)"
  "e_status_update a3 (e_desc_idx_update a5 g) = e_desc_idx_update a5 (e_status_update a3 g)"
  "e_status_update a3 (e_desc_used_update a6 g) = e_desc_used_update a6 (e_status_update a3 g)"
  "e_status_update a3 (e_ring_update a7 g) = e_ring_update a7 (e_status_update a3 g)"
  "e_status_update a3 (e_xdma_perf_update a8 g) = e_xdma_perf_update a8 (e_status_update a3 g)"
  "e_transfer_list_update a4 (e_desc_idx_update a5 g) = e_desc_idx_update a5 (e_transfer_list_update a4 g)"
  "e_transfer_list_update a4 (e_desc_used_update a6 g) = e_desc_used_update a6 (e_transfer_list_update a4 g)"
  "e_transfer_list_update a4 (e_ring_update a7 g) = e_ring_update a7 (e_transfer_list_update a4 g)"
  "e_transfer_list_update a4 (e_xdma_perf_update a8 g) = e_xdma_perf_update a8 (e_transfer_list_update a4 g)"
  "e_desc_idx_update a5 (e_desc_used_update a6 g) = e_desc_used_update a6 (e_desc_idx_update a5 g)"
  "e_desc_idx_update a5 (e_ring_update a7 g) = e_ring_update a7 (e_desc_idx_update a5 g)"
  "e_desc_idx_update a5 (e_xdma_perf_update a8 g) = e_xdma_perf_update a8 (e_desc_idx_update a5 g)"
  "e_desc_used_update a6 (e_ring_update a7 g) = e_ring_update a7 (e_desc_used_update a6 g)"
  "e_desc_used_update a6 (e_xdma_perf_update a8 g) = e_xdma_perf_update a8 (e_desc_used_update a6 g)"
  "e_ring_update a7 (e_xdma_perf_update a8 g) = e_xdma_perf_update a8 (e_ring_update a7 g)"
  by simp_all

lemma transfer_order [simp]:
  "t_desc_num_update a0 (t_desc_cmpl_update a1 g) = t_desc_cmpl_update a1 (t_desc_num_update a0 g)"
  "t_desc_num_update a0 (t_desc_cmpl_th_update a2 g) = t_desc_cmpl_th_update a2 (t_desc_num_update a0 g)"
  "t_desc_num_update a0 (t_state_update a3 g) = t_state_update a3 (t_desc_num_update a0 g)"
  "t_desc_num_update a0 (t_flags_update a4 g) = t_flags_update a4 (t_desc_num_update a0 g)"
  "t_desc_num_update a0 (t_last_in_request_update a5 g) = t_last_in_request_update a5 (t_desc_num_update a0 g)"
  "t_desc_num_update a0 (t_len_update a6 g) = t_len_update a6 (t_desc_num_update a0 g)"
  "t_desc_num_update a0 (t_sgt_update a7 g) = t_sgt_update a7 (t_desc_num_update a0 g)"
  "t_desc_num_update a0 (t_cb_update a8 g) = t_cb_update a8 (t_desc_num_update a0 g)"
  "t_desc_cmpl_update a1 (t_desc_cmpl_th_update a2 g) = t_desc_cmpl_th_update a2 (t_desc_cmpl_update a1 g)"
  "t_desc_cmpl_update a1 (t_state_update a3 g) = t_state_update a3 (t_desc_cmpl_update a1 g)"
  "t_desc_cmpl_update a1 (t_flags_update a4 g) = t_flags_update a4 (t_desc_cmpl_update a1 g)"
  "t_desc_cmpl_update a1 (t_last_in_request_update a5 g) = t_last_in_request_update a5 (t_desc_cmpl_update a1 g)"
  "t_desc_cmpl_update a1 (t_len_update a6 g) = t_len_update a6 (t_desc_cmpl_update a1 g)"
  "t_desc_cmpl_update a1 (t_sgt_update a7 g) = t_sgt_update a7 (t_desc_cmpl_update a1 g)"
  "t_desc_cmpl_update a1 (t_cb_update a8 g) = t_cb_update a8 (t_desc_cmpl_update a1 g)"
  "t_desc_cmpl_th_update a2 (t_state_update a3 g) = t_state_update a3 (t_desc_cmpl_th_update a2 g)"
  "t_desc_cmpl_th_update a2 (t_flags_update a4 g) = t_flags_update a4 (t_desc_cmpl_th_update a2 g)"
  "t_desc_cmpl_th_update a2 (t_last_in_request_update a5 g) = t_last_in_request_update a5 (t_desc_cmpl_th_update a2 g)"
  "t_desc_cmpl_th_update a2 (t_len_update a6 g) = t_len_update a6 (t_desc_cmpl_th_update a2 g)"
  "t_desc_cmpl_th_update a2 (t_sgt_update a7 g) = t_sgt_update a7 (t_desc_cmpl_th_update a2 g)"
  "t_desc_cmpl_th_update a2 (t_cb_update a8 g) = t_cb_update a8 (t_desc_cmpl_th_update a2 g)"
  "t_state_update a3 (t_flags_update a4 g) = t_flags_update a4 (t_state_update a3 g)"
  "t_state_update a3 (t_last_in_request_update a5 g) = t_last_in_request_update a5 (t_state_update a3 g)"
  "t_state_update a3 (t_len_update a6 g) = t_len_update a6 (t_state_update a3 g)"
  "t_state_update a3 (t_sgt_update a7 g) = t_sgt_update a7 (t_state_update a3 g)"
  "t_state_update a3 (t_cb_update a8 g) = t_cb_update a8 (t_state_update a3 g)"
  "t_flags_update a4 (t_last_in_request_update a5 g) = t_last_in_request_update a5 (t_flags_update a4 g)"
  "t_flags_update a4 (t_len_update a6 g) = t_len_update a6 (t_flags_update a4 g)"
  "t_flags_update a4 (t_sgt_update a7 g) = t_sgt_update a7 (t_flags_update a4 g)"
  "t_flags_update a4 (t_cb_update a8 g) = t_cb_update a8 (t_flags_update a4 g)"
  "t_last_in_request_update a5 (t_len_update a6 g) = t_len_update a6 (t_last_in_request_update a5 g)"
  "t_last_in_request_update a5 (t_sgt_update a7 g) = t_sgt_update a7 (t_last_in_request_update a5 g)"
  "t_last_in_request_update a5 (t_cb_update a8 g) = t_cb_update a8 (t_last_in_request_update a5 g)"
  "t_len_update a6 (t_sgt_update a7 g) = t_sgt_update a7 (t_len_update a6 g)"
  "t_len_update a6 (t_cb_update a8 g) = t_cb_update a8 (t_len_update a6 g)"
  "t_sgt_update a7 (t_cb_update a8 g) = t_cb_update a8 (t_sgt_update a7 g)"
  by simp_all

abbreviation (input) the_eng :: "eng \<Rightarrow> ('a xworld_scheme, xdma_engine) state" where
  "the_eng e \<equiv> gets_st (\<lambda>s. engs s e)"

abbreviation (input) the_xfer :: "xref \<Rightarrow> ('a xworld_scheme, xdma_transfer) state" where
  "the_xfer x \<equiv> gets_st (\<lambda>s. xfers s x)"

abbreviation (input) the_req :: "u64 \<Rightarrow> ('a xworld_scheme, xdma_request_cb) state" where
  "the_req r \<equiv> gets_st (\<lambda>s. reqs s r)"

abbreviation (input) the_cb :: "u64 \<Rightarrow> ('a xworld_scheme, xdma_io_cb) state" where
  "the_cb c \<equiv> gets_st (\<lambda>s. cbs s c)"

abbreviation (input) the_sgt :: "u64 \<Rightarrow> ('a xworld_scheme, sg_table) state" where
  "the_sgt g \<equiv> gets_st (\<lambda>s. sgts s g)"

abbreviation (input) the_xdev :: "u64 \<Rightarrow> ('a xworld_scheme, xdma_dev) state" where
  "the_xdev d \<equiv> gets_st (\<lambda>s. xdevs s d)"

abbreviation (input) param :: "(params \<Rightarrow> 'b) \<Rightarrow> ('a xworld_scheme, 'b) state" where
  "param f \<equiv> gets_st (\<lambda>s. f (prm s))"

text \<open>Registers of an engine, and of the interrupt block of a device.\<close>

definition eng_reg :: "xdma_engine \<Rightarrow> engine_reg \<Rightarrow> u64" where
  "eng_reg g r = e_regs g + engine_reg_off r"

definition eng_sgdma :: "xdma_engine \<Rightarrow> sgdma_reg \<Rightarrow> u64" where
  "eng_sgdma g r = e_sgdma_regs g + sgdma_reg_off r"

definition irq_reg :: "xdma_dev \<Rightarrow> int_reg \<Rightarrow> u64" where
  "irq_reg x r = x_bar x (nat (x_config_bar_idx x)) + XDMA_OFS_INT_CTRL + int_reg_off r"

section \<open>Device flags\<close>

definition xdma_device_flag_check :: "u64 \<Rightarrow> u32 \<Rightarrow> ('a xworld_scheme, bool) state" where
  "xdma_device_flag_check d f = do {
     _ \<leftarrow> lock_acquire LkDev [unat d];
     x \<leftarrow> the_xdev d;
     if x_flags x AND f \<noteq> 0 then do { _ \<leftarrow> lock_release LkDev [unat d]; ret True }
     else do { _ \<leftarrow> lock_release LkDev [unat d]; ret False } }"

text \<open>The spin lock is released a second time when the flag was set: \<open>flag_test_n_set\<close>.\<close>

definition xdma_device_flag_test_n_set :: "u64 \<Rightarrow> u32 \<Rightarrow> ('a xworld_scheme, bool) state" where
  "xdma_device_flag_test_n_set d f = do {
     _ \<leftarrow> lock_acquire LkDev [unat d];
     x \<leftarrow> the_xdev d;
     rv \<leftarrow> (if x_flags x AND f \<noteq> 0
            then do { _ \<leftarrow> lock_release LkDev [unat d]; ret True }
            else do { _ \<leftarrow> upd_xdev d (\<lambda>x. x\<lparr>x_flags := x_flags x OR f\<rparr>); ret False });
     _ \<leftarrow> lock_release LkDev [unat d];
     ret rv }"

definition xdma_device_flag_set :: "u64 \<Rightarrow> u32 \<Rightarrow> ('a xworld_scheme, unit) state" where
  "xdma_device_flag_set d f = do {
     _ \<leftarrow> lock_acquire LkDev [unat d];
     _ \<leftarrow> upd_xdev d (\<lambda>x. x\<lparr>x_flags := x_flags x OR f\<rparr>);
     lock_release LkDev [unat d] }"

definition xdma_device_flag_clear :: "u64 \<Rightarrow> u32 \<Rightarrow> ('a xworld_scheme, unit) state" where
  "xdma_device_flag_clear d f = do {
     _ \<leftarrow> lock_acquire LkDev [unat d];
     _ \<leftarrow> upd_xdev d (\<lambda>x. x\<lparr>x_flags := x_flags x AND NOT f\<rparr>);
     lock_release LkDev [unat d] }"

end
