(* ===== verification/Samples.thy ===== *)
theory Samples
  imports XdmaTypes
begin

text \<open>
  A concrete environment and a concrete state, on which the theorems with hypotheses are
  instantiated: a kernel whose allocations and status calls succeed, a device whose
  registers read as zero, and one device with one host-to-card engine.
\<close>

definition sample_env :: env where
  "sample_env = \<lparr>mmio_rd = (\<lambda>_ _. 0),
     kres = (\<lambda>_ f _. if f \<in> {K_kzalloc, K_vmalloc, K_dma_alloc_coherent} then 0x4000 else 0),
     umem = (\<lambda>_ a. ucast a), ufault = (\<lambda>_ _ _. 0), dma_mem = (\<lambda>_ _. 0),
     dma_map = (\<lambda>_ es. map (\<lambda>(p, l, off). (p + ucast off, l)) es),
     dma_bus = (\<lambda>_ a. a), pinned = (\<lambda>_ a n. map (\<lambda>i. a + 0x1000 * of_nat i) [0..<n]),
     works = (\<lambda>_. 0)\<rparr>"

definition sample_params :: params where
  "sample_params = \<lparr>poll_mode = False, interrupt_mode = 0, enable_st_c2h_credit = False,
     desc_blen_max = 4, h2c_timeout = 10, c2h_timeout = 10\<rparr>"

definition sample_engine :: xdma_engine where
  "sample_engine = \<lparr>e_magic = MAGIC_ENGINE, e_xdev = 0x100, e_name = ''0-H2C0-MM'', e_version = 0,
     e_regs = 0x10000, e_sgdma_regs = 0x14000, e_bypass_offset = 0,
     e_shutdown = ENGINE_SHUTDOWN_NONE, e_dir = DMA_TO_DEVICE, e_addr_align = 1,
     e_len_granularity = 1, e_addr_bits = 64, e_channel = 0, e_streaming = False,
     e_device_open = False, e_running = False, e_non_incr_addr = False, e_eop_flush = False,
     e_desc_dequeued = 0, e_desc_max = 8, e_status = 0, e_int_mask_value = 0,
     e_transfer_list = [], e_cyclic_result = 0, e_cyclic_result_bus = 0, e_perf_buf_virt = 0,
     e_perf_buf_bus = 0, e_poll_mode_addr_virt = 0, e_poll_mode_bus = 0, e_msix_irq_line = 0,
     e_irq_bitmask = 1, e_desc_bus = 0x20000, e_desc = 0x20000, e_desc_idx = 0, e_desc_used = 0,
     e_ring = (\<lambda>_. zero_desc), e_xdma_perf = None, e_cmplthp = None, e_intr_work_cpu = 0\<rparr>"

definition sample_xdev :: xdma_dev where
  "sample_xdev = \<lparr>x_magic = MAGIC_DEVICE, x_pdev = 0x200, x_idx = 0, x_flags = 0,
     x_bar = (\<lambda>_. 0x10000), x_user_bar_idx = -1, x_config_bar_idx = 0, x_bypass_bar_idx = -1,
     x_regions_in_use = False, x_got_regions = True, x_user_max = 16, x_c2h_channel_max = 1,
     x_h2c_channel_max = 1, x_irq_count = 0, x_irq_line = -1, x_msi_enabled = False,
     x_msix_enabled = True, x_user_irq = (\<lambda>i. \<lparr>u_user_idx = of_nat i, u_events_irq = 0,
       u_handler = 0, u_dev = 0\<rparr>), x_mask_irq_user = 0, x_engines_num = 1,
     x_mask_irq_h2c = 1, x_mask_irq_c2h = 0\<rparr>"

text \<open>Table 7 is one mapped segment of ten bytes.\<close>

definition sample_sgt :: sg_table where
  "sample_sgt = \<lparr>g_ents = [(0x1000, 10, 0)], g_dma = [(0x1000, 10)], g_nents = 1, g_orig_nents = 1\<rparr>"

definition sample_cb :: xdma_io_cb where
  "sample_cb = \<lparr>c_buf = 0, c_len = 0, c_private = 0, c_pages_nr = 0, c_sgt = 7, c_pages = [],
     c_pages_ptr = 0, c_count = 0, c_ep_addr = 0, c_req = 0, c_write = True, c_io_done = False\<rparr>"

definition sample_world :: xworld where
  "sample_world = \<lparr>tr = [], prm = sample_params, engs = (\<lambda>_. sample_engine),
     xfers = (\<lambda>_. zero_transfer), reqs = (\<lambda>_. zero_request), cbs = (\<lambda>_. sample_cb),
     sgts = (\<lambda>_. sample_sgt), xdevs = (\<lambda>_. sample_xdev), xdev_list = [0x100]\<rparr>"

lemmas sample_defs =
  sample_env_def sample_params_def sample_engine_def sample_xdev_def sample_sgt_def
  sample_cb_def sample_world_def zero_request_def zero_transfer_def zero_desc_def

lemma sample_world_sel [simp]:
  "tr sample_world = []" "prm sample_world = sample_params" "engs sample_world = (\<lambda>_. sample_engine)"
  "xfers sample_world = (\<lambda>_. zero_transfer)" "reqs sample_world = (\<lambda>_. zero_request)"
  "cbs sample_world = (\<lambda>_. sample_cb)" "sgts sample_world = (\<lambda>_. sample_sgt)"
  "xdevs sample_world = (\<lambda>_. sample_xdev)" "xdev_list sample_world = [0x100]"
  by (simp_all add: sample_world_def)

lemma sample_params_sel [simp]:
  "\<not> poll_mode sample_params" "desc_blen_max sample_params = 4"
  "\<not> enable_st_c2h_credit sample_params"
  by (simp_all add: sample_params_def)

lemma sample_sgt_sel [simp]:
  "g_ents sample_sgt = [(0x1000, 10, 0)]" "g_dma sample_sgt = [(0x1000, 10)]"
  "g_nents sample_sgt = 1" "g_orig_nents sample_sgt = 1"
  by (simp_all add: sample_sgt_def)

text \<open>A request of three software descriptors, for the first engine of the sample world.\<close>

definition sample_request :: xdma_request_cb where
  "sample_request = zero_request\<lparr>r_sgt := 7, r_sw_desc_cnt := 3,
     r_sdesc := [(0x1000, 4), (0x1004, 4), (0x1008, 2)]\<rparr>"

definition sample_req_world :: xworld where
  "sample_req_world = sample_world\<lparr>reqs := (\<lambda>_. sample_request)\<rparr>"

lemma sample_req_world_sel [simp]:
  "engs sample_req_world = (\<lambda>_. sample_engine)" "reqs sample_req_world = (\<lambda>_. sample_request)"
  "prm sample_req_world = sample_params" "tr sample_req_world = []"
  "xfers sample_req_world = (\<lambda>_. zero_transfer)"
  by (simp_all add: sample_req_world_def)

lemma sample_engine_sel [simp]:
  "e_magic sample_engine = MAGIC_ENGINE" "e_dir sample_engine = DMA_TO_DEVICE"
  "e_desc_max sample_engine = 8" "e_desc_idx sample_engine = 0" "e_desc_bus sample_engine = 0x20000"
  "e_desc_used sample_engine = 0" "\<not> e_streaming sample_engine" "\<not> e_eop_flush sample_engine"
  "\<not> e_running sample_engine" "e_transfer_list sample_engine = []" "e_xdev sample_engine = 0x100"
  "\<not> e_non_incr_addr sample_engine" "e_shutdown sample_engine = ENGINE_SHUTDOWN_NONE"
  "e_xdma_perf sample_engine = None" "e_regs sample_engine = 0x10000"
  "e_sgdma_regs sample_engine = 0x14000" "e_status sample_engine = 0"
  "e_desc_dequeued sample_engine = 0" "e_cmplthp sample_engine = None"
  by (simp_all add: sample_engine_def)

lemma sample_request_sel [simp]:
  "r_sw_desc_idx sample_request = 0" "r_sw_desc_cnt sample_request = 3" "r_ep_addr sample_request = 0"
  "r_sdesc sample_request = [(0x1000, 4), (0x1004, 4), (0x1008, 2)]"
  by (simp_all add: sample_request_def zero_request_def)

end
