(* ===== verification/Desc.thy ===== *)
theory Desc
  imports XdmaTypes
begin

text \<open>
  Hardware descriptors (\<open>libxdma.c\<close>): the linked list a transfer hands to the engine, the
  fields of one descriptor, the count of adjacent descriptors, and the view the engine has
  of the result: it follows bus addresses from the first descriptor until a null one.
\<close>

section \<open>Register and descriptor words\<close>

definition build_u32 :: "u32 \<Rightarrow> u32 \<Rightarrow> u32" where
  "build_u32 hi lo = push_bit 16 (hi AND 0xFFFF) OR (lo AND 0xFFFF)"

definition build_u64 :: "u64 \<Rightarrow> u64 \<Rightarrow> u64" where
  "build_u64 hi lo = push_bit 32 (hi AND 0xFFFFFFF) OR (lo AND 0xFFFFFFFF)"

text \<open>The bus address that a pair of 32-bit registers or descriptor words denotes.\<close>

definition bus_of :: "u32 \<Rightarrow> u32 \<Rightarrow> u64" where
  "bus_of hi lo = push_bit 32 (ucast hi) OR ucast lo"

lemma PCI_DMA_L_eq: "PCI_DMA_L a = ucast a"
proof -
  have "a AND 0xffffffff = take_bit 32 a"
    by (simp add: take_bit_eq_mask mask_eq_exp_minus_1)
  then show ?thesis
    by (simp add: PCI_DMA_L_def) (rule bit_word_eqI, auto simp: bit_simps)
qed

lemma bus_of_halves [simp]: "bus_of (PCI_DMA_H a) (PCI_DMA_L a) = a"
  by (rule bit_word_eqI)
    (auto simp: bus_of_def PCI_DMA_H_def PCI_DMA_L_eq bit_simps not_le dest: bit_imp_le_length)

lemma bus_of_0 [simp]: "bus_of 0 0 = 0"
  by (simp add: bus_of_def)

section \<open>The linked list of descriptors\<close>

text \<open>
  The loop of \<open>transfer_desc_init\<close> over a ring \<open>r\<close>: \<open>n\<close> more descriptors after the one at
  index \<open>p\<close>, whose bus address is \<open>bus\<close>.
\<close>

fun desc_init_loop :: "nat \<Rightarrow> int \<Rightarrow> u64 \<Rightarrow> (int \<Rightarrow> xdma_desc) \<Rightarrow> (int \<Rightarrow> xdma_desc)" where
  "desc_init_loop 0 p bus r =
     r(p := (r p)\<lparr>d_next_lo := 0, d_next_hi := 0, d_bytes := 0, d_control := DESC_MAGIC\<rparr>)"
| "desc_init_loop (Suc n) p bus r =
     (let bus = bus + 32 in
      desc_init_loop n (p + 1) bus
        (r(p := (r p)\<lparr>d_next_lo := PCI_DMA_L bus, d_next_hi := PCI_DMA_H bus,
                       d_bytes := 0, d_control := DESC_MAGIC\<rparr>)))"

definition transfer_desc_init :: "xref \<Rightarrow> u32 \<Rightarrow> ('a xworld_scheme, int) state" where
  "transfer_desc_init x count = do {
     t \<leftarrow> the_xfer x;
     _ \<leftarrow> upd_eng (t_ring t) (\<lambda>g. g\<lparr>e_ring :=
            desc_init_loop (nat (sint count - 1)) (t_desc_virt t) (t_desc_bus t) (e_ring g)\<rparr>);
     ret 0 }"

text \<open>
  \<open>xdma_desc_link\<close> takes the first descriptor, whether there is a second one, and the bus
  address of the second.
\<close>

definition xdma_desc_link :: "xdma_desc \<Rightarrow> bool \<Rightarrow> u64 \<Rightarrow> xdma_desc" where
  "xdma_desc_link d second second_bus =
     (let control = d_control d AND 0x00FFC0ff;
          d = (if second
               then d\<lparr>d_next_lo := PCI_DMA_L second_bus, d_next_hi := PCI_DMA_H second_bus\<rparr>
               else d\<lparr>d_next_lo := 0, d_next_hi := 0\<rparr>);
          control = control OR DESC_MAGIC
      in d\<lparr>d_control := control\<rparr>)"

definition xdma_desc_adjacent :: "xdma_desc \<Rightarrow> u32 \<Rightarrow> xdma_desc" where
  "xdma_desc_adjacent d next_adjacent =
     (let control = d_control d AND 0x0000f0ff;
          control = control OR (0xAD4B0000 OR push_bit 8 next_adjacent)
      in d\<lparr>d_control := control\<rparr>)"

text \<open>\<open>Inl\<close> is the error return, which leaves the descriptor as it was.\<close>

definition xdma_desc_control_set :: "xdma_desc \<Rightarrow> u32 \<Rightarrow> int + xdma_desc" where
  "xdma_desc_control_set d control_field =
     (let control = d_control d AND NOT LS_BYTE_MASK in
      if control_field AND NOT LS_BYTE_MASK \<noteq> 0 then Inl (- EINVAL)
      else (let control = control OR control_field in Inr (d\<lparr>d_control := control\<rparr>)))"

definition desc_control_set :: "xdma_desc \<Rightarrow> u32 \<Rightarrow> xdma_desc" where
  "desc_control_set d c = (case xdma_desc_control_set d c of Inl _ \<Rightarrow> d | Inr d' \<Rightarrow> d')"

definition xdma_desc_done :: "eng \<Rightarrow> int \<Rightarrow> nat \<Rightarrow> ('a xworld_scheme, unit) state" where
  "xdma_desc_done e p count = for_each [0..<count] (\<lambda>i. upd_desc e (p + int i) (\<lambda>_. zero_desc))"

definition xdma_desc_set :: "xdma_desc \<Rightarrow> u64 \<Rightarrow> u64 \<Rightarrow> u32 \<Rightarrow> dma_dir \<Rightarrow> xdma_desc" where
  "xdma_desc_set d rc_bus_addr ep_addr len dir =
     (let d = d\<lparr>d_bytes := len\<rparr> in
      if dir = DMA_TO_DEVICE then
        d\<lparr>d_src_lo := PCI_DMA_L rc_bus_addr, d_src_hi := PCI_DMA_H rc_bus_addr,
          d_dst_lo := PCI_DMA_L ep_addr, d_dst_hi := PCI_DMA_H ep_addr\<rparr>
      else
        d\<lparr>d_src_lo := PCI_DMA_L ep_addr, d_src_hi := PCI_DMA_H ep_addr,
          d_dst_lo := PCI_DMA_L rc_bus_addr, d_dst_hi := PCI_DMA_H rc_bus_addr\<rparr>)"

definition xdma_get_next_adj :: "u32 \<Rightarrow> u32 \<Rightarrow> u32" where
  "xdma_get_next_adj remaining next_lo =
     (if remaining \<le> 1 then 0
      else (let next_index = drop_bit 5 (next_lo AND (XDMA_PAGE_SIZE - 1)) mod XDMA_MAX_ADJ_BLOCK_SIZE
            in min_u32 (XDMA_MAX_ADJ_BLOCK_SIZE - next_index - 1) (remaining - 1)))"

section \<open>The engine's view of a descriptor list\<close>

text \<open>Source, destination, length and next address as the hardware reads them.\<close>

definition d_src :: "xdma_desc \<Rightarrow> u64" where "d_src d = bus_of (d_src_hi d) (d_src_lo d)"
definition d_dst :: "xdma_desc \<Rightarrow> u64" where "d_dst d = bus_of (d_dst_hi d) (d_dst_lo d)"
definition d_next :: "xdma_desc \<Rightarrow> u64" where "d_next d = bus_of (d_next_hi d) (d_next_lo d)"

text \<open>
  The descriptors the engine processes from bus address \<open>a\<close>, at most \<open>fuel\<close> of them, when
  the ring \<open>r\<close> lies at bus address \<open>base\<close>.
\<close>

definition ring_at :: "u64 \<Rightarrow> (int \<Rightarrow> xdma_desc) \<Rightarrow> u64 \<Rightarrow> xdma_desc" where
  "ring_at base r a = r (uint (a - base) div 32)"

fun hw_walk :: "nat \<Rightarrow> u64 \<Rightarrow> (int \<Rightarrow> xdma_desc) \<Rightarrow> u64 \<Rightarrow> xdma_desc list" where
  "hw_walk 0 base r a = []"
| "hw_walk (Suc fuel) base r a =
     (if a = 0 then [] else ring_at base r a # hw_walk fuel base r (d_next (ring_at base r a)))"

text \<open>The bus address of the descriptor with index \<open>i\<close>.\<close>

definition desc_addr :: "u64 \<Rightarrow> int \<Rightarrow> u64" where
  "desc_addr base i = base + of_int (32 * i)"

text \<open>A ring at \<open>base\<close> of \<open>m\<close> descriptors fits below the end of the address space.\<close>

definition ring_fits :: "u64 \<Rightarrow> int \<Rightarrow> bool" where
  "ring_fits base m \<longleftrightarrow> 0 < uint base \<and> uint base + 32 * m \<le> 2 ^ 64"

definition chained :: "u64 \<Rightarrow> (int \<Rightarrow> xdma_desc) \<Rightarrow> int \<Rightarrow> nat \<Rightarrow> bool" where
  "chained base r p n \<longleftrightarrow>
     (\<forall>i<n. d_next (r (p + int i)) =
        (if Suc i = n then 0 else desc_addr base (p + int i + 1)))"

lemma uint_add_of_int:
  "0 \<le> k \<Longrightarrow> uint (a :: u64) + k < 2 ^ 64 \<Longrightarrow> uint (a + word_of_int k) = uint a + k"
  by (simp add: uint_word_ariths uint_word_of_int mod_add_right_eq)

lemma uint_desc_addr:
  assumes "ring_fits base m" "0 \<le> i" "i < m"
  shows "uint (desc_addr base i) = uint base + 32 * i"
  unfolding desc_addr_def using assms by (subst uint_add_of_int) (auto simp: ring_fits_def)

lemma desc_addr_nonzero:
  assumes "ring_fits base m" "0 \<le> i" "i < m"
  shows "desc_addr base i \<noteq> 0"
proof
  assume "desc_addr base i = 0"
  with uint_desc_addr [OF assms] assms show False
    by (simp add: ring_fits_def)
qed

lemma ring_at_desc_addr:
  assumes "ring_fits base m" "0 \<le> i" "i < m"
  shows "ring_at base r (desc_addr base i) = r i"
proof -
  have "uint (desc_addr base i - base) = 32 * i"
    using uint_add_of_int [of "32 * i" 0] assms by (simp add: desc_addr_def ring_fits_def)
  then show ?thesis
    by (simp add: ring_at_def)
qed

lemma hw_walk_chained:
  assumes "ring_fits base m" "0 \<le> p" "p + int n \<le> m" "0 < n" "n \<le> fuel" "chained base r p n"
  shows "hw_walk fuel base r (desc_addr base p) = map (\<lambda>i. r (p + int i)) [0..<n]"
  using assms
proof (induction n arbitrary: p fuel)
  case (Suc n)
  then obtain fuel' where fuel: "fuel = Suc fuel'" "n \<le> fuel'"
    by (metis Suc_le_D Suc_le_mono)
  have here: "ring_at base r (desc_addr base p) = r p" "desc_addr base p \<noteq> 0"
    using Suc.prems ring_at_desc_addr [of base m p r] desc_addr_nonzero [of base m p] by auto
  have nxt: "d_next (r p) = (if n = 0 then 0 else desc_addr base (p + 1))"
    using Suc.prems(6) by (auto simp: chained_def)
  show ?case
  proof (cases "n = 0")
    case True
    with fuel here nxt show ?thesis
      by (cases fuel') auto
  next
    case False
    have "chained base r (p + 1) n"
      unfolding chained_def
    proof (intro allI impI)
      fix i assume "i < n"
      then show "d_next (r (p + 1 + int i)) = (if Suc i = n then 0 else desc_addr base (p + 1 + int i + 1))"
        using Suc.prems(6) [unfolded chained_def, rule_format, of "Suc i"] by (simp add: ac_simps)
    qed
    then have "hw_walk fuel' base r (desc_addr base (p + 1)) = map (\<lambda>i. r (p + 1 + int i)) [0..<n]"
      using Suc.IH [of "p + 1" fuel'] Suc.prems fuel False by simp
    with fuel here nxt False show ?thesis
      by (simp add: upt_conv_Cons map_Suc_upt [symmetric] comp_def ac_simps del: upt_Suc)
  qed
qed simp

section \<open>Lemmas on single descriptors\<close>

lemma desc_set_fields [simp]:
  "d_bytes (xdma_desc_set d rc ep len dir) = len"
  "d_next (xdma_desc_set d rc ep len dir) = d_next d"
  "d_control (xdma_desc_set d rc ep len dir) = d_control d"
  "d_src (xdma_desc_set d rc ep len dir) = (if dir = DMA_TO_DEVICE then rc else ep)"
  "d_dst (xdma_desc_set d rc ep len dir) = (if dir = DMA_TO_DEVICE then ep else rc)"
  by (auto simp: xdma_desc_set_def Let_def d_next_def d_src_def d_dst_def)

lemma desc_adjacent_fields [simp]:
  "d_bytes (xdma_desc_adjacent d n) = d_bytes d"
  "d_next (xdma_desc_adjacent d n) = d_next d"
  "d_src (xdma_desc_adjacent d n) = d_src d"
  "d_dst (xdma_desc_adjacent d n) = d_dst d"
  by (auto simp: xdma_desc_adjacent_def d_next_def d_src_def d_dst_def)

lemma desc_control_set_fields [simp]:
  "d_bytes (desc_control_set d c) = d_bytes d"
  "d_next (desc_control_set d c) = d_next d"
  "d_src (desc_control_set d c) = d_src d"
  "d_dst (desc_control_set d c) = d_dst d"
  by (auto simp: desc_control_set_def xdma_desc_control_set_def d_next_def d_src_def d_dst_def Let_def)

lemma desc_init_loop_same:
  "j < p \<or> p + int n < j \<Longrightarrow> desc_init_loop n p bus r j = r j"
  by (induction n arbitrary: p bus r) (auto simp: Let_def)

lemma desc_init_loop_next:
  "i \<le> n \<Longrightarrow> d_next (desc_init_loop n p bus r (p + int i)) =
     (if i = n then 0 else bus + of_int (32 * (int i + 1)))"
proof (induction n arbitrary: p bus r i)
  case (Suc n)
  show ?case
  proof (cases i)
    case 0
    then show ?thesis by (simp add: Let_def desc_init_loop_same d_next_def)
  next
    case (Suc k)
    then show ?thesis
      using Suc.IH [of k "p + 1" "bus + 32"] Suc.prems by (simp add: Let_def ac_simps)
  qed
qed (simp add: d_next_def)

lemma desc_init_loop_fields:
  "i \<le> n \<Longrightarrow> d_control (desc_init_loop n p bus r (p + int i)) = DESC_MAGIC \<and>
     d_bytes (desc_init_loop n p bus r (p + int i)) = 0"
proof (induction n arbitrary: p bus r i)
  case (Suc n)
  show ?case
  proof (cases i)
    case 0
    then show ?thesis by (simp add: Let_def desc_init_loop_same)
  next
    case (Suc k)
    then show ?thesis
      using Suc.IH [of k "p + 1" "bus + 32"] Suc.prems by (simp add: Let_def ac_simps)
  qed
qed simp

lemma desc_init_chained:
  assumes "0 < n"
  shows "chained base (desc_init_loop (n - 1) p (desc_addr base p) r) p n"
  unfolding chained_def
proof (intro allI impI)
  fix i assume "i < n"
  with assms show "d_next (desc_init_loop (n - 1) p (desc_addr base p) r (p + int i)) =
      (if Suc i = n then 0 else desc_addr base (p + int i + 1))"
    by (subst desc_init_loop_next) (auto simp: desc_addr_def algebra_simps)
qed

lemma chained_cong:
  "(\<And>i. i < n \<Longrightarrow> d_next (r (p + int i)) = d_next (r' (p + int i))) \<Longrightarrow>
   chained base r p n = chained base r' p n"
  by (simp add: chained_def)

text \<open>The adjacent count is in bits 8 to 13 of the control word.\<close>

definition adj_field :: "xdma_desc \<Rightarrow> u32" where
  "adj_field d = drop_bit 8 (d_control d) AND 0x3F"

lemma block_left: "unat (0x40 - x mod 0x40 - 1 :: u32) = 63 - unat (x mod 0x40)"
proof -
  have "unat (x mod 0x40) < 64"
    by (simp add: unat_mod)
  then show ?thesis
    by (simp add: unat_sub word_le_nat_alt)
qed

lemma unat_next_adj:
  "unat (xdma_get_next_adj remaining next_lo) =
     (if remaining \<le> 1 then 0
      else min (63 - unat next_lo div 32 mod 64) (unat remaining - 1))"
proof -
  have page: "next_lo AND (XDMA_PAGE_SIZE - 1) = take_bit 12 next_lo"
    by (simp add: take_bit_eq_mask mask_eq_exp_minus_1)
  have "unat (drop_bit 5 (next_lo AND (XDMA_PAGE_SIZE - 1)) mod XDMA_MAX_ADJ_BLOCK_SIZE) =
      unat next_lo mod 4096 div 32 mod 64"
    unfolding page
    by (simp add: unat_mod_distrib unat_div_distrib take_bit_eq_mod drop_bit_eq_div)
  also have "\<dots> = unat next_lo div 32 mod 128 mod 64"
    using mod_mult2_eq [of "unat next_lo" 32 128] by simp
  also have "\<dots> = unat next_lo div 32 mod 64"
    by (rule mod_mod_cancel) simp
  finally show ?thesis
    unfolding xdma_get_next_adj_def Let_def
    by (simp only: unat_min_u32 block_left if_distrib [of unat])
      (auto simp: unat_sub word_le_nat_alt)
qed

lemma next_adj_bound:
  "unat (xdma_get_next_adj remaining next_lo) \<le> 63"
  "0 < unat remaining \<Longrightarrow> unat (xdma_get_next_adj remaining next_lo) < unat remaining"
  by (auto simp: unat_next_adj word_le_nat_alt)

end
