(* ===== verification/Request.thy ===== *)
theory Request
  imports Desc Samples
begin

text \<open>
  Requests and transfers (\<open>libxdma.c\<close>): a request is the list of software descriptors made
  from a mapped scatter-gather table, a transfer the part of it that is written into the
  descriptor ring of an engine.
\<close>

section \<open>Requests\<close>

text \<open>Whether an address lies in the vmalloc area is the kernel's answer.\<close>

definition xdma_request_free :: "env \<Rightarrow> u64 \<Rightarrow> ('a xworld_scheme, unit) state" where
  "xdma_request_free E req = do {
     v \<leftarrow> kcall E K_is_vmalloc [req];
     if v \<noteq> 0 then kproc K_vfree [req] else kproc K_kfree [req] }"

text \<open>
  The allocation is logged with the number of software descriptors it has room for; both
  branches give zeroed memory, the two embedded transfers included.
\<close>

definition clear_request :: "u64 \<Rightarrow> ('a xworld_scheme, unit) state" where
  "clear_request req = do {
     _ \<leftarrow> upd_req req (\<lambda>_. zero_request);
     _ \<leftarrow> upd_xfer (Tfer req 0) (\<lambda>_. zero_transfer);
     upd_xfer (Tfer req 1) (\<lambda>_. zero_transfer) }"

definition xdma_request_alloc :: "env \<Rightarrow> u32 \<Rightarrow> ('a xworld_scheme, u64) state" where
  "xdma_request_alloc E sdesc_nr = do {
     req \<leftarrow> kptr E K_kzalloc [ucast sdesc_nr];
     req \<leftarrow> (if req = 0 then kptr E K_vmalloc [ucast sdesc_nr] else ret req);
     _ \<leftarrow> when_st (req \<noteq> 0) (clear_request req);
     ret req }"

text \<open>The estimate of how many descriptors the long segments need beyond one each.\<close>

fun extra_descs :: "u32 \<Rightarrow> u32 list \<Rightarrow> u32" where
  "extra_descs blen [] = 0"
| "extra_descs blen (len # lens) =
     (if blen < len then (len + blen - 1) div blen else 0) + extra_descs blen lens"

text \<open>
  The inner loop: one mapped segment as descriptors of at most \<open>blen\<close> bytes. With
  \<open>blen = 0\<close> the division of the first loop has already trapped.
\<close>

function split_seg :: "u32 \<Rightarrow> u64 \<Rightarrow> u32 \<Rightarrow> (u64 \<times> u32) list" where
  "split_seg blen addr tlen =
     (if tlen = 0 \<or> blen = 0 then []
      else if blen < tlen then (addr, blen) # split_seg blen (addr + ucast blen) (tlen - blen)
      else [(addr, tlen)])"
  by pat_completeness auto
termination
  by (relation "measure (\<lambda>(blen, addr, tlen). unat tlen)")
    (auto simp: unat_sub word_less_nat_alt word_le_nat_alt unat_eq_0 unat_gt_0)

declare split_seg.simps [simp del]

definition xdma_init_request :: "env \<Rightarrow> u64 \<Rightarrow> u64 \<Rightarrow> ('a xworld_scheme, u64) state" where
  "xdma_init_request E sgt ep_addr = do {
     t \<leftarrow> the_sgt sgt;
     blen \<leftarrow> param desc_blen_max;
     let segs = take (g_nents t) (g_dma t);
     if blen = 0 \<and> list_ex (\<lambda>(a, l). 0 < l) segs then do { _ \<leftarrow> emit Oops; ret 0 }
     else do {
       let max = of_nat (g_nents t) + extra_descs blen (map snd segs);
       req \<leftarrow> xdma_request_alloc E max;
       if req = 0 then ret 0
       else do {
         _ \<leftarrow> upd_req req (\<lambda>q. q\<lparr>r_sgt := sgt, r_ep_addr := ep_addr\<rparr>);
         let sdesc = concat (map (\<lambda>(addr, tlen). split_seg blen addr tlen) segs);
         _ \<leftarrow> upd_req req (\<lambda>q. q\<lparr>r_total_len := r_total_len q + sum_list (map snd segs),
                                r_sdesc := sdesc\<rparr>);
         if sint max < int (length sdesc) then do {
           _ \<leftarrow> xdma_request_free E req;
           ret 0 }
         else do {
           _ \<leftarrow> upd_req req (\<lambda>q. q\<lparr>r_sw_desc_cnt := of_nat (length sdesc)\<rparr>);
           ret req } } } }"

section \<open>Transfers\<close>

definition transfer_destroy :: "env \<Rightarrow> u64 \<Rightarrow> xref \<Rightarrow> ('a xworld_scheme, unit) state" where
  "transfer_destroy E xdev x = do {
     t \<leftarrow> the_xfer x;
     _ \<leftarrow> xdma_desc_done (t_ring t) (t_desc_virt t) (unat (t_desc_num t));
     when_st (t_last_in_request t \<and> t_flags t AND XFER_FLAG_NEED_UNMAP \<noteq> 0) (do {
       g \<leftarrow> the_sgt (t_sgt t);
       d \<leftarrow> the_xdev xdev;
       when_st (g_nents g \<noteq> 0) (do {
         _ \<leftarrow> kproc K_pci_unmap_sg [x_pdev d, t_sgt t, of_nat (g_nents g)];
         upd_sgt (t_sgt t) (\<lambda>g. g\<lparr>g_nents := 0\<rparr>) }) }) }"

text \<open>One iteration of the loop of \<open>transfer_build\<close>; \<open>idx\<close> is where it started in \<open>sdesc\<close>.\<close>

definition transfer_build_step ::
  "eng \<Rightarrow> u64 \<Rightarrow> xref \<Rightarrow> u64 \<Rightarrow> nat \<Rightarrow> nat \<Rightarrow> ('a xworld_scheme, unit) state" where
  "transfer_build_step e req x bus idx j = do {
     g \<leftarrow> the_eng e;
     q \<leftarrow> the_req req;
     t \<leftarrow> the_xfer x;
     let (addr, len) = r_sdesc q ! (idx + j);
     _ \<leftarrow> upd_desc (t_ring t) (t_desc_virt t + int j)
            (\<lambda>d. xdma_desc_set d addr (r_ep_addr q) len (t_dir t));
     _ \<leftarrow> upd_xfer x (\<lambda>t. t\<lparr>t_len := t_len t + len\<rparr>);
     _ \<leftarrow> when_st (\<not> e_non_incr_addr g) (upd_req req (\<lambda>q. q\<lparr>r_ep_addr := r_ep_addr q + ucast len\<rparr>));
     when_st (e_streaming g \<and> e_dir g = DMA_FROM_DEVICE) (do {
       _ \<leftarrow> mem_zero (t_res_virt t + 32 * of_nat j) 32;
       let b = bus + 32 * of_nat j;
       upd_desc (t_ring t) (t_desc_virt t + int j)
         (\<lambda>d. d\<lparr>d_src_lo := PCI_DMA_L b, d_src_hi := PCI_DMA_H b\<rparr>) }) }"

definition transfer_build :: "eng \<Rightarrow> u64 \<Rightarrow> xref \<Rightarrow> u32 \<Rightarrow> ('a xworld_scheme, int) state" where
  "transfer_build e req x desc_max = do {
     q \<leftarrow> the_req req;
     t \<leftarrow> the_xfer x;
     _ \<leftarrow> for_each [0..<unat desc_max]
            (transfer_build_step e req x (t_res_bus t) (unat (r_sw_desc_idx q)));
     _ \<leftarrow> upd_req req (\<lambda>q. q\<lparr>r_sw_desc_idx := r_sw_desc_idx q + desc_max\<rparr>);
     ret 0 }"

text \<open>
  \<open>transfer_init\<close>: the next part of request \<open>req\<close> as transfer \<open>x\<close> of engine \<open>e\<close>. The ring
  index of the last descriptor is \<open>last\<close>, a signed number.
\<close>

definition transfer_init :: "eng \<Rightarrow> u64 \<Rightarrow> xref \<Rightarrow> ('a xworld_scheme, int) state" where
  "transfer_init e req x = do {
     q \<leftarrow> the_req req;
     g \<leftarrow> the_eng e;
     let desc_max = min_u32 (r_sw_desc_cnt q - r_sw_desc_idx q) (e_desc_max g);
     _ \<leftarrow> upd_xfer x (\<lambda>_. zero_transfer);
     _ \<leftarrow> lock_acquire LkEngine (eng_key e);
     _ \<leftarrow> upd_xfer x (\<lambda>t. t\<lparr>t_ring := e, t_dir := e_dir g, t_desc_virt := uint (e_desc_idx g),
            t_res_virt := e_cyclic_result g + 32 * ucast (e_desc_idx g),
            t_desc_bus := e_desc_bus g + 32 * ucast (e_desc_idx g),
            t_res_bus := e_cyclic_result_bus g + 32 * ucast (e_desc_idx g),
            t_desc_index := e_desc_idx g\<rparr>);
     let desc_max = (if e_desc_max g \<le> e_desc_idx g + desc_max
                     then e_desc_max g - e_desc_idx g else desc_max);
     _ \<leftarrow> transfer_desc_init x desc_max;
     _ \<leftarrow> transfer_build e req x desc_max;
     _ \<leftarrow> upd_xfer x (\<lambda>t. t\<lparr>t_desc_adjacent := desc_max\<rparr>);
     let last = sint (desc_max - 1);
     let control = XDMA_DESC_STOPPED;
     let control = control OR XDMA_DESC_EOP;
     let control = control OR XDMA_DESC_COMPLETED;
     _ \<leftarrow> upd_desc e (uint (e_desc_idx g) + last) (\<lambda>d. desc_control_set d control);
     _ \<leftarrow> (if e_eop_flush g then do {
            _ \<leftarrow> for_each [0..<nat last]
                   (\<lambda>i. upd_desc e (uint (e_desc_idx g) + int i)
                          (\<lambda>d. desc_control_set d XDMA_DESC_COMPLETED));
            upd_xfer x (\<lambda>t. t\<lparr>t_desc_cmpl_th := 1\<rparr>) }
          else upd_xfer x (\<lambda>t. t\<lparr>t_desc_cmpl_th := desc_max\<rparr>));
     _ \<leftarrow> upd_xfer x (\<lambda>t. t\<lparr>t_desc_num := desc_max\<rparr>);
     _ \<leftarrow> upd_eng e (\<lambda>g. g\<lparr>e_desc_idx := (e_desc_idx g + desc_max) mod e_desc_max g,
            e_desc_used := e_desc_used g + desc_max\<rparr>);
     _ \<leftarrow> for_each [0..<unat desc_max]
            (\<lambda>i. upd_desc e (uint (e_desc_idx g) + int i)
                   (\<lambda>d. xdma_desc_adjacent d
                     (xdma_get_next_adj (desc_max - of_nat i - 1) (d_next_lo d))));
     _ \<leftarrow> lock_release LkEngine (eng_key e);
     ret 0 }"

section \<open>The request covers its segments\<close>

text \<open>The bus addresses of the bytes of a segment, in order.\<close>

fun seg_bytes :: "u64 \<times> u32 \<Rightarrow> u64 list" where
  "seg_bytes (a, l) = map (\<lambda>i. a + of_nat i) [0..<unat l]"

lemma split_seg_cases:
  "split_seg blen a 0 = []"
  "blen < l \<Longrightarrow> 0 < blen \<Longrightarrow> split_seg blen a l = (a, blen) # split_seg blen (a + ucast blen) (l - blen)"
  "l \<noteq> 0 \<Longrightarrow> 0 < blen \<Longrightarrow> l \<le> blen \<Longrightarrow> split_seg blen a l = [(a, l)]"
  by (subst split_seg.simps, auto)+

text \<open>The induction the code's loop suggests: a long segment is cut, a short one is the end.\<close>

lemma split_seg_induct [consumes 1, case_names zero cut short]:
  assumes "0 < blen"
    and "\<And>a. P a 0"
    and "\<And>a l. blen < l \<Longrightarrow> P (a + ucast blen) (l - blen) \<Longrightarrow> P a l"
    and "\<And>a l. l \<noteq> 0 \<Longrightarrow> l \<le> blen \<Longrightarrow> P a l"
  shows "P a l"
proof (induction "unat l" arbitrary: a l rule: less_induct)
  case less
  consider "l = 0" | "l \<noteq> 0" "l \<le> blen" | "blen < l"
    by (meson not_le)
  then show ?case
  proof cases
    case 3
    then have "unat (l - blen) < unat l"
      using assms(1) by (simp add: unat_sub word_less_nat_alt word_le_nat_alt)
    then show ?thesis
      using assms(3) [OF 3] less by blast
  qed (use assms in auto)
qed

lemma seg_bytes_split:
  assumes "unat k \<le> unat l"
  shows "seg_bytes (a, l) = seg_bytes (a, k) @ seg_bytes (a + ucast k, l - k)"
proof -
  have len: "unat (l - k) = unat l - unat k"
    using assms by (simp add: unat_sub word_le_nat_alt)
  have "[0..<unat l] = [0..<unat k] @ [unat k..<unat l]"
    using assms upt_add_eq_append [of 0 "unat k" "unat l - unat k"] by simp
  also have "[unat k..<unat l] = map (\<lambda>i. i + unat k) [0..<unat l - unat k]"
    using assms by (simp add: map_add_upt)
  finally have "map (\<lambda>i. a + of_nat i) [0..<unat l] =
      map (\<lambda>i. a + of_nat i) [0..<unat k] @ map (\<lambda>i. a + of_nat (i + unat k)) [0..<unat l - unat k]"
    by (simp only: map_append map_map comp_def)
  moreover have "(of_nat (i + unat k) :: u64) = ucast k + of_nat i" for i
    by simp
  ultimately show ?thesis
    by (simp only: seg_bytes.simps len ac_simps)
qed

lemma split_seg_bytes:
  assumes b: "0 < blen"
  shows "concat (map seg_bytes (split_seg blen a l)) = seg_bytes (a, l)"
  using b
proof (induction a l rule: split_seg_induct)
  case (cut a l)
  have "seg_bytes (a, l) = seg_bytes (a, blen) @ seg_bytes (a + ucast blen, l - blen)"
    using cut by (intro seg_bytes_split) (simp add: word_less_nat_alt)
  then show ?case
    by (simp only: split_seg_cases(2) [OF cut(1) b] list.map concat.simps cut(2))
qed (use b in \<open>auto simp: split_seg_cases\<close>)

lemma split_seg_lens:
  assumes b: "0 < blen"
  shows "\<forall>(b, m) \<in> set (split_seg blen a l). 0 < m \<and> m \<le> blen"
  using b by (induction a l rule: split_seg_induct) (use b in \<open>auto simp: split_seg_cases word_gt_0\<close>)

lemma length_split_seg:
  assumes b: "0 < blen"
  shows "length (split_seg blen a l) = (unat l + unat blen - 1) div unat blen"
  using b
proof (induction a l rule: split_seg_induct)
  case (zero a)
  have "0 < unat blen" using b by (simp add: word_less_nat_alt)
  then show ?case by (simp add: split_seg_cases)
next
  case (cut a l)
  then have l: "unat (l - blen) = unat l - unat blen" "0 < unat blen" "unat blen < unat l"
    using b by (auto simp: unat_sub word_less_nat_alt word_le_nat_alt)
  have "unat l + unat blen - 1 = unat blen + (unat l - 1)"
    using l by simp
  then have "(unat l + unat blen - 1) div unat blen = Suc ((unat l - 1) div unat blen)"
    using l div_add_self1 [of "unat blen" "unat l - 1"] by (simp only:)
  moreover have "unat l - unat blen + unat blen - 1 = unat l - 1"
    using l by simp
  ultimately show ?case
    using cut(2) l(1) by (simp add: split_seg_cases(2) [OF cut(1) b])
next
  case (short a l)
  then have l: "0 < unat blen" "0 < unat l" "unat l \<le> unat blen"
    using b by (auto simp: word_less_nat_alt word_le_nat_alt unat_gt_0)
  then have "unat l + unat blen - 1 = unat blen + (unat l - 1)"
    by simp
  then have "(unat l + unat blen - 1) div unat blen = Suc ((unat l - 1) div unat blen)"
    using l div_add_self1 [of "unat blen" "unat l - 1"] by (simp only:)
  moreover have "(unat l - 1) div unat blen = 0"
    using l by simp
  ultimately have "(unat l + unat blen - 1) div unat blen = 1"
    by simp
  with short b show ?case by (simp add: split_seg_cases)
qed

lemma sint_of_nat_small: "n < 2 ^ 31 \<Longrightarrow> sint (of_nat n :: u32) = int n"
  by (simp add: signed_of_nat signed_take_bit_int_eq_self)

text \<open>When no sum overflows, the estimate is the number of descriptors beyond one each.\<close>

definition est_descs :: "u32 \<Rightarrow> u32 list \<Rightarrow> nat" where
  "est_descs blen lens =
     sum_list (map (\<lambda>l. if blen < l then (unat l + unat blen - 1) div unat blen else 0) lens)"

lemma unat_extra_descs:
  "0 < blen \<Longrightarrow> \<forall>l \<in> set lens. unat l + unat blen \<le> 2 ^ 32 \<Longrightarrow> est_descs blen lens < 2 ^ 32 \<Longrightarrow>
   unat (extra_descs blen lens) = est_descs blen lens"
proof (induction lens)
  case (Cons l lens)
  have b: "0 < unat blen" using Cons.prems by (simp add: word_less_nat_alt)
  have "unat (l + blen - 1) = unat l + unat blen - 1" if "blen < l"
  proof -
    have "unat (blen - 1) = unat blen - 1"
      using b by (simp add: unat_sub word_le_nat_alt)
    moreover have "unat l + unat blen - 1 < 4294967296"
    proof -
      have "unat l + unat blen \<le> 4294967296"
        using Cons.prems(2) by simp
      with b show ?thesis by linarith
    qed
    ultimately have "unat (l + (blen - 1)) = unat l + unat blen - 1"
      using b by (simp add: unat_word_ariths)
    then show ?thesis
      by (simp only: add_diff_eq)
  qed
  then have "unat (if blen < l then (l + blen - 1) div blen else 0) =
      (if blen < l then (unat l + unat blen - 1) div unat blen else 0)"
    by (simp add: unat_div_distrib)
  with Cons show ?case
    by (simp add: est_descs_def unat_word_ariths)
qed (simp add: est_descs_def)

lemma sdesc_count:
  assumes "0 < blen"
  shows "length (concat (map (\<lambda>(a, l). split_seg blen a l) segs))
    \<le> length segs + est_descs blen (map snd segs)"
proof (induction segs)
  case (Cons s segs)
  obtain a l where s: "s = (a, l)" by fastforce
  have "length (split_seg blen a l) \<le> 1 + (if blen < l then (unat l + unat blen - 1) div unat blen else 0)"
  proof (cases "blen < l")
    case False
    then have "(unat l + unat blen - 1) div unat blen < 2"
      using assms by (intro div_less_iff_less_mult [THEN iffD2]) (auto simp: word_less_nat_alt)
    with False show ?thesis by (simp add: length_split_seg assms)
  qed (simp add: length_split_seg assms)
  with Cons s show ?case by (simp add: est_descs_def)
qed (simp add: est_descs_def)

lemma concat_split_segs:
  assumes "0 < blen"
  shows "concat (map seg_bytes (concat (map (\<lambda>(a, l). split_seg blen a l) segs))) =
      concat (map seg_bytes segs)"
    and "\<forall>(a, l) \<in> set (concat (map (\<lambda>(a, l). split_seg blen a l) segs)). 0 < l \<and> l \<le> blen"
proof -
  show "concat (map seg_bytes (concat (map (\<lambda>(a, l). split_seg blen a l) segs))) =
      concat (map seg_bytes segs)"
    by (induction segs) (auto simp: split_seg_bytes assms simp del: seg_bytes.simps)
  show "\<forall>(a, l) \<in> set (concat (map (\<lambda>(a, l). split_seg blen a l) segs)). 0 < l \<and> l \<le> blen"
    using split_seg_lens [OF assms] by fastforce
qed

lemma init_request_outcome:
  assumes "segs = take (g_nents (sgts s sgt)) (g_dma (sgts s sgt))"
    and "g_nents (sgts s sgt) \<le> length (g_dma (sgts s sgt))"
    and "blen = desc_blen_max (prm s)" and "0 < blen"
    and "\<forall>l \<in> set (map snd segs). unat l + unat blen \<le> 2 ^ 32"
    and "g_nents (sgts s sgt) + est_descs blen (map snd segs) < 2 ^ 31"
    and "run_state (xdma_init_request E sgt ep) s = (req, s')"
  shows "req = result_of (xdma_request_alloc E
            (of_nat (g_nents (sgts s sgt) + est_descs blen (map snd segs)))) s \<and>
    (req \<noteq> 0 \<longrightarrow>
      concat (map seg_bytes (r_sdesc (reqs s' req))) = concat (map seg_bytes segs) \<and>
      (\<forall>(a, l) \<in> set (r_sdesc (reqs s' req)). 0 < l \<and> l \<le> blen) \<and>
      unat (r_sw_desc_cnt (reqs s' req)) = length (r_sdesc (reqs s' req)) \<and>
      r_sw_desc_idx (reqs s' req) = 0 \<and> r_total_len (reqs s' req) = sum_list (map snd segs) \<and>
      r_sgt (reqs s' req) = sgt \<and> r_ep_addr (reqs s' req) = ep)"
proof -
  let ?n = "g_nents (sgts s sgt) + est_descs blen (map snd segs)"
  let ?sd = "concat (map (\<lambda>(a, l). split_seg blen a l) segs)"
  have max: "of_nat (g_nents (sgts s sgt)) + extra_descs blen (map snd segs) = (of_nat ?n :: u32)"
  proof -
    have "unat (extra_descs blen (map snd segs)) = est_descs blen (map snd segs)"
      using assms(4-6) by (intro unat_extra_descs) auto
    then have "extra_descs blen (map snd segs) = of_nat (est_descs blen (map snd segs))"
      by (metis of_nat_unat ucast_id)
    then show ?thesis by simp
  qed
  have "length ?sd \<le> ?n"
    using sdesc_count [OF assms(4), of segs] assms(1,2) by simp
  moreover have "sint (of_nat ?n :: u32) = int ?n"
    using assms(6) by (rule sint_of_nat_small)
  ultimately have fits: "\<not> sint (of_nat ?n :: u32) < int (length ?sd)"
    and cnt: "unat (of_nat (length ?sd) :: u32) = length ?sd"
    using assms(6) by (simp_all add: unat_of_nat)
  have blen: "desc_blen_max (prm s) \<noteq> 0"
    using assms(3,4) by auto
  show "req = result_of (xdma_request_alloc E (of_nat ?n)) s \<and>
    (req \<noteq> 0 \<longrightarrow>
      concat (map seg_bytes (r_sdesc (reqs s' req))) = concat (map seg_bytes segs) \<and>
      (\<forall>(a, l) \<in> set (r_sdesc (reqs s' req)). 0 < l \<and> l \<le> blen) \<and>
      unat (r_sw_desc_cnt (reqs s' req)) = length (r_sdesc (reqs s' req)) \<and>
      r_sw_desc_idx (reqs s' req) = 0 \<and> r_total_len (reqs s' req) = sum_list (map snd segs) \<and>
      r_sgt (reqs s' req) = sgt \<and> r_ep_addr (reqs s' req) = ep)"
    using assms(7) blen fits cnt concat_split_segs [OF assms(4), of segs]
    by (auto simp: xdma_init_request_def Let_def max assms(1) [symmetric] assms(3) [symmetric]
        xdma_request_alloc_def clear_request_def zero_request_def
        simp del: seg_bytes.simps of_nat_add split: if_splits prod.splits)
qed



section \<open>What one transfer writes into the ring\<close>

text \<open>
  The effect of \<open>transfer_init\<close> on the descriptor ring, built up from its loops:
  \<open>on_range p n f\<close> applies \<open>f i\<close> to the \<open>i\<close>-th of the \<open>n\<close> descriptors from index \<open>p\<close>.
\<close>

definition map_ring :: "eng \<Rightarrow> ((int \<Rightarrow> xdma_desc) \<Rightarrow> (int \<Rightarrow> xdma_desc)) \<Rightarrow> 'a xworld_scheme \<Rightarrow> 'a xworld_scheme" where
  "map_ring e h s = s\<lparr>engs := (engs s)(e := (engs s e)\<lparr>e_ring := h (e_ring (engs s e))\<rparr>)\<rparr>"

definition on_range :: "int \<Rightarrow> nat \<Rightarrow> (nat \<Rightarrow> xdma_desc \<Rightarrow> xdma_desc) \<Rightarrow> (int \<Rightarrow> xdma_desc) \<Rightarrow> (int \<Rightarrow> xdma_desc)" where
  "on_range p n f r j = (if p \<le> j \<and> j < p + int n then f (nat (j - p)) (r j) else r j)"

lemma run_desc_ring: "run_state (upd_desc e i f) s = ((), map_ring e (\<lambda>r. r(i := f (r i))) s)"
  by (simp add: map_ring_def)

lemma map_ring_comp [simp]: "map_ring e h (map_ring e g s) = map_ring e (\<lambda>r. h (g r)) s"
  by (simp add: map_ring_def)

lemma map_ring_id [simp]: "map_ring e (\<lambda>r. r) s = s"
  by (simp add: map_ring_def)

lemma on_range_0 [simp]: "on_range p 0 f r = r"
  by (auto simp: on_range_def fun_eq_iff)

lemma on_range_Suc:
  "(on_range p n f r)(p + int n := f n (on_range p n f r (p + int n))) = on_range p (Suc n) f r"
  by (auto simp: on_range_def fun_eq_iff)

lemma on_range_in [simp]: "i < n \<Longrightarrow> on_range p n f r (p + int i) = f i (r (p + int i))"
  by (simp add: on_range_def)

lemma on_range_out: "j < p \<or> p + int n \<le> j \<Longrightarrow> on_range p n f r j = r j"
  by (auto simp: on_range_def)

lemma run_for_each_desc:
  "run_state (for_each [0..<n] (\<lambda>i. upd_desc e (p + int i) (f i))) s = ((), map_ring e (on_range p n f) s)"
  by (induction n) (simp_all add: run_desc_ring on_range_Suc del: run_upd_desc)

lemma run_desc_done [simp]:
  "run_state (xdma_desc_done e p n) s = ((), map_ring e (on_range p n (\<lambda>_ _. zero_desc)) s)"
  by (simp add: xdma_desc_done_def run_for_each_desc)


lemma map_ring_sel [simp]:
  "tr (map_ring e h s) = tr s" "prm (map_ring e h s) = prm s"
  "xfers (map_ring e h s) = xfers s" "reqs (map_ring e h s) = reqs s"
  "sgts (map_ring e h s) = sgts s" "xdevs (map_ring e h s) = xdevs s" "cbs (map_ring e h s) = cbs s"
  "engs (map_ring e h s) = (engs s)(e := (engs s e)\<lparr>e_ring := h (e_ring (engs s e))\<rparr>)"
  by (simp_all add: map_ring_def)

lemma map_ring_engs [simp]: "(map_ring e h s)\<lparr>engs := a\<rparr> = s\<lparr>engs := a\<rparr>"
  by (simp add: map_ring_def)

lemma run_map_ring [simp]:
  "run_state (upd_eng e (\<lambda>g. g\<lparr>e_ring := h (e_ring g)\<rparr>)) s = ((), map_ring e h s)"
  by (simp add: map_ring_def)

lemma map_ring_upd [simp]:
  "(map_ring e h s)\<lparr>tr := a\<rparr> = map_ring e h (s\<lparr>tr := a\<rparr>)"
  "(map_ring e h s)\<lparr>xfers := b\<rparr> = map_ring e h (s\<lparr>xfers := b\<rparr>)"
  "(map_ring e h s)\<lparr>reqs := c\<rparr> = map_ring e h (s\<lparr>reqs := c\<rparr>)"
  by (simp_all add: map_ring_def)

definition is_st_c2h :: "xdma_engine \<Rightarrow> bool" where
  "is_st_c2h g \<longleftrightarrow> e_streaming g \<and> e_dir g = DMA_FROM_DEVICE"

definition ep_at :: "xdma_engine \<Rightarrow> u64 \<Rightarrow> (u64 \<times> u32) list \<Rightarrow> nat \<Rightarrow> u64" where
  "ep_at g ep sd j = (if e_non_incr_addr g then ep else ep + sum_list (map (\<lambda>(a, l). ucast l) (take j sd)))"

definition step_desc ::
  "xdma_engine \<Rightarrow> dma_dir \<Rightarrow> u64 \<Rightarrow> u64 \<Rightarrow> u64 \<times> u32 \<Rightarrow> xdma_desc \<Rightarrow> xdma_desc" where
  "step_desc g dir b ep seg d =
     (let d = xdma_desc_set d (fst seg) ep (snd seg) dir
      in if is_st_c2h g then d\<lparr>d_src_lo := PCI_DMA_L b, d_src_hi := PCI_DMA_H b\<rparr> else d)"

definition built_desc ::
  "xdma_engine \<Rightarrow> dma_dir \<Rightarrow> u64 \<Rightarrow> u64 \<Rightarrow> (u64 \<times> u32) list \<Rightarrow> nat \<Rightarrow> xdma_desc \<Rightarrow> xdma_desc" where
  "built_desc g dir bus ep sd j d = step_desc g dir (bus + 32 * of_nat j) (ep_at g ep sd j) (sd ! j) d"

lemma built_desc_ring [simp]: "built_desc (g\<lparr>e_ring := r\<rparr>) = built_desc g"
  "ep_at (g\<lparr>e_ring := r\<rparr>) = ep_at g" "is_st_c2h (g\<lparr>e_ring := r\<rparr>) = is_st_c2h g"
  "step_desc (g\<lparr>e_ring := r\<rparr>) = step_desc g"
  by (simp_all add: built_desc_def step_desc_def ep_at_def is_st_c2h_def fun_eq_iff Let_def)

lemma run_build_step:
  assumes "t_ring (xfers s x) = e"
  shows "run_state (transfer_build_step e req x bus idx j) s =
     ((), map_ring e (\<lambda>r. r(t_desc_virt (xfers s x) + int j :=
            step_desc (engs s e) (t_dir (xfers s x)) (bus + 32 * of_nat j) (r_ep_addr (reqs s req))
              (r_sdesc (reqs s req) ! (idx + j)) (r (t_desc_virt (xfers s x) + int j))))
       (s\<lparr>tr := tr s @ (if is_st_c2h (engs s e)
               then [MemZero (t_res_virt (xfers s x) + 32 * of_nat j) 32] else []),
          xfers := (xfers s)(x := (xfers s x)\<lparr>t_len :=
             t_len (xfers s x) + snd (r_sdesc (reqs s req) ! (idx + j))\<rparr>),
          reqs := (reqs s)(req := (reqs s req)\<lparr>r_ep_addr := (if e_non_incr_addr (engs s e)
             then r_ep_addr (reqs s req)
             else r_ep_addr (reqs s req) + ucast (snd (r_sdesc (reqs s req) ! (idx + j))))\<rparr>)\<rparr>))"
  using assms
  by (cases "is_st_c2h (engs s e)"; cases "e_non_incr_addr (engs s e)")
    (simp_all add: transfer_build_step_def step_desc_def run_desc_ring is_st_c2h_def [symmetric] split_beta
      Let_def del: run_upd_desc)

lemma run_build_loop:
  assumes "t_ring (xfers s x) = e \<and> t_desc_virt (xfers s x) = p" "idx + n \<le> length (r_sdesc (reqs s req))"
  defines "sd \<equiv> drop idx (r_sdesc (reqs s req))"
  shows "run_state (for_each [0..<n] (transfer_build_step e req x bus idx)) s =
     ((), map_ring e (on_range p n (built_desc (engs s e) (t_dir (xfers s x)) bus (r_ep_addr (reqs s req)) sd))
       (s\<lparr>tr := tr s @ (if is_st_c2h (engs s e)
               then map (\<lambda>j. MemZero (t_res_virt (xfers s x) + 32 * of_nat j) 32) [0..<n] else []),
       xfers := (xfers s)(x := (xfers s x)\<lparr>t_len := t_len (xfers s x) + sum_list (map snd (take n sd))\<rparr>),
       reqs := (reqs s)(req := (reqs s req)\<lparr>r_ep_addr := ep_at (engs s e) (r_ep_addr (reqs s req)) sd n\<rparr>)\<rparr>))"
  using assms(2)
proof (induction n)
  case 0
  have "ep_at g ep sd 0 = ep" for g ep
    by (simp add: ep_at_def)
  then show ?case by simp
next
  case (Suc n)
  then have n: "n < length sd" and nth: "r_sdesc (reqs s req) ! (idx + n) = sd ! n"
    by (auto simp: sd_def)
  have tk: "take (Suc n) sd = take n sd @ [sd ! n]"
    using n by (simp add: take_Suc_conv_app_nth)
  obtain a l where al: "sd ! n = (a, l)"
    by fastforce
  have ep: "ep_at g ep sd (Suc n) = (if e_non_incr_addr g then ep_at g ep sd n else ep_at g ep sd n + ucast l)" for g ep
    by (simp add: ep_at_def tk al)
  have len: "sum_list (map snd (take (Suc n) sd)) = sum_list (map snd (take n sd)) + l"
    by (simp add: tk al)
  have bd: "step_desc g dir (bus + 32 * of_nat n) (ep_at g ep sd n) (a, l) = built_desc g dir bus ep sd n" for g dir ep
    by (simp add: built_desc_def al fun_eq_iff)
  show ?case
    using Suc assms(1) al
    by (cases "e_non_incr_addr (engs s e)"; cases "is_st_c2h (engs s e)")
      (simp_all add: ep len nth bd run_build_step [of _ x e] on_range_Suc add.assoc fun_upd_same del: take_Suc fun_upd_apply)
qed

definition final_desc :: "xdma_engine \<Rightarrow> nat \<Rightarrow> nat \<Rightarrow> xdma_desc \<Rightarrow> xdma_desc" where
  "final_desc g n i d =
     (let d = (if e_eop_flush g \<and> i < n - 1 then desc_control_set d XDMA_DESC_COMPLETED
               else if i = n - 1 then desc_control_set d (XDMA_DESC_STOPPED OR XDMA_DESC_EOP OR XDMA_DESC_COMPLETED)
               else d)
      in xdma_desc_adjacent d (xdma_get_next_adj (of_nat n - of_nat i - 1) (d_next_lo d)))"

definition transfer_ring ::
  "xdma_engine \<Rightarrow> u64 \<Rightarrow> u64 \<Rightarrow> (u64 \<times> u32) list \<Rightarrow> nat \<Rightarrow> (int \<Rightarrow> xdma_desc) \<Rightarrow> (int \<Rightarrow> xdma_desc)" where
  "transfer_ring g bus ep sd n r =
     (let p = uint (e_desc_idx g) in
      on_range p n (\<lambda>i d. final_desc g n i (built_desc g (e_dir g) bus ep sd i d))
        (desc_init_loop (n - 1) p (e_desc_bus g + 32 * ucast (e_desc_idx g)) r))"

lemma on_range_compose:
  "on_range p n f (on_range p n g r) = on_range p n (\<lambda>i d. f i (g i d)) r"
  by (auto simp: on_range_def fun_eq_iff)

lemma on_range_last:
  "0 < n \<Longrightarrow> (on_range p n g r)(p + int (n - Suc 0) := desc_control_set (on_range p n g r (p + int (n - Suc 0))) c) =
     on_range p n (\<lambda>i d. if i = n - Suc 0 then desc_control_set (g i d) c else g i d) r"
  by (auto simp: on_range_def fun_eq_iff)

lemma on_range_front:
  "on_range p (n - Suc 0) f (on_range p n g r) =
     on_range p n (\<lambda>i d. if i < n - Suc 0 then f i (g i d) else g i d) r"
  by (auto simp: on_range_def fun_eq_iff)

lemma on_range_cong: "(\<And>i d. i < n \<Longrightarrow> f i d = g i d) \<Longrightarrow> on_range p n f r = on_range p n g r"
  by (auto simp: on_range_def fun_eq_iff)

text \<open>How many descriptors the next transfer of a request takes.\<close>

definition next_count :: "xdma_engine \<Rightarrow> xdma_request_cb \<Rightarrow> nat" where
  "next_count g q = min (unat (r_sw_desc_cnt q) - unat (r_sw_desc_idx q)) (unat (e_desc_max g) - unat (e_desc_idx g))"

lemma next_count_word:
  assumes "r_sw_desc_idx q \<le> r_sw_desc_cnt q" "e_desc_idx g < e_desc_max g" "e_desc_max g < 2 ^ 31"
  shows "(let m = min_u32 (r_sw_desc_cnt q - r_sw_desc_idx q) (e_desc_max g)
          in if e_desc_max g \<le> e_desc_idx g + m then e_desc_max g - e_desc_idx g else m) = of_nat (next_count g q)"
proof -
  let ?m = "min_u32 (r_sw_desc_cnt q - r_sw_desc_idx q) (e_desc_max g)"
  have "unat (e_desc_max g) < 2 ^ 31"
    using assms(3) by (simp add: word_less_nat_alt)
  moreover have m: "unat ?m = min (unat (r_sw_desc_cnt q) - unat (r_sw_desc_idx q)) (unat (e_desc_max g))"
    using assms(1) by (simp add: unat_sub word_le_nat_alt)
  ultimately have "unat (e_desc_idx g + ?m) = unat (e_desc_idx g) + unat ?m"
    using assms(2) by (simp add: unat_word_ariths word_less_nat_alt)
  then have "unat (if e_desc_max g \<le> e_desc_idx g + ?m then e_desc_max g - e_desc_idx g else ?m) = next_count g q"
    using assms(2) m by (auto simp: next_count_def word_le_nat_alt word_less_nat_alt unat_sub)
  then have "of_nat (unat (if e_desc_max g \<le> e_desc_idx g + ?m then e_desc_max g - e_desc_idx g else ?m)) =
      (of_nat (next_count g q) :: u32)"
    by (rule arg_cong)
  then show ?thesis
    by (simp only: Let_def of_nat_unat ucast_id)
qed

lemma ex_history:
  "B = B' \<Longrightarrow> C = C' \<Longrightarrow> D = D' \<Longrightarrow>
   \<exists>h. s\<lparr>tr := A, engs := B, xfers := C, reqs := D\<rparr> = s\<lparr>tr := h, engs := B', xfers := C', reqs := D'\<rparr>"
  by blast

lemma transfer_init_run:
  fixes s :: "'a xworld_scheme"
  assumes "r_sw_desc_idx (reqs s req) < r_sw_desc_cnt (reqs s req)"
    and "unat (r_sw_desc_cnt (reqs s req)) \<le> length (r_sdesc (reqs s req))"
    and "e_desc_idx (engs s e) < e_desc_max (engs s e)" "e_desc_max (engs s e) < 2 ^ 31"
  defines "g \<equiv> engs s e" and "q \<equiv> reqs s req"
  defines "n \<equiv> next_count g q" and "sd \<equiv> drop (unat (r_sw_desc_idx q)) (r_sdesc q)"
  defines "off \<equiv> 32 * ucast (e_desc_idx g)"
  shows "\<exists>h. run_state (transfer_init e req x) s =
     (0, s\<lparr>tr := h,
        engs := (engs s)(e := g\<lparr>e_desc_idx := (e_desc_idx g + of_nat n) mod e_desc_max g,
           e_desc_used := e_desc_used g + of_nat n,
           e_ring := transfer_ring g (e_cyclic_result_bus g + off) (r_ep_addr q) sd n (e_ring g)\<rparr>),
        xfers := (xfers s)(x := zero_transfer\<lparr>t_ring := e, t_dir := e_dir g,
           t_desc_virt := uint (e_desc_idx g), t_res_virt := e_cyclic_result g + off,
           t_desc_bus := e_desc_bus g + off, t_res_bus := e_cyclic_result_bus g + off,
           t_desc_index := e_desc_idx g, t_len := sum_list (map snd (take n sd)),
           t_desc_adjacent := of_nat n, t_desc_num := of_nat n,
           t_desc_cmpl_th := (if e_eop_flush g then 1 else of_nat n)\<rparr>),
        reqs := (reqs s)(req := q\<lparr>r_ep_addr := ep_at g (r_ep_addr q) sd n,
           r_sw_desc_idx := r_sw_desc_idx q + of_nat n\<rparr>)\<rparr>)"
proof -
  have idx: "r_sw_desc_idx q \<le> r_sw_desc_cnt q" and g: "e_desc_idx g < e_desc_max g" "e_desc_max g < 2 ^ 31"
    using assms(1,3,4) by (auto simp: g_def q_def)
  have n: "0 < n" "n < 2 ^ 31" "unat (r_sw_desc_idx q) + n \<le> length (r_sdesc q)"
    using assms(1-4) by (auto simp: n_def next_count_def g_def q_def word_less_nat_alt)
  then have w: "unat (of_nat n :: u32) = n" "sint (of_nat n :: u32) = int n" "sint (of_nat n - 1 :: u32) = int (n - 1)"
    using sint_of_nat_small [of n] sint_of_nat_small [of "n - 1"] by (simp_all add: unat_of_nat of_nat_diff)
  have cw: "(if e_desc_max g \<le> e_desc_idx g + min_u32 (r_sw_desc_cnt q - r_sw_desc_idx q) (e_desc_max g)
      then e_desc_max g - e_desc_idx g else min_u32 (r_sw_desc_cnt q - r_sw_desc_idx q) (e_desc_max g)) = of_nat n"
    using next_count_word [OF idx g] by (simp only: n_def Let_def)
  note facts = n [unfolded q_def] cw [unfolded g_def q_def]
  have idx_upd: "run_state (upd_eng e (\<lambda>g. g\<lparr>e_desc_idx := A g, e_desc_used := B g\<rparr>)) s =
      ((), s\<lparr>engs := (engs s)(e := (engs s e)\<lparr>e_desc_idx := A (engs s e), e_desc_used := B (engs s e)\<rparr>)\<rparr>)"
    for A B and s :: "'a xworld_scheme"
    by simp
  have nat1: "nat (int n - 1) = n - 1"
    by simp
  show ?thesis
    unfolding g_def q_def sd_def off_def
    apply (cases "e_eop_flush (engs s e)")
    apply (simp_all add: transfer_init_def transfer_desc_init_def transfer_build_def Let_def facts w run_desc_ring
      run_build_loop [of _ _ e] run_for_each_desc fun_upd_same idx_upd nat1 on_range_last on_range_front on_range_compose
      del: fun_upd_apply run_upd_desc run_upd(1) on_range_in split del: if_split)
    apply (simp_all add: map_ring_def transfer_ring_def on_range_compose Let_def final_desc_def fun_upd_same facts del: fun_upd_apply on_range_in split del: if_split)
    apply (rule ex_history)
    apply (rule arg_cong [where f = "\<lambda>z. (engs s)(e := z)"])
    apply (rule arg_cong [where f = "\<lambda>z. (engs s e)\<lparr>e_desc_idx := _, e_desc_used := _, e_ring := z\<rparr>"])
    apply (rule on_range_cong)
    apply (auto simp: facts or.assoc)[1]
    apply (simp add: zero_transfer_def)
    apply simp
    apply (rule ex_history)
    apply (rule arg_cong [where f = "\<lambda>z. (engs s)(e := z)"])
    apply (rule arg_cong [where f = "\<lambda>z. (engs s e)\<lparr>e_desc_idx := _, e_desc_used := _, e_ring := z\<rparr>"])
    apply (rule on_range_cong)
    apply (auto simp: facts or.assoc)[1]
    apply (simp add: zero_transfer_def)
    apply simp
    done
qed

section \<open>The list the engine walks\<close>

text \<open>The two ends of a descriptor: root complex memory and end point.\<close>

definition rc_addr :: "dma_dir \<Rightarrow> xdma_desc \<Rightarrow> u64" where
  "rc_addr dir d = (if dir = DMA_TO_DEVICE then d_src d else d_dst d)"

definition ep_addr_of :: "dma_dir \<Rightarrow> xdma_desc \<Rightarrow> u64" where
  "ep_addr_of dir d = (if dir = DMA_TO_DEVICE then d_dst d else d_src d)"

lemma final_desc_fields [simp]:
  "d_bytes (final_desc g n i d) = d_bytes d" "d_next (final_desc g n i d) = d_next d"
  "d_src (final_desc g n i d) = d_src d" "d_dst (final_desc g n i d) = d_dst d"
  by (simp_all add: final_desc_def Let_def)

lemma built_desc_fields [simp]:
  "d_bytes (built_desc g dir b ep sd i d) = snd (sd ! i)"
  "d_next (built_desc g dir b ep sd i d) = d_next d"
  "d_next_lo (built_desc g dir b ep sd i d) = d_next_lo d"
  "d_control (built_desc g dir b ep sd i d) = d_control d"
  "is_st_c2h g \<longrightarrow> dir = DMA_FROM_DEVICE \<Longrightarrow> rc_addr dir (built_desc g dir b ep sd i d) = fst (sd ! i)"
  "\<not> is_st_c2h g \<Longrightarrow> ep_addr_of dir (built_desc g dir b ep sd i d) = ep_at g ep sd i"
  by (auto simp: built_desc_def step_desc_def Let_def d_next_def rc_addr_def ep_addr_of_def)
    (auto simp: xdma_desc_set_def Let_def d_dst_def)

lemma final_desc_addrs [simp]:
  "rc_addr dir (final_desc g n i d) = rc_addr dir d"
  "ep_addr_of dir (final_desc g n i d) = ep_addr_of dir d"
  by (simp_all add: rc_addr_def ep_addr_of_def)

definition transfer_descs ::
  "xdma_engine \<Rightarrow> u64 \<Rightarrow> u64 \<Rightarrow> (u64 \<times> u32) list \<Rightarrow> nat \<Rightarrow> (int \<Rightarrow> xdma_desc) \<Rightarrow> xdma_desc list" where
  "transfer_descs g bus ep sd n r =
     map (\<lambda>i. transfer_ring g bus ep sd n r (uint (e_desc_idx g) + int i)) [0..<n]"

lemma transfer_ring_nth:
  "i < n \<Longrightarrow> transfer_ring g bus ep sd n r (uint (e_desc_idx g) + int i) =
     final_desc g n i (built_desc g (e_dir g) bus ep sd i
       (desc_init_loop (n - 1) (uint (e_desc_idx g)) (e_desc_bus g + 32 * ucast (e_desc_idx g)) r
         (uint (e_desc_idx g) + int i)))"
  by (simp add: transfer_ring_def Let_def)

lemma transfer_bus: "e_desc_bus g + 32 * ucast (e_desc_idx g) = desc_addr (e_desc_bus g) (uint (e_desc_idx g))"
  by (simp add: desc_addr_def)

lemma transfer_ring_walk:
  assumes "ring_fits (e_desc_bus g) (uint (e_desc_max g))"
    and "0 < n" "uint (e_desc_idx g) + int n \<le> uint (e_desc_max g)" "n \<le> fuel"
  shows "hw_walk fuel (e_desc_bus g) (transfer_ring g bus ep sd n r)
      (e_desc_bus g + 32 * ucast (e_desc_idx g)) = transfer_descs g bus ep sd n r"
proof -
  have "chained (e_desc_bus g) (transfer_ring g bus ep sd n r) (uint (e_desc_idx g)) n =
      chained (e_desc_bus g) (desc_init_loop (n - 1) (uint (e_desc_idx g))
        (desc_addr (e_desc_bus g) (uint (e_desc_idx g))) r) (uint (e_desc_idx g)) n"
    by (rule chained_cong) (simp add: transfer_ring_nth transfer_bus)
  then have "chained (e_desc_bus g) (transfer_ring g bus ep sd n r) (uint (e_desc_idx g)) n"
    using desc_init_chained [OF assms(2)] by simp
  then show ?thesis
    unfolding transfer_bus transfer_descs_def using assms
    by (intro hw_walk_chained) auto
qed

text \<open>What a transfer hands over.\<close>

lemma transfer_init_hands:
  assumes "r_sw_desc_idx (reqs s req) < r_sw_desc_cnt (reqs s req)"
    and "unat (r_sw_desc_cnt (reqs s req)) \<le> length (r_sdesc (reqs s req))"
    and "e_desc_idx (engs s e) < e_desc_max (engs s e)" "e_desc_max (engs s e) < 2 ^ 31"
    and "ring_fits (e_desc_bus (engs s e)) (uint (e_desc_max (engs s e)))"
    and "next_count (engs s e) (reqs s req) \<le> fuel"
    and "run_state (transfer_init e req x) s = (rv, s')"
  defines "n \<equiv> next_count (engs s e) (reqs s req)"
    and "sd \<equiv> drop (unat (r_sw_desc_idx (reqs s req))) (r_sdesc (reqs s req))"
    and "ds \<equiv> hw_walk fuel (e_desc_bus (engs s e)) (e_ring (engs s' e)) (t_desc_bus (xfers s' x))"
  shows "rv = 0 \<and> length ds = n \<and>
    map (\<lambda>d. (rc_addr (e_dir (engs s e)) d, d_bytes d)) ds = take n sd \<and>
    (\<not> is_st_c2h (engs s e) \<longrightarrow>
      map (ep_addr_of (e_dir (engs s e))) ds = map (ep_at (engs s e) (r_ep_addr (reqs s req)) sd) [0..<n])"
proof -
  let ?g = "engs s e" and ?q = "reqs s req"
  let ?bus = "e_cyclic_result_bus ?g + 32 * ucast (e_desc_idx ?g)"
  have nn: "0 < n" "unat (e_desc_idx ?g) + n \<le> unat (e_desc_max ?g)" "n \<le> length sd"
    using assms(1-3) unfolding n_def sd_def next_count_def word_less_nat_alt by (auto simp only: length_drop)
  then have "int (unat (e_desc_idx ?g) + n) \<le> int (unat (e_desc_max ?g))"
    by (simp only: of_nat_le_iff)
  with nn have n: "0 < n" "uint (e_desc_idx ?g) + int n \<le> uint (e_desc_max ?g)" "n \<le> length sd"
    by simp_all
  obtain h where "run_state (transfer_init e req x) s = (0, h)"
    and eng: "e_desc_bus (engs h e) = e_desc_bus ?g"
      "e_ring (engs h e) = transfer_ring ?g ?bus (r_ep_addr ?q) sd n (e_ring ?g)"
    and bus: "t_desc_bus (xfers h x) = e_desc_bus ?g + 32 * ucast (e_desc_idx ?g)"
    using transfer_init_run [OF assms(1-4), of x] by (auto simp: n_def sd_def)
  then have "rv = 0" "s' = h"
    using assms(7) by simp_all
  have ds: "ds = transfer_descs ?g ?bus (r_ep_addr ?q) sd n (e_ring ?g)"
    unfolding ds_def \<open>s' = h\<close> eng bus using assms(5,6) n
    by (intro transfer_ring_walk) (simp_all add: n_def)
  have "map (\<lambda>d. (rc_addr (e_dir ?g) d, d_bytes d)) ds = take n sd"
    using n(3) by (intro nth_equalityI)
      (auto simp: ds transfer_descs_def transfer_ring_nth is_st_c2h_def)
  moreover have "\<not> is_st_c2h ?g \<longrightarrow> map (ep_addr_of (e_dir ?g)) ds = map (ep_at ?g (r_ep_addr ?q) sd) [0..<n]"
    by (auto simp: ds transfer_descs_def transfer_ring_nth)
  ultimately show ?thesis
    using \<open>rv = 0\<close> by (simp add: ds transfer_descs_def)
qed

text \<open>
  C2: the engine, following bus addresses from the transfer's first descriptor, sees exactly
  the next software descriptors of the request: the same root-complex addresses and lengths
  in the same order, each against the end-point address that the request has reached (for
  memory-mapped engines), and then a null pointer. It sees \<open>next_count\<close> of them: what is
  left of the request, or as much as fits before the end of the ring.
\<close>

theorem transfer_init_walk:
  assumes "r_sw_desc_idx (reqs s req) < r_sw_desc_cnt (reqs s req)"
    and "unat (r_sw_desc_cnt (reqs s req)) \<le> length (r_sdesc (reqs s req))"
    and "e_desc_idx (engs s e) < e_desc_max (engs s e)" "e_desc_max (engs s e) < 2 ^ 31"
    and "ring_fits (e_desc_bus (engs s e)) (uint (e_desc_max (engs s e)))"
    and "next_count (engs s e) (reqs s req) \<le> fuel"
    and "run_state (transfer_init e req x) s = (rv, s')"
  defines "n \<equiv> next_count (engs s e) (reqs s req)"
    and "sd \<equiv> drop (unat (r_sw_desc_idx (reqs s req))) (r_sdesc (reqs s req))"
    and "ds \<equiv> hw_walk fuel (e_desc_bus (engs s e)) (e_ring (engs s' e)) (t_desc_bus (xfers s' x))"
  shows "rv = 0 \<and> length ds = n \<and>
    map (\<lambda>d. (rc_addr (e_dir (engs s e)) d, d_bytes d)) ds = take n sd \<and>
    (\<not> is_st_c2h (engs s e) \<longrightarrow>
      map (ep_addr_of (e_dir (engs s e))) ds = map (ep_at (engs s e) (r_ep_addr (reqs s req)) sd) [0..<n])"
  unfolding n_def sd_def ds_def using assms(1-7) by (rule transfer_init_hands)

section \<open>Control words\<close>

lemma control_word:
  fixes c a :: u32
  assumes c: "c AND 0xFF = c" and a: "a AND 0x3F = a"
  defines "w \<equiv> ((DESC_MAGIC AND NOT LS_BYTE_MASK) OR c) AND 0x0000f0ff OR (0xAD4B0000 OR push_bit 8 a)"
  shows "w AND 0xFF = c" "drop_bit 8 w AND 0x3F = a" "drop_bit 16 w = 0xAD4B"
proof -
  have c8: "c = take_bit 8 c"
    using c by (simp add: take_bit_eq_mask mask_eq_exp_minus_1)
  have a6: "a = take_bit 6 a"
    using a by (simp add: take_bit_eq_mask mask_eq_exp_minus_1)
  have "(c AND 0xFF) AND 0xf0ff = c AND 0xFF"
    by (simp add: and.assoc)
  then have cf: "c AND 0xf0ff = c"
    unfolding c .
  have w: "w = c OR (0xAD4B0000 OR push_bit 8 a)"
    by (simp add: w_def bit.conj_disj_distrib2 cf)
  have pa: "push_bit 8 a AND 0xFF = 0"
  proof -
    have "push_bit 8 a AND 0xFF = take_bit 8 (push_bit 8 a)"
      by (simp add: take_bit_eq_mask mask_eq_exp_minus_1)
    then show ?thesis by (simp add: take_bit_push_bit)
  qed
  show "w AND 0xFF = c"
    by (simp add: w bit.conj_disj_distrib2 c pa)
  have dc: "drop_bit 8 c = 0" "drop_bit 16 c = 0"
    by (subst c8, simp add: drop_bit_take_bit)+
  have da: "drop_bit 8 (push_bit 8 a) = a"
    by (subst (1 2) a6, rule bit_word_eqI) (auto simp: bit_simps)
  have da2: "drop_bit 16 (push_bit 8 a) = 0"
    by (subst a6, rule bit_word_eqI) (auto simp: bit_simps)
  show "drop_bit 8 w AND 0x3F = a"
    by (simp add: w drop_bit_or dc da bit.conj_disj_distrib2 a)
  show "drop_bit 16 w = 0xAD4B"
    by (simp add: w drop_bit_or dc da2)
qed

lemma mask6: "unat (a :: u32) \<le> 63 \<Longrightarrow> a AND 0x3F = a"
proof -
  assume "unat a \<le> 63"
  then have "a mod 64 = a"
    by (simp add: word_unat_eq_iff unat_mod_distrib)
  then have "take_bit 6 a = a"
    by (simp add: take_bit_eq_mod)
  then show ?thesis by (simp add: take_bit_eq_mask mask_eq_exp_minus_1)
qed

definition desc_low_bits :: "xdma_engine \<Rightarrow> nat \<Rightarrow> nat \<Rightarrow> u32" where
  "desc_low_bits g n i =
     (if i = n - 1 then XDMA_DESC_STOPPED OR XDMA_DESC_EOP OR XDMA_DESC_COMPLETED
      else if e_eop_flush g then XDMA_DESC_COMPLETED else 0)"

lemma control_set_magic:
  assumes "d_control d = DESC_MAGIC" "c AND 0xFF = c"
  shows "d_control (desc_control_set d c) = (DESC_MAGIC AND NOT LS_BYTE_MASK) OR c"
proof -
  have "c AND NOT LS_BYTE_MASK = (c AND LS_BYTE_MASK) AND NOT LS_BYTE_MASK"
    using assms(2) by simp
  also have "\<dots> = 0"
    by (simp add: and.assoc)
  finally show ?thesis
    using assms(1) by (simp add: desc_control_set_def xdma_desc_control_set_def Let_def)
qed

lemma final_desc_control:
  assumes "d_control d = DESC_MAGIC" "i < n"
  shows "d_control (final_desc g n i d) =
     ((DESC_MAGIC AND NOT LS_BYTE_MASK) OR desc_low_bits g n i) AND 0x0000f0ff OR
     (0xAD4B0000 OR push_bit 8 (xdma_get_next_adj (of_nat n - of_nat i - 1) (d_next_lo d)))"
proof -
  have lo: "d_next_lo (desc_control_set d c) = d_next_lo d" for c
    by (simp add: desc_control_set_def xdma_desc_control_set_def Let_def)
  show ?thesis
    using assms by (auto simp: final_desc_def Let_def desc_low_bits_def xdma_desc_adjacent_def lo
        control_set_magic desc_bits or.assoc)
qed

lemma desc_low_bits_mask: "desc_low_bits g n i AND 0xFF = desc_low_bits g n i"
  by (simp add: desc_low_bits_def desc_bits)

lemma built_desc_next_lo: "d_next_lo (final_desc g n i d) = d_next_lo d"
  by (simp add: final_desc_def Let_def xdma_desc_adjacent_def desc_control_set_def
      xdma_desc_control_set_def)

text \<open>
  C13: the control words of a new transfer. Every descriptor carries the magic number; the
  last one, and only it, stops the engine, marks the end of a packet and asks for the
  completion (an engine that flushes on end-of-packet asks for it on all of them). The
  adjacent count of descriptor \<open>i\<close> fits its six bits, never reaches past the end of the
  transfer, and never crosses a block of 64 descriptors.
\<close>

theorem transfer_init_control:
  assumes "r_sw_desc_idx (reqs s req) < r_sw_desc_cnt (reqs s req)"
    and "unat (r_sw_desc_cnt (reqs s req)) \<le> length (r_sdesc (reqs s req))"
    and "e_desc_idx (engs s e) < e_desc_max (engs s e)" "e_desc_max (engs s e) < 2 ^ 31"
    and "run_state (transfer_init e req x) s = (rv, s')"
    and "i < next_count (engs s e) (reqs s req)"
  defines "n \<equiv> next_count (engs s e) (reqs s req)"
    and "d \<equiv> e_ring (engs s' e) (t_desc_virt (xfers s' x) + int i)"
  shows "drop_bit 16 (d_control d) = 0xAD4B \<and>
    d_control d AND 0xFF = desc_low_bits (engs s e) n i \<and>
    (if Suc i = n then adj_field d = 0
     else Suc i + unat (adj_field d) < n \<and> unat (d_next_lo d) div 32 mod 64 + unat (adj_field d) \<le> 63)"
proof -
  let ?g = "engs s e" and ?q = "reqs s req"
  let ?bus = "e_cyclic_result_bus ?g + 32 * ucast (e_desc_idx ?g)"
  let ?sd = "drop (unat (r_sw_desc_idx ?q)) (r_sdesc ?q)"
  obtain h where "run_state (transfer_init e req x) s = (0, h)"
    and eng: "e_ring (engs h e) = transfer_ring ?g ?bus (r_ep_addr ?q) ?sd n (e_ring ?g)"
    and virt: "t_desc_virt (xfers h x) = uint (e_desc_idx ?g)"
    using transfer_init_run [OF assms(1-4), of x] by (auto simp: n_def)
  then have "s' = h"
    using assms(5) by simp
  define d0 where "d0 = desc_init_loop (n - 1) (uint (e_desc_idx ?g))
      (e_desc_bus ?g + 32 * ucast (e_desc_idx ?g)) (e_ring ?g) (uint (e_desc_idx ?g) + int i)"
  define d1 where "d1 = built_desc ?g (e_dir ?g) ?bus (r_ep_addr ?q) ?sd i d0"
  define adj where "adj = xdma_get_next_adj (of_nat n - of_nat i - 1) (d_next_lo d1)"
  have i: "i < n"
    using assms(6) by (simp add: n_def)
  have d: "d = final_desc ?g n i d1"
    using i by (simp add: d_def \<open>s' = h\<close> eng virt transfer_ring_nth d1_def d0_def)
  have "d_control d1 = DESC_MAGIC"
    using i desc_init_loop_fields [of i "n - 1"] by (simp add: d1_def d0_def)
  then have ctl: "d_control d = ((DESC_MAGIC AND NOT LS_BYTE_MASK) OR desc_low_bits ?g n i) AND 0x0000f0ff OR
     (0xAD4B0000 OR push_bit 8 adj)"
    using i by (simp only: d final_desc_control adj_def)
  have "n < 2 ^ 32"
    using assms(4) by (simp add: n_def next_count_def word_less_nat_alt)
  moreover have "(of_nat n - of_nat i - 1 :: u32) = of_nat (n - i - 1)"
    using i by (simp add: of_nat_diff)
  ultimately have rem: "unat (of_nat n - of_nat i - 1 :: u32) = n - i - 1"
    by (simp add: unat_of_nat)
  have adj63: "adj AND 0x3F = adj"
    by (rule mask6) (simp add: adj_def next_adj_bound)
  note cw = control_word [OF desc_low_bits_mask adj63, of ?g n i, folded ctl]
  have af: "adj_field d = adj"
    using cw(2) by (simp add: adj_field_def)
  define k where "k = unat (d_next_lo d) div 32 mod 64"
  have k: "k \<le> 63"
    using mod_less_divisor [of 64 "unat (d_next_lo d) div 32"] unfolding k_def by linarith
  have "unat adj = (if n - i - 1 \<le> 1 then 0 else min (63 - k) (n - i - 2))"
    by (simp add: adj_def unat_next_adj rem d built_desc_next_lo word_le_nat_alt k_def)
  then have "if Suc i = n then unat adj = 0 else Suc i + unat adj < n \<and> k + unat adj \<le> 63"
    using i k by (cases "n - i - 1 \<le> 1") (simp_all add: min_def, linarith+)
  then show ?thesis
    using cw(1,3) by (auto simp: af k_def unat_eq_0 split: if_splits)
qed

section \<open>Bookkeeping\<close>


lemma sample_next_count: "next_count sample_engine sample_request = 3"
  by (simp add: next_count_def)


theorem transfer_init_walk_witness:
  "let s' = snd (run_state (transfer_init (H2C 0x100 0) 1 (Tfer 1 0)) sample_req_world);
       ds = hw_walk 8 0x20000 (e_ring (engs s' (H2C 0x100 0))) (t_desc_bus (xfers s' (Tfer 1 0)))
   in map (\<lambda>d. (d_src d, d_bytes d)) ds = [(0x1000, 4), (0x1004, 4), (0x1008, 2)]"
  using transfer_init_walk [of sample_req_world 1 "H2C 0x100 0" 8, OF _ _ _ _ _ _ prod.collapse [symmetric], of "Tfer 1 0"]
  by (simp add: sample_next_count ring_fits_def rc_addr_def Let_def)

theorem transfer_init_control_witness:
  "let s' = snd (run_state (transfer_init (H2C 0x100 0) 1 (Tfer 1 0)) sample_req_world)
   in d_control (e_ring (engs s' (H2C 0x100 0)) (t_desc_virt (xfers s' (Tfer 1 0)) + int 2)) AND 0xFF = 0x13"
  using transfer_init_control [of sample_req_world 1 "H2C 0x100 0" _ _ _ 2, OF _ _ _ _ prod.collapse [symmetric], of "Tfer 1 0"]
  by (simp add: sample_next_count Let_def desc_low_bits_def desc_bits)

end
