(* ===== verification/Engine.thy ===== *)
theory Engine
  imports Request Samples
begin

text \<open>
  The engine: starting and stopping it, servicing its completions, its queue of transfers
  (\<open>libxdma.c\<close>, the functions from \<open>enable_perf\<close> to \<open>engine_service_poll\<close>, and
  \<open>transfer_abort\<close>, \<open>transfer_queue\<close>, \<open>engine_cyclic_stop\<close>). The completion callback
  \<open>cb->io_done\<close> is a parameter \<open>H\<close>: its argument is the address of the control block and
  the error code.
\<close>

type_synonym 'a io_done = "u64 \<Rightarrow> int \<Rightarrow> ('a xworld_scheme, unit) state"

section \<open>Performance counters\<close>

definition enable_perf :: "env \<Rightarrow> eng \<Rightarrow> ('a xworld_scheme, unit) state" where
  "enable_perf E e = do {
     g \<leftarrow> the_eng e;
     _ \<leftarrow> iowrite32 XDMA_PERF_CLEAR (eng_reg g R_perf_ctrl);
     _ \<leftarrow> ioread32 E (eng_reg g R_identifier);
     _ \<leftarrow> iowrite32 (XDMA_PERF_AUTO OR XDMA_PERF_RUN) (eng_reg g R_perf_ctrl);
     _ \<leftarrow> ioread32 E (eng_reg g R_identifier);
     ret () }"

definition upd_perf :: "eng \<Rightarrow> (xdma_performance \<Rightarrow> xdma_performance) \<Rightarrow> ('a xworld_scheme, unit) state" where
  "upd_perf e f = upd_eng e (\<lambda>g. g\<lparr>e_xdma_perf := map_option f (e_xdma_perf g)\<rparr>)"

definition get_perf_stats :: "env \<Rightarrow> eng \<Rightarrow> ('a xworld_scheme, unit) state" where
  "get_perf_stats E e = do {
     g \<leftarrow> the_eng e;
     if e = NoEngine then ret ()
     else if e_xdma_perf g = None then ret ()
     else do {
       lo \<leftarrow> ioread32 E (eng_reg g R_completed_desc_count);
       _ \<leftarrow> upd_perf e (\<lambda>p. p\<lparr>p_iterations := ucast (build_u64 0 (ucast lo))\<rparr>);
       hi \<leftarrow> ioread32 E (eng_reg g R_perf_cyc_hi);
       lo \<leftarrow> ioread32 E (eng_reg g R_perf_cyc_lo);
       _ \<leftarrow> upd_perf e (\<lambda>p. p\<lparr>p_clock_cycle_count := build_u64 (ucast hi) (ucast lo)\<rparr>);
       hi \<leftarrow> ioread32 E (eng_reg g R_perf_dat_hi);
       lo \<leftarrow> ioread32 E (eng_reg g R_perf_dat_lo);
       _ \<leftarrow> upd_perf e (\<lambda>p. p\<lparr>p_data_cycle_count := build_u64 (ucast hi) (ucast lo)\<rparr>);
       hi \<leftarrow> ioread32 E (eng_reg g R_perf_pnd_hi);
       lo \<leftarrow> ioread32 E (eng_reg g R_perf_pnd_lo);
       upd_perf e (\<lambda>p. p\<lparr>p_pending_count := build_u64 (ucast hi) (ucast lo)\<rparr>) } }"

section \<open>Status\<close>

definition engine_reg_dump :: "env \<Rightarrow> eng \<Rightarrow> ('a xworld_scheme, int) state" where
  "engine_reg_dump E e = (if e = NoEngine then ret (- EINVAL) else do {
     g \<leftarrow> the_eng e;
     w \<leftarrow> ioread32 E (eng_reg g R_identifier);
     let w = w AND BLOCK_ID_MASK;
     if w \<noteq> BLOCK_ID_HEAD then ret (- EINVAL)
     else do {
       _ \<leftarrow> ioread32 E (eng_reg g R_status);
       _ \<leftarrow> ioread32 E (eng_reg g R_control);
       _ \<leftarrow> ioread32 E (eng_sgdma g S_first_desc_lo);
       _ \<leftarrow> ioread32 E (eng_sgdma g S_first_desc_hi);
       _ \<leftarrow> ioread32 E (eng_sgdma g S_first_desc_adjacent);
       _ \<leftarrow> ioread32 E (eng_reg g R_completed_desc_count);
       _ \<leftarrow> ioread32 E (eng_reg g R_interrupt_enable_mask);
       ret 0 } })"

text \<open>
  \<open>engine_status_dump\<close> formats the status into \<open>char buffer[256]\<close>. The text before the last
  byte is cut off is \<open>status_text\<close>; the pieces are the source's, spelling included.
\<close>

definition flag_text :: "u32 \<Rightarrow> u32 \<Rightarrow> string \<Rightarrow> string" where
  "flag_text v m s = (if v AND m \<noteq> 0 then s else [])"

text \<open>\<open>buf[len - 1] = ','\<close>.\<close>

definition end_comma :: "string \<Rightarrow> string" where
  "end_comma buf = butlast buf @ '',''"

definition status_head :: "xdma_engine \<Rightarrow> string" where
  "status_head g = (let v = e_status g in
     ''SG engine '' @ e_name g @ '' status: 0x'' @ hex8 v @ '': '' @
     flag_text v XDMA_STAT_BUSY ''BUSY,'' @
     flag_text v XDMA_STAT_DESC_STOPPED ''DESC_STOPPED,'' @
     flag_text v XDMA_STAT_DESC_COMPLETED ''DESC_COMPL,'')"

definition status_common :: "u32 \<Rightarrow> string \<Rightarrow> string" where
  "status_common v buf =
     (if v AND XDMA_STAT_COMMON_ERR_MASK = 0 then buf
      else end_comma (buf @
        flag_text v XDMA_STAT_ALIGN_MISMATCH ''ALIGN_MISMATCH '' @
        flag_text v XDMA_STAT_MAGIC_STOPPED ''MAGIC_STOPPED '' @
        flag_text v XDMA_STAT_INVALID_LEN ''INVLIAD_LEN '' @
        flag_text v XDMA_STAT_IDLE_STOPPED ''IDLE_STOPPED ''))"

definition status_h2c :: "u32 \<Rightarrow> string \<Rightarrow> string" where
  "status_h2c v buf =
     (let buf = (if v AND XDMA_STAT_H2C_R_ERR_MASK = 0 then buf
                 else end_comma (buf @ ''R:'' @
                   flag_text v XDMA_STAT_H2C_R_UNSUPP_REQ ''UNSUPP_REQ '' @
                   flag_text v XDMA_STAT_H2C_R_COMPL_ABORT ''COMPL_ABORT '' @
                   flag_text v XDMA_STAT_H2C_R_PARITY_ERR ''PARITY '' @
                   flag_text v XDMA_STAT_H2C_R_HEADER_EP ''HEADER_EP '' @
                   flag_text v XDMA_STAT_H2C_R_UNEXP_COMPL ''UNEXP_COMPL ''))
      in if v AND XDMA_STAT_H2C_W_ERR_MASK = 0 then buf
         else end_comma (buf @ ''W:'' @
           flag_text v XDMA_STAT_H2C_W_DECODE_ERR ''DECODE_ERR '' @
           flag_text v XDMA_STAT_H2C_W_SLAVE_ERR ''SLAVE_ERR ''))"

definition status_c2h :: "u32 \<Rightarrow> string \<Rightarrow> string" where
  "status_c2h v buf =
     (if v AND XDMA_STAT_C2H_R_ERR_MASK = 0 then buf
      else end_comma (buf @ ''R:'' @
        flag_text v XDMA_STAT_C2H_R_DECODE_ERR ''DECODE_ERR '' @
        flag_text v XDMA_STAT_C2H_R_SLAVE_ERR ''SLAVE_ERR ''))"

definition status_desc :: "u32 \<Rightarrow> string \<Rightarrow> string" where
  "status_desc v buf =
     (if v AND XDMA_STAT_DESC_ERR_MASK = 0 then buf
      else end_comma (buf @ ''DESC_ERR:'' @
        flag_text v XDMA_STAT_DESC_UNSUPP_REQ ''UNSUPP_REQ '' @
        flag_text v XDMA_STAT_DESC_COMPL_ABORT ''COMPL_ABORT '' @
        flag_text v XDMA_STAT_DESC_PARITY_ERR ''PARITY '' @
        flag_text v XDMA_STAT_DESC_HEADER_EP ''HEADER_EP '' @
        flag_text v XDMA_STAT_DESC_UNEXP_COMPL ''UNEXP_COMPL ''))"

definition engine_status_dump :: "xdma_engine \<Rightarrow> string" where
  "engine_status_dump g =
     (let v = e_status g;
          buf = status_head g;
          buf = status_common v buf;
          buf = (if e_dir g = DMA_TO_DEVICE then status_h2c v buf else status_c2h v buf)
      in status_desc v buf)"

definition engine_status_read :: "env \<Rightarrow> eng \<Rightarrow> bool \<Rightarrow> bool \<Rightarrow> ('a xworld_scheme, int) state" where
  "engine_status_read E e clear dump = (if e = NoEngine then ret (- EINVAL) else do {
     rv \<leftarrow> (if dump then engine_reg_dump E e else ret 0);
     if rv < 0 then ret rv
     else do {
       g \<leftarrow> the_eng e;
       v \<leftarrow> ioread32 E (eng_reg g (if clear then R_status_rc else R_status));
       _ \<leftarrow> upd_eng e (\<lambda>g. g\<lparr>e_status := v\<rparr>);
       ret rv } })"

section \<open>Starting and stopping\<close>

definition stop_control :: "bool \<Rightarrow> u32" where
  "stop_control poll =
     (let w = XDMA_CTRL_IE_DESC_ALIGN_MISMATCH OR XDMA_CTRL_IE_MAGIC_STOPPED OR
              XDMA_CTRL_IE_READ_ERROR OR XDMA_CTRL_IE_DESC_ERROR
      in if poll then w OR XDMA_CTRL_POLL_MODE_WB
         else w OR XDMA_CTRL_IE_DESC_STOPPED OR XDMA_CTRL_IE_DESC_COMPLETED)"

definition xdma_engine_stop :: "eng \<Rightarrow> ('a xworld_scheme, int) state" where
  "xdma_engine_stop e = (if e = NoEngine then ret (- EINVAL) else do {
     g \<leftarrow> the_eng e;
     credit \<leftarrow> param enable_st_c2h_credit;
     poll \<leftarrow> param poll_mode;
     _ \<leftarrow> when_st (credit \<and> e_streaming g \<and> e_dir g = DMA_FROM_DEVICE)
            (iowrite32 0 (eng_sgdma g S_credits));
     _ \<leftarrow> iowrite32 (stop_control poll) (eng_reg g R_control);
     _ \<leftarrow> upd_eng e (\<lambda>g. g\<lparr>e_running := False\<rparr>);
     ret 0 })"

definition perf_int_mask :: u32 where
  "perf_int_mask =
     XDMA_CTRL_IE_DESC_STOPPED OR XDMA_CTRL_IE_DESC_COMPLETED OR XDMA_CTRL_IE_DESC_ALIGN_MISMATCH OR
     XDMA_CTRL_IE_MAGIC_STOPPED OR XDMA_CTRL_IE_IDLE_STOPPED OR XDMA_CTRL_IE_READ_ERROR OR
     XDMA_CTRL_IE_DESC_ERROR"

definition start_control :: "bool \<Rightarrow> bool \<Rightarrow> u32" where
  "start_control poll non_incr =
     (let w = XDMA_CTRL_RUN_STOP OR XDMA_CTRL_IE_READ_ERROR OR XDMA_CTRL_IE_DESC_ERROR OR
              XDMA_CTRL_IE_DESC_ALIGN_MISMATCH OR XDMA_CTRL_IE_MAGIC_STOPPED;
          w = (if poll then w OR XDMA_CTRL_POLL_MODE_WB
               else w OR XDMA_CTRL_IE_DESC_STOPPED OR XDMA_CTRL_IE_DESC_COMPLETED)
      in if non_incr then w OR XDMA_CTRL_NON_INCR_ADDR else w)"

definition engine_start_mode_config :: "env \<Rightarrow> eng \<Rightarrow> ('a xworld_scheme, int) state" where
  "engine_start_mode_config E e = (if e = NoEngine then ret (- EINVAL) else do {
     g \<leftarrow> the_eng e;
     poll \<leftarrow> param poll_mode;
     _ \<leftarrow> when_st (e_xdma_perf g \<noteq> None) (iowrite32 perf_int_mask (eng_reg g R_interrupt_enable_mask));
     _ \<leftarrow> iowrite32 (start_control poll (e_non_incr_addr g)) (eng_reg g R_control);
     _ \<leftarrow> ioread32 E (eng_reg g R_status);
     ret 0 })"

text \<open>\<open>engine_start\<close> returns the transfer it started, or none.\<close>

definition engine_start :: "env \<Rightarrow> eng \<Rightarrow> ('a xworld_scheme, xref option) state" where
  "engine_start E e = (if e = NoEngine then ret None else do {
     g \<leftarrow> the_eng e;
     if e_running g then ret None
     else case e_transfer_list g of [] \<Rightarrow> ret None | x # _ \<Rightarrow> do {
       _ \<leftarrow> upd_eng e (\<lambda>g. g\<lparr>e_shutdown := ENGINE_SHUTDOWN_NONE\<rparr>);
       credit \<leftarrow> param enable_st_c2h_credit;
       _ \<leftarrow> when_st (credit \<and> e_streaming g \<and> e_dir g = DMA_FROM_DEVICE)
              (iowrite32 (e_desc_used g) (eng_sgdma g S_credits));
       _ \<leftarrow> upd_eng e (\<lambda>g. g\<lparr>e_desc_dequeued := 0\<rparr>);
       t \<leftarrow> the_xfer x;
       _ \<leftarrow> iowrite32 (PCI_DMA_L (t_desc_bus t)) (eng_sgdma g S_first_desc_lo);
       _ \<leftarrow> iowrite32 (PCI_DMA_H (t_desc_bus t)) (eng_sgdma g S_first_desc_hi);
       let next_adj = xdma_get_next_adj (t_desc_adjacent t) (PCI_DMA_L (t_desc_bus t));
       _ \<leftarrow> iowrite32 next_adj (eng_sgdma g S_first_desc_adjacent);
       rv \<leftarrow> engine_start_mode_config E e;
       if rv < 0 then ret None
       else do {
         rv \<leftarrow> engine_status_read E e False False;
         if rv < 0 then ret None
         else do {
           _ \<leftarrow> upd_eng e (\<lambda>g. g\<lparr>e_running := True\<rparr>);
           ret (Some x) } } } })"

section \<open>Service\<close>

definition engine_service_shutdown :: "eng \<Rightarrow> ('a xworld_scheme, int) state" where
  "engine_service_shutdown e = do {
     rv \<leftarrow> xdma_engine_stop e;
     if rv < 0 then ret rv
     else do {
       _ \<leftarrow> wake_up WqShutdown (eng_key e);
       ret 0 } }"

definition engine_transfer_completion ::
  "'a io_done \<Rightarrow> eng \<Rightarrow> xref option \<Rightarrow> ('a xworld_scheme, xref option) state" where
  "engine_transfer_completion H e transfer = (if e = NoEngine then ret None
     else case transfer of None \<Rightarrow> ret None | Some x \<Rightarrow> do {
       _ \<leftarrow> wake_up WqXfer (xref_key x);
       t \<leftarrow> the_xfer x;
       _ \<leftarrow> when_st (t_cb t \<noteq> 0 \<and> t_last_in_request t) (H (t_cb t) 0);
       ret (Some x) })"

definition queue_head :: "eng \<Rightarrow> ('a xworld_scheme, xref option) state" where
  "queue_head e = gets_st (\<lambda>s. case e_transfer_list (engs s e) of [] \<Rightarrow> None | x # _ \<Rightarrow> Some x)"

definition queue_del_head :: "eng \<Rightarrow> ('a xworld_scheme, unit) state" where
  "queue_del_head e = upd_eng e (\<lambda>g. g\<lparr>e_transfer_list := tl (e_transfer_list g)\<rparr>)"

text \<open>
  The loop over the completed transfers; \<open>n\<close> is \<open>*pdesc_completed\<close>. Every round removes
  the head of the queue, so as many rounds as the queue is long (and one to find it empty)
  are enough.
\<close>

fun transfer_list_loop ::
  "nat \<Rightarrow> 'a io_done \<Rightarrow> eng \<Rightarrow> xref option \<Rightarrow> u32 \<Rightarrow> ('a xworld_scheme, xref option \<times> u32) state" where
  "transfer_list_loop 0 H e transfer n = ret (transfer, n)"
| "transfer_list_loop (Suc fuel) H e None n = ret (None, n)"
| "transfer_list_loop (Suc fuel) H e (Some x) n = do {
     t \<leftarrow> the_xfer x;
     if \<not> t_cyclic t \<and> t_desc_num t < n then do {
       let n = n - t_desc_num t;
       _ \<leftarrow> queue_del_head e;
       _ \<leftarrow> upd_eng e (\<lambda>g. g\<lparr>e_desc_dequeued := e_desc_dequeued g + t_desc_num t\<rparr>);
       _ \<leftarrow> upd_xfer x (\<lambda>t. t\<lparr>t_state := TRANSFER_STATE_COMPLETED\<rparr>);
       _ \<leftarrow> engine_transfer_completion H e (Some x);
       next \<leftarrow> queue_head e;
       transfer_list_loop fuel H e next n }
     else ret (Some x, n) }"

definition engine_service_transfer_list ::
  "'a io_done \<Rightarrow> eng \<Rightarrow> xref option \<Rightarrow> u32 \<Rightarrow> ('a xworld_scheme, xref option \<times> u32) state" where
  "engine_service_transfer_list H e transfer n = (if e = NoEngine then ret (None, n)
     else case transfer of None \<Rightarrow> ret (None, n) | Some x \<Rightarrow> do {
       g \<leftarrow> the_eng e;
       transfer_list_loop (Suc (length (e_transfer_list g))) H e (Some x) n })"

definition engine_err_handle :: "env \<Rightarrow> eng \<Rightarrow> xref \<Rightarrow> u32 \<Rightarrow> ('a xworld_scheme, int) state" where
  "engine_err_handle E e x desc_completed = do {
     g \<leftarrow> the_eng e;
     _ \<leftarrow> (if e_status g AND XDMA_STAT_BUSY \<noteq> 0
            then do { _ \<leftarrow> ioread32 E (eng_reg g R_status); ret () } else ret ());
     _ \<leftarrow> upd_xfer x (\<lambda>t. t\<lparr>t_state := TRANSFER_STATE_FAILED\<rparr>);
     xdma_engine_stop e }"

text \<open>Does a completion record of the first \<open>n\<close> carry the end-of-packet flag?\<close>

definition eop_received :: "env \<Rightarrow> u64 \<Rightarrow> u32 \<Rightarrow> ('a xworld_scheme, bool) state" where
  "eop_received E res n = gets_st (\<lambda>s.
     list_ex (\<lambda>i. dma_mem E (tr s) (res + 32 * of_nat i) AND RX_STATUS_EOP \<noteq> 0) [0..<nat (sint n)])"

definition finish_head ::
  "'a io_done \<Rightarrow> eng \<Rightarrow> xref \<Rightarrow> ('a xworld_scheme, xref option) state" where
  "finish_head H e x = do {
     _ \<leftarrow> queue_del_head e;
     engine_transfer_completion H e (Some x) }"

definition engine_service_final_transfer ::
  "env \<Rightarrow> 'a io_done \<Rightarrow> eng \<Rightarrow> xref option \<Rightarrow> u32 \<Rightarrow> ('a xworld_scheme, xref option) state" where
  "engine_service_final_transfer E H e transfer n = (if e = NoEngine then ret None
     else case transfer of None \<Rightarrow> ret None | Some x \<Rightarrow> do {
       g \<leftarrow> the_eng e;
       t \<leftarrow> the_xfer x;
       if e_dir g = DMA_FROM_DEVICE \<and> e_status g AND XDMA_STAT_C2H_ERR_MASK \<noteq> 0 \<or>
          e_dir g = DMA_TO_DEVICE \<and> e_status g AND XDMA_STAT_H2C_ERR_MASK \<noteq> 0
       then do {
         _ \<leftarrow> engine_err_handle E e x n;
         finish_head H e x }
       else if n < t_desc_num t then
         if e_eop_flush g then do {
           eop \<leftarrow> eop_received E (t_res_virt t) n;
           _ \<leftarrow> when_st eop (upd_xfer x (\<lambda>t. t\<lparr>t_flags := t_flags t OR XFER_FLAG_ST_C2H_EOP_RCVED\<rparr>));
           _ \<leftarrow> upd_xfer x (\<lambda>t. t\<lparr>t_desc_cmpl := t_desc_cmpl t + n\<rparr>);
           t \<leftarrow> the_xfer x;
           if t_flags t AND XFER_FLAG_ST_C2H_EOP_RCVED = 0 then ret None
           else do {
             _ \<leftarrow> engine_service_shutdown e;
             _ \<leftarrow> upd_xfer x (\<lambda>t. t\<lparr>t_state := TRANSFER_STATE_COMPLETED\<rparr>);
             _ \<leftarrow> upd_eng e (\<lambda>g. g\<lparr>e_desc_dequeued := e_desc_dequeued g + t_desc_cmpl t\<rparr>);
             finish_head H e x } }
         else do {
           _ \<leftarrow> upd_xfer x (\<lambda>t. t\<lparr>t_state := TRANSFER_STATE_FAILED\<rparr>);
           _ \<leftarrow> upd_eng e (\<lambda>g. g\<lparr>e_desc_dequeued := e_desc_dequeued g + t_desc_num t\<rparr>);
           _ \<leftarrow> upd_xfer x (\<lambda>t. t\<lparr>t_desc_cmpl := n\<rparr>);
           finish_head H e x }
       else do {
         _ \<leftarrow> upd_xfer x (\<lambda>t. t\<lparr>t_state := TRANSFER_STATE_COMPLETED, t_desc_cmpl := t_desc_num t\<rparr>);
         _ \<leftarrow> upd_eng e (\<lambda>g. g\<lparr>e_desc_dequeued := e_desc_dequeued g + t_desc_num t\<rparr>);
         finish_head H e x } })"

definition engine_service_perf :: "eng \<Rightarrow> u32 \<Rightarrow> ('a xworld_scheme, int) state" where
  "engine_service_perf e desc_completed = (if e = NoEngine then ret (- EINVAL) else do {
     g \<leftarrow> the_eng e;
     _ \<leftarrow> when_st (e_xdma_perf g \<noteq> None) (do {
       _ \<leftarrow> when_st (e_status g AND XDMA_STAT_DESC_COMPLETED \<noteq> 0)
              (upd_perf e (\<lambda>p. p\<lparr>p_iterations := desc_completed\<rparr>));
       when_st (e_status g AND XDMA_STAT_DESC_STOPPED \<noteq> 0) (do {
         _ \<leftarrow> upd_perf e (\<lambda>p. p\<lparr>p_stopped := 1\<rparr>);
         wake_up WqPerf (eng_key e) }) });
     ret 0 })"

definition engine_service_resume :: "env \<Rightarrow> eng \<Rightarrow> ('a xworld_scheme, int) state" where
  "engine_service_resume E e = (if e = NoEngine then ret (- EINVAL) else do {
     g \<leftarrow> the_eng e;
     if \<not> e_running g then
       if e_transfer_list g \<noteq> [] then do {
         started \<leftarrow> engine_start E e;
         if started = None then ret (- EINVAL) else ret 0 }
       else if e_shutdown g AND ENGINE_SHUTDOWN_REQUEST \<noteq> 0 then do {
         _ \<leftarrow> upd_eng e (\<lambda>g. g\<lparr>e_shutdown := e_shutdown g OR ENGINE_SHUTDOWN_IDLE\<rparr>);
         _ \<leftarrow> wake_up WqShutdown (eng_key e);
         ret 0 }
       else ret 0
     else if e_transfer_list g = [] then do {
       _ \<leftarrow> engine_service_shutdown e;
       ret 0 }
     else ret 0 })"

text \<open>\<open>engine_service\<close>, from its label \<open>done\<close> backwards: the final part first.\<close>

definition engine_service_transfers ::
  "env \<Rightarrow> 'a io_done \<Rightarrow> eng \<Rightarrow> u32 \<Rightarrow> u32 \<Rightarrow> ('a xworld_scheme, int) state" where
  "engine_service_transfers E H e desc_count err_flag = do {
     transfer \<leftarrow> queue_head e;
     rv \<leftarrow> (if transfer \<noteq> None then engine_service_perf e desc_count else ret 0);
     if rv < 0 then ret rv
     else do {
       g \<leftarrow> the_eng e;
       let desc_count = desc_count - e_desc_dequeued g;
       (transfer, desc_count) \<leftarrow> engine_service_transfer_list H e transfer desc_count;
       _ \<leftarrow> engine_service_final_transfer E H e transfer desc_count;
       _ \<leftarrow> (if \<not> e_eop_flush g then do { _ \<leftarrow> engine_service_resume E e; ret () } else ret ());
       ret (if err_flag \<noteq> 0 then -1 else 0) } }"

definition engine_service ::
  "env \<Rightarrow> 'a io_done \<Rightarrow> eng \<Rightarrow> u32 \<Rightarrow> ('a xworld_scheme, int) state" where
  "engine_service E H e desc_writeback = do {
     let desc_count = desc_writeback AND WB_COUNT_MASK;
     let err_flag = desc_writeback AND WB_ERR_MASK;
     if e = NoEngine then ret (- EINVAL)
     else do {
       g \<leftarrow> the_eng e;
       if \<not> e_running g then do {
         rv \<leftarrow> engine_status_read E e True False;
         if rv < 0 then ret rv else ret 0 }
       else do {
         rv \<leftarrow> (if desc_count = 0 \<or> err_flag \<noteq> 0 then engine_status_read E e True False else ret 0);
         if rv < 0 then ret rv
         else do {
           g \<leftarrow> the_eng e;
           rv \<leftarrow> (if e_running g \<and> e_status g AND XDMA_STAT_BUSY = 0 \<or>
                     \<not> e_eop_flush g \<and> desc_count \<noteq> 0
                  then engine_service_shutdown e else ret 0);
           if rv < 0 then ret rv
           else do {
             desc_count \<leftarrow> (if desc_count = 0 then ioread32 E (eng_reg g R_completed_desc_count)
                           else ret desc_count);
             if desc_count = 0 then ret (if err_flag \<noteq> 0 then -1 else 0)
             else engine_service_transfers E H e desc_count err_flag } } } } }"

definition channel_interrupts_enable :: "u64 \<Rightarrow> u32 \<Rightarrow> ('a xworld_scheme, unit) state" where
  "channel_interrupts_enable d msk = do {
     x \<leftarrow> the_xdev d;
     iowrite32 msk (irq_reg x I_channel_int_enable_w1s) }"

definition engine_service_work ::
  "env \<Rightarrow> 'a io_done \<Rightarrow> eng \<Rightarrow> ('a xworld_scheme, unit) state" where
  "engine_service_work E H e = do {
     g \<leftarrow> the_eng e;
     if e_magic g \<noteq> MAGIC_ENGINE then ret ()
     else do {
       _ \<leftarrow> lock_acquire LkEngine (eng_key e);
       rv \<leftarrow> engine_service E H e 0;
       _ \<leftarrow> when_st (\<not> rv < 0) (do {
         g \<leftarrow> the_eng e;
         x \<leftarrow> the_xdev (e_xdev g);
         if x_msix_enabled x
         then iowrite32 (e_int_mask_value g) (eng_reg g R_interrupt_enable_mask_w1s)
         else channel_interrupts_enable (e_xdev g) (e_irq_bitmask g) });
       lock_release LkEngine (eng_key e) } }"

text \<open>
  The polling loop on the write-back word. The kernel's clock decides when the timeout has
  passed: the loop makes as many polls as fit before it, at least one.
\<close>

fun wb_poll_loop :: "nat \<Rightarrow> env \<Rightarrow> u64 \<Rightarrow> u32 \<Rightarrow> ('a xworld_scheme, u32) state" where
  "wb_poll_loop polls E wb expected_wb = do {
     desc_wb \<leftarrow> mem_read E wb;
     _ \<leftarrow> when_st (desc_wb \<noteq> 0) (mem_zero wb 4);
     if desc_wb AND WB_ERR_MASK \<noteq> 0 then ret desc_wb
     else if expected_wb \<le> desc_wb then ret desc_wb
     else case polls of
       0 \<Rightarrow> ret (if expected_wb < desc_wb AND WB_COUNT_MASK then expected_wb OR WB_ERR_MASK else desc_wb)
     | Suc polls \<Rightarrow> wb_poll_loop polls E wb expected_wb }"

declare wb_poll_loop.simps [simp del]

definition engine_service_wb_monitor :: "env \<Rightarrow> eng \<Rightarrow> u32 \<Rightarrow> ('a xworld_scheme, u32) state" where
  "engine_service_wb_monitor E e expected_wb =
     (if e = NoEngine then ret (of_int (- EINVAL))
      else if expected_wb = 0 then ret 0
      else do {
        g \<leftarrow> the_eng e;
        polls \<leftarrow> kcall E K_jiffies [];
        wb_poll_loop (nat polls) E (e_poll_mode_addr_virt g) expected_wb })"

definition engine_service_poll ::
  "env \<Rightarrow> 'a io_done \<Rightarrow> eng \<Rightarrow> u32 \<Rightarrow> ('a xworld_scheme, int) state" where
  "engine_service_poll E H e expected_desc_count =
     (if e = NoEngine then ret (- EINVAL) else do {
        g \<leftarrow> the_eng e;
        if e_magic g \<noteq> MAGIC_ENGINE then ret (- EINVAL)
        else do {
          desc_wb \<leftarrow> engine_service_wb_monitor E e expected_desc_count;
          if desc_wb = 0 then ret 0
          else do {
            _ \<leftarrow> lock_acquire LkEngine (eng_key e);
            rv \<leftarrow> engine_service E H e desc_wb;
            _ \<leftarrow> lock_release LkEngine (eng_key e);
            ret rv } } })"

section \<open>The queue of transfers\<close>

definition transfer_abort :: "eng \<Rightarrow> xref option \<Rightarrow> ('a xworld_scheme, int) state" where
  "transfer_abort e transfer = (if e = NoEngine then ret (- EINVAL)
     else case transfer of None \<Rightarrow> ret (- EINVAL) | Some x \<Rightarrow> do {
       t \<leftarrow> the_xfer x;
       if t_desc_num t = 0 then ret (- EINVAL)
       else do {
         head \<leftarrow> queue_head e;
         _ \<leftarrow> when_st (head = Some x) (queue_del_head e);
         _ \<leftarrow> when_st (t_state t = TRANSFER_STATE_SUBMITTED)
                (upd_xfer x (\<lambda>t. t\<lparr>t_state := TRANSFER_STATE_ABORTED\<rparr>));
         ret 0 } })"

definition transfer_queue :: "env \<Rightarrow> eng \<Rightarrow> xref option \<Rightarrow> ('a xworld_scheme, int) state" where
  "transfer_queue E e transfer = (if e = NoEngine then ret (- EINVAL) else do {
     g \<leftarrow> the_eng e;
     if e_xdev g = 0 then ret (- EINVAL)
     else case transfer of None \<Rightarrow> ret (- EINVAL) | Some x \<Rightarrow> do {
       t \<leftarrow> the_xfer x;
       if t_desc_num t = 0 then ret (- EINVAL)
       else do {
         offline \<leftarrow> xdma_device_flag_check (e_xdev g) XDEV_FLAG_OFFLINE;
         if offline then ret (- EBUSY)
         else do {
           _ \<leftarrow> lock_acquire LkEngine (eng_key e);
           rv \<leftarrow> (if e_shutdown g AND ENGINE_SHUTDOWN_REQUEST \<noteq> 0 then ret (- EBUSY)
                  else do {
                    _ \<leftarrow> upd_xfer x (\<lambda>t. t\<lparr>t_state := TRANSFER_STATE_SUBMITTED\<rparr>);
                    _ \<leftarrow> upd_eng e (\<lambda>g. g\<lparr>e_transfer_list := e_transfer_list g @ [x]\<rparr>);
                    _ \<leftarrow> (if \<not> e_running g then do { _ \<leftarrow> engine_start E e; ret () } else ret ());
                    ret 0 });
           _ \<leftarrow> lock_release LkEngine (eng_key e);
           ret rv } } } })"

definition engine_cyclic_stop :: "eng \<Rightarrow> ('a xworld_scheme, xref option) state" where
  "engine_cyclic_stop e = do {
     g \<leftarrow> the_eng e;
     case e_xdma_perf g of None \<Rightarrow> do { _ \<leftarrow> emit Oops; ret None } | Some p \<Rightarrow>
     case e_transfer_list g of [] \<Rightarrow> ret None | x # _ \<Rightarrow> do {
       rv \<leftarrow> xdma_engine_stop e;
       if rv < 0 then ret None
       else do {
         t \<leftarrow> the_xfer x;
         _ \<leftarrow> when_st (t_cyclic t) (do {
           _ \<leftarrow> when_st (e_perf_buf_virt g \<noteq> 0)
                  (kproc K_dma_free_coherent [ucast (p_transfer_size p), e_perf_buf_virt g, e_perf_buf_bus g]);
           _ \<leftarrow> upd_eng e (\<lambda>g. g\<lparr>e_perf_buf_virt := 0\<rparr>);
           queue_del_head e });
         ret (Some x) } } }"

section \<open>Starting and stopping: the register writes\<close>

definition is_credit :: "'a xworld_scheme \<Rightarrow> xdma_engine \<Rightarrow> bool" where
  "is_credit s g \<longleftrightarrow> enable_st_c2h_credit (prm s) \<and> e_streaming g \<and> e_dir g = DMA_FROM_DEVICE"

definition start_writes :: "'a xworld_scheme \<Rightarrow> xdma_engine \<Rightarrow> xdma_transfer \<Rightarrow> (u64 \<times> u32) list" where
  "start_writes s g t =
     (if is_credit s g then [(eng_sgdma g S_credits, e_desc_used g)] else []) @
     [(eng_sgdma g S_first_desc_lo, PCI_DMA_L (t_desc_bus t)),
      (eng_sgdma g S_first_desc_hi, PCI_DMA_H (t_desc_bus t)),
      (eng_sgdma g S_first_desc_adjacent, xdma_get_next_adj (t_desc_adjacent t) (PCI_DMA_L (t_desc_bus t)))] @
     (if e_xdma_perf g = None then [] else [(eng_reg g R_interrupt_enable_mask, perf_int_mask)]) @
     [(eng_reg g R_control, start_control (poll_mode (prm s)) (e_non_incr_addr g))]"

lemma eng_reg_cong [simp]:
  "eng_reg (g\<lparr>e_shutdown := a\<rparr>) = eng_reg g" "eng_sgdma (g\<lparr>e_shutdown := a\<rparr>) = eng_sgdma g"
  "eng_reg (g\<lparr>e_desc_dequeued := b\<rparr>) = eng_reg g" "eng_sgdma (g\<lparr>e_desc_dequeued := b\<rparr>) = eng_sgdma g"
  "eng_reg (g\<lparr>e_status := c\<rparr>) = eng_reg g" "eng_reg (g\<lparr>e_running := d\<rparr>) = eng_reg g"
  by (simp_all add: eng_reg_def eng_sgdma_def fun_eq_iff)

lemma is_credit_upd [simp]:
  "is_credit (s\<lparr>engs := a\<rparr>) = is_credit s" "is_credit (s\<lparr>tr := h\<rparr>) = is_credit s"
  "is_credit (s\<lparr>xfers := b\<rparr>) = is_credit s"
  by (simp_all add: is_credit_def fun_eq_iff)

lemma run_engine_start:
  assumes "e \<noteq> NoEngine" "\<not> e_running (engs s e)" "e_transfer_list (engs s e) = x # xs"
  shows "\<exists>h v. run_state (engine_start E e) s =
     (Some x, s\<lparr>tr := h, engs := (engs s)(e := (engs s e)\<lparr>e_shutdown := ENGINE_SHUTDOWN_NONE,
        e_running := True, e_desc_dequeued := 0, e_status := v\<rparr>)\<rparr>) \<and>
     writes h = writes (tr s) @ start_writes s (engs s e) (xfers s x)"
  using assms
  by (cases "is_credit s (engs s e)"; cases "e_xdma_perf (engs s e)")
    (simp_all add: engine_start_def engine_start_mode_config_def engine_status_read_def Let_def
      start_writes_def is_credit_def [symmetric], (intro exI conjI, rule refl, simp)+)

lemma run_engine_stop:
  assumes "e \<noteq> NoEngine"
  shows "\<exists>h. run_state (xdma_engine_stop e) s =
     (0, s\<lparr>tr := h, engs := (engs s)(e := (engs s e)\<lparr>e_running := False\<rparr>)\<rparr>) \<and>
     writes h = writes (tr s) @ (if is_credit s (engs s e) then [(eng_sgdma (engs s e) S_credits, 0)] else []) @
       [(eng_reg (engs s e) R_control, stop_control (poll_mode (prm s)))]"
  using assms
  by (cases "is_credit s (engs s e)")
    (simp_all add: xdma_engine_stop_def is_credit_def [symmetric], (intro exI conjI, rule refl, simp)+)

lemma run_bit_start: "start_control p i AND XDMA_CTRL_RUN_STOP = XDMA_CTRL_RUN_STOP"
  by (simp add: start_control_def ctrl_bits Let_def bit.conj_disj_distrib2)

lemma run_bit_stop: "stop_control p AND XDMA_CTRL_RUN_STOP = 0"
  by (simp add: stop_control_def ctrl_bits Let_def bit.conj_disj_distrib2)

text \<open>
  C15: starting an idle engine with a queued transfer. The address of the first descriptor of
  the head of the queue, and its adjacent count, are written before the control register;
  the last write of all sets the RUN bit, and no earlier one touches the control register.
  The engine is then marked as running, with nothing dequeued and no shutdown pending.
\<close>

theorem engine_start_order:
  assumes "e \<noteq> NoEngine" "\<not> e_running (engs s e)" "e_transfer_list (engs s e) = x # xs"
    and "run_state (engine_start E e) s = (r, s')"
  shows "r = Some x \<and> e_running (engs s' e) \<and> e_desc_dequeued (engs s' e) = 0 \<and>
    e_shutdown (engs s' e) = ENGINE_SHUTDOWN_NONE \<and> e_transfer_list (engs s' e) = x # xs \<and>
    (\<exists>pre w lo hi. writes (tr s') = writes (tr s) @ pre @ [(eng_reg (engs s e) R_control, w)] \<and>
       w AND XDMA_CTRL_RUN_STOP = XDMA_CTRL_RUN_STOP \<and>
       (eng_sgdma (engs s e) S_first_desc_lo, lo) \<in> set pre \<and>
       (eng_sgdma (engs s e) S_first_desc_hi, hi) \<in> set pre \<and>
       bus_of hi lo = t_desc_bus (xfers s x))"
proof -
  obtain h v where "run_state (engine_start E e) s =
     (Some x, s\<lparr>tr := h, engs := (engs s)(e := (engs s e)\<lparr>e_shutdown := ENGINE_SHUTDOWN_NONE,
        e_running := True, e_desc_dequeued := 0, e_status := v\<rparr>)\<rparr>)"
    and w: "writes h = writes (tr s) @ start_writes s (engs s e) (xfers s x)"
    using run_engine_start [OF assms(1-3)] by blast
  then have r: "r = Some x" and s': "s' = s\<lparr>tr := h, engs := (engs s)(e := (engs s e)\<lparr>e_shutdown := ENGINE_SHUTDOWN_NONE,
        e_running := True, e_desc_dequeued := 0, e_status := v\<rparr>)\<rparr>"
    using assms(4) by simp_all
  have "start_writes s (engs s e) (xfers s x) = butlast (start_writes s (engs s e) (xfers s x)) @
      [(eng_reg (engs s e) R_control, start_control (poll_mode (prm s)) (e_non_incr_addr (engs s e)))]"
    by (simp add: start_writes_def butlast_append)
  moreover have "(eng_sgdma (engs s e) S_first_desc_lo, PCI_DMA_L (t_desc_bus (xfers s x)))
      \<in> set (butlast (start_writes s (engs s e) (xfers s x)))"
    "(eng_sgdma (engs s e) S_first_desc_hi, PCI_DMA_H (t_desc_bus (xfers s x)))
      \<in> set (butlast (start_writes s (engs s e) (xfers s x)))"
    by (simp_all add: start_writes_def butlast_append)
  ultimately have "\<exists>pre w lo hi. writes (tr s') = writes (tr s) @ pre @ [(eng_reg (engs s e) R_control, w)] \<and>
       w AND XDMA_CTRL_RUN_STOP = XDMA_CTRL_RUN_STOP \<and>
       (eng_sgdma (engs s e) S_first_desc_lo, lo) \<in> set pre \<and>
       (eng_sgdma (engs s e) S_first_desc_hi, hi) \<in> set pre \<and> bus_of hi lo = t_desc_bus (xfers s x)"
    using w by (simp add: s') (metis bus_of_halves run_bit_start)
  then show ?thesis
    using assms(3) by (simp add: r s')
qed

theorem engine_start_order_witness:
  "let s = sample_world\<lparr>engs := (\<lambda>_. sample_engine\<lparr>e_transfer_list := [Tfer 1 0]\<rparr>)\<rparr>;
       r = run_state (engine_start sample_env (H2C 0x100 0)) s
   in fst r = Some (Tfer 1 0) \<and> e_running (engs (snd r) (H2C 0x100 0))"
  using engine_start_order [of "H2C 0x100 0" "sample_world\<lparr>engs := (\<lambda>_. sample_engine\<lparr>e_transfer_list := [Tfer 1 0]\<rparr>)\<rparr>",
      OF _ _ _ prod.collapse [symmetric], of "Tfer 1 0" "[]" sample_env]
  by (simp add: Let_def)

lemma run_flag_check [simp]:
  "run_state (xdma_device_flag_check d f) s =
     (x_flags (xdevs s d) AND f \<noteq> 0, s\<lparr>tr := tr s @ [Lock LkDev [unat d], Unlock LkDev [unat d]]\<rparr>)"
  by (simp add: xdma_device_flag_check_def)

text \<open>
  C16: \<open>transfer_queue\<close> in every case. A null device, a transfer without descriptors, an
  offline device and an engine that is being shut down are refused, with the error code of
  the source and with engines and transfers unchanged. Otherwise the transfer goes to the
  tail of the queue as submitted, and the engine is running afterwards: if it was idle it
  has been started on the head of the queue.
\<close>

theorem transfer_queue_result:
  "let g = engs s e; (rv, s') = run_state (transfer_queue E e (Some x)) s in
   rv = (if e = NoEngine \<or> e_xdev g = 0 \<or> t_desc_num (xfers s x) = 0 then - EINVAL
         else if x_flags (xdevs s (e_xdev g)) AND XDEV_FLAG_OFFLINE \<noteq> 0 \<or>
                 e_shutdown g AND ENGINE_SHUTDOWN_REQUEST \<noteq> 0 then - EBUSY
         else 0) \<and>
   (if rv = 0
    then e_transfer_list (engs s' e) = e_transfer_list g @ [x] \<and> e_running (engs s' e) \<and>
         xfers s' = (xfers s)(x := (xfers s x)\<lparr>t_state := TRANSFER_STATE_SUBMITTED\<rparr>)
    else engs s' = engs s \<and> xfers s' = xfers s)"
proof (cases "e = NoEngine \<or> e_xdev (engs s e) = 0 \<or> t_desc_num (xfers s x) = 0 \<or>
    x_flags (xdevs s (e_xdev (engs s e))) AND XDEV_FLAG_OFFLINE \<noteq> 0 \<or>
    e_shutdown (engs s e) AND ENGINE_SHUTDOWN_REQUEST \<noteq> 0 \<or> e_running (engs s e)")
  case True
  then show ?thesis
    by (auto simp: transfer_queue_def)
next
  case False
  define s1 where "s1 = s\<lparr>tr := tr s @ [Lock LkDev [unat (e_xdev (engs s e))], Unlock LkDev [unat (e_xdev (engs s e))],
      Lock LkEngine (eng_key e)], engs := (engs s)(e := (engs s e)\<lparr>e_transfer_list := e_transfer_list (engs s e) @ [x]\<rparr>),
      xfers := (xfers s)(x := (xfers s x)\<lparr>t_state := TRANSFER_STATE_SUBMITTED\<rparr>)\<rparr>"
  obtain y ys where ys: "e_transfer_list (engs s e) @ [x] = y # ys"
    by (cases "e_transfer_list (engs s e) @ [x]") auto
  then obtain h v where "run_state (engine_start E e) s1 =
     (Some y, s1\<lparr>tr := h, engs := (engs s1)(e := (engs s1 e)\<lparr>e_shutdown := ENGINE_SHUTDOWN_NONE,
        e_running := True, e_desc_dequeued := 0, e_status := v\<rparr>)\<rparr>)"
    using run_engine_start [of e s1 y ys E] False by (auto simp: s1_def)
  then show ?thesis
    using False by (simp add: transfer_queue_def s1_def fun_upd_same del: fun_upd_apply)
qed

text \<open>An idle engine with an empty queue, and a transfer of one descriptor.\<close>

theorem transfer_queue_witness:
  "let s = sample_world\<lparr>xfers := (\<lambda>_. zero_transfer\<lparr>t_desc_num := 1\<rparr>)\<rparr>;
       r = run_state (transfer_queue sample_env (H2C 0x100 0) (Some (Tfer 1 0))) s
   in fst r = 0 \<and> e_transfer_list (engs (snd r) (H2C 0x100 0)) = [Tfer 1 0] \<and>
      e_running (engs (snd r) (H2C 0x100 0))"
  using transfer_queue_result [of "sample_world\<lparr>xfers := (\<lambda>_. zero_transfer\<lparr>t_desc_num := 1\<rparr>)\<rparr>" "H2C 0x100 0"
      sample_env "Tfer 1 0"]
  by (simp add: Let_def split: prod.splits) (simp add: sample_xdev_def)

section \<open>Servicing completions\<close>

text \<open>
  The abstract queue discipline: of the transfers \<open>xs\<close>, with \<open>num x\<close> descriptors each, and
  \<open>n\<close> completed descriptors, those that are wholly covered and not the last, the rest, and
  the count left for the head of the rest.
\<close>

fun fifo :: "(xref \<Rightarrow> u32) \<Rightarrow> xref list \<Rightarrow> u32 \<Rightarrow> xref list \<times> xref list \<times> u32" where
  "fifo num [] n = ([], [], n)"
| "fifo num (x # xs) n =
     (if num x < n then (let (don, rest, m) = fifo num xs (n - num x) in (x # don, rest, m))
      else ([], x # xs, n))"

lemma fifo_append: "fifo num xs n = (don, rest, m) \<Longrightarrow> xs = don @ rest"
  by (induction num xs n arbitrary: don rest m rule: fifo.induct) (auto split: if_splits prod.splits)

definition opt_hd :: "'a list \<Rightarrow> 'a option" where
  "opt_hd xs = (case xs of [] \<Rightarrow> None | x # _ \<Rightarrow> Some x)"

lemma opt_hd_simps [simp]: "opt_hd [] = None" "opt_hd (x # xs) = Some x"
  by (simp_all add: opt_hd_def)

lemma run_queue_head [simp]: "run_state (queue_head e) s = (opt_hd (e_transfer_list (engs s e)), s)"
  by (simp add: queue_head_def opt_hd_def)

definition sync_queue :: "'a xworld_scheme \<Rightarrow> eng \<Rightarrow> bool" where
  "sync_queue s e \<longleftrightarrow> e \<noteq> NoEngine \<and> distinct (e_transfer_list (engs s e)) \<and>
     (\<forall>x \<in> set (e_transfer_list (engs s e)). \<not> t_cyclic (xfers s x) \<and> t_cb (xfers s x) = 0)"

definition completed :: "xref set \<Rightarrow> (xref \<Rightarrow> xdma_transfer) \<Rightarrow> (xref \<Rightarrow> xdma_transfer)" where
  "completed X T x = (if x \<in> X then (T x)\<lparr>t_state := TRANSFER_STATE_COMPLETED\<rparr> else T x)"

lemma completed_insert:
  "x \<notin> X \<Longrightarrow> completed X (T(x := (T x)\<lparr>t_state := TRANSFER_STATE_COMPLETED\<rparr>)) = completed (insert x X) T"
  by (auto simp: completed_def fun_eq_iff)

lemma completed_empty [simp]: "completed {} T = T"
  by (simp add: completed_def fun_eq_iff)

lemma run_transfer_list_loop:
  fixes s :: "'a xworld_scheme"
  assumes "sync_queue s e" "length (e_transfer_list (engs s e)) < fuel"
    and "fifo (\<lambda>x. t_desc_num (xfers s x)) (e_transfer_list (engs s e)) n = (don, rest, m)"
  shows "\<exists>h. run_state (transfer_list_loop fuel H e (opt_hd (e_transfer_list (engs s e))) n) s =
     ((opt_hd rest, m), s\<lparr>tr := h,
        engs := (engs s)(e := (engs s e)\<lparr>e_desc_dequeued := e_desc_dequeued (engs s e) +
            sum_list (map (\<lambda>x. t_desc_num (xfers s x)) don), e_transfer_list := rest\<rparr>),
        xfers := completed (set don) (xfers s)\<rparr>)"
  using assms
proof (induction fuel arbitrary: s n don)
  case (Suc fuel)
  have same: "(engs s e)\<lparr>e_transfer_list := l\<rparr> = engs s e" if "e_transfer_list (engs s e) = l" for l
    using that by (intro xdma_engine.equality) simp_all
  show ?case
  proof (cases "e_transfer_list (engs s e)")
    case Nil
    with Suc.prems show ?thesis
      by (intro exI [of _ "tr s"]) (simp add: same)
  next
    case (Cons x xs)
    let ?num = "\<lambda>y. t_desc_num (xfers s y)"
    have x: "\<not> t_cyclic (xfers s x)" "t_cb (xfers s x) = 0" "x \<notin> set xs" "e \<noteq> NoEngine"
      using Suc.prems(1) Cons by (auto simp: sync_queue_def)
    show ?thesis
    proof (cases "?num x < n")
      case False
      then have "don = []" "rest = x # xs" "m = n"
        using Suc.prems(3) Cons by auto
      with False Cons x show ?thesis
        by (intro exI [of _ "tr s"]) (simp add: same)
    next
      case True
      obtain don' where f: "fifo ?num xs (n - ?num x) = (don', rest, m)" and don: "don = x # don'"
        using Suc.prems(3) Cons True by (auto split: prod.splits)
      define s1 where "s1 = s\<lparr>tr := tr s @ [Wake WqXfer (xref_key x)],
        engs := (engs s)(e := (engs s e)\<lparr>e_desc_dequeued := e_desc_dequeued (engs s e) + ?num x, e_transfer_list := xs\<rparr>),
        xfers := (xfers s)(x := (xfers s x)\<lparr>t_state := TRANSFER_STATE_COMPLETED\<rparr>)\<rparr>"
      have num1: "(\<lambda>y. t_desc_num (xfers s1 y)) = ?num"
        by (simp add: s1_def fun_eq_iff)
      have "sync_queue s1 e"
        using Suc.prems(1) Cons by (auto simp: sync_queue_def s1_def)
      moreover have "length (e_transfer_list (engs s1 e)) < fuel"
        using Suc.prems(2) Cons by (simp add: s1_def)
      moreover have "fifo (\<lambda>y. t_desc_num (xfers s1 y)) (e_transfer_list (engs s1 e)) (n - ?num x) = (don', rest, m)"
        using f unfolding num1 by (simp add: s1_def)
      ultimately obtain h where "run_state (transfer_list_loop fuel H e (opt_hd (e_transfer_list (engs s1 e))) (n - ?num x)) s1 =
         ((opt_hd rest, m), s1\<lparr>tr := h,
            engs := (engs s1)(e := (engs s1 e)\<lparr>e_desc_dequeued := e_desc_dequeued (engs s1 e) +
                sum_list (map ?num don'), e_transfer_list := rest\<rparr>),
            xfers := completed (set don') (xfers s1)\<rparr>)"
        using Suc.IH [of s1 "n - ?num x" don'] unfolding num1 by blast
      moreover have "run_state (transfer_list_loop (Suc fuel) H e (Some x) n) s =
          run_state (transfer_list_loop fuel H e (opt_hd (e_transfer_list (engs s1 e))) (n - ?num x)) s1"
        using x True Cons by (simp add: queue_del_head_def engine_transfer_completion_def s1_def)
      moreover have "x \<notin> set don'"
        using x(3) fifo_append [OF f] by auto
      ultimately show ?thesis
        using Cons by (simp add: s1_def don completed_insert add.assoc fun_upd_same del: fun_upd_apply)
          (intro exI, rule refl)
    qed
  qed
qed simp

definition status_error :: "xdma_engine \<Rightarrow> u32 \<Rightarrow> bool" where
  "status_error g v \<longleftrightarrow>
     e_dir g = DMA_FROM_DEVICE \<and> v AND XDMA_STAT_C2H_ERR_MASK \<noteq> 0 \<or>
     e_dir g = DMA_TO_DEVICE \<and> v AND XDMA_STAT_H2C_ERR_MASK \<noteq> 0"

lemma run_final_done:
  assumes "sync_queue s e" "e_transfer_list (engs s e) = x # xs"
    and "\<not> status_error (engs s e) (e_status (engs s e))" "t_desc_num (xfers s x) \<le> n"
  shows "run_state (engine_service_final_transfer E H e (Some x) n) s =
     (Some x, s\<lparr>tr := tr s @ [Wake WqXfer (xref_key x)],
        engs := (engs s)(e := (engs s e)\<lparr>e_desc_dequeued := e_desc_dequeued (engs s e) + t_desc_num (xfers s x),
           e_transfer_list := xs\<rparr>),
        xfers := (xfers s)(x := (xfers s x)\<lparr>t_desc_cmpl := t_desc_num (xfers s x),
           t_state := TRANSFER_STATE_COMPLETED\<rparr>)\<rparr>)"
proof -
  have "(n < t_desc_num (xfers s x)) = False"
    using assms(4) by (simp add: not_less)
  with assms(1-3) show ?thesis
    by (simp only: engine_service_final_transfer_def sync_queue_def)
      (simp add: status_error_def [symmetric] finish_head_def
        queue_del_head_def engine_transfer_completion_def fun_upd_same del: fun_upd_apply)
qed

lemma run_final_error:
  assumes "sync_queue s e" "e_transfer_list (engs s e) = x # xs"
    and "status_error (engs s e) (e_status (engs s e))"
  shows "\<exists>h. run_state (engine_service_final_transfer E H e (Some x) n) s =
     (Some x, s\<lparr>tr := h,
        engs := (engs s)(e := (engs s e)\<lparr>e_running := False, e_transfer_list := xs\<rparr>),
        xfers := (xfers s)(x := (xfers s x)\<lparr>t_state := TRANSFER_STATE_FAILED\<rparr>)\<rparr>)"
proof -
  let ?s1 = "s\<lparr>tr := tr s @ (if e_status (engs s e) AND XDMA_STAT_BUSY \<noteq> 0
        then [MmioR (eng_reg (engs s e) R_status) (mmio_rd E (tr s) (eng_reg (engs s e) R_status))] else []),
      xfers := (xfers s)(x := (xfers s x)\<lparr>t_state := TRANSFER_STATE_FAILED\<rparr>)\<rparr>"
  obtain h where h: "run_state (xdma_engine_stop e) ?s1 =
     (0, ?s1\<lparr>tr := h, engs := (engs ?s1)(e := (engs ?s1 e)\<lparr>e_running := False\<rparr>)\<rparr>)"
    using run_engine_stop [of e ?s1] assms(1) by (auto simp: sync_queue_def)
  have "run_state (engine_err_handle E e x n) s = run_state (xdma_engine_stop e) ?s1"
    by (simp add: engine_err_handle_def)
  then show ?thesis
    using assms h
    by (simp add: engine_service_final_transfer_def status_error_def [symmetric] sync_queue_def finish_head_def
      queue_del_head_def engine_transfer_completion_def fun_upd_same del: fun_upd_apply)
      (intro exI, rule refl)
qed

lemma run_service_shutdown:
  assumes "e \<noteq> NoEngine"
  shows "\<exists>h. run_state (engine_service_shutdown e) s =
     (0, s\<lparr>tr := h, engs := (engs s)(e := (engs s e)\<lparr>e_running := False\<rparr>)\<rparr>)"
  using run_engine_stop [OF assms, of s]
  by (auto simp: engine_service_shutdown_def)

lemma fifo_all:
  assumes "\<forall>x \<in> set xs. num x \<noteq> 0" "xs \<noteq> []" "sum_list (map (\<lambda>x. unat (num x)) xs) < 2 ^ 32"
  shows "fifo num xs (of_nat (sum_list (map (\<lambda>x. unat (num x)) xs))) = (butlast xs, [last xs], num (last xs))"
  using assms
proof (induction xs)
  case (Cons x xs)
  let ?sum = "sum_list (map (\<lambda>x. unat (num x)) xs)"
  show ?case
  proof (cases "xs = []")
    case False
    then have pos: "0 < ?sum"
      using Cons.prems(1) by (cases xs) (auto simp: unat_gt_0)
    have u: "unat (of_nat (unat (num x) + ?sum) :: u32) = unat (num x) + ?sum"
      using Cons.prems(3) by (subst unat_of_nat) simp
    have "num x < of_nat (unat (num x) + ?sum)"
      unfolding word_less_nat_alt u using pos by simp
    moreover have "of_nat (unat (num x) + ?sum) - num x = of_nat ?sum"
      by simp
    ultimately show ?thesis
      using Cons False by (simp del: of_nat_add)
  qed simp
qed simp

lemma of_nat_sum_list: "of_nat (sum_list (map (\<lambda>x. unat (f x)) xs)) = (sum_list (map f xs) :: u32)"
  by (induction xs) simp_all

lemma run_service_idle:
  assumes "e \<noteq> NoEngine" "e_running (engs s e)"
    and "\<forall>h. mmio_rd E h (eng_reg (engs s e) R_status_rc) = v" "v AND XDMA_STAT_BUSY = 0"
    and "\<forall>h. mmio_rd E h (eng_reg (engs s e) R_completed_desc_count) = c" "c \<noteq> 0"
  shows "\<exists>h. run_state (engine_service E H e 0) s =
     run_state (engine_service_transfers E H e c 0)
       (s\<lparr>tr := h, engs := (engs s)(e := (engs s e)\<lparr>e_running := False, e_status := v\<rparr>)\<rparr>)"
proof -
  let ?s1 = "s\<lparr>tr := tr s @ [MmioR (eng_reg (engs s e) R_status_rc) v],
      engs := (engs s)(e := (engs s e)\<lparr>e_status := v\<rparr>)\<rparr>"
  obtain h where h: "run_state (engine_service_shutdown e) ?s1 =
     (0, ?s1\<lparr>tr := h, engs := (engs ?s1)(e := (engs ?s1 e)\<lparr>e_running := False\<rparr>)\<rparr>)"
    using run_service_shutdown [OF assms(1), of ?s1] by blast
  then show ?thesis
    using assms
    by (simp add: engine_service_def engine_status_read_def Let_def fun_upd_same del: fun_upd_apply)
      (intro exI, rule refl)
qed

lemma run_resume_empty:
  assumes "e \<noteq> NoEngine" "\<not> e_running (engs s e)" "e_transfer_list (engs s e) = []"
  shows "\<exists>h sh. run_state (engine_service_resume E e) s =
     (0, s\<lparr>tr := h, engs := (engs s)(e := (engs s e)\<lparr>e_shutdown := sh\<rparr>)\<rparr>)"
proof (cases "e_shutdown (engs s e) AND ENGINE_SHUTDOWN_REQUEST = 0")
  case True
  with assms show ?thesis
    by (intro exI [of _ "tr s"] exI [of _ "e_shutdown (engs s e)"]) (simp add: engine_service_resume_def)
next
  case False
  with assms show ?thesis
    by (simp add: engine_service_resume_def) (intro exI, rule refl)
qed


definition sample_busy_world :: xworld where
  "sample_busy_world = sample_world\<lparr>
     engs := (\<lambda>_. sample_engine\<lparr>e_running := True, e_transfer_list := [Tfer 1 0, Tfer 1 1]\<rparr>),
     xfers := (\<lambda>_. zero_transfer\<lparr>t_desc_num := 3, t_state := TRANSFER_STATE_SUBMITTED\<rparr>)\<rparr>"

definition sample_done_env :: "u32 \<Rightarrow> u32 \<Rightarrow> env" where
  "sample_done_env status count =
     sample_env\<lparr>mmio_rd := (\<lambda>_ a. if a = 0x10044 then status else if a = 0x10048 then count else 0)\<rparr>"

lemma sample_busy_sel:
  "engs sample_busy_world = (\<lambda>_. sample_engine\<lparr>e_running := True, e_transfer_list := [Tfer 1 0, Tfer 1 1]\<rparr>)"
  "xfers sample_busy_world = (\<lambda>_. zero_transfer\<lparr>t_desc_num := 3, t_state := TRANSFER_STATE_SUBMITTED\<rparr>)"
  by (simp_all add: sample_busy_world_def)

lemma sample_sync_queue: "sync_queue sample_busy_world (H2C 0x100 0)"
  by (simp add: sync_queue_def sample_busy_sel zero_transfer_def)




section \<open>The status message and its buffer\<close>

lemma length_flag_text: "length (flag_text v m s) \<le> length s"
  by (simp add: flag_text_def)

lemma length_hex8 [simp]: "length (hex8 v) = 8"
  by (simp add: hex8_def)

lemma length_end_comma: "b \<noteq> [] \<Longrightarrow> length (end_comma b) = length b"
  by (simp add: end_comma_def)

lemma flag_text_le: "length s \<le> k \<Longrightarrow> length (flag_text v m s) \<le> k"
  using length_flag_text le_trans by blast

text \<open>
  C39: the status message of a card-to-host engine always fits the 256-byte buffer it is
  formatted into, terminating null included, whatever the status register held (engine names
  have at most 15 characters).
\<close>

theorem status_dump_fits_c2h:
  assumes "e_dir g = DMA_FROM_DEVICE" "length (e_name g) \<le> 15"
  shows "length (engine_status_dump g) + 1 \<le> 256"
proof -
  let ?v = "e_status g"
  have h: "length (status_head g) \<le> 75" "status_head g \<noteq> []"
    using assms(2) by (auto simp: status_head_def Let_def flag_text_def)
  have c: "length (status_common ?v b) \<le> length b + 54 \<and> status_common ?v b \<noteq> []" if "b \<noteq> []" for b
    using that by (auto simp: status_common_def length_end_comma flag_text_def end_comma_def)
  have r: "length (status_c2h ?v b) \<le> length b + 23 \<and> status_c2h ?v b \<noteq> []" if "b \<noteq> []" for b
    using that by (auto simp: status_c2h_def length_end_comma flag_text_def end_comma_def)
  have d: "length (status_desc ?v b) \<le> length b + 61" if "b \<noteq> []" for b
    using that by (auto simp: status_desc_def length_end_comma flag_text_def)
  show ?thesis
    using h c [OF h(2)] r [of "status_common ?v (status_head g)"]
      d [of "status_c2h ?v (status_common ?v (status_head g))"] assms(1)
    by (auto simp: engine_status_dump_def Let_def)
qed

theorem status_dump_fits_c2h_witness:
  "length (engine_status_dump (sample_engine\<lparr>e_dir := DMA_FROM_DEVICE, e_status := 0xFFFFFFFF\<rparr>)) + 1 \<le> 256"
  using status_dump_fits_c2h [of "sample_engine\<lparr>e_dir := DMA_FROM_DEVICE, e_status := 0xFFFFFFFF\<rparr>"]
  by (simp add: sample_engine_def)



end
