(* ===== verification/Xfer.thy ===== *)
theory Xfer
  imports Engine
begin

text \<open>
  Submitting requests (\<open>libxdma.c\<close>): the blocking \<open>xdma_xfer_submit\<close>, the asynchronous
  \<open>xdma_xfer_submit_nowait\<close> and its \<open>xdma_xfer_completion\<close>, the aperture variant, and the
  cyclic transfer of the performance test.
\<close>

section \<open>Finding the engine\<close>

definition xdev_find_by_pdev :: "u64 \<Rightarrow> ('a xworld_scheme, u64) state" where
  "xdev_find_by_pdev pdev = do {
     _ \<leftarrow> lock_acquire LkList [];
     d \<leftarrow> gets_st (\<lambda>s. case filter (\<lambda>d. x_pdev (xdevs s d) = pdev) (xdev_list s) of
            [] \<Rightarrow> 0 | d # _ \<Rightarrow> d);
     _ \<leftarrow> lock_release LkList [];
     ret d }"

definition debug_check_dev_hndl :: "u64 \<Rightarrow> u64 \<Rightarrow> ('a xworld_scheme, int) state" where
  "debug_check_dev_hndl pdev hndl = (if pdev = 0 then ret (- EINVAL) else do {
     xdev \<leftarrow> xdev_find_by_pdev pdev;
     if xdev = 0 then ret (- EINVAL)
     else if xdev \<noteq> hndl then ret (- EINVAL)
     else ret 0 })"

text \<open>The engine of a channel, or none when there is no such channel: both submit functions.\<close>

definition select_engine :: "u64 \<Rightarrow> nat \<Rightarrow> bool \<Rightarrow> ('a xworld_scheme, eng option) state" where
  "select_engine xdev channel write = do {
     x \<leftarrow> the_xdev xdev;
     ret (if write then if x_h2c_channel_max x \<le> channel then None else Some (H2C xdev channel)
          else if x_c2h_channel_max x \<le> channel then None else Some (C2H xdev channel)) }"

definition dir_of :: "bool \<Rightarrow> dma_dir" where
  "dir_of write = (if write then DMA_TO_DEVICE else DMA_FROM_DEVICE)"

section \<open>Mapping a scatter-gather table\<close>

text \<open>\<open>pci_map_sg\<close> of the first \<open>orig_nents\<close> entries: the number of segments, \<open>0\<close> on failure.\<close>

definition pci_map_sg :: "env \<Rightarrow> u64 \<Rightarrow> u64 \<Rightarrow> ('a xworld_scheme, nat) state" where
  "pci_map_sg E pdev sgt = do {
     g \<leftarrow> the_sgt sgt;
     h \<leftarrow> gets_st tr;
     let segs = dma_map E h (take (g_orig_nents g) (g_ents g));
     _ \<leftarrow> emit (KCall K_pci_map_sg [pdev, sgt, of_nat (g_orig_nents g)] (int (length segs)));
     _ \<leftarrow> upd_sgt sgt (\<lambda>g. g\<lparr>g_dma := segs\<rparr>);
     ret (length segs) }"

text \<open>The label \<open>unmap_sgl\<close> of the submit functions.\<close>

definition unmap_sgl :: "u64 \<Rightarrow> u64 \<Rightarrow> bool \<Rightarrow> ('a xworld_scheme, unit) state" where
  "unmap_sgl pdev sgt dma_mapped = do {
     g \<leftarrow> the_sgt sgt;
     when_st (\<not> dma_mapped \<and> g_nents g \<noteq> 0) (do {
       _ \<leftarrow> kproc K_pci_unmap_sg [pdev, sgt, of_nat (g_orig_nents g)];
       upd_sgt sgt (\<lambda>g. g\<lparr>g_nents := 0\<rparr>) }) }"

text \<open>Mapping for a submission; the result is whether the table can be used.\<close>

definition map_sgl :: "env \<Rightarrow> u64 \<Rightarrow> u64 \<Rightarrow> bool \<Rightarrow> ('a xworld_scheme, bool) state" where
  "map_sgl E pdev sgt dma_mapped =
     (if \<not> dma_mapped then do {
        nents \<leftarrow> pci_map_sg E pdev sgt;
        if nents = 0 then ret False
        else do { _ \<leftarrow> upd_sgt sgt (\<lambda>g. g\<lparr>g_nents := nents\<rparr>); ret True } }
      else do {
        g \<leftarrow> the_sgt sgt;
        ret (g_nents g \<noteq> 0) })"

section \<open>Waiting\<close>

text \<open>
  What runs for the engine while a submitter sleeps: the work the interrupt schedules, or in
  polled mode the completion thread.
\<close>

definition deferred_service :: "env \<Rightarrow> 'a io_done \<Rightarrow> eng \<Rightarrow> ('a xworld_scheme, unit) state" where
  "deferred_service E H e = do {
     poll \<leftarrow> param poll_mode;
     if poll then do {
       head \<leftarrow> queue_head e;
       case head of None \<Rightarrow> ret () | Some x \<Rightarrow> do {
         t \<leftarrow> the_xfer x;
         _ \<leftarrow> engine_service_poll E H e (t_desc_cmpl_th t);
         ret () } }
     else engine_service_work E H e }"

text \<open>
  Sleeping until the transfer is no longer submitted, the timeout (\<open>0\<close>: none) or a signal:
  the environment says how often the deferred service runs meanwhile. The driver does not
  use the result of the wait.
\<close>

definition wait_transfer :: "env \<Rightarrow> 'a io_done \<Rightarrow> eng \<Rightarrow> xref \<Rightarrow> int \<Rightarrow> ('a xworld_scheme, unit) state" where
  "wait_transfer E H e x timeout_ms = do {
     h \<leftarrow> gets_st tr;
     _ \<leftarrow> kproc K_wait [of_int (max timeout_ms 0)];
     for_each [0..<works E h] (\<lambda>_. deferred_service E H e) }"

definition wake_cmpl_thread :: "eng \<Rightarrow> ('a xworld_scheme, unit) state" where
  "wake_cmpl_thread e = do {
     g \<leftarrow> the_eng e;
     case e_cmplthp g of None \<Rightarrow> ret () | Some t \<Rightarrow> wake_up WqThread [t] }"

section \<open>The blocking submission\<close>

text \<open>The branch for a transfer that is still in flight after the wait.\<close>

definition abandon_transfer :: "env \<Rightarrow> eng \<Rightarrow> xref \<Rightarrow> ('a xworld_scheme, unit) state" where
  "abandon_transfer E e x = do {
     rv \<leftarrow> engine_status_read E e False True;
     if rv = 0 then do {
       rv \<leftarrow> transfer_abort e (Some x);
       if rv = 0 then do { _ \<leftarrow> xdma_engine_stop e; ret () } else ret () }
     else ret () }"

text \<open>Bytes received by a streaming card-to-host transfer: the lengths in its first \<open>n\<close> results.\<close>

definition result_bytes :: "env \<Rightarrow> history \<Rightarrow> u64 \<Rightarrow> nat \<Rightarrow> int" where
  "result_bytes E h res n = sum_list (map (\<lambda>i. uint (dma_mem E h (res + 32 * of_nat i + 4))) [0..<n])"

text \<open>
  One round of the loop: the new error code, the bytes it completed, and whether the request
  is to be finished early.
\<close>

definition submit_outcome ::
  "env \<Rightarrow> eng \<Rightarrow> xref \<Rightarrow> ('a xworld_scheme, int \<times> int \<times> bool) state" where
  "submit_outcome E e x = do {
     _ \<leftarrow> lock_acquire LkEngine (eng_key e);
     t \<leftarrow> the_xfer x;
     g \<leftarrow> the_eng e;
     case t_state t of
       TRANSFER_STATE_COMPLETED \<Rightarrow> do {
         _ \<leftarrow> lock_release LkEngine (eng_key e);
         if e_streaming g \<and> e_dir g = DMA_FROM_DEVICE then do {
           h \<leftarrow> gets_st tr;
           ret (0, result_bytes E h (t_res_virt t) (unat (t_desc_cmpl t)), e_eop_flush g) }
         else ret (0, uint (t_len t), False) }
     | TRANSFER_STATE_FAILED \<Rightarrow> do {
         _ \<leftarrow> lock_release LkEngine (eng_key e);
         ret (- EIO, 0, False) }
     | _ \<Rightarrow> do {
         _ \<leftarrow> abandon_transfer E e x;
         _ \<leftarrow> lock_release LkEngine (eng_key e);
         ret (- ERESTARTSYS, 0, False) } }"

text \<open>
  The loop of \<open>xdma_xfer_submit\<close>: \<open>nents\<close> descriptors are left, \<open>don\<close> bytes are done. A
  round takes at least one descriptor, so \<open>fuel = nents\<close> rounds are enough.
\<close>

fun submit_loop ::
  "nat \<Rightarrow> env \<Rightarrow> 'a io_done \<Rightarrow> eng \<Rightarrow> u64 \<Rightarrow> u64 \<Rightarrow> bool \<Rightarrow> int \<Rightarrow> u32 \<Rightarrow> int \<Rightarrow>
   ('a xworld_scheme, int \<times> int) state" where
  "submit_loop 0 E H e req sgt dma_mapped timeout_ms nents don = ret (0, don)"
| "submit_loop (Suc fuel) E H e req sgt dma_mapped timeout_ms nents don =
     (if nents = 0 then ret (0, don)
      else do {
        let x = Tfer req 0;
        rv \<leftarrow> transfer_init e req x;
        if rv < 0 then ret (rv, don)
        else do {
          _ \<leftarrow> when_st (\<not> dma_mapped) (upd_xfer x (\<lambda>t. t\<lparr>t_flags := XFER_FLAG_NEED_UNMAP\<rparr>));
          t \<leftarrow> the_xfer x;
          let nents = nents - t_desc_num t;
          _ \<leftarrow> when_st (nents = 0) (upd_xfer x (\<lambda>t. t\<lparr>t_last_in_request := True, t_sgt := sgt\<rparr>));
          rv \<leftarrow> transfer_queue E e (Some x);
          if rv < 0 then ret (rv, don)
          else do {
            _ \<leftarrow> wake_cmpl_thread e;
            _ \<leftarrow> wait_transfer E H e x timeout_ms;
            (rv, bytes, finish) \<leftarrow> submit_outcome E e x;
            let don = don + bytes;
            let nents = (if finish then 0 else nents);
            t \<leftarrow> the_xfer x;
            g \<leftarrow> the_eng e;
            _ \<leftarrow> upd_eng e (\<lambda>g. g\<lparr>e_desc_used := e_desc_used g - t_desc_num t\<rparr>);
            _ \<leftarrow> transfer_destroy E (e_xdev g) x;
            if rv < 0 then ret (rv, don)
            else submit_loop fuel E H e req sgt dma_mapped timeout_ms nents don } } })"

text \<open>The part of the submission after the checks.\<close>

definition submit_request ::
  "env \<Rightarrow> 'a io_done \<Rightarrow> eng \<Rightarrow> u64 \<Rightarrow> u64 \<Rightarrow> bool \<Rightarrow> int \<Rightarrow> ('a xworld_scheme, int) state" where
  "submit_request E H e ep_addr sgt dma_mapped timeout_ms = do {
     g \<leftarrow> the_eng e;
     x \<leftarrow> the_xdev (e_xdev g);
     mapped \<leftarrow> map_sgl E (x_pdev x) sgt dma_mapped;
     if \<not> mapped then ret (- EIO)
     else do {
       req \<leftarrow> xdma_init_request E sgt ep_addr;
       if req = 0 then do {
         _ \<leftarrow> unmap_sgl (x_pdev x) sgt dma_mapped;
         ret (- ENOMEM) }
       else do {
         q \<leftarrow> the_req req;
         _ \<leftarrow> lock_acquire LkDesc (eng_key e);
         (rv, don) \<leftarrow> submit_loop (unat (r_sw_desc_cnt q)) E H e req sgt dma_mapped timeout_ms
                       (r_sw_desc_cnt q) 0;
         _ \<leftarrow> lock_release LkDesc (eng_key e);
         _ \<leftarrow> unmap_sgl (x_pdev x) sgt dma_mapped;
         _ \<leftarrow> xdma_request_free E req;
         ret (if don \<noteq> 0 then don else rv) } } }"

definition xdma_xfer_submit ::
  "env \<Rightarrow> 'a io_done \<Rightarrow> u64 \<Rightarrow> nat \<Rightarrow> bool \<Rightarrow> u64 \<Rightarrow> u64 \<Rightarrow> bool \<Rightarrow> int \<Rightarrow> ('a xworld_scheme, int) state" where
  "xdma_xfer_submit E H dev_hndl channel write ep_addr sgt dma_mapped timeout_ms =
     (if dev_hndl = 0 then ret (- EINVAL)
      else do {
        x \<leftarrow> the_xdev dev_hndl;
        rv \<leftarrow> debug_check_dev_hndl (x_pdev x) dev_hndl;
        if rv < 0 then ret (- EINVAL)
        else do {
          eo \<leftarrow> select_engine dev_hndl channel write;
          case eo of None \<Rightarrow> ret (- EINVAL) | Some e \<Rightarrow> do {
            g \<leftarrow> the_eng e;
            if e_magic g \<noteq> MAGIC_ENGINE then ret (- EINVAL)
            else do {
              offline \<leftarrow> xdma_device_flag_check (e_xdev g) XDEV_FLAG_OFFLINE;
              if offline then ret (- EBUSY)
              else if e_dir g \<noteq> dir_of write then ret (- EINVAL)
              else submit_request E H e ep_addr sgt dma_mapped timeout_ms } } } })"

section \<open>Asynchronous submission and completion\<close>

text \<open>
  The loop of \<open>xdma_xfer_completion\<close> over the transfers \<open>req->tfer[i]\<close> of the request. There
  are two; the code does not check the index, so a request that was split further makes it
  leave the array.
\<close>

fun completion_loop ::
  "nat \<Rightarrow> nat \<Rightarrow> env \<Rightarrow> eng \<Rightarrow> u64 \<Rightarrow> u32 \<Rightarrow> int \<Rightarrow> ('a xworld_scheme, int) state" where
  "completion_loop left i E e req nents don =
     (if nents = 0 then ret don
      else case left of 0 \<Rightarrow> do { _ \<leftarrow> emit Oops; ret don } | Suc left \<Rightarrow> do {
        let x = Tfer req i;
        t \<leftarrow> the_xfer x;
        g \<leftarrow> the_eng e;
        let nents = nents - t_desc_num t;
        (rv, don) \<leftarrow> (case t_state t of
            TRANSFER_STATE_COMPLETED \<Rightarrow> do {
              h \<leftarrow> gets_st tr;
              ret (0, if e_streaming g \<and> e_dir g = DMA_FROM_DEVICE
                      then don + result_bytes E h (t_res_virt t) (unat (t_desc_num t))
                      else don + uint (t_len t)) }
          | TRANSFER_STATE_FAILED \<Rightarrow> ret (- EIO, don)
          | _ \<Rightarrow> do {
              _ \<leftarrow> engine_status_read E e False True;
              _ \<leftarrow> transfer_abort e (Some x);
              _ \<leftarrow> xdma_engine_stop e;
              ret (- ERESTARTSYS, don) });
        _ \<leftarrow> transfer_destroy E (e_xdev g) x;
        _ \<leftarrow> upd_eng e (\<lambda>g. g\<lparr>e_desc_used := e_desc_used g - t_desc_num t\<rparr>);
        if rv < 0 then ret don
        else completion_loop left (Suc i) E e req nents don })"

declare completion_loop.simps [simp del]

definition xdma_xfer_completion ::
  "env \<Rightarrow> u64 \<Rightarrow> u64 \<Rightarrow> nat \<Rightarrow> bool \<Rightarrow> u64 \<Rightarrow> bool \<Rightarrow> ('a xworld_scheme, int) state" where
  "xdma_xfer_completion E cb dev_hndl channel write sgt dma_mapped = do {
     eo \<leftarrow> select_engine dev_hndl channel write;
     case eo of None \<Rightarrow> ret (- EINVAL) | Some e \<Rightarrow> do {
       g \<leftarrow> the_eng e;
       if e_magic g \<noteq> MAGIC_ENGINE then ret (- EINVAL)
       else do {
         c \<leftarrow> the_cb cb;
         q \<leftarrow> the_req (c_req c);
         don \<leftarrow> completion_loop 2 0 E e (c_req c) (r_sw_desc_cnt q) 0;
         x \<leftarrow> the_xdev (e_xdev g);
         _ \<leftarrow> unmap_sgl (x_pdev x) sgt dma_mapped;
         _ \<leftarrow> when_st (c_req c \<noteq> 0) (xdma_request_free E (c_req c));
         ret don } } }"

text \<open>The loop of \<open>xdma_xfer_submit_nowait\<close>; \<open>None\<close> when all the transfers are queued.\<close>

fun nowait_loop ::
  "nat \<Rightarrow> nat \<Rightarrow> env \<Rightarrow> 'a io_done \<Rightarrow> eng \<Rightarrow> u64 \<Rightarrow> u64 \<Rightarrow> u64 \<Rightarrow> bool \<Rightarrow> u32 \<Rightarrow>
   ('a xworld_scheme, int option) state" where
  "nowait_loop left i E H e cb req sgt dma_mapped nents =
     (if nents = 0 then ret None
      else case left of 0 \<Rightarrow> do { _ \<leftarrow> emit Oops; ret (Some 0) } | Suc left \<Rightarrow> do {
        let x = Tfer req i;
        rv \<leftarrow> transfer_init e req x;
        if rv < 0 then do {
          g \<leftarrow> the_eng e;
          d \<leftarrow> the_xdev (e_xdev g);
          _ \<leftarrow> unmap_sgl (x_pdev d) sgt dma_mapped;
          c \<leftarrow> the_cb cb;
          _ \<leftarrow> when_st (c_io_done c) (H cb (- EBUSY));
          ret (Some rv) }
        else do {
          _ \<leftarrow> upd_xfer x (\<lambda>t. t\<lparr>t_cb := cb\<rparr>);
          _ \<leftarrow> when_st (\<not> dma_mapped) (upd_xfer x (\<lambda>t. t\<lparr>t_flags := XFER_FLAG_NEED_UNMAP\<rparr>));
          t \<leftarrow> the_xfer x;
          let nents = nents - t_desc_num t;
          _ \<leftarrow> when_st (nents = 0) (upd_xfer x (\<lambda>t. t\<lparr>t_last_in_request := True, t_sgt := sgt\<rparr>));
          rv \<leftarrow> transfer_queue E e (Some x);
          if rv < 0 then do {
            g \<leftarrow> the_eng e;
            d \<leftarrow> the_xdev (e_xdev g);
            _ \<leftarrow> unmap_sgl (x_pdev d) sgt dma_mapped;
            ret (Some rv) }
          else nowait_loop left (Suc i) E H e cb req sgt dma_mapped nents } })"

declare nowait_loop.simps [simp del]

definition xdma_xfer_submit_nowait ::
  "env \<Rightarrow> 'a io_done \<Rightarrow> u64 \<Rightarrow> u64 \<Rightarrow> nat \<Rightarrow> bool \<Rightarrow> u64 \<Rightarrow> u64 \<Rightarrow> bool \<Rightarrow> ('a xworld_scheme, int) state" where
  "xdma_xfer_submit_nowait E H cb dev_hndl channel write ep_addr sgt dma_mapped =
     (if dev_hndl = 0 then ret (- EINVAL)
      else do {
        x \<leftarrow> the_xdev dev_hndl;
        rv \<leftarrow> debug_check_dev_hndl (x_pdev x) dev_hndl;
        if rv < 0 then ret (- EINVAL)
        else do {
          eo \<leftarrow> select_engine dev_hndl channel write;
          case eo of None \<Rightarrow> ret (- EINVAL) | Some e \<Rightarrow> do {
            g \<leftarrow> the_eng e;
            if e_magic g \<noteq> MAGIC_ENGINE then ret (- EINVAL)
            else do {
              offline \<leftarrow> xdma_device_flag_check (e_xdev g) XDEV_FLAG_OFFLINE;
              if offline then ret (- EBUSY)
              else if e_dir g \<noteq> dir_of write then ret (- EINVAL)
              else do {
                x \<leftarrow> the_xdev (e_xdev g);
                mapped \<leftarrow> map_sgl E (x_pdev x) sgt dma_mapped;
                if \<not> mapped then ret (- EIO)
                else do {
                  req \<leftarrow> xdma_init_request E sgt ep_addr;
                  if req = 0 then do {
                    _ \<leftarrow> unmap_sgl (x_pdev x) sgt dma_mapped;
                    ret (- ENOMEM) }
                  else do {
                    _ \<leftarrow> upd_req req (\<lambda>q. q\<lparr>r_cb := cb\<rparr>);
                    _ \<leftarrow> upd_cb cb (\<lambda>c. c\<lparr>c_req := req\<rparr>);
                    q \<leftarrow> the_req req;
                    res \<leftarrow> nowait_loop 2 0 E H e cb req sgt dma_mapped (r_sw_desc_cnt q);
                    case res of None \<Rightarrow> ret (- EIOCBQUEUED) | Some rv \<Rightarrow> do {
                      _ \<leftarrow> xdma_request_free E req;
                      ret rv } } } } } } } })"

section \<open>Aperture transfers\<close>

text \<open>What the loops of \<open>xdma_xfer_aperture\<close> carry from round to round.\<close>

record aperture_state =
  a_ep_addr :: u64
  a_desc_idx :: u32
  a_desc_cnt :: u32
  a_sg_offset :: u32
  a_offset :: u32
  a_len :: u32

text \<open>One segment: \<open>tlen\<close> bytes left at \<open>addr\<close>, \<open>left\<close> descriptors before the end of the ring.\<close>

fun aperture_seg ::
  "nat \<Rightarrow> eng \<Rightarrow> dma_dir \<Rightarrow> u64 \<Rightarrow> u64 \<Rightarrow> u32 \<Rightarrow> u64 \<Rightarrow> u32 \<Rightarrow> aperture_state \<Rightarrow>
   ('a xworld_scheme, u32 \<times> aperture_state) state" where
  "aperture_seg 0 e dir ep_base ep_max maxlen addr tlen a = ret (tlen, a)"
| "aperture_seg (Suc left) e dir ep_base ep_max maxlen addr tlen a =
     (if tlen = 0 then ret (0, a)
      else do {
        let len = min_u32 tlen maxlen;
        let ep = (if ep_max < a_ep_addr a then ep_base else a_ep_addr a);
        let len = (if ep_max < ep + ucast len then ucast (ep_max - ep + 1) else len);
        _ \<leftarrow> upd_desc e (uint (a_desc_idx a)) (\<lambda>d. xdma_desc_set d addr ep len dir);
        let a = a\<lparr>a_sg_offset := a_sg_offset a + len, a_offset := a_offset a + len,
                  a_len := a_len a + len, a_ep_addr := ep + ucast len,
                  a_desc_idx := a_desc_idx a + 1, a_desc_cnt := a_desc_cnt a + 1\<rparr>;
        aperture_seg left e dir ep_base ep_max maxlen (addr + ucast len) (tlen - len) a })"

fun aperture_segs ::
  "(u64 \<times> u32) list \<Rightarrow> eng \<Rightarrow> dma_dir \<Rightarrow> u64 \<Rightarrow> u64 \<Rightarrow> u32 \<Rightarrow> u32 \<Rightarrow> u32 \<Rightarrow> aperture_state \<Rightarrow>
   ('a xworld_scheme, u32 \<times> aperture_state) state" where
  "aperture_segs [] e dir ep_base ep_max maxlen desc_max i a = ret (i, a)"
| "aperture_segs ((addr, len) # segs) e dir ep_base ep_max maxlen desc_max i a =
     (if a_desc_idx a < desc_max then do {
        let tlen = len - a_sg_offset a;
        let addr = addr + ucast (a_sg_offset a);
        (tlen, a) \<leftarrow> aperture_seg (unat (desc_max - a_desc_idx a)) e dir ep_base ep_max maxlen addr tlen a;
        if tlen = 0
        then aperture_segs segs e dir ep_base ep_max maxlen desc_max (i + 1) (a\<lparr>a_sg_offset := 0\<rparr>)
        else ret (i, a) }
      else ret (i, a))"

text \<open>Chaining the \<open>desc_cnt\<close> descriptors that were filled in from index \<open>p\<close> at \<open>bus\<close>.\<close>

definition aperture_link :: "eng \<Rightarrow> int \<Rightarrow> u64 \<Rightarrow> u32 \<Rightarrow> ('a xworld_scheme, unit) state" where
  "aperture_link e p bus desc_cnt = do {
     let last = unat (desc_cnt - 1);
     _ \<leftarrow> for_each [0..<last] (\<lambda>i. upd_desc e (p + int i) (\<lambda>d.
            d\<lparr>d_next_lo := PCI_DMA_L (bus + 32 * of_nat (Suc i)),
              d_next_hi := PCI_DMA_H (bus + 32 * of_nat (Suc i)), d_control := DESC_MAGIC\<rparr>));
     _ \<leftarrow> upd_desc e (p + int last) (\<lambda>d. d\<lparr>d_next_lo := 0, d_next_hi := 0,
            d_control := DESC_MAGIC OR XDMA_DESC_STOPPED OR XDMA_DESC_EOP OR XDMA_DESC_COMPLETED\<rparr>);
     for_each [0..<unat desc_cnt] (\<lambda>i. upd_desc e (p + int i) (\<lambda>d.
       xdma_desc_adjacent d (xdma_get_next_adj (desc_cnt - of_nat i - 1) (d_next_lo d)))) }"

text \<open>
  Building one transfer of an aperture request. The walk over the table starts at \<open>req->sg\<close>,
  which the source sets once and never advances, while the index \<open>req->sg_idx\<close> goes on.
\<close>

definition aperture_build ::
  "eng \<Rightarrow> u64 \<Rightarrow> bool \<Rightarrow> u32 \<Rightarrow> u64 \<Rightarrow> u32 \<Rightarrow> (u64 \<times> u32) list \<Rightarrow> ('a xworld_scheme, unit) state" where
  "aperture_build e req dma_mapped aperture ep_max maxlen segs = do {
     let x = Tfer req 0;
     q \<leftarrow> the_req req;
     g \<leftarrow> the_eng e;
     _ \<leftarrow> upd_xfer x (\<lambda>_. zero_transfer\<lparr>t_ring := e, t_dir := e_dir g,
            t_flags := (if dma_mapped then 0 else XFER_FLAG_NEED_UNMAP)\<rparr>);
     _ \<leftarrow> lock_acquire LkEngine (eng_key e);
     let bus = e_desc_bus g + 32 * ucast (e_desc_idx g);
     _ \<leftarrow> upd_xfer x (\<lambda>t. t\<lparr>t_desc_virt := uint (e_desc_idx g),
            t_res_virt := e_cyclic_result g + 32 * ucast (e_desc_idx g),
            t_desc_bus := bus, t_res_bus := e_cyclic_result_bus g + 32 * ucast (e_desc_idx g),
            t_desc_index := e_desc_idx g\<rparr>);
     let a = \<lparr>a_ep_addr = r_ep_addr q + ucast (r_offset q AND (aperture - 1)),
              a_desc_idx = e_desc_idx g, a_desc_cnt = 0, a_sg_offset = r_sg_offset q,
              a_offset = r_offset q, a_len = 0\<rparr>;
     (i, a) \<leftarrow> aperture_segs (take (length segs - unat (r_sg_idx q)) (drop (r_sg q) segs)) e (e_dir g)
                (r_ep_addr q) ep_max maxlen (e_desc_max g) (r_sg_idx q) a;
     _ \<leftarrow> upd_req req (\<lambda>q. q\<lparr>r_sg_offset := a_sg_offset a, r_sg_idx := i, r_offset := a_offset a\<rparr>);
     _ \<leftarrow> upd_xfer x (\<lambda>t. t\<lparr>t_len := a_len a, t_desc_adjacent := a_desc_cnt a, t_desc_num := a_desc_cnt a\<rparr>);
     _ \<leftarrow> upd_eng e (\<lambda>g. g\<lparr>e_desc_used := e_desc_used g + a_desc_cnt a\<rparr>);
     _ \<leftarrow> aperture_link e (uint (e_desc_idx g)) bus (a_desc_cnt a);
     _ \<leftarrow> upd_xfer x (\<lambda>t. t\<lparr>t_desc_cmpl_th := a_desc_cnt a\<rparr>);
     _ \<leftarrow> upd_eng e (\<lambda>g. g\<lparr>e_desc_idx := (e_desc_idx g + a_desc_cnt a) mod e_desc_max g\<rparr>);
     lock_release LkEngine (eng_key e) }"

text \<open>
  The loop over the transfers. Each moves the offset on when the length limit is positive;
  \<open>fuel\<close> bounds the rounds by the bytes to transfer.
\<close>

fun aperture_loop ::
  "nat \<Rightarrow> env \<Rightarrow> 'a io_done \<Rightarrow> eng \<Rightarrow> u64 \<Rightarrow> u64 \<Rightarrow> bool \<Rightarrow> u32 \<Rightarrow> u64 \<Rightarrow> u32 \<Rightarrow>
   (u64 \<times> u32) list \<Rightarrow> int \<Rightarrow> int \<Rightarrow> ('a xworld_scheme, int \<times> int) state" where
  "aperture_loop 0 E H e req sgt dma_mapped aperture ep_max maxlen segs timeout_ms don = ret (0, don)"
| "aperture_loop (Suc fuel) E H e req sgt dma_mapped aperture ep_max maxlen segs timeout_ms don = do {
     q \<leftarrow> the_req req;
     if \<not> r_offset q < r_total_len q then ret (0, don)
     else do {
       let x = Tfer req 0;
       _ \<leftarrow> aperture_build e req dma_mapped aperture ep_max maxlen segs;
       q \<leftarrow> the_req req;
       _ \<leftarrow> when_st (r_offset q = r_total_len q)
              (upd_xfer x (\<lambda>t. t\<lparr>t_last_in_request := True, t_sgt := sgt\<rparr>));
       rv \<leftarrow> transfer_queue E e (Some x);
       if rv < 0 then ret (rv, don)
       else do {
         _ \<leftarrow> wake_cmpl_thread e;
         _ \<leftarrow> wait_transfer E H e x timeout_ms;
         _ \<leftarrow> lock_acquire LkEngine (eng_key e);
         t \<leftarrow> the_xfer x;
         (rv, don) \<leftarrow> (case t_state t of
             TRANSFER_STATE_COMPLETED \<Rightarrow> do {
               _ \<leftarrow> lock_release LkEngine (eng_key e);
               ret (0, don + uint (t_len t)) }
           | TRANSFER_STATE_FAILED \<Rightarrow> do {
               _ \<leftarrow> lock_release LkEngine (eng_key e);
               ret (- EIO, don) }
           | _ \<Rightarrow> do {
               _ \<leftarrow> abandon_transfer E e x;
               _ \<leftarrow> lock_release LkEngine (eng_key e);
               ret (- ERESTARTSYS, don) });
         g \<leftarrow> the_eng e;
         _ \<leftarrow> upd_eng e (\<lambda>g. g\<lparr>e_desc_used := e_desc_used g - t_desc_num t\<rparr>);
         _ \<leftarrow> transfer_destroy E (e_xdev g) x;
         if rv < 0 then ret (rv, don)
         else aperture_loop fuel E H e req sgt dma_mapped aperture ep_max maxlen segs timeout_ms don } } }"

definition xdma_xfer_aperture ::
  "env \<Rightarrow> 'a io_done \<Rightarrow> eng \<Rightarrow> bool \<Rightarrow> u64 \<Rightarrow> u32 \<Rightarrow> u64 \<Rightarrow> bool \<Rightarrow> int \<Rightarrow> ('a xworld_scheme, int) state" where
  "xdma_xfer_aperture E H e write ep_addr aperture sgt dma_mapped timeout_ms =
     (if e = NoEngine then ret (- EINVAL)
      else do {
        blen \<leftarrow> param desc_blen_max;
        let maxlen = min_u32 aperture blen;
        let ep_addr_max = ep_addr + ucast aperture - 1;
        g \<leftarrow> the_eng e;
        if e_magic g \<noteq> MAGIC_ENGINE then ret (- EINVAL)
        else do {
          offline \<leftarrow> xdma_device_flag_check (e_xdev g) XDEV_FLAG_OFFLINE;
          if offline then ret (- EBUSY)
          else if e_dir g \<noteq> dir_of write then ret (- EINVAL)
          else if e_streaming g then ret (- EINVAL)
          else do {
            x \<leftarrow> the_xdev (e_xdev g);
            mapped \<leftarrow> map_sgl E (x_pdev x) sgt dma_mapped;
            if \<not> mapped then do {
              _ \<leftarrow> when_st (\<not> dma_mapped) (upd_sgt sgt (\<lambda>g. g\<lparr>g_nents := 0\<rparr>));
              ret (- EIO) }
            else do {
              req \<leftarrow> kptr E K_kzalloc [0];
              if req = 0 then do {
                _ \<leftarrow> unmap_sgl (x_pdev x) sgt dma_mapped;
                ret (- ENOMEM) }
              else do {
                t \<leftarrow> the_sgt sgt;
                let segs = take (g_nents t) (g_dma t);
                let total = sum_list (map snd segs);
                _ \<leftarrow> upd_req req (\<lambda>_. zero_request\<lparr>r_sgt := sgt, r_ep_addr := ep_addr,
                       r_aperture := aperture, r_sg := 0, r_total_len := total\<rparr>);
                _ \<leftarrow> lock_acquire LkDesc (eng_key e);
                (rv, don) \<leftarrow> aperture_loop (Suc (unat total)) E H e req sgt dma_mapped aperture
                              ep_addr_max maxlen segs timeout_ms 0;
                _ \<leftarrow> lock_release LkDesc (eng_key e);
                _ \<leftarrow> unmap_sgl (x_pdev x) sgt dma_mapped;
                _ \<leftarrow> xdma_request_free E req;
                ret (if don \<noteq> 0 then don else rv) } } } } })"

section \<open>The cyclic transfer of the performance test\<close>

abbreviation (input) XDMA_PERF_NUM_DESC :: u32 where "XDMA_PERF_NUM_DESC \<equiv> 128"

text \<open>
  The error labels of \<open>xdma_performance_submit\<close>, innermost last. \<open>list_del\<close> of the zeroed
  list entry of a transfer that was never queued follows null pointers.
\<close>

definition perf_err_transfer :: "u64 \<Rightarrow> eng \<Rightarrow> u32 \<Rightarrow> ('a xworld_scheme, unit) state" where
  "perf_err_transfer pdev e size_in_desc = do {
     g \<leftarrow> the_eng e;
     _ \<leftarrow> when_st (e_perf_buf_virt g \<noteq> 0)
            (kproc K_dma_free_coherent [ucast size_in_desc, e_perf_buf_virt g, e_perf_buf_bus g]);
     upd_eng e (\<lambda>g. g\<lparr>e_perf_buf_virt := 0\<rparr>) }"

definition perf_err_desc :: "u64 \<Rightarrow> eng \<Rightarrow> u64 \<Rightarrow> u32 \<Rightarrow> ('a xworld_scheme, unit) state" where
  "perf_err_desc pdev e transfer size_in_desc = do {
     _ \<leftarrow> emit Oops;
     _ \<leftarrow> kproc K_kfree [transfer];
     perf_err_transfer pdev e size_in_desc }"

definition xdma_performance_submit :: "env \<Rightarrow> u64 \<Rightarrow> eng \<Rightarrow> ('a xworld_scheme, int) state" where
  "xdma_performance_submit E xdev e = do {
     g \<leftarrow> the_eng e;
     d \<leftarrow> the_xdev xdev;
     case e_xdma_perf g of None \<Rightarrow> do { _ \<leftarrow> emit Oops; ret 0 } | Some p \<Rightarrow> do {
       let max_size = XDMA_PERF_NUM_DESC * 32 * 1024;
       let size_in_desc = p_transfer_size p;
       let size = size_in_desc * XDMA_PERF_NUM_DESC;
       if max_size < size_in_desc then ret (- EINVAL)
       else do {
         let num = (if max_size < size then max_size div size_in_desc else XDMA_PERF_NUM_DESC);
         buf \<leftarrow> kptr E K_dma_alloc_coherent [ucast size_in_desc];
         h \<leftarrow> gets_st tr;
         _ \<leftarrow> upd_eng e (\<lambda>g. g\<lparr>e_perf_buf_virt := buf, e_perf_buf_bus := dma_bus E h buf\<rparr>);
         if buf = 0 then ret (- ENOMEM)
         else do {
           transfer \<leftarrow> kptr E K_kzalloc [0];
           if transfer = 0 then do {
             _ \<leftarrow> perf_err_transfer (x_pdev d) e size_in_desc;
             ret (- ENOMEM) }
           else do {
             let x = PerfXfer transfer;
             _ \<leftarrow> upd_xfer x (\<lambda>_. zero_transfer\<lparr>t_ring := e, t_dir := e_dir g, t_desc_num := num\<rparr>);
             desc \<leftarrow> (if e_desc g = 0 then do {
                 desc \<leftarrow> kptr E K_dma_alloc_coherent [32 * ucast num];
                 h \<leftarrow> gets_st tr;
                 _ \<leftarrow> upd_eng e (\<lambda>g. g\<lparr>e_desc_bus := dma_bus E h desc, e_desc := desc\<rparr>);
                 ret desc }
               else ret (e_desc g));
             if desc = 0 then do {
               _ \<leftarrow> perf_err_desc (x_pdev d) e transfer size_in_desc;
               ret (- ENOMEM) }
             else do {
               let free_desc = (e_desc g = 0);
               g' \<leftarrow> the_eng e;
               _ \<leftarrow> upd_xfer x (\<lambda>t. t\<lparr>t_desc_virt := 0, t_desc_bus := e_desc_bus g'\<rparr>);
               _ \<leftarrow> transfer_desc_init x num;
               _ \<leftarrow> for_each [0..<unat num] (\<lambda>i. upd_desc e (int i)
                      (\<lambda>d. xdma_desc_set d (e_perf_buf_bus g') 0 size_in_desc (e_dir g')));
               _ \<leftarrow> upd_desc e 0 (\<lambda>d. desc_control_set d 0);
               _ \<leftarrow> upd_desc e (sint num - 1) (\<lambda>d. xdma_desc_link d True (e_desc_bus g'));
               _ \<leftarrow> upd_xfer x (\<lambda>t. t\<lparr>t_cyclic := True\<rparr>);
               rv \<leftarrow> transfer_queue E e (Some x);
               if rv < 0 then do {
                 _ \<leftarrow> when_st free_desc (kproc K_dma_free_coherent [32 * ucast num, desc, e_desc_bus g']);
                 _ \<leftarrow> upd_eng e (\<lambda>g. g\<lparr>e_desc := 0\<rparr>);
                 _ \<leftarrow> perf_err_desc (x_pdev d) e transfer size_in_desc;
                 ret rv }
               else ret 0 } } } } } }"

end
