(* ===== verification/Threads.thy ===== *)
theory Threads
  imports Xfer Resources
begin

text \<open>
  The completion threads of the polled mode (\<open>xdma_thread.h\<close>, \<open>xdma_thread.c\<close>): one thread per
  online CPU up to the number of channels, each with a list of engines to poll. The module's
  variables \<open>cs_threads\<close> and \<open>thread_cnt\<close> extend the state of the library.
\<close>

section \<open>State\<close>

text \<open>The handlers \<open>fproc\<close> and \<open>fpending\<close> are the two functions below, or not set yet.\<close>

record xdma_kthread =
  kt_name :: string
  kt_cpu :: nat
  kt_id :: nat
  kt_timeout :: u32
  kt_schedule :: u32
  kt_task :: u64
  kt_work_cnt :: u32
  kt_work_list :: "eng list"
  kt_fpending :: bool
  kt_fproc :: bool

definition zero_kthread :: xdma_kthread where
  "zero_kthread = \<lparr>kt_name = [], kt_cpu = 0, kt_id = 0, kt_timeout = 0, kt_schedule = 0,
     kt_task = 0, kt_work_cnt = 0, kt_work_list = [], kt_fpending = False, kt_fproc = False\<rparr>"

record tworld = xworld +
  cs_threads :: u64
  threads :: "nat \<Rightarrow> xdma_kthread"
  thread_cnt :: nat

definition upd_thread :: "nat \<Rightarrow> (xdma_kthread \<Rightarrow> xdma_kthread) \<Rightarrow> ('a tworld_scheme, unit) state" where
  "upd_thread i f = modify_st (\<lambda>s. s\<lparr>threads := (threads s)(i := f (threads s i))\<rparr>)"

lemma run_upd_thread [simp]:
  "run_state (upd_thread i f) s = ((), s\<lparr>threads := (threads s)(i := f (threads s i))\<rparr>)"
  by (simp add: upd_thread_def)

lemma tworld_order [simp]:
  "tr_update a (threads_update b s) = threads_update b (tr_update a s)"
  "tr_update a (cs_threads_update c s) = cs_threads_update c (tr_update a s)"
  "tr_update a (thread_cnt_update d s) = thread_cnt_update d (tr_update a s)"
  "engs_update e (threads_update b s) = threads_update b (engs_update e s)"
  "cs_threads_update c (threads_update b s) = threads_update b (cs_threads_update c s)"
  "cs_threads_update c (thread_cnt_update d s) = thread_cnt_update d (cs_threads_update c s)"
  "threads_update b (thread_cnt_update d s) = thread_cnt_update d (threads_update b s)"
  "kt_work_cnt_update k (kt_work_list_update l t) = kt_work_list_update l (kt_work_cnt_update k t)"
  "e_cmplthp_update m (e_intr_work_cpu_update n g) = e_intr_work_cpu_update n (e_cmplthp_update m g)"
  by simp_all

abbreviation (input) the_thread :: "nat \<Rightarrow> ('a tworld_scheme, xdma_kthread) state" where
  "the_thread i \<equiv> gets_st (\<lambda>s. threads s i)"

definition lock_thread :: "nat \<Rightarrow> ('a tworld_scheme, unit) state" where
  "lock_thread i = lock_acquire LkThread [i]"

definition unlock_thread :: "nat \<Rightarrow> ('a tworld_scheme, unit) state" where
  "unlock_thread i = lock_release LkThread [i]"

definition xdma_kthread_wakeup :: "nat \<Rightarrow> ('a tworld_scheme, unit) state" where
  "xdma_kthread_wakeup i = do {
     _ \<leftarrow> upd_thread i (\<lambda>t. t\<lparr>kt_schedule := 1\<rparr>);
     wake_up WqThread [i] }"

section \<open>The thread\<close>

definition xdma_thread_cmpl_status_pend :: "eng \<Rightarrow> ('a tworld_scheme, bool) state" where
  "xdma_thread_cmpl_status_pend e = do {
     _ \<leftarrow> lock_acquire LkEngine (eng_key e);
     g \<leftarrow> the_eng e;
     _ \<leftarrow> lock_release LkEngine (eng_key e);
     ret (e_transfer_list g \<noteq> []) }"

text \<open>
  With an empty queue the \<open>next\<close> pointer of the list head is the head itself, and
  \<open>desc_cmpl_th\<close> is loaded from some word of the engine structure: \<open>K_stray\<close>.
\<close>

definition xdma_thread_cmpl_status_proc :: "env \<Rightarrow> 'a tworld_ext io_done \<Rightarrow> eng \<Rightarrow> ('a tworld_scheme, unit) state" where
  "xdma_thread_cmpl_status_proc E H e = do {
     head \<leftarrow> queue_head e;
     th \<leftarrow> (case head of Some x \<Rightarrow> gets_st (\<lambda>s. t_desc_cmpl_th (xfers s x))
            | None \<Rightarrow> do { r \<leftarrow> kcall E K_stray []; ret (of_int r) });
     _ \<leftarrow> engine_service_poll E H e th;
     ret () }"

text \<open>The scan of the work list.\<close>

fun any_pending :: "eng list \<Rightarrow> ('a tworld_scheme, bool) state" where
  "any_pending [] = ret False"
| "any_pending (e # es) = do {
     p \<leftarrow> xdma_thread_cmpl_status_pend e;
     if p then ret True else any_pending es }"

definition xthread_work_pending :: "nat \<Rightarrow> ('a tworld_scheme, bool) state" where
  "xthread_work_pending i = do {
     t \<leftarrow> the_thread i;
     if kt_work_list t = [] then ret False
     else if kt_fpending t then any_pending (kt_work_list t)
     else ret False }"

definition xthread_reschedule :: "nat \<Rightarrow> ('a tworld_scheme, unit) state" where
  "xthread_reschedule i = do {
     t \<leftarrow> the_thread i;
     kproc K_wait [of_nat i, ucast (kt_timeout t)] }"

text \<open>One round of the loop of the thread.\<close>

definition xthread_round :: "env \<Rightarrow> 'a tworld_ext io_done \<Rightarrow> nat \<Rightarrow> ('a tworld_scheme, unit) state" where
  "xthread_round E H i = do {
     _ \<leftarrow> lock_thread i;
     p \<leftarrow> xthread_work_pending i;
     _ \<leftarrow> when_st (\<not> p) (do {
       _ \<leftarrow> unlock_thread i;
       _ \<leftarrow> xthread_reschedule i;
       lock_thread i });
     _ \<leftarrow> upd_thread i (\<lambda>t. t\<lparr>kt_schedule := 0\<rparr>);
     t \<leftarrow> the_thread i;
     _ \<leftarrow> when_st (kt_work_cnt t \<noteq> 0) (for_each (kt_work_list t) (xdma_thread_cmpl_status_proc E H));
     unlock_thread i }"

text \<open>The loop runs until the thread is stopped; \<open>None\<close> when \<open>fuel\<close> rounds are not enough.\<close>

fun xthread_main :: "nat \<Rightarrow> env \<Rightarrow> 'a tworld_ext io_done \<Rightarrow> nat \<Rightarrow> ('a tworld_scheme, int option) state" where
  "xthread_main 0 E H i = ret None"
| "xthread_main (Suc fuel) E H i = do {
     stop \<leftarrow> kcall E K_kthread_should_stop [of_nat i];
     if stop \<noteq> 0 then ret (Some 0)
     else do { _ \<leftarrow> xthread_round E H i; xthread_main fuel E H i } }"

section \<open>Starting and stopping\<close>

definition xdma_kthread_start :: "env \<Rightarrow> nat \<Rightarrow> string \<Rightarrow> nat \<Rightarrow> ('a tworld_scheme, int) state" where
  "xdma_kthread_start E i name ident = do {
     t \<leftarrow> the_thread i;
     if kt_task t \<noteq> 0 then ret (- EINVAL)
     else do {
       _ \<leftarrow> upd_thread i (\<lambda>t. t\<lparr>kt_name := snprintf 16 (name @ dec_nat ident), kt_id := ident,
              kt_work_list := []\<rparr>);
       task \<leftarrow> kcall E K_kthread_create [of_nat i];
       _ \<leftarrow> upd_thread i (\<lambda>t. t\<lparr>kt_task := of_int task\<rparr>);
       if is_err task then do {
         _ \<leftarrow> upd_thread i (\<lambda>t. t\<lparr>kt_task := 0\<rparr>);
         ret (- EFAULT) }
       else do {
         _ \<leftarrow> kproc K_kthread_wakeup [of_int task];
         ret 0 } } }"

definition xdma_kthread_stop :: "env \<Rightarrow> nat \<Rightarrow> ('a tworld_scheme, int) state" where
  "xdma_kthread_stop E i = do {
     t \<leftarrow> the_thread i;
     if kt_task t = 0 then ret 0
     else do {
       _ \<leftarrow> upd_thread i (\<lambda>t. t\<lparr>kt_schedule := 1\<rparr>);
       rv \<leftarrow> kcall E K_kthread_stop [kt_task t];
       if rv < 0 then ret rv
       else do {
         _ \<leftarrow> upd_thread i (\<lambda>t. t\<lparr>kt_task := 0\<rparr>);
         ret 0 } } }"

section \<open>Work items\<close>

text \<open>The thread of an engine is given by its index.\<close>

definition xdma_thread_remove_work :: "eng \<Rightarrow> ('a tworld_scheme, unit) state" where
  "xdma_thread_remove_work e = do {
     _ \<leftarrow> lock_acquire LkEngine (eng_key e);
     g \<leftarrow> the_eng e;
     _ \<leftarrow> upd_eng e (\<lambda>g. g\<lparr>e_cmplthp := None\<rparr>);
     _ \<leftarrow> lock_release LkEngine (eng_key e);
     case e_cmplthp g of None \<Rightarrow> ret ()
     | Some i \<Rightarrow> do {
         _ \<leftarrow> lock_thread i;
         _ \<leftarrow> upd_thread i (\<lambda>t. t\<lparr>kt_work_list := remove1 e (kt_work_list t),
                kt_work_cnt := kt_work_cnt t - 1\<rparr>);
         unlock_thread i } }"

text \<open>The choice of a thread; \<open>idx\<close> is \<open>thread_cnt\<close> until the first one was looked at.\<close>

fun pick_thread :: "nat list \<Rightarrow> nat \<Rightarrow> u32 \<Rightarrow> ('a tworld_scheme, nat) state" where
  "pick_thread [] idx v = ret idx"
| "pick_thread (i # is) idx v = do {
     _ \<leftarrow> lock_thread i;
     t \<leftarrow> the_thread i;
     cnt \<leftarrow> gets_st thread_cnt;
     _ \<leftarrow> unlock_thread i;
     if idx = cnt then pick_thread is i (kt_work_cnt t)
     else if kt_work_cnt t = 0 then ret i
     else if kt_work_cnt t < v then pick_thread is i v
     else pick_thread is idx v }"

definition xdma_thread_add_work :: "eng \<Rightarrow> ('a tworld_scheme, unit) state" where
  "xdma_thread_add_work e = do {
     cnt \<leftarrow> gets_st thread_cnt;
     idx \<leftarrow> pick_thread [0..<cnt] cnt 0;
     if cnt = 0 then emit Oops
     else do {
       _ \<leftarrow> lock_thread idx;
       _ \<leftarrow> upd_thread idx (\<lambda>t. t\<lparr>kt_work_list := kt_work_list t @ [e]\<rparr>);
       _ \<leftarrow> upd_eng e (\<lambda>g. g\<lparr>e_intr_work_cpu := of_nat idx\<rparr>);
       _ \<leftarrow> upd_thread idx (\<lambda>t. t\<lparr>kt_work_cnt := kt_work_cnt t + 1\<rparr>);
       _ \<leftarrow> unlock_thread idx;
       _ \<leftarrow> lock_acquire LkEngine (eng_key e);
       _ \<leftarrow> upd_eng e (\<lambda>g. g\<lparr>e_cmplthp := Some idx\<rparr>);
       lock_release LkEngine (eng_key e) } }"

section \<open>All the threads\<close>

text \<open>
  The loop over the online CPUs. With no thread asked for the first store leaves the array.
\<close>

fun start_threads :: "env \<Rightarrow> nat \<Rightarrow> nat list \<Rightarrow> ('a tworld_scheme, int) state" where
  "start_threads E num [] = ret 0"
| "start_threads E num (cpu # cpus) = do {
     i \<leftarrow> gets_st thread_cnt;
     if num \<le> i then do { _ \<leftarrow> emit Oops; ret 0 }
     else do {
       _ \<leftarrow> upd_thread i (\<lambda>t. t\<lparr>kt_cpu := cpu, kt_timeout := 0, kt_fproc := True, kt_fpending := True\<rparr>);
       rv \<leftarrow> xdma_kthread_start E i ''cmpl_status_th'' i;
       if rv < 0 then ret rv
       else do {
         _ \<leftarrow> modify_st (\<lambda>s. s\<lparr>thread_cnt := thread_cnt s + 1\<rparr>);
         if Suc i = num then ret 0 else start_threads E num cpus } } }"

definition xdma_threads_create :: "env \<Rightarrow> nat list \<Rightarrow> nat \<Rightarrow> ('a tworld_scheme, int) state" where
  "xdma_threads_create E cpus num_threads = do {
     cnt \<leftarrow> gets_st thread_cnt;
     if cnt \<noteq> 0 then ret 0
     else do {
       p \<leftarrow> kptr E K_kzalloc [of_nat num_threads];
       _ \<leftarrow> modify_st (\<lambda>s. s\<lparr>cs_threads := p, threads := (\<lambda>_. zero_kthread)\<rparr>);
       if p = 0 then ret (- ENOMEM)
       else do {
         rv \<leftarrow> start_threads E num_threads cpus;
         if rv < 0 then do {
           _ \<leftarrow> kproc K_kfree [p];
           _ \<leftarrow> modify_st (\<lambda>s. s\<lparr>cs_threads := 0, thread_cnt := 0\<rparr>);
           ret rv }
         else ret 0 } } }"

definition stop_threads :: "env \<Rightarrow> nat \<Rightarrow> ('a tworld_scheme, unit) state" where
  "stop_threads E n = for_each [0..<n] (\<lambda>i. do {
     t \<leftarrow> the_thread i;
     if kt_fproc t then do { _ \<leftarrow> xdma_kthread_stop E i; ret () } else ret () })"

definition xdma_threads_destroy :: "env \<Rightarrow> ('a tworld_scheme, unit) state" where
  "xdma_threads_destroy E = do {
     cnt \<leftarrow> gets_st thread_cnt;
     when_st (cnt \<noteq> 0) (do {
       _ \<leftarrow> stop_threads E cnt;
       p \<leftarrow> gets_st cs_threads;
       _ \<leftarrow> kproc K_kfree [p];
       modify_st (\<lambda>s. s\<lparr>cs_threads := 0, thread_cnt := 0\<rparr>) }) }"

section \<open>The choice of a thread\<close>

fun pick :: "nat \<Rightarrow> (nat \<Rightarrow> u32) \<Rightarrow> nat list \<Rightarrow> nat \<Rightarrow> u32 \<Rightarrow> nat" where
  "pick cnt load [] idx v = idx"
| "pick cnt load (i # is) idx v =
     (if idx = cnt then pick cnt load is i (load i)
      else if load i = 0 then i
      else if load i < v then pick cnt load is i v
      else pick cnt load is idx v)"

lemma run_pick_thread:
  "\<exists>h. run_state (pick_thread is idx v) s =
     (pick (thread_cnt s) (\<lambda>i. kt_work_cnt (threads s i)) is idx v, s\<lparr>tr := h\<rparr>) \<and>
     owned h = owned (tr s)"
proof (induction "is" arbitrary: idx v s)
  case (Cons i "is")
  let ?s = "s\<lparr>tr := tr s @ [Lock LkThread [i], Unlock LkThread [i]]\<rparr>"
  obtain h where "run_state (pick_thread is i (kt_work_cnt (threads s i))) ?s =
      (pick (thread_cnt s) (\<lambda>i. kt_work_cnt (threads s i)) is i (kt_work_cnt (threads s i)), s\<lparr>tr := h\<rparr>)"
    "owned h = owned (tr s)"
    using Cons [of i "kt_work_cnt (threads s i)" ?s] by auto
  moreover obtain h' where "run_state (pick_thread is i v) ?s =
      (pick (thread_cnt s) (\<lambda>i. kt_work_cnt (threads s i)) is i v, s\<lparr>tr := h'\<rparr>)"
    "owned h' = owned (tr s)"
    using Cons [of i v ?s] by auto
  moreover obtain h'' where "run_state (pick_thread is idx v) ?s =
      (pick (thread_cnt s) (\<lambda>i. kt_work_cnt (threads s i)) is idx v, s\<lparr>tr := h''\<rparr>)"
    "owned h'' = owned (tr s)"
    using Cons [of idx v ?s] by auto
  moreover have "\<exists>h. s\<lparr>tr := k\<rparr> = s\<lparr>tr := h\<rparr> \<and> owned h = owned k" for k by blast
  ultimately show ?case
    by (auto simp: lock_thread_def unlock_thread_def intro: exI [of _ "tr s @ [Lock LkThread [i], Unlock LkThread [i]]"])
next
  case Nil
  have "\<exists>h. s = s\<lparr>tr := h\<rparr> \<and> owned h = owned (tr s)"
    by (rule exI [of _ "tr s"]) simp
  then show ?case
    by simp
qed

lemma pick_later:
  assumes "idx < cnt" "\<forall>i\<in>set is. i < cnt" "load idx \<le> v" "load idx = 0 \<longrightarrow> v = 0"
  shows "pick cnt load is idx v < cnt \<and> load (pick cnt load is idx v) \<le> v \<and>
    ((\<exists>i\<in>set is. load i = 0) \<longrightarrow> load (pick cnt load is idx v) = 0) \<and>
    (load idx = 0 \<longrightarrow> load (pick cnt load is idx v) = 0)"
  using assms
proof (induction "is" arbitrary: idx)
  case (Cons i "is")
  show ?case
  proof (cases "load i = 0 \<or> \<not> load i < v")
    case True
    then show ?thesis
      using Cons.prems Cons.IH [of idx] by auto
  next
    case False
    then have "v \<noteq> 0" "load i \<le> v"
      by auto
    then show ?thesis
      using False Cons.prems Cons.IH [of i] by simp
  qed
qed auto

lemma run_add_work:
  assumes "0 < thread_cnt s"
  obtains i h where "i < thread_cnt s" "owned h = owned (tr s)"
    "kt_work_cnt (threads s i) \<le> kt_work_cnt (threads s 0)"
    "(\<exists>j<thread_cnt s. kt_work_cnt (threads s j) = 0) \<Longrightarrow> kt_work_cnt (threads s i) = 0"
    "run_state (xdma_thread_add_work e) s = ((), s\<lparr>tr := h,
       engs := (engs s)(e := (engs s e)\<lparr>e_cmplthp := Some i, e_intr_work_cpu := of_nat i\<rparr>),
       threads := (threads s)(i := (threads s i)\<lparr>kt_work_cnt := kt_work_cnt (threads s i) + 1,
         kt_work_list := kt_work_list (threads s i) @ [e]\<rparr>)\<rparr>)"
proof -
  define load where "load = (\<lambda>i. kt_work_cnt (threads s i))"
  define cnt where "cnt = thread_cnt s"
  define i where "i = pick cnt load [0..<cnt] cnt 0"
  have upt: "[0..<cnt] = 0 # [1..<cnt]"
    using assms by (simp add: cnt_def upt_rec)
  have i: "i < cnt \<and> load i \<le> load 0 \<and> ((\<exists>j\<in>set [1..<cnt]. load j = 0) \<longrightarrow> load i = 0) \<and>
      (load 0 = 0 \<longrightarrow> load i = 0)"
    unfolding i_def upt using assms pick_later [of 0 cnt "[1..<cnt]" load "load 0"]
    by (simp add: cnt_def)
  have zero: "load i = 0" if "\<exists>j<cnt. load j = 0"
  proof -
    obtain j where j: "j < cnt" "load j = 0"
      using \<open>\<exists>j<cnt. load j = 0\<close> by blast
    then show ?thesis
      using i by (cases "j = 0") auto
  qed
  obtain h where h: "owned h = owned (tr s)" "run_state (pick_thread [0..<cnt] cnt 0) s = (i, s\<lparr>tr := h\<rparr>)"
    using run_pick_thread [of "[0..<cnt]" cnt 0 s] by (auto simp: i_def load_def cnt_def)
  then have "run_state (xdma_thread_add_work e) s = ((), s\<lparr>tr := h @ [Lock LkThread [i], Unlock LkThread [i],
         Lock LkEngine (eng_key e), Unlock LkEngine (eng_key e)],
       engs := (engs s)(e := (engs s e)\<lparr>e_cmplthp := Some i, e_intr_work_cpu := of_nat i\<rparr>),
       threads := (threads s)(i := (threads s i)\<lparr>kt_work_cnt := kt_work_cnt (threads s i) + 1,
         kt_work_list := kt_work_list (threads s i) @ [e]\<rparr>)\<rparr>)"
    using assms by (simp add: xdma_thread_add_work_def lock_thread_def unlock_thread_def cnt_def)
  then show ?thesis
    using that [of i "h @ [Lock LkThread [i], Unlock LkThread [i], Lock LkEngine (eng_key e), Unlock LkEngine (eng_key e)]"]
      i zero h(1) by (auto simp: cnt_def load_def)
qed

lemma run_remove_work:
  assumes "e_cmplthp (engs s e) = Some i"
  obtains h where "run_state (xdma_thread_remove_work e) s = ((), s\<lparr>tr := h,
       engs := (engs s)(e := (engs s e)\<lparr>e_cmplthp := None\<rparr>),
       threads := (threads s)(i := (threads s i)\<lparr>kt_work_cnt := kt_work_cnt (threads s i) - 1,
         kt_work_list := remove1 e (kt_work_list (threads s i))\<rparr>)\<rparr>)"
  using assms by (simp add: xdma_thread_remove_work_def lock_thread_def unlock_thread_def)

section \<open>Every engine is on one thread\<close>

definition served :: "'a tworld_scheme \<Rightarrow> eng set" where
  "served s = {e. e_cmplthp (engs s e) \<noteq> None}"

definition threads_inv :: "'a tworld_scheme \<Rightarrow> bool" where
  "threads_inv s \<longleftrightarrow> 0 < thread_cnt s \<and>
     (\<forall>i<thread_cnt s. kt_work_cnt (threads s i) = of_nat (length (kt_work_list (threads s i))) \<and>
        distinct (kt_work_list (threads s i)) \<and>
        (\<forall>e. e \<in> set (kt_work_list (threads s i)) \<longleftrightarrow> e_cmplthp (engs s e) = Some i)) \<and>
     (\<forall>e i. e_cmplthp (engs s e) = Some i \<longrightarrow> i < thread_cnt s)"

lemma add_work_registers:
  assumes "threads_inv s" "e \<notin> served s"
  shows "threads_inv (final_of (xdma_thread_add_work e) s) \<and>
    served (final_of (xdma_thread_add_work e) s) = insert e (served s)"
proof -
  have cnt: "0 < thread_cnt s" and n: "e_cmplthp (engs s e) = None"
    using assms by (auto simp: threads_inv_def served_def)
  show ?thesis
    using assms(1) n by (rule_tac run_add_work [OF cnt, of e])
      (auto simp: threads_inv_def served_def)
qed

lemma remove_work_unregisters:
  assumes "threads_inv s" "e \<in> served s"
  shows "threads_inv (final_of (xdma_thread_remove_work e) s) \<and>
    served (final_of (xdma_thread_remove_work e) s) = served s - {e}"
proof -
  obtain i where i: "e_cmplthp (engs s e) = Some i"
    using assms by (auto simp: served_def)
  then have "i < thread_cnt s" "e \<in> set (kt_work_list (threads s i))"
    using assms(1) by (auto simp: threads_inv_def)
  then have "of_nat (length (kt_work_list (threads s i)) - 1) =
      (of_nat (length (kt_work_list (threads s i))) - 1 :: u32)"
    by (cases "kt_work_list (threads s i)") auto
  then show ?thesis
    using assms(1) i by (rule_tac run_remove_work [OF i])
      (auto simp: threads_inv_def served_def length_remove1)
qed

interpretation work: registry "\<lambda>e. final_of (xdma_thread_add_work e)"
  "\<lambda>e. final_of (xdma_thread_remove_work e)" served threads_inv
  by unfold_locales (simp_all add: add_work_registers remove_work_unregisters)

section \<open>Starting all the threads\<close>

text \<open>What the kernel documents: \<open>kthread_create\<close> gives a task or an error pointer.\<close>

definition thread_kernel :: "env \<Rightarrow> bool" where
  "thread_kernel E \<longleftrightarrow> (\<forall>r. answers E K_kthread_create r \<longrightarrow> is_err r \<or> 0 < r \<and> r < 2 ^ 64)"

lemma thread_kernelD:
  assumes "thread_kernel E" "\<not> is_err (kres E h K_kthread_create a)"
  shows "(of_int (kres E h K_kthread_create a) :: u64) \<noteq> 0"
proof -
  have "answers E K_kthread_create (kres E h K_kthread_create a)"
    unfolding answers_def by blast
  then have "0 < kres E h K_kthread_create a" "kres E h K_kthread_create a < 2 ^ 64"
    using assms unfolding thread_kernel_def by blast+
  then show ?thesis
    by (simp add: pointer_null del: word_of_int_eq_0_iff)
qed

definition started :: "history \<Rightarrow> nat" where
  "started h = length (calls K_kthread_wakeup h)"

lemma started_append [simp]: "started (h @ h') = started h + started h'"
  by (simp add: started_def)

text \<open>The loop, from a state in which the threads before \<open>thread_cnt\<close> are running.\<close>

definition fresh_from :: "'a tworld_scheme \<Rightarrow> bool" where
  "fresh_from s \<longleftrightarrow> (\<forall>i\<ge>thread_cnt s. threads s i = zero_kthread) \<and>
     (\<forall>i<thread_cnt s. kt_task (threads s i) \<noteq> 0 \<and> kt_work_cnt (threads s i) = 0 \<and>
        kt_work_list (threads s i) = [] \<and> kt_fproc (threads s i) \<and> kt_fpending (threads s i))"

lemma run_start_threads:
  assumes "thread_kernel E" "fresh_from s" "thread_cnt s < num"
    and "run_state (start_threads E num cpus) s = (rv, s')"
  shows "(rv = 0 \<and> fresh_from s' \<and> thread_cnt s' = min num (thread_cnt s + length cpus) \<or>
      rv = - EFAULT \<and> thread_cnt s' < min num (thread_cnt s + length cpus)) \<and>
    thread_cnt s \<le> thread_cnt s' \<and>
    started (tr s') = started (tr s) + (thread_cnt s' - thread_cnt s) \<and>
    calls K_kthread_stop (tr s') = calls K_kthread_stop (tr s) \<and>
    calls K_kfree (tr s') = calls K_kfree (tr s) \<and> engs s' = engs s"
  using assms(2-4)
proof (induction cpus arbitrary: s)
  case (Cons cpu cpus)
  define i where "i = thread_cnt s"
  define r where "r = kres E (tr s) K_kthread_create [of_nat i]"
  have z: "threads s i = zero_kthread"
    using Cons.prems(1) by (simp add: fresh_from_def i_def)
  show ?case
  proof (cases "is_err r")
    case True
    then show ?thesis
      using Cons.prems z by (auto simp: xdma_kthread_start_def zero_kthread_def r_def i_def started_def)
  next
    case False
    define s1 where "s1 = s\<lparr>tr := tr s @ [KCall K_kthread_create [of_nat i] r, KCall K_kthread_wakeup [of_int r] 0],
      threads := (threads s)(i := zero_kthread\<lparr>kt_name := snprintf 16 (''cmpl_status_th'' @ dec_nat i),
        kt_cpu := cpu, kt_id := i, kt_task := of_int r, kt_fpending := True, kt_fproc := True\<rparr>),
      thread_cnt := Suc i\<rparr>"
    have "(of_int r :: u64) \<noteq> 0"
      using False thread_kernelD [OF assms(1)] by (simp add: r_def)
    then have f: "fresh_from s1"
      using Cons.prems(1) by (auto simp: fresh_from_def s1_def i_def zero_kthread_def less_Suc_eq)
    have run: "run_state (start_threads E num (cpu # cpus)) s =
      (if Suc i = num then (0, s1) else run_state (start_threads E num cpus) s1)"
      using False Cons.prems z
      by (simp add: xdma_kthread_start_def zero_kthread_def r_def [symmetric] i_def [symmetric] s1_def
          cong: if_cong)
    have s1: "thread_cnt s1 = Suc i" "started (tr s1) = Suc (started (tr s))" "engs s1 = engs s"
      "calls K_kthread_stop (tr s1) = calls K_kthread_stop (tr s)"
      "calls K_kfree (tr s1) = calls K_kfree (tr s)"
      by (simp_all add: s1_def started_def)
    show ?thesis
    proof (cases "Suc i = num")
      case True
      then show ?thesis
        using Cons.prems run f s1 by (auto simp: i_def)
    next
      case False
      then have "thread_cnt s1 < num" "run_state (start_threads E num cpus) s1 = (rv, s')"
        using Cons.prems run s1 by (simp_all add: i_def)
      from Cons.IH [OF f this] show ?thesis
        unfolding s1 i_def by auto
    qed
  qed
qed auto

text \<open>
  C28: creating the completion threads. With success there is one running thread per channel
  or per online CPU, whichever is less, each with an empty work list, and no engine is lost; a
  failure gives the array back and the error to the caller, but the threads started before it
  are not stopped: they go on running on the memory that was freed.
\<close>

theorem threads_create_outcome:
  assumes "thread_kernel E" "pointer_answers E K_kzalloc" "thread_cnt s = 0" "0 < num" "cpus \<noteq> []"
    and "served s = {}"
    and "run_state (xdma_threads_create E cpus num) s = (rv, s')"
  shows "rv = 0 \<and> thread_cnt s' = min num (length cpus) \<and> threads_inv s' \<and> engs s' = engs s \<and>
      (\<forall>i<thread_cnt s'. kt_task (threads s' i) \<noteq> 0 \<and> kt_work_list (threads s' i) = []) \<and>
      started (tr s') = started (tr s) + thread_cnt s' \<or>
    rv = - ENOMEM \<and> cs_threads s' = 0 \<and> thread_cnt s' = 0 \<and> started (tr s') = started (tr s) \<or>
    rv = - EFAULT \<and> cs_threads s' = 0 \<and> thread_cnt s' = 0 \<and>
      calls K_kthread_stop (tr s') = calls K_kthread_stop (tr s) \<and>
      (\<exists>p. calls K_kfree (tr s') = calls K_kfree (tr s) @ [[p]])"
proof -
  define r where "r = kres E (tr s) K_kzalloc [of_nat num]"
  define p :: u64 where "p = of_int r"
  define s1 where "s1 = s\<lparr>tr := tr s @ [KCall K_kzalloc [of_nat num] r],
    cs_threads := p, threads := (\<lambda>_. zero_kthread)\<rparr>"
  obtain rv2 s2 where run: "run_state (start_threads E num cpus) s1 = (rv2, s2)"
    by fastforce
  have s1: "fresh_from s1" "thread_cnt s1 = 0" "started (tr s1) = started (tr s)" "engs s1 = engs s"
    "calls K_kthread_stop (tr s1) = calls K_kthread_stop (tr s)" "calls K_kfree (tr s1) = calls K_kfree (tr s)"
    using assms(3) by (simp_all add: s1_def fresh_from_def started_def)
  have loop: "(rv2 = 0 \<and> fresh_from s2 \<and> thread_cnt s2 = min num (length cpus) \<or> rv2 = - EFAULT) \<and>
      started (tr s2) = started (tr s) + thread_cnt s2 \<and>
      calls K_kthread_stop (tr s2) = calls K_kthread_stop (tr s) \<and>
      calls K_kfree (tr s2) = calls K_kfree (tr s) \<and> engs s2 = engs s"
    using run_start_threads [OF assms(1) s1(1) _ run] assms(4) unfolding s1 by auto
  show ?thesis
  proof (cases "p = 0")
    case True
    then show ?thesis
      using assms(3,7) by (auto simp: xdma_threads_create_def p_def r_def started_def)
  next
    case False
    then have e: "run_state (xdma_threads_create E cpus num) s =
      (if rv2 < 0 then (rv2, s2\<lparr>tr := tr s2 @ [KCall K_kfree [p] 0], cs_threads := 0, thread_cnt := 0\<rparr>)
       else (0, s2))"
      using assms(3) run by (simp add: xdma_threads_create_def p_def r_def s1_def)
    show ?thesis
      using loop
    proof (elim conjE disjE)
      assume *: "rv2 = 0" "fresh_from s2" "thread_cnt s2 = min num (length cpus)"
      then have "threads_inv s2"
        using assms(4,5,6) loop by (auto simp: threads_inv_def fresh_from_def served_def)
      then show ?thesis
        using * loop e assms(7) by (auto simp: fresh_from_def)
    next
      assume "rv2 = - EFAULT"
      then show ?thesis
        using loop e assms(7) by auto
    qed
  qed
qed

section \<open>Stopping all the threads\<close>

lemma run_stop_threads:
  assumes "\<forall>i<n. kt_task (threads s i) \<noteq> 0 \<and> kt_fproc (threads s i)" "s' = final_of (stop_threads E n) s"
  shows "thread_cnt s' = thread_cnt s \<and> cs_threads s' = cs_threads s \<and> engs s' = engs s \<and>
     calls K_kthread_stop (tr s') = calls K_kthread_stop (tr s) @ map (\<lambda>i. [kt_task (threads s i)]) [0..<n] \<and>
     calls K_kfree (tr s') = calls K_kfree (tr s) \<and> (\<forall>i\<ge>n. threads s' i = threads s i)"
  using assms
proof (induction n arbitrary: s')
  case (Suc n)
  define s1 where "s1 = final_of (stop_threads E n) s"
  note IH = Suc.IH [OF _ s1_def]
  have "s' = final_of (do { _ \<leftarrow> xdma_kthread_stop E n; ret () }) s1"
    using Suc.prems IH by (simp add: stop_threads_def s1_def)
  then show ?case
    using Suc.prems(1) IH by (auto simp: xdma_kthread_stop_def)
qed (simp add: stop_threads_def)

text \<open>
  C29: destroying the completion threads stops every one of them, in order, before it frees
  their array.
\<close>

theorem threads_destroy_stops:
  assumes "0 < thread_cnt s" "\<forall>i<thread_cnt s. kt_task (threads s i) \<noteq> 0 \<and> kt_fproc (threads s i)"
    and "run_state (xdma_threads_destroy E) s = (u, s')"
  shows "calls K_kthread_stop (tr s') = calls K_kthread_stop (tr s) @
      map (\<lambda>i. [kt_task (threads s i)]) [0..<thread_cnt s] \<and>
    (\<exists>h. tr s' = h @ [KCall K_kfree [cs_threads s] 0] \<and> calls K_kfree h = calls K_kfree (tr s)) \<and>
    thread_cnt s' = 0 \<and> cs_threads s' = 0 \<and> engs s' = engs s"
proof -
  define s1 where "s1 = final_of (stop_threads E (thread_cnt s)) s"
  note * = run_stop_threads [OF assms(2) s1_def]
  have "thread_cnt s1 = thread_cnt s" "cs_threads s1 = cs_threads s" "engs s1 = engs s"
    using * by simp_all
  moreover have "run_state (xdma_threads_destroy E) s =
      ((), s1\<lparr>tr := tr s1 @ [KCall K_kfree [cs_threads s1] 0], cs_threads := 0, thread_cnt := 0\<rparr>)"
    using assms(1) by (simp add: xdma_threads_destroy_def s1_def split: prod.split)
  ultimately show ?thesis
    using * assms(3) by simp
qed

section \<open>A group of two threads\<close>

definition thread_env :: env where
  "thread_env = sample_env\<lparr>kres := (\<lambda>h f a. if f = K_kthread_create \<and> a = [1] then -11 else 0x4000)\<rparr>"

definition thread_world :: "nat \<Rightarrow> tworld" where
  "thread_world n = \<lparr>tr = [], prm = sample_params, engs = (\<lambda>_. sample_engine),
     xfers = (\<lambda>_. zero_transfer), reqs = (\<lambda>_. zero_request), cbs = (\<lambda>_. sample_cb),
     sgts = (\<lambda>_. sample_sgt), xdevs = (\<lambda>_. sample_xdev), xdev_list = [0x100], cs_threads = 0x8000,
     threads = (\<lambda>_. zero_kthread\<lparr>kt_task := 0x9000, kt_fproc := True\<rparr>), thread_cnt = n\<rparr>"

lemma thread_world_sel [simp]:
  "tr (thread_world n) = []" "engs (thread_world n) = (\<lambda>_. sample_engine)"
  "threads (thread_world n) = (\<lambda>_. zero_kthread\<lparr>kt_task := 0x9000, kt_fproc := True\<rparr>)"
  "thread_cnt (thread_world n) = n" "cs_threads (thread_world n) = 0x8000" "served (thread_world n) = {}"
  by (simp_all add: thread_world_def served_def)

lemma thread_world_inv: "0 < n \<Longrightarrow> threads_inv (thread_world n)"
  by (simp add: threads_inv_def zero_kthread_def)

text \<open>Two CPUs, and a second thread that cannot be created.\<close>

lemma threads_create_witness:
  "let r = run_state (xdma_threads_create thread_env [0, 1] 2) (thread_world 0)
   in fst r = - EFAULT \<and> calls K_kthread_stop (tr (snd r)) = [] \<and> cs_threads (snd r) = 0"
proof -
  have "thread_kernel thread_env" "pointer_answers thread_env K_kzalloc"
    by (auto simp: thread_kernel_def pointer_answers_def answers_def thread_env_def is_err_def)
  from threads_create_outcome [OF this, of "thread_world 0" 2 "[0, 1]", OF _ _ _ _ prod.collapse [symmetric]]
  show ?thesis
    by (simp add: xdma_threads_create_def xdma_kthread_start_def zero_kthread_def thread_env_def is_err_def Let_def)
qed

lemma threads_destroy_witness:
  "calls K_kthread_stop (tr (final_of (xdma_threads_destroy thread_env) (thread_world 2))) = [[0x9000], [0x9000]]"
  using threads_destroy_stops [of "thread_world 2" thread_env, OF _ _ prod.collapse [symmetric]]
  by (simp add: upt_rec)

section \<open>The assignment of engines\<close>

text \<open>
  Which thread gets a new engine. An idle thread if there is one; in any case one that has no
  more work items than the first thread. The engine goes to the end of its work list and nothing
  else changes.
\<close>

lemma add_work_choice:
  assumes "0 < thread_cnt s" "run_state (xdma_thread_add_work e) s = (u, s')"
  shows "\<exists>i<thread_cnt s. e_cmplthp (engs s' e) = Some i \<and>
    kt_work_list (threads s' i) = kt_work_list (threads s i) @ [e] \<and>
    kt_work_cnt (threads s' i) = kt_work_cnt (threads s i) + 1 \<and>
    (\<forall>j. j \<noteq> i \<longrightarrow> threads s' j = threads s j) \<and> (\<forall>f. f \<noteq> e \<longrightarrow> engs s' f = engs s f) \<and>
    kt_work_cnt (threads s i) \<le> kt_work_cnt (threads s 0) \<and>
    ((\<exists>j<thread_cnt s. kt_work_cnt (threads s j) = 0) \<longrightarrow> kt_work_cnt (threads s i) = 0)"
  using assms(2) by (rule_tac run_add_work [OF assms(1), of e]) auto

lemma add_work_choice_witness:
  "e_cmplthp (engs (final_of (xdma_thread_add_work (H2C 1 0)) (thread_world 1)) (H2C 1 0)) = Some 0"
  using add_work_choice [of "thread_world 1" "H2C 1 0", OF _ prod.collapse [symmetric]]
  by simp

text \<open>
  C27: whatever engines are set up in polled mode and however they are torn down again, at every
  moment each engine that has been given to a thread is in the work list of exactly that thread,
  the counts are the lengths of the lists, and in the end the threads serve whom they served
  before.
\<close>

theorem threads_serve_once:
  assumes "threads_inv s" "distinct es" "set es \<inter> served s = {}" "distinct fs" "set fs = set es"
  shows "let s1 = fold (\<lambda>e. final_of (xdma_thread_add_work e)) es s;
      s2 = fold (\<lambda>e. final_of (xdma_thread_remove_work e)) fs s1
    in (\<forall>e\<in>set es. \<exists>!i. i < thread_cnt s1 \<and> e \<in> set (kt_work_list (threads s1 i))) \<and>
       (\<forall>i<thread_cnt s1. kt_work_cnt (threads s1 i) = of_nat (length (kt_work_list (threads s1 i)))) \<and>
       threads_inv s2 \<and> served s2 = served s"
proof -
  define s1 where "s1 = fold (\<lambda>e. final_of (xdma_thread_add_work e)) es s"
  have inv: "threads_inv s1" "served s1 = set es \<union> served s"
    using work.enter_all [OF assms(1-3)] by (simp_all add: s1_def)
  have "\<exists>!i. i < thread_cnt s1 \<and> e \<in> set (kt_work_list (threads s1 i))" if "e \<in> set es" for e
  proof -
    have "e \<in> served s1"
      using that inv(2) by blast
    then obtain i where "e_cmplthp (engs s1 e) = Some i"
      by (auto simp: served_def)
    then show ?thesis
      using inv(1) by (auto simp: threads_inv_def intro!: ex1I [of _ i])
  qed
  then show ?thesis
    using inv(1) work.enter_leave [OF assms] by (simp add: s1_def threads_inv_def)
qed

lemma threads_serve_once_witness:
  "served (fold (\<lambda>e. final_of (xdma_thread_remove_work e)) [C2H 1 0, H2C 1 0]
     (fold (\<lambda>e. final_of (xdma_thread_add_work e)) [H2C 1 0, C2H 1 0] (thread_world 2))) = {}"
  using threads_serve_once [OF thread_world_inv, of 2 "[H2C 1 0, C2H 1 0]" "[C2H 1 0, H2C 1 0]"]
  by (simp add: Let_def insert_commute)

end
