(* ===== verification/EngineInit.thy ===== *)
theory EngineInit
  imports Threads
begin

text \<open>
  Setting engines up and taking them down (\<open>libxdma.c\<close>): the coherent memory of an engine, its
  registers, the discovery of the engines that the hardware has, and their removal.
\<close>

section \<open>Memory\<close>

text \<open>\<open>dma_alloc_coherent\<close>: the address of the memory and its bus address.\<close>

definition dma_alloc :: "env \<Rightarrow> u64 \<Rightarrow> ('a xworld_scheme, u64 \<times> u64) state" where
  "dma_alloc E bytes = do {
     v \<leftarrow> kptr E K_dma_alloc_coherent [bytes];
     h \<leftarrow> gets_st tr;
     ret (v, dma_bus E h v) }"

definition engine_free_resource :: "eng \<Rightarrow> ('a xworld_scheme, unit) state" where
  "engine_free_resource e = do {
     g \<leftarrow> the_eng e;
     _ \<leftarrow> when_st (e_poll_mode_addr_virt g \<noteq> 0) (do {
       _ \<leftarrow> kproc K_dma_free_coherent [32, e_poll_mode_addr_virt g, e_poll_mode_bus g];
       upd_eng e (\<lambda>g. g\<lparr>e_poll_mode_addr_virt := 0\<rparr>) });
     _ \<leftarrow> when_st (e_desc g \<noteq> 0) (do {
       _ \<leftarrow> kproc K_dma_free_coherent [ucast (e_desc_max g) * 32, e_desc g, e_desc_bus g];
       upd_eng e (\<lambda>g. g\<lparr>e_desc := 0\<rparr>) });
     when_st (e_cyclic_result g \<noteq> 0) (do {
       _ \<leftarrow> kproc K_dma_free_coherent [ucast (e_desc_max g) * 32, e_cyclic_result g, e_cyclic_result_bus g];
       upd_eng e (\<lambda>g. g\<lparr>e_cyclic_result := 0\<rparr>) }) }"

text \<open>The label \<open>err_out\<close> of \<open>engine_alloc_resource\<close>.\<close>

definition alloc_err_out :: "eng \<Rightarrow> ('a xworld_scheme, int) state" where
  "alloc_err_out e = do { _ \<leftarrow> engine_free_resource e; ret (- ENOMEM) }"

definition engine_alloc_resource :: "env \<Rightarrow> eng \<Rightarrow> ('a xworld_scheme, int) state" where
  "engine_alloc_resource E e = do {
     g \<leftarrow> the_eng e;
     (v, b) \<leftarrow> dma_alloc E (ucast (e_desc_max g) * 32);
     _ \<leftarrow> upd_eng e (\<lambda>g. g\<lparr>e_desc_bus := b, e_desc := v\<rparr>);
     if v = 0 then alloc_err_out e
     else do {
       poll \<leftarrow> param poll_mode;
       ok \<leftarrow> (if poll then do {
           (v, b) \<leftarrow> dma_alloc E 32;
           _ \<leftarrow> upd_eng e (\<lambda>g. g\<lparr>e_poll_mode_addr_virt := v, e_poll_mode_bus := b\<rparr>);
           ret (v \<noteq> 0) }
         else ret True);
       if \<not> ok then alloc_err_out e
       else if e_streaming g \<and> e_dir g = DMA_FROM_DEVICE then do {
         (v, b) \<leftarrow> dma_alloc E (ucast (e_desc_max g) * 32);
         _ \<leftarrow> upd_eng e (\<lambda>g. g\<lparr>e_cyclic_result := v, e_cyclic_result_bus := b\<rparr>);
         if v = 0 then alloc_err_out e else ret 0 }
       else ret 0 } }"

section \<open>Registers\<close>

definition engine_alignments :: "env \<Rightarrow> eng \<Rightarrow> ('a xworld_scheme, unit) state" where
  "engine_alignments E e = do {
     g \<leftarrow> the_eng e;
     w \<leftarrow> ioread32 E (eng_reg g R_alignments);
     let align_bytes = drop_bit 16 (w AND 0x00ff0000);
     let granularity_bytes = drop_bit 8 (w AND 0x0000ff00);
     let address_bits = w AND 0x000000ff;
     if w \<noteq> 0 then
       upd_eng e (\<lambda>g. g\<lparr>e_addr_align := ucast align_bytes, e_len_granularity := ucast granularity_bytes,
         e_addr_bits := ucast address_bits\<rparr>)
     else upd_eng e (\<lambda>g. g\<lparr>e_addr_align := 1, e_len_granularity := 1, e_addr_bits := 64\<rparr>) }"

definition engine_writeback_setup :: "eng \<Rightarrow> ('a xworld_scheme, int) state" where
  "engine_writeback_setup e = (if e = NoEngine then ret (- EINVAL) else do {
     g \<leftarrow> the_eng e;
     if e_xdev g = 0 then ret (- EINVAL)
     else do {
       _ \<leftarrow> mem_zero (e_poll_mode_addr_virt g) 4;
       _ \<leftarrow> iowrite32 (PCI_DMA_L (e_poll_mode_bus g)) (eng_reg g R_poll_mode_wb_lo);
       _ \<leftarrow> iowrite32 (PCI_DMA_H (e_poll_mode_bus g)) (eng_reg g R_poll_mode_wb_hi);
       ret 0 } })"

text \<open>The credit mode registers are in the common block of the device.\<close>

definition credit_reg :: "xdma_dev \<Rightarrow> sgdma_common_reg \<Rightarrow> u64" where
  "credit_reg x r = x_bar x (nat (x_config_bar_idx x)) + 0x6 * TARGET_SPACING + sgdma_common_off r"

definition uses_credits :: "params \<Rightarrow> xdma_engine \<Rightarrow> bool" where
  "uses_credits p g \<longleftrightarrow> enable_st_c2h_credit p \<and> e_streaming g \<and> e_dir g = DMA_FROM_DEVICE"

definition engine_init_regs :: "env \<Rightarrow> eng \<Rightarrow> ('a xworld_scheme, int) state" where
  "engine_init_regs E e = do {
     g \<leftarrow> the_eng e;
     _ \<leftarrow> iowrite32 XDMA_CTRL_NON_INCR_ADDR (eng_reg g R_control_w1c);
     _ \<leftarrow> engine_alignments E e;
     let reg_value = XDMA_CTRL_IE_DESC_ALIGN_MISMATCH OR XDMA_CTRL_IE_MAGIC_STOPPED OR
       XDMA_CTRL_IE_READ_ERROR OR XDMA_CTRL_IE_DESC_ERROR;
     poll \<leftarrow> param poll_mode;
     rv \<leftarrow> (if poll then engine_writeback_setup e else ret 0);
     if rv \<noteq> 0 then ret rv
     else do {
       let reg_value = (if poll then reg_value
         else reg_value OR XDMA_CTRL_IE_DESC_STOPPED OR XDMA_CTRL_IE_DESC_COMPLETED);
       _ \<leftarrow> iowrite32 reg_value (eng_reg g R_interrupt_enable_mask);
       _ \<leftarrow> upd_eng e (\<lambda>g. g\<lparr>e_int_mask_value := reg_value\<rparr>);
       p \<leftarrow> gets_st prm;
       x \<leftarrow> the_xdev (e_xdev g);
       _ \<leftarrow> when_st (uses_credits p g)
              (iowrite32 (push_bit 16 (push_bit (e_channel g) 1)) (credit_reg x C_credit_mode_enable_w1s));
       ret 0 } }"

text \<open>The ioctl that changes the addressing mode; \<open>get_user\<close> loads eight bytes.\<close>

definition engine_addrmode_set :: "env \<Rightarrow> eng \<Rightarrow> u64 \<Rightarrow> ('a xworld_scheme, int) state" where
  "engine_addrmode_set E e arg = do {
     (left, dst) \<leftarrow> copy_from_user E arg 8;
     let rv = (if left \<noteq> 0 then - EFAULT else 0);
     g \<leftarrow> the_eng e;
     _ \<leftarrow> when_st (rv = 0) (do {
       _ \<leftarrow> upd_eng e (\<lambda>g. g\<lparr>e_non_incr_addr := list_ex (\<lambda>b. b \<noteq> 0) dst\<rparr>);
       if list_ex (\<lambda>b. b \<noteq> 0) dst
       then iowrite32 XDMA_CTRL_NON_INCR_ADDR (eng_reg g R_control_w1s)
       else iowrite32 XDMA_CTRL_NON_INCR_ADDR (eng_reg g R_control_w1c) });
     _ \<leftarrow> engine_alignments E e;
     ret rv }"

section \<open>Creating and destroying an engine\<close>

text \<open>The second half of \<open>engine_init\<close>: memory, registers, and the completion thread.\<close>

definition engine_init_resources :: "env \<Rightarrow> eng \<Rightarrow> ('a tworld_scheme, int) state" where
  "engine_init_resources E e = do {
     rv \<leftarrow> engine_alloc_resource E e;
     if rv \<noteq> 0 then ret rv
     else do {
       rv \<leftarrow> engine_init_regs E e;
       if rv \<noteq> 0 then ret rv
       else do {
         poll \<leftarrow> param poll_mode;
         _ \<leftarrow> when_st poll (xdma_thread_add_work e);
         ret 0 } } }"

definition engine_init :: "env \<Rightarrow> eng \<Rightarrow> u64 \<Rightarrow> u64 \<Rightarrow> dma_dir \<Rightarrow> nat \<Rightarrow> ('a tworld_scheme, int) state" where
  "engine_init E e xdev offset dir channel = do {
     x \<leftarrow> the_xdev xdev;
     let base = x_bar x (nat (x_config_bar_idx x)) + offset;
     _ \<leftarrow> upd_eng e (\<lambda>g. g\<lparr>e_magic := MAGIC_ENGINE, e_channel := channel,
            e_irq_bitmask := push_bit (x_engines_num x) 1,
            e_bypass_offset := of_nat (x_engines_num x) * BYPASS_MODE_SPACING,
            e_xdev := xdev, e_regs := base, e_sgdma_regs := base + SGDMA_OFFSET_FROM_CHANNEL\<rparr>);
     val \<leftarrow> ioread32 E (base + engine_reg_off R_identifier);
     _ \<leftarrow> when_st (val AND 0x8000 \<noteq> 0) (upd_eng e (\<lambda>g. g\<lparr>e_streaming := True\<rparr>));
     g \<leftarrow> the_eng e;
     p \<leftarrow> gets_st prm;
     _ \<leftarrow> upd_eng e (\<lambda>g. g\<lparr>e_dir := dir,
            e_name := snprintf 16 (dec_int (x_idx x) @ ''-'' @ (if dir = DMA_TO_DEVICE then ''H2C'' else ''C2H'') @
              dec_nat channel @ ''-'' @ (if e_streaming g then ''ST'' else ''MM'')),
            e_desc_max := (if uses_credits p (g\<lparr>e_dir := dir\<rparr>) then XDMA_ENGINE_CREDIT_XFER_MAX_DESC
                           else XDMA_ENGINE_XFER_MAX_DESC)\<rparr>);
     _ \<leftarrow> (if dir = DMA_TO_DEVICE
            then upd_xdev xdev (\<lambda>x. x\<lparr>x_mask_irq_h2c := x_mask_irq_h2c x OR e_irq_bitmask g\<rparr>)
            else upd_xdev xdev (\<lambda>x. x\<lparr>x_mask_irq_c2h := x_mask_irq_c2h x OR e_irq_bitmask g\<rparr>));
     _ \<leftarrow> upd_xdev xdev (\<lambda>x. x\<lparr>x_engines_num := x_engines_num x + 1\<rparr>);
     engine_init_resources E e }"

text \<open>
  A cleared engine. The zero of the direction has no name in the driver; the field is left out
  of the clearing, and nothing reads it before it is set again.
\<close>

definition zero_engine :: "dma_dir \<Rightarrow> xdma_engine" where
  "zero_engine dir = \<lparr>e_magic = 0, e_xdev = 0, e_name = [], e_version = 0, e_regs = 0,
     e_sgdma_regs = 0, e_bypass_offset = 0, e_shutdown = 0, e_dir = dir, e_addr_align = 0,
     e_len_granularity = 0, e_addr_bits = 0, e_channel = 0, e_streaming = False,
     e_device_open = False, e_running = False, e_non_incr_addr = False, e_eop_flush = False,
     e_desc_dequeued = 0, e_desc_max = 0, e_status = 0, e_int_mask_value = 0, e_transfer_list = [],
     e_cyclic_result = 0, e_cyclic_result_bus = 0, e_perf_buf_virt = 0, e_perf_buf_bus = 0,
     e_poll_mode_addr_virt = 0, e_poll_mode_bus = 0, e_msix_irq_line = 0, e_irq_bitmask = 0,
     e_desc_bus = 0, e_desc = 0, e_desc_idx = 0, e_desc_used = 0, e_ring = (\<lambda>_. zero_desc),
     e_xdma_perf = None, e_cmplthp = None, e_intr_work_cpu = 0\<rparr>"

definition engine_destroy :: "u64 \<Rightarrow> eng \<Rightarrow> ('a tworld_scheme, int) state" where
  "engine_destroy xdev e = (if xdev = 0 then ret (- EINVAL) else if e = NoEngine then ret (- EINVAL) else do {
     g \<leftarrow> the_eng e;
     x \<leftarrow> the_xdev xdev;
     p \<leftarrow> gets_st prm;
     _ \<leftarrow> iowrite32 0 (eng_reg g R_interrupt_enable_mask);
     _ \<leftarrow> when_st (uses_credits p g)
            (iowrite32 (push_bit 16 (push_bit (e_channel g) 1)) (credit_reg x C_credit_mode_enable_w1c));
     _ \<leftarrow> when_st (poll_mode p) (xdma_thread_remove_work e);
     _ \<leftarrow> engine_free_resource e;
     _ \<leftarrow> upd_eng e (\<lambda>_. zero_engine (e_dir g));
     _ \<leftarrow> upd_xdev xdev (\<lambda>x. x\<lparr>x_engines_num := x_engines_num x - 1\<rparr>);
     ret 0 })"

section \<open>Discovery and removal\<close>

definition get_engine_channel_id :: "env \<Rightarrow> u64 \<Rightarrow> ('a xworld_scheme, int) state" where
  "get_engine_channel_id E regs = (if regs = 0 then ret (- EINVAL) else do {
     value \<leftarrow> ioread32 E (regs + engine_reg_off R_identifier);
     ret (uint (drop_bit 8 (value AND 0x00000f00))) })"

definition get_engine_id :: "env \<Rightarrow> u64 \<Rightarrow> ('a xworld_scheme, int) state" where
  "get_engine_id E regs = (if regs = 0 then ret (- EINVAL) else do {
     value \<leftarrow> ioread32 E (regs + engine_reg_off R_identifier);
     ret (uint (drop_bit 16 (value AND 0xffff0000))) })"

definition engine_of :: "u64 \<Rightarrow> dma_dir \<Rightarrow> nat \<Rightarrow> eng" where
  "engine_of xdev dir channel = (if dir = DMA_TO_DEVICE then H2C xdev channel else C2H xdev channel)"

definition channel_offset :: "dma_dir \<Rightarrow> nat \<Rightarrow> u64" where
  "channel_offset dir channel = of_nat channel * CHANNEL_SPACING +
     (if dir = DMA_TO_DEVICE then 0 else H2C_CHANNEL_OFFSET)"

definition probe_for_engine :: "env \<Rightarrow> u64 \<Rightarrow> dma_dir \<Rightarrow> nat \<Rightarrow> ('a tworld_scheme, int) state" where
  "probe_for_engine E xdev dir channel = do {
     x \<leftarrow> the_xdev xdev;
     let offset = channel_offset dir channel;
     let engine_id_expected = (if dir = DMA_TO_DEVICE then XDMA_ID_H2C else XDMA_ID_C2H);
     let regs = x_bar x (nat (x_config_bar_idx x)) + offset;
     engine_id \<leftarrow> get_engine_id E regs;
     channel_id \<leftarrow> get_engine_channel_id E regs;
     if of_int engine_id \<noteq> engine_id_expected \<or> (of_int channel_id :: u32) \<noteq> of_nat channel
     then ret (- EINVAL)
     else engine_init E (engine_of xdev dir channel) xdev offset dir channel }"

text \<open>The loop over the channels \<open>i\<close>, \<open>i + 1\<close>, ... of one direction: where it ends.\<close>

fun probe_channels :: "env \<Rightarrow> u64 \<Rightarrow> dma_dir \<Rightarrow> nat \<Rightarrow> nat \<Rightarrow> ('a tworld_scheme, nat) state" where
  "probe_channels E xdev dir i 0 = ret i"
| "probe_channels E xdev dir i (Suc n) = do {
     rv \<leftarrow> probe_for_engine E xdev dir i;
     if rv \<noteq> 0 then ret i else probe_channels E xdev dir (Suc i) n }"

definition probe_engines :: "env \<Rightarrow> u64 \<Rightarrow> ('a tworld_scheme, int) state" where
  "probe_engines E xdev = (if xdev = 0 then ret (- EINVAL) else do {
     x \<leftarrow> the_xdev xdev;
     i \<leftarrow> probe_channels E xdev DMA_TO_DEVICE 0 (x_h2c_channel_max x);
     _ \<leftarrow> upd_xdev xdev (\<lambda>x. x\<lparr>x_h2c_channel_max := i\<rparr>);
     x \<leftarrow> the_xdev xdev;
     i \<leftarrow> probe_channels E xdev DMA_FROM_DEVICE 0 (x_c2h_channel_max x);
     _ \<leftarrow> upd_xdev xdev (\<lambda>x. x\<lparr>x_c2h_channel_max := i\<rparr>);
     ret 0 })"

definition remove_engine :: "u64 \<Rightarrow> eng \<Rightarrow> ('a tworld_scheme, unit) state" where
  "remove_engine xdev e = do {
     g \<leftarrow> the_eng e;
     if e_magic g = MAGIC_ENGINE then do { _ \<leftarrow> engine_destroy xdev e; ret () } else ret () }"

definition remove_engines :: "u64 \<Rightarrow> ('a tworld_scheme, unit) state" where
  "remove_engines xdev = (if xdev = 0 then ret () else do {
     x \<leftarrow> the_xdev xdev;
     _ \<leftarrow> for_each [0..<x_h2c_channel_max x] (\<lambda>i. remove_engine xdev (H2C xdev i));
     x \<leftarrow> the_xdev xdev;
     for_each [0..<x_c2h_channel_max x] (\<lambda>i. remove_engine xdev (C2H xdev i)) })"

section \<open>The memory of an engine\<close>

definition engine_mem :: "xdma_engine \<Rightarrow> resource multiset" where
  "engine_mem g = (if e_poll_mode_addr_virt g \<noteq> 0 then {#(K_dma_alloc_coherent, [e_poll_mode_addr_virt g])#} else {#}) +
     (if e_desc g \<noteq> 0 then {#(K_dma_alloc_coherent, [e_desc g])#} else {#}) +
     (if e_cyclic_result g \<noteq> 0 then {#(K_dma_alloc_coherent, [e_cyclic_result g])#} else {#})"

lemma engine_mem_zero [simp]: "engine_mem (zero_engine dir) = {#}"
  by (simp add: engine_mem_def zero_engine_def)

lemma engine_mem_empty:
  "engine_mem g = {#} \<longleftrightarrow> e_poll_mode_addr_virt g = 0 \<and> e_desc g = 0 \<and> e_cyclic_result g = 0"
  by (simp add: engine_mem_def)

lemma engine_free_outcome:
  assumes "owned (tr s) = Some (engine_mem (engs s e) + X)"
  shows "sat (run_state (engine_free_resource e) s)
    (\<lambda>_ s'. owned (tr s') = Some X \<and> engine_mem (engs s' e) = {#} \<and>
      prm s' = prm s \<and> thread_cnt s' = thread_cnt s \<and> e_xdev (engs s' e) = e_xdev (engs s e))"
  using assms unfolding engine_free_resource_def upd_eng_def engine_mem_def
  by (intro sat_rules) (simp_all split: if_splits)

lemma alloc_err_outcome:
  assumes "owned (tr s) = Some (engine_mem (engs s e) + X)"
  shows "sat (run_state (alloc_err_out e) s)
    (\<lambda>r s'. r = - ENOMEM \<and> owned (tr s') = Some X \<and> engine_mem (engs s' e) = {#} \<and>
      prm s' = prm s \<and> thread_cnt s' = thread_cnt s \<and> e_xdev (engs s' e) = e_xdev (engs s e))"
  unfolding alloc_err_out_def
  by (rule sat_bind [OF engine_free_outcome [OF assms]]) (intro sat_rules, simp)

lemma engine_alloc_outcome:
  assumes "pointer_answers E K_dma_alloc_coherent" "owned (tr s) = Some X" "engine_mem (engs s e) = {#}"
  shows "sat (run_state (engine_alloc_resource E e) s)
    (\<lambda>r s'. owned (tr s') = Some (engine_mem (engs s' e) + X) \<and>
      (r = 0 \<or> r = - ENOMEM \<and> engine_mem (engs s' e) = {#}) \<and>
      prm s' = prm s \<and> thread_cnt s' = thread_cnt s \<and> e_xdev (engs s' e) = e_xdev (engs s e))"
  using assms(2) assms(3) [unfolded engine_mem_empty]
  unfolding engine_alloc_resource_def dma_alloc_def upd_eng_def
  by (intro sat_rules sat_weaken [OF alloc_err_outcome [where X = X]])
    (simp_all add: pointer_answersD [OF assms(1)] engine_mem_def)

lemma remove_work_outcome:
  "sat (run_state (xdma_thread_remove_work e) s)
    (\<lambda>_ s'. owned (tr s') = owned (tr s) \<and> engine_mem (engs s' e) = engine_mem (engs s e))"
  unfolding xdma_thread_remove_work_def lock_thread_def unlock_thread_def upd_thread_def upd_eng_def
  by (intro sat_rules) (simp_all add: engine_mem_def)

lemma add_work_outcome:
  assumes "0 < thread_cnt s"
  shows "sat (run_state (xdma_thread_add_work e) s)
    (\<lambda>_ s'. owned (tr s') = owned (tr s) \<and> engine_mem (engs s' e) = engine_mem (engs s e))"
  by (rule run_add_work [OF assms, of e]) (simp add: sat_def engine_mem_def)

lemma init_regs_outcome:
  assumes "e \<noteq> NoEngine" "e_xdev (engs s e) \<noteq> 0"
  shows "sat (run_state (engine_init_regs E e) s)
    (\<lambda>r s'. r = 0 \<and> owned (tr s') = owned (tr s) \<and> engine_mem (engs s' e) = engine_mem (engs s e) \<and>
      thread_cnt s' = thread_cnt s \<and> prm s' = prm s)"
  using assms unfolding engine_init_regs_def engine_alignments_def engine_writeback_setup_def upd_eng_def
  by (intro sat_rules) (simp_all add: engine_mem_def)

lemma resources_outcome:
  assumes "pointer_answers E K_dma_alloc_coherent" "e \<noteq> NoEngine" "e_xdev (engs s e) \<noteq> 0"
    and "poll_mode (prm s) \<longrightarrow> 0 < thread_cnt s" "owned (tr s) = Some X" "engine_mem (engs s e) = {#}"
  shows "sat (run_state (engine_init_resources E e) s)
    (\<lambda>r s'. owned (tr s') = Some (if r = 0 then engine_mem (engs s' e) + X else X))"
  using assms(2-)
  unfolding engine_init_resources_def
  by (intro sat_rules sat_bind [OF engine_alloc_outcome [OF assms(1), where X = X]]
      sat_bind [OF init_regs_outcome] sat_bind [OF add_work_outcome]) (simp_all add: engine_mem_empty)

lemma engine_init_outcome:
  assumes "pointer_answers E K_dma_alloc_coherent" "e \<noteq> NoEngine" "xdev \<noteq> 0"
    and "poll_mode (prm s) \<longrightarrow> 0 < thread_cnt s" "owned (tr s) = Some X" "engine_mem (engs s e) = {#}"
  shows "sat (run_state (engine_init E e xdev offset dir channel) s)
    (\<lambda>r s'. owned (tr s') = Some (if r = 0 then engine_mem (engs s' e) + X else X))"
  using assms(2-)
  unfolding engine_init_def upd_eng_def upd_xdev_def
  by (intro sat_rules resources_outcome [OF assms(1), where X = X]) (simp_all add: engine_mem_empty)

lemma engine_destroy_outcome:
  assumes "xdev \<noteq> 0" "e \<noteq> NoEngine" "owned (tr s) = Some (engine_mem (engs s e) + X)"
  shows "sat (run_state (engine_destroy xdev e) s) (\<lambda>r s'. r = 0 \<and> owned (tr s') = Some X)"
  using assms
  unfolding engine_destroy_def upd_eng_def upd_xdev_def
  by (intro sat_rules sat_bind [OF remove_work_outcome] sat_bind [OF engine_free_outcome [where X = X]]) simp_all

definition engine_ready :: "env \<Rightarrow> eng \<Rightarrow> u64 \<Rightarrow> 'a tworld_scheme \<Rightarrow> bool" where
  "engine_ready E e xdev s \<longleftrightarrow> pointer_answers E K_dma_alloc_coherent \<and> e \<noteq> NoEngine \<and> xdev \<noteq> 0 \<and>
     (poll_mode (prm s) \<longrightarrow> 0 < thread_cnt s) \<and> engine_mem (engs s e) = {#}"

interpretation engine_life: bracket "engine_init E e xdev offset dir channel" "engine_destroy xdev e"
  "\<lambda>s. owned (tr s)" plus "\<lambda>s. engine_mem (engs s e)" "engine_ready E e xdev"
  "\<lambda>_. e \<noteq> NoEngine \<and> xdev \<noteq> 0" for E e xdev offset dir channel
proof
  fix s s' :: "'a tworld_scheme" and X r
  assume "engine_ready E e xdev s" "owned (tr s) = Some X"
    "run_state (engine_init E e xdev offset dir channel) s = (r, s')" "r \<noteq> 0"
  then show "owned (tr s') = Some X"
    using engine_init_outcome [of E e xdev s X offset dir channel] by (simp add: engine_ready_def sat_def)
next
  fix s s' :: "'a tworld_scheme" and X
  assume "engine_ready E e xdev s" "owned (tr s) = Some X"
    "run_state (engine_init E e xdev offset dir channel) s = (0, s')"
  then show "owned (tr s') = Some (engine_mem (engs s' e) + X) \<and> e \<noteq> NoEngine \<and> xdev \<noteq> 0"
    using engine_init_outcome [of E e xdev s X offset dir channel] by (simp add: engine_ready_def sat_def)
next
  fix s s' :: "'a tworld_scheme" and X r
  assume "e \<noteq> NoEngine \<and> xdev \<noteq> 0" "owned (tr s) = Some (engine_mem (engs s e) + X)"
    "run_state (engine_destroy xdev e) s = (r, s')"
  then show "r = 0 \<and> owned (tr s') = Some X"
    using satD [OF engine_destroy_outcome [of xdev e s X]] by blast
qed

text \<open>
  C25: the coherent memory of an engine. A set-up that fails, at whatever allocation, has given
  everything back; a successful one owns the descriptor ring and, as the mode requires, the
  write-back word and the result ring, which \<open>engine_destroy\<close> gives back, all of it.
\<close>

theorem engine_memory:
  assumes "engine_ready E e xdev s" "owned (tr s) = Some X"
    and "run_state (engine_init E e xdev offset dir channel) s = (r, s1)"
    and "run_state (engine_destroy xdev e) s1 = (r', s2)"
  shows "if r = 0
    then owned (tr s1) = Some (engine_mem (engs s1 e) + X) \<and> r' = 0 \<and> owned (tr s2) = Some X
    else owned (tr s1) = Some X"
proof (cases "r = 0")
  case True
  then show ?thesis
    using engine_life.acquire_succeeds [OF assms(1,2)] engine_life.release_gives_back [OF _ _ assms(4)] assms(3)
    by simp
next
  case False
  then show ?thesis
    using engine_life.acquire_fails [OF assms(1-3)] by simp
qed

lemma engine_memory_witness:
  "let s = thread_world 1; r = run_state (engine_init thread_env (H2C 0x100 0) 0x100 0 DMA_TO_DEVICE 0)
       (s\<lparr>engs := (\<lambda>_. zero_engine DMA_TO_DEVICE)\<rparr>)
   in if fst r = 0 then owned (tr (final_of (engine_destroy 0x100 (H2C 0x100 0)) (snd r))) = Some {#}
      else owned (tr (snd r)) = Some {#}"
proof -
  have "engine_ready thread_env (H2C 0x100 0) 0x100 ((thread_world 1)\<lparr>engs := (\<lambda>_. zero_engine DMA_TO_DEVICE)\<rparr>)"
    "owned (tr ((thread_world 1)\<lparr>engs := (\<lambda>_. zero_engine DMA_TO_DEVICE)\<rparr>)) = Some {#}"
    by (auto simp: engine_ready_def pointer_answers_def answers_def thread_env_def)
  from engine_memory [OF this prod.collapse [symmetric] prod.collapse [symmetric], of 0 DMA_TO_DEVICE 0]
  show ?thesis
    by (simp only: Let_def split: if_splits) (simp_all only: simp_thms)
qed

end
