(* ===== verification/EngineProbe.thy ===== *)
theory EngineProbe
  imports EngineInit
begin

text \<open>
  The engines of a device as the discovery leaves them: their identity and their interrupt bits.
\<close>

section \<open>What setting up leaves alone\<close>

text \<open>The fields that identify an engine and that its memory and register set-up do not touch.\<close>

definition engine_core :: "xdma_engine \<Rightarrow> u64 \<times> u64 \<times> u32 \<times> nat \<times> dma_dir \<times> bool \<times> u32 \<times> u64" where
  "engine_core g = (e_magic g, e_xdev g, e_irq_bitmask g, e_channel g, e_dir g, e_streaming g,
     e_desc_max g, e_regs g)"

definition core_frame :: "eng \<Rightarrow> 'a tworld_scheme \<Rightarrow> 'a tworld_scheme \<Rightarrow> bool" where
  "core_frame e s0 s \<longleftrightarrow> xdevs s = xdevs s0 \<and> prm s = prm s0 \<and>
     (\<forall>f. f \<noteq> e \<longrightarrow> engs s f = engs s0 f) \<and> engine_core (engs s e) = engine_core (engs s0 e)"

lemma tr_free_core [simp]: "tr_free (core_frame e s0)"
  by (simp add: tr_free_def core_frame_def)

lemma keeps_core_upd:
  "(\<And>g. engine_core (f g) = engine_core g) \<Longrightarrow> keeps (core_frame e s0) (upd_eng e f)"
  by (simp add: hoare_def core_frame_def)

lemma keeps_core_thread: "keeps (core_frame e s0) (upd_thread i f)"
  by (simp add: hoare_def core_frame_def)

lemma keeps_core_alloc: "keeps (core_frame e s0) (engine_alloc_resource E e)"
  unfolding engine_alloc_resource_def dma_alloc_def alloc_err_out_def engine_free_resource_def
  by (intro hoare_rules keeps_core_upd tr_free_core) (simp_all add: engine_core_def)

lemma keeps_core_regs: "keeps (core_frame e s0) (engine_init_regs E e)"
  unfolding engine_init_regs_def engine_alignments_def engine_writeback_setup_def
  by (intro hoare_rules keeps_core_upd tr_free_core) (simp_all add: engine_core_def)

lemma keeps_core_pick: "keeps (core_frame e s0) (pick_thread is idx v)"
  by (induction "is" arbitrary: idx v)
    (auto simp: lock_thread_def unlock_thread_def intro!: hoare_rules tr_free_core)

lemma keeps_core_add_work: "keeps (core_frame e s0) (xdma_thread_add_work e)"
  unfolding xdma_thread_add_work_def lock_thread_def unlock_thread_def
  by (intro hoare_rules keeps_core_upd keeps_core_thread keeps_core_pick tr_free_core) (simp_all add: engine_core_def)

text \<open>
  The effect of \<open>engine_init\<close>, successful or not: the engine has its identity, the device counts
  it and has its interrupt bit in the mask of its direction.
\<close>

definition registered :: "dma_dir \<Rightarrow> xdma_dev \<Rightarrow> xdma_dev" where
  "registered dir x = (let b = push_bit (x_engines_num x) 1 in
     (if dir = DMA_TO_DEVICE then x\<lparr>x_mask_irq_h2c := x_mask_irq_h2c x OR b\<rparr>
      else x\<lparr>x_mask_irq_c2h := x_mask_irq_c2h x OR b\<rparr>)\<lparr>x_engines_num := x_engines_num x + 1\<rparr>)"

lemma sat_resources:
  assumes "\<And>r s'. core_frame e s s' \<Longrightarrow> Q r s'"
  shows "sat (run_state (engine_init_resources E e) s) Q"
proof -
  have "keeps (core_frame e s) (engine_init_resources E e)"
    unfolding engine_init_resources_def
    by (intro hoare_rules keeps_core_alloc keeps_core_regs keeps_core_add_work tr_free_core)
  then have "core_frame e s (snd (run_state (engine_init_resources E e) s))"
    by (rule hoare_final) (simp add: core_frame_def)
  with assms show ?thesis
    by (cases "run_state (engine_init_resources E e) s") (simp add: sat_def)
qed

lemma engine_init_registers:
  "sat (run_state (engine_init E e xdev offset dir channel) s) (\<lambda>r s'.
    e_magic (engs s' e) = MAGIC_ENGINE \<and> e_xdev (engs s' e) = xdev \<and> e_channel (engs s' e) = channel \<and>
    e_dir (engs s' e) = dir \<and> e_irq_bitmask (engs s' e) = push_bit (x_engines_num (xdevs s xdev)) 1 \<and>
    (\<forall>f. f \<noteq> e \<longrightarrow> engs s' f = engs s f) \<and> prm s' = prm s \<and>
    xdevs s' = (xdevs s)(xdev := registered dir (xdevs s xdev)))"
  unfolding engine_init_def upd_eng_def upd_xdev_def
  by (intro sat_rules sat_resources) (simp_all add: core_frame_def engine_core_def registered_def Let_def)

section \<open>Interrupt bits\<close>

text \<open>
  The engines \<open>es\<close> of a device, in the order in which they were set up: number \<open>k\<close> has interrupt
  bit \<open>k\<close>, and the masks of the device are the bits of its engines of each direction.
\<close>

definition dir_at :: "dma_dir \<Rightarrow> u64 \<Rightarrow> eng list \<Rightarrow> nat \<Rightarrow> bool" where
  "dir_at dir xdev es k \<longleftrightarrow> k < length es \<and> (\<exists>c. es ! k = engine_of xdev dir c)"

definition irq_assigned :: "u64 \<Rightarrow> eng list \<Rightarrow> 'a tworld_scheme \<Rightarrow> bool" where
  "irq_assigned xdev es s \<longleftrightarrow> x_engines_num (xdevs s xdev) = length es \<and> distinct es \<and>
     (\<forall>k<length es. e_magic (engs s (es ! k)) = MAGIC_ENGINE \<and> e_xdev (engs s (es ! k)) = xdev \<and>
        e_irq_bitmask (engs s (es ! k)) = push_bit k 1) \<and>
     (\<forall>k<32. bit (x_mask_irq_h2c (xdevs s xdev)) k \<longleftrightarrow> dir_at DMA_TO_DEVICE xdev es k) \<and>
     (\<forall>k<32. bit (x_mask_irq_c2h (xdevs s xdev)) k \<longleftrightarrow> dir_at DMA_FROM_DEVICE xdev es k)"

lemma engine_of_inject [simp]:
  "engine_of xdev dir c = engine_of xdev dir' c' \<longleftrightarrow> dir = dir' \<and> c = c'"
  by (cases dir; cases dir') (auto simp: engine_of_def)

lemma dir_at_snoc:
  "dir_at dir xdev (es @ [engine_of xdev dir' c]) k \<longleftrightarrow>
     dir_at dir xdev es k \<or> k = length es \<and> dir = dir'"
  by (auto simp: dir_at_def nth_append less_Suc_eq)

lemma irq_assigned_tr [simp]: "irq_assigned xdev es (s\<lparr>tr := h\<rparr>) = irq_assigned xdev es s"
  by (simp add: irq_assigned_def)

lemma irq_assigned_init:
  assumes "irq_assigned xdev es s" "engine_of xdev dir c \<notin> set es"
    and "run_state (engine_init E (engine_of xdev dir c) xdev offset dir c) s = (r, s')"
  shows "irq_assigned xdev (es @ [engine_of xdev dir c]) s'"
proof -
  note * = satD [OF engine_init_registers assms(3)]
  have "es ! k \<noteq> engine_of xdev dir c" if "k < length es" for k
    using that assms(2) nth_mem by metis
  then have "\<forall>k<length (es @ [engine_of xdev dir c]).
      e_magic (engs s' ((es @ [engine_of xdev dir c]) ! k)) = MAGIC_ENGINE \<and>
      e_xdev (engs s' ((es @ [engine_of xdev dir c]) ! k)) = xdev \<and>
      e_irq_bitmask (engs s' ((es @ [engine_of xdev dir c]) ! k)) = push_bit k 1"
    using * assms(1) by (auto simp: irq_assigned_def nth_append less_Suc_eq)
  moreover have "bit (push_bit m (1 :: u32)) k \<longleftrightarrow> k = m" if "k < 32" for k m
    using that by (auto simp: bit_simps)
  ultimately show ?thesis
    using * assms(1,2) by (cases dir) (simp_all add: irq_assigned_def registered_def dir_at_snoc bit_simps)
qed

lemma sat_run: "(\<And>r s'. run_state m s = (r, s') \<Longrightarrow> Q r s') \<Longrightarrow> sat (run_state m s) Q"
  by (cases "run_state m s") (simp add: sat_def)

text \<open>States that differ in the history only.\<close>

definition same_tr :: "'a kworld_scheme \<Rightarrow> 'a kworld_scheme \<Rightarrow> bool" where
  "same_tr s s' \<longleftrightarrow> (\<exists>h. s' = s\<lparr>tr := h\<rparr>)"

lemma same_tr_refl [simp]: "same_tr s s"
  unfolding same_tr_def by (rule exI [of _ "tr s"]) simp

lemma same_tr_upd [simp]: "same_tr s (s\<lparr>tr := h\<rparr>)"
  by (auto simp: same_tr_def)

lemma irq_assigned_same: "same_tr s s' \<Longrightarrow> irq_assigned xdev es s' = irq_assigned xdev es s"
  by (auto simp: same_tr_def)

lemma probe_for_engine_cases:
  "sat (run_state (probe_for_engine E xdev dir i) s) (\<lambda>r s'.
     r = - EINVAL \<and> same_tr s s' \<or>
     (\<exists>s1. same_tr s s1 \<and>
        run_state (engine_init E (engine_of xdev dir i) xdev (channel_offset dir i) dir i) s1 = (r, s')))"
  unfolding probe_for_engine_def get_engine_id_def get_engine_channel_id_def
  by (intro sat_rules sat_run [of "engine_init _ _ _ _ _ _"])
    (simp_all, (blast intro: same_tr_refl same_tr_upd)+)

text \<open>Where a scan of the channels ends, and which engines it has set up.\<close>

lemma run_probe_channels:
  assumes "irq_assigned xdev es s" "\<forall>c\<ge>i. engine_of xdev dir c \<notin> set es"
    and "run_state (probe_channels E xdev dir i n) s = (j, s')"
  shows "i \<le> j \<and> j \<le> i + n \<and>
    (\<exists>j'. (j' = j \<or> j' = Suc j) \<and> irq_assigned xdev (es @ map (engine_of xdev dir) [i..<j']) s')"
  using assms
proof (induction n arbitrary: i es s)
  case (Suc n)
  obtain r s1 where p: "run_state (probe_for_engine E xdev dir i) s = (r, s1)"
    by fastforce
  have new: "engine_of xdev dir i \<notin> set es"
    using Suc.prems(2) by simp
  have step: "r = - EINVAL \<and> irq_assigned xdev es s1 \<or> irq_assigned xdev (es @ [engine_of xdev dir i]) s1"
    using satD [OF probe_for_engine_cases p]
    irq_assigned_init [of xdev es _ dir i] irq_assigned_same [of s] Suc.prems(1) new by metis
  show ?case
  proof (cases "r = 0")
    case True
    then have "irq_assigned xdev (es @ [engine_of xdev dir i]) s1"
      using step by auto
    moreover have "\<forall>c\<ge>Suc i. engine_of xdev dir c \<notin> set (es @ [engine_of xdev dir i])"
      using Suc.prems(2) by auto
    moreover have "run_state (probe_channels E xdev dir (Suc i) n) s1 = (j, s')"
      using Suc.prems(3) p True by simp
    ultimately have "Suc i \<le> j \<and> j \<le> Suc i + n \<and> (\<exists>j'. (j' = j \<or> j' = Suc j) \<and>
        irq_assigned xdev ((es @ [engine_of xdev dir i]) @ map (engine_of xdev dir) [Suc i..<j']) s')"
      by (rule Suc.IH)
    then obtain j' where j: "Suc i \<le> j" "j \<le> Suc i + n" "j' = j \<or> j' = Suc j"
      and a: "irq_assigned xdev ((es @ [engine_of xdev dir i]) @ map (engine_of xdev dir) [Suc i..<j']) s'"
      by blast
    have "i < j'"
      using j by auto
    then have "[i..<j'] = i # [Suc i..<j']"
      by (simp add: upt_rec)
    then have "irq_assigned xdev (es @ map (engine_of xdev dir) [i..<j']) s'"
      using a by simp
    then show ?thesis
      using j by auto
  next
    case False
    then have "j = i" "s' = s1"
      using Suc.prems(3) p by simp_all
    then show ?thesis
      using step by (auto intro: exI [of _ i] exI [of _ "Suc i"])
  qed
qed (auto intro: exI [of _ i])

lemma probe_for_engine_channels:
  assumes "run_state (probe_for_engine E xdev dir i) s = (r, s')"
  shows "x_c2h_channel_max (xdevs s' xdev) = x_c2h_channel_max (xdevs s xdev) \<and>
    x_h2c_channel_max (xdevs s' xdev) = x_h2c_channel_max (xdevs s xdev)"
  using satD [OF probe_for_engine_cases assms]
  by (auto simp: same_tr_def registered_def Let_def dest!: satD [OF engine_init_registers])

lemma probe_channels_channels:
  "run_state (probe_channels E xdev dir i n) s = (j, s') \<Longrightarrow>
   x_c2h_channel_max (xdevs s' xdev) = x_c2h_channel_max (xdevs s xdev) \<and>
   x_h2c_channel_max (xdevs s' xdev) = x_h2c_channel_max (xdevs s xdev)"
  by (induction n arbitrary: i s)
    (auto split: prod.splits if_splits dest!: probe_for_engine_channels)

text \<open>
  C24: discovering the engines of a fresh device. There is a numbering of the engines that were set
  up such that number \<open>k\<close> has interrupt bit \<open>k\<close> and no other, and the two masks of the device are
  exactly the bits of its host-to-card and card-to-host engines; the channels that are kept are
  a prefix of those asked for, and all of them have an engine. (An engine whose set-up failed keeps
  its number and its bit: it is the one after the prefix.)
\<close>

theorem probe_engines_irqs:
  assumes "xdev \<noteq> 0" "x_engines_num (xdevs s xdev) = 0"
    and "x_mask_irq_h2c (xdevs s xdev) = 0" "x_mask_irq_c2h (xdevs s xdev) = 0"
    and "run_state (probe_engines E xdev) s = (rv, s')"
  shows "rv = 0 \<and> (\<exists>es nh nc. irq_assigned xdev es s' \<and>
    nh = x_h2c_channel_max (xdevs s' xdev) \<and> nh \<le> x_h2c_channel_max (xdevs s xdev) \<and>
    nc = x_c2h_channel_max (xdevs s' xdev) \<and> nc \<le> x_c2h_channel_max (xdevs s xdev) \<and>
    H2C xdev ` {..<nh} \<union> C2H xdev ` {..<nc} \<subseteq> set es \<and>
    set es \<subseteq> H2C xdev ` {..nh} \<union> C2H xdev ` {..nc})"
proof -
  obtain nh s1 where 1: "run_state (probe_channels E xdev DMA_TO_DEVICE 0 (x_h2c_channel_max (xdevs s xdev))) s = (nh, s1)"
    by fastforce
  define s2 where "s2 = s1\<lparr>xdevs := (xdevs s1)(xdev := (xdevs s1 xdev)\<lparr>x_h2c_channel_max := nh\<rparr>)\<rparr>"
  obtain nc s3 where 2: "run_state (probe_channels E xdev DMA_FROM_DEVICE 0 (x_c2h_channel_max (xdevs s1 xdev))) s2 = (nc, s3)"
    by fastforce
  have fin: "rv = 0" "s' = s3\<lparr>xdevs := (xdevs s3)(xdev := (xdevs s3 xdev)\<lparr>x_c2h_channel_max := nc\<rparr>)\<rparr>"
    using assms(1,5) 1 2 by (simp_all add: probe_engines_def s2_def)
  have "irq_assigned xdev [] s"
    using assms(2-4) by (simp add: irq_assigned_def dir_at_def)
  from run_probe_channels [OF this _ 1] obtain jh where
    h: "nh \<le> x_h2c_channel_max (xdevs s xdev)" "jh = nh \<or> jh = Suc nh"
      "irq_assigned xdev (map (engine_of xdev DMA_TO_DEVICE) [0..<jh]) s1"
    by auto
  have inv2: "irq_assigned xdev (map (engine_of xdev DMA_TO_DEVICE) [0..<jh]) s2"
    using h(3) by (simp add: irq_assigned_def s2_def)
  have new2: "\<forall>c\<ge>0. engine_of xdev DMA_FROM_DEVICE c \<notin> set (map (engine_of xdev DMA_TO_DEVICE) [0..<jh])"
    by (auto simp: image_iff)
  obtain jc where
    c: "nc \<le> x_c2h_channel_max (xdevs s1 xdev)" "jc = nc \<or> jc = Suc nc"
      "irq_assigned xdev (map (engine_of xdev DMA_TO_DEVICE) [0..<jh] @ map (engine_of xdev DMA_FROM_DEVICE) [0..<jc]) s3"
    using run_probe_channels [OF inv2 new2 2] unfolding add_0 by blast
  let ?es = "map (engine_of xdev DMA_TO_DEVICE) [0..<jh] @ map (engine_of xdev DMA_FROM_DEVICE) [0..<jc]"
  have "irq_assigned xdev ?es s'"
    using c(3) by (simp add: irq_assigned_def fin)
  moreover have "x_h2c_channel_max (xdevs s' xdev) = nh" "x_c2h_channel_max (xdevs s' xdev) = nc"
    using probe_channels_channels [OF 2] by (simp_all add: fin s2_def)
  moreover have "H2C xdev ` {..<nh} \<union> C2H xdev ` {..<nc} \<subseteq> set ?es"
    "set ?es \<subseteq> H2C xdev ` {..nh} \<union> C2H xdev ` {..nc}"
    using h(2) c(2) by (auto simp: engine_of_def)
  moreover have "nh \<le> x_h2c_channel_max (xdevs s xdev)" "nc \<le> x_c2h_channel_max (xdevs s xdev)"
    using h(1) c(1) probe_channels_channels [OF 1] by simp_all
  ultimately show ?thesis
    using fin(1) by (intro conjI exI [of _ ?es] exI [of _ nh] exI [of _ nc]) simp_all
qed

definition probe_world :: tworld where
  "probe_world = (thread_world 1)\<lparr>xdevs := (\<lambda>_. sample_xdev\<lparr>x_engines_num := 0, x_mask_irq_h2c := 0\<rparr>)\<rparr>"

lemma probe_engines_irqs_witness:
  "\<exists>es. irq_assigned 0x100 es (final_of (probe_engines sample_env 0x100) probe_world)"
  using probe_engines_irqs [of "0x100" probe_world sample_env, OF _ _ _ _ prod.collapse [symmetric]]
  by (auto simp: probe_world_def thread_world_def sample_xdev_def)

end
