(* ===== verification/Bars.thy ===== *)
theory Bars
  imports Xfer Resources
begin

text \<open>
  Mapping the BARs of the device and telling them apart (\<open>libxdma.c\<close>), in the configuration the
  driver is built in: \<open>XDMA_CONFIG_BAR_NUM\<close> is not defined.
\<close>

section \<open>Mapping\<close>

definition set_bar :: "u64 \<Rightarrow> nat \<Rightarrow> u64 \<Rightarrow> ('a xworld_scheme, unit) state" where
  "set_bar xdev i v = upd_xdev xdev (\<lambda>x. x\<lparr>x_bar := (x_bar x)(i := v)\<rparr>)"

text \<open>The body of the loop of \<open>unmap_bars\<close>.\<close>

definition unmap_bar :: "u64 \<Rightarrow> u64 \<Rightarrow> nat \<Rightarrow> ('a xworld_scheme, unit) state" where
  "unmap_bar xdev dev i = do {
     x \<leftarrow> the_xdev xdev;
     when_st (x_bar x i \<noteq> 0) (do {
       _ \<leftarrow> kproc K_pci_iounmap [dev, x_bar x i];
       set_bar xdev i 0 }) }"

definition unmap_bars :: "u64 \<Rightarrow> u64 \<Rightarrow> ('a xworld_scheme, unit) state" where
  "unmap_bars xdev dev = for_each [0..<XDMA_BAR_NUM] (unmap_bar xdev dev)"

abbreviation (input) INT_MAX :: int where "INT_MAX \<equiv> 0x7FFFFFFF"

definition map_single_bar :: "env \<Rightarrow> u64 \<Rightarrow> u64 \<Rightarrow> nat \<Rightarrow> ('a xworld_scheme, int) state" where
  "map_single_bar E xdev dev idx = do {
     bar_len \<leftarrow> kcall E K_pci_resource_len [dev, of_nat idx];
     _ \<leftarrow> set_bar xdev idx 0;
     if bar_len = 0 then ret 0
     else do {
       let map_len = (if INT_MAX < bar_len then INT_MAX else bar_len);
       v \<leftarrow> kptr E K_pci_iomap [dev, of_nat idx, of_int map_len];
       _ \<leftarrow> set_bar xdev idx v;
       if v = 0 then ret (-1) else ret map_len } }"

section \<open>Telling them apart\<close>

definition is_config_bar :: "env \<Rightarrow> u64 \<Rightarrow> nat \<Rightarrow> ('a xworld_scheme, bool) state" where
  "is_config_bar E xdev idx = do {
     x \<leftarrow> the_xdev xdev;
     irq_id \<leftarrow> ioread32 E (x_bar x idx + XDMA_OFS_INT_CTRL);
     cfg_id \<leftarrow> ioread32 E (x_bar x idx + XDMA_OFS_CONFIG);
     ret (irq_id AND 0xffff0000 = IRQ_BLOCK_ID \<and> cfg_id AND 0xffff0000 = CONFIG_BLOCK_ID) }"

text \<open>The roles of the BARs \<open>ids\<close> that are present, when the config BAR is at position \<open>pos\<close>.\<close>

definition bar_roles :: "nat list \<Rightarrow> nat \<Rightarrow> xdma_dev \<Rightarrow> xdma_dev" where
  "bar_roles ids pos x =
     (if length ids = 2 then
        if pos = 0 then x\<lparr>x_bypass_bar_idx := int (ids ! 1)\<rparr>
        else if pos = 1 then x\<lparr>x_user_bar_idx := int (ids ! 0)\<rparr>
        else x
      else if length ids = 3 \<or> length ids = 4 then
        if pos = 1 \<or> pos = 2
        then x\<lparr>x_user_bar_idx := int (ids ! 0), x_bypass_bar_idx := int (ids ! (length ids - 1))\<rparr>
        else x
      else x)"

definition identify_bars :: "u64 \<Rightarrow> nat list \<Rightarrow> nat \<Rightarrow> ('a xworld_scheme, int) state" where
  "identify_bars xdev ids pos = (if xdev = 0 then ret (- EINVAL) else do {
     _ \<leftarrow> upd_xdev xdev (bar_roles ids pos);
     ret 0 })"

text \<open>A mapped BAR of the loop of \<open>map_bars\<close>: is it the config BAR?\<close>

definition find_config :: "env \<Rightarrow> u64 \<Rightarrow> nat \<Rightarrow> int \<Rightarrow> ('a xworld_scheme, bool) state" where
  "find_config E xdev i bar_len = do {
     x \<leftarrow> the_xdev xdev;
     config \<leftarrow> (if XDMA_BAR_SIZE \<le> bar_len \<and> x_config_bar_idx x < 0
               then is_config_bar E xdev i else ret False);
     _ \<leftarrow> when_st config (upd_xdev xdev (\<lambda>x. x\<lparr>x_config_bar_idx := int i\<rparr>));
     ret config }"

text \<open>
  The loop of \<open>map_bars\<close>: the BARs \<open>is\<close> are left, \<open>ids\<close> are those found, \<open>pos\<close> is the position of
  the config BAR among them. \<open>None\<close> when a BAR could not be mapped.
\<close>

fun map_bars_loop ::
  "env \<Rightarrow> u64 \<Rightarrow> u64 \<Rightarrow> nat list \<Rightarrow> nat list \<Rightarrow> nat \<Rightarrow> ('a xworld_scheme, (nat list \<times> nat) option) state" where
  "map_bars_loop E xdev dev [] ids pos = ret (Some (ids, pos))"
| "map_bars_loop E xdev dev (i # is) ids pos = do {
     bar_len \<leftarrow> map_single_bar E xdev dev i;
     if bar_len = 0 then map_bars_loop E xdev dev is ids pos
     else if bar_len < 0 then ret None
     else do {
       config \<leftarrow> find_config E xdev i bar_len;
       map_bars_loop E xdev dev is (ids @ [i]) (if config then length ids else pos) } }"

text \<open>The label \<open>fail\<close>.\<close>

definition map_bars_fail :: "u64 \<Rightarrow> u64 \<Rightarrow> ('a xworld_scheme, int) state" where
  "map_bars_fail xdev dev = do { _ \<leftarrow> unmap_bars xdev dev; ret (- EINVAL) }"

definition map_bars :: "env \<Rightarrow> u64 \<Rightarrow> u64 \<Rightarrow> ('a xworld_scheme, int) state" where
  "map_bars E xdev dev = do {
     r \<leftarrow> map_bars_loop E xdev dev [0..<XDMA_BAR_NUM] [] 0;
     case r of None \<Rightarrow> map_bars_fail xdev dev
     | Some (ids, pos) \<Rightarrow> do {
         x \<leftarrow> the_xdev xdev;
         if x_config_bar_idx x < 0 then map_bars_fail xdev dev
         else identify_bars xdev ids pos } }"

section \<open>What is mapped\<close>

definition bars_mem :: "xdma_dev \<Rightarrow> nat list \<Rightarrow> resource multiset" where
  "bars_mem x is = mset (map (\<lambda>i. (K_pci_iomap, [x_bar x i])) (filter (\<lambda>i. x_bar x i \<noteq> 0) is))"

lemma bars_mem_simps [simp]:
  "bars_mem x [] = {#}"
  "bars_mem x (i # is) = (if x_bar x i \<noteq> 0 then add_mset (K_pci_iomap, [x_bar x i]) (bars_mem x is) else bars_mem x is)"
  by (simp_all add: bars_mem_def)

lemma bars_mem_cong: "\<forall>i\<in>set is. x_bar x i = x_bar y i \<Longrightarrow> bars_mem x is = bars_mem y is"
  by (induction "is") auto

lemma bars_mem_set:
  assumes "distinct is" "i \<in> set is" "x_bar x i = 0" "v \<noteq> 0"
  shows "bars_mem (x\<lparr>x_bar := (x_bar x)(i := v)\<rparr>) is = add_mset (K_pci_iomap, [v]) (bars_mem x is)"
  using assms
proof (induction "is")
  case (Cons j "is")
  show ?case
  proof (cases "i = j")
    case True
    then have "bars_mem (x\<lparr>x_bar := (x_bar x)(i := v)\<rparr>) is = bars_mem x is"
      using Cons.prems by (intro bars_mem_cong) auto
    then show ?thesis
      using True Cons.prems by (simp add: fun_upd_def)
  qed (use Cons in \<open>auto simp: fun_upd_def\<close>)
qed simp

lemma run_unmap:
  assumes "distinct is" "owned (tr s) = Some (bars_mem (xdevs s d) is + X)" "s' = final_of (for_each is (unmap_bar d dev)) s"
  shows "owned (tr s') = Some X \<and> xdevs s' = (xdevs s)(d := (xdevs s d)\<lparr>x_bar :=
     (\<lambda>i. if i \<in> set is then 0 else x_bar (xdevs s d) i)\<rparr>)"
  using assms
proof (induction "is" arbitrary: s)
  case (Cons i "is")
  define s1 where "s1 = final_of (unmap_bar d dev i) s"
  have x1: "xdevs s1 = (xdevs s)(d := (xdevs s d)\<lparr>x_bar := (x_bar (xdevs s d))(i := 0)\<rparr>)"
    by (auto simp: s1_def unmap_bar_def set_bar_def fun_upd_idem)
  then have "bars_mem (xdevs s1 d) is = bars_mem (xdevs s d) is"
    using Cons.prems(1) by (intro bars_mem_cong) auto
  then have "owned (tr s1) = Some (bars_mem (xdevs s1 d) is + X)"
    using Cons.prems(2) by (simp add: s1_def unmap_bar_def set_bar_def)
  moreover have "s' = final_of (for_each is (unmap_bar d dev)) s1"
    using Cons.prems(3) by (simp add: s1_def split: prod.split)
  ultimately show ?case
    using Cons.IH [of s1] Cons.prems(1) x1 by (auto simp: fun_eq_iff)
qed (auto simp: fun_upd_idem)

text \<open>What the kernel documents: a pointer or null, and a length.\<close>

definition bar_kernel :: "env \<Rightarrow> bool" where
  "bar_kernel E \<longleftrightarrow> pointer_answers E K_pci_iomap \<and> (\<forall>r. answers E K_pci_resource_len r \<longrightarrow> 0 \<le> r)"

lemma map_single_bar_outcome:
  assumes "bar_kernel E" and "owned (tr s) = Some (bars_mem (xdevs s d) is + X)" "distinct is" "i \<in> set is" "x_bar (xdevs s d) i = 0"
  shows "sat (run_state (map_single_bar E d dev i) s) (\<lambda>r s'.
    owned (tr s') = Some (bars_mem (xdevs s' d) is + X) \<and>
    xdevs s' = (xdevs s)(d := (xdevs s d)\<lparr>x_bar := (x_bar (xdevs s d))(i := x_bar (xdevs s' d) i)\<rparr>) \<and>
    (x_bar (xdevs s' d) i \<noteq> 0 \<longleftrightarrow> 0 < r))"
proof -
  have kernel: "pointer_answers E K_pci_iomap" "\<And>r. answers E K_pci_resource_len r \<Longrightarrow> (0 < r) = (r \<noteq> 0)"
    using assms(1) unfolding bar_kernel_def by (blast, force)
  then show ?thesis
    using assms(2,5)
    unfolding map_single_bar_def set_bar_def upd_xdev_def
    by (intro sat_rules)
      (simp_all add: pointer_answersD [OF kernel(1)] bars_mem_set [OF assms(3,4)] fun_upd_idem)
qed

text \<open>
  The invariant of the loop after the BARs \<open>ps\<close>: \<open>ids\<close> are the mapped ones, and \<open>pos\<close> is where
  the config BAR is among them once it is found.
\<close>

definition config_at :: "xdma_dev \<Rightarrow> nat list \<Rightarrow> nat \<Rightarrow> bool" where
  "config_at x ids pos \<longleftrightarrow> x_config_bar_idx x = -1 \<or> pos < length ids \<and> x_config_bar_idx x = int (ids ! pos)"

definition bars_loop_inv :: "u64 \<Rightarrow> resource multiset \<Rightarrow> nat list \<Rightarrow> nat list \<Rightarrow> nat \<Rightarrow> 'a xworld_scheme \<Rightarrow> bool" where
  "bars_loop_inv d X ps ids pos s \<longleftrightarrow>
     owned (tr s) = Some (bars_mem (xdevs s d) [0..<XDMA_BAR_NUM] + X) \<and>
     ids = filter (\<lambda>i. x_bar (xdevs s d) i \<noteq> 0) ps \<and>
     (\<forall>i. i \<notin> set ps \<longrightarrow> x_bar (xdevs s d) i = 0) \<and> config_at (xdevs s d) ids pos \<and>
     x_user_bar_idx (xdevs s d) = -1 \<and> x_bypass_bar_idx (xdevs s d) = -1"

lemma bars_mem_config [simp]:
  "bars_mem (x\<lparr>x_config_bar_idx := c\<rparr>) is = bars_mem x is"
  by (rule bars_mem_cong) simp

lemma find_config_outcome:
  "sat (run_state (find_config E d i len) s) (\<lambda>c s'. owned (tr s') = owned (tr s) \<and>
    (if c then x_config_bar_idx (xdevs s d) < 0 \<and>
       xdevs s' = (xdevs s)(d := (xdevs s d)\<lparr>x_config_bar_idx := int i\<rparr>)
     else xdevs s' = xdevs s))"
  unfolding find_config_def is_config_bar_def upd_xdev_def
  by (intro sat_rules) auto

lemma map_step:
  assumes "bar_kernel E" and "bars_loop_inv d X ps ids pos s" "i \<notin> set ps" "i < XDMA_BAR_NUM"
    and "run_state (map_single_bar E d dev i) s = (r, s')"
  shows "owned (tr s') = Some (bars_mem (xdevs s' d) [0..<XDMA_BAR_NUM] + X)"
    and "r = 0 \<Longrightarrow> bars_loop_inv d X (ps @ [i]) ids pos s'"
    and "0 < r \<Longrightarrow> bars_loop_inv d X (ps @ [i]) (ids @ [i]) pos s'"
proof -
  have i: "i \<in> set [0..<XDMA_BAR_NUM]" "x_bar (xdevs s d) i = 0"
    "owned (tr s) = Some (bars_mem (xdevs s d) [0..<XDMA_BAR_NUM] + X)"
    using assms(2-4) by (auto simp: bars_loop_inv_def)
  have dist: "distinct [0..<XDMA_BAR_NUM]"
    by simp
  have 1: "owned (tr s') = Some (bars_mem (xdevs s' d) [0..<XDMA_BAR_NUM] + X)"
    and 2: "xdevs s' = (xdevs s)(d := (xdevs s d)\<lparr>x_bar := (x_bar (xdevs s d))(i := x_bar (xdevs s' d) i)\<rparr>)"
    and 3: "x_bar (xdevs s' d) i \<noteq> 0 \<longleftrightarrow> 0 < r"
    using satD [OF map_single_bar_outcome [OF assms(1) i(3) dist i(1,2)] assms(5)] by blast+
  have same: "x_bar (xdevs s' d) j = x_bar (xdevs s d) j" if "j \<noteq> i" for j
    by (subst 2) (simp add: that)
  have other: "x_config_bar_idx (xdevs s' d) = x_config_bar_idx (xdevs s d)"
    "x_user_bar_idx (xdevs s' d) = x_user_bar_idx (xdevs s d)"
    "x_bypass_bar_idx (xdevs s' d) = x_bypass_bar_idx (xdevs s d)"
    by (subst 2, simp)+
  have ids: "filter (\<lambda>j. x_bar (xdevs s' d) j \<noteq> 0) ps = ids"
  proof -
    have "filter (\<lambda>j. x_bar (xdevs s' d) j \<noteq> 0) ps = filter (\<lambda>j. x_bar (xdevs s d) j \<noteq> 0) ps"
    proof (rule filter_cong [OF refl])
      fix j
      assume "j \<in> set ps"
      then have "j \<noteq> i"
        using assms(3) by blast
      then show "(x_bar (xdevs s' d) j \<noteq> 0) = (x_bar (xdevs s d) j \<noteq> 0)"
        using same by simp
    qed
    then show ?thesis
      using assms(2) by (simp add: bars_loop_inv_def)
  qed
  show "owned (tr s') = Some (bars_mem (xdevs s' d) [0..<XDMA_BAR_NUM] + X)"
    by (rule 1)
  show "bars_loop_inv d X (ps @ [i]) ids pos s'" if "r = 0"
    using assms(2) 1 3 same other ids that by (auto simp: bars_loop_inv_def config_at_def)
  show "bars_loop_inv d X (ps @ [i]) (ids @ [i]) pos s'" if "0 < r"
    using assms(2) 1 3 same other ids that by (auto simp: bars_loop_inv_def config_at_def nth_append)
qed

lemma bars_inv_same:
  "owned (tr s') = owned (tr s) \<Longrightarrow> xdevs s' = xdevs s \<Longrightarrow>
   bars_loop_inv d X ps ids pos s' = bars_loop_inv d X ps ids pos s"
  by (simp add: bars_loop_inv_def)

lemma bars_inv_config:
  assumes "bars_loop_inv d X ps (ids @ [i]) pos s" "owned (tr s') = owned (tr s)"
    and "xdevs s' = (xdevs s)(d := (xdevs s d)\<lparr>x_config_bar_idx := int i\<rparr>)"
  shows "bars_loop_inv d X ps (ids @ [i]) (length ids) s'"
proof -
  have "config_at (xdevs s' d) (ids @ [i]) (length ids)"
    using assms(3) by (simp add: config_at_def)
  then show ?thesis
    using assms by (simp add: bars_loop_inv_def)
qed

lemma run_map_bars_loop:
  assumes "bar_kernel E" and "bars_loop_inv d X ps ids pos s" "distinct (ps @ is)" "set is \<subseteq> {..<XDMA_BAR_NUM}"
    and "run_state (map_bars_loop E d dev is ids pos) s = (z, s')"
  shows "case z of None \<Rightarrow> owned (tr s') = Some (bars_mem (xdevs s' d) [0..<XDMA_BAR_NUM] + X)
    | Some (ids', pos') \<Rightarrow> bars_loop_inv d X (ps @ is) ids' pos' s'"
  using assms(2-5)
proof (induction "is" arbitrary: ps ids pos s)
  case (Cons i "is")
  obtain r s1 where r: "run_state (map_single_bar E d dev i) s = (r, s1)"
    by fastforce
  have i: "i \<notin> set ps" "i < XDMA_BAR_NUM" "distinct ((ps @ [i]) @ is)" "set is \<subseteq> {..<XDMA_BAR_NUM}"
    using Cons.prems by auto
  note step = map_step [OF assms(1) Cons.prems(1) i(1,2) r]
  show ?case
  proof (cases "0 < r")
    case False
    then show ?thesis
      using step Cons.IH [OF _ i(3,4), of ids pos s1] Cons.prems(4) r
      by (cases "r = 0") (auto split: option.splits)
  next
    case True
    obtain c s2 where c: "run_state (find_config E d i r) s1 = (c, s2)"
      by fastforce
    have "bars_loop_inv d X (ps @ [i]) (ids @ [i]) (if c then length ids else pos) s2"
    proof (cases c)
      case True
      note inv = step(3) [OF \<open>0 < r\<close>]
      show ?thesis
        using satD [OF find_config_outcome c] True bars_inv_config [OF inv, of s2] by simp
    next
      case False
      then show ?thesis
        using satD [OF find_config_outcome c] step(3) [OF \<open>0 < r\<close>] bars_inv_same [of s2 s1] by simp
    qed
    then show ?thesis
      using Cons.IH [OF _ i(3,4), of "ids @ [i]" "if c then length ids else pos" s2] Cons.prems(4) r c True
      by (auto split: option.splits)
  qed
qed auto

section \<open>The roles\<close>

definition bars_fresh :: "u64 \<Rightarrow> 'a xworld_scheme \<Rightarrow> bool" where
  "bars_fresh d s \<longleftrightarrow> d \<noteq> 0 \<and> (\<forall>i. x_bar (xdevs s d) i = 0) \<and> x_config_bar_idx (xdevs s d) = -1 \<and>
     x_user_bar_idx (xdevs s d) = -1 \<and> x_bypass_bar_idx (xdevs s d) = -1"

lemma map_bars_outcome:
  assumes "bar_kernel E" "bars_fresh d s" "owned (tr s) = Some X"
    and "run_state (map_bars E d dev) s = (rv, s')"
  shows "if rv = 0
    then owned (tr s') = Some (bars_mem (xdevs s' d) [0..<6] + X) \<and>
      (let x = xdevs s' d; ids = filter (\<lambda>i. x_bar x i \<noteq> 0) [0..<6]; n = length ids in
       \<exists>pos<n. x_config_bar_idx x = int (ids ! pos) \<and>
         x_user_bar_idx x = (if n = 2 \<and> pos = 1 \<or> n \<in> {3, 4} \<and> pos \<in> {1, 2} then int (ids ! 0) else -1) \<and>
         x_bypass_bar_idx x = (if n = 2 \<and> pos = 0 then int (ids ! 1)
           else if n \<in> {3, 4} \<and> pos \<in> {1, 2} then int (ids ! (n - 1)) else -1))
    else rv = - EINVAL \<and> owned (tr s') = Some X \<and> (\<forall>i<6. x_bar (xdevs s' d) i = 0)"
proof -
  obtain z s1 where loop: "run_state (map_bars_loop E d dev [0..<XDMA_BAR_NUM] [] 0) s = (z, s1)"
    by fastforce
  have "bars_loop_inv d X [] [] 0 s"
    using assms(2,3) by (simp add: bars_loop_inv_def bars_fresh_def bars_mem_def config_at_def)
  moreover have "distinct ([] @ [0..<XDMA_BAR_NUM])" "set [0..<XDMA_BAR_NUM] \<subseteq> {..<XDMA_BAR_NUM}"
    by auto
  ultimately have inv: "case z of None \<Rightarrow> owned (tr s1) = Some (bars_mem (xdevs s1 d) [0..<XDMA_BAR_NUM] + X)
      | Some (ids, pos) \<Rightarrow> bars_loop_inv d X [0..<XDMA_BAR_NUM] ids pos s1"
    using run_map_bars_loop [OF assms(1) _ _ _ loop, of X "[]"] by (simp only: append_Nil)
  then have own: "owned (tr s1) = Some (bars_mem (xdevs s1 d) [0..<XDMA_BAR_NUM] + X)"
    by (auto simp: bars_loop_inv_def split: option.splits)
  have fail: ?thesis if "z = None \<or> x_config_bar_idx (xdevs s1 d) < 0"
  proof -
    define s2 where "s2 = final_of (for_each [0..<XDMA_BAR_NUM] (unmap_bar d dev)) s1"
    have "run_state (map_bars E d dev) s = (- EINVAL, s2)"
      using that loop
      by (auto simp: map_bars_def map_bars_fail_def unmap_bars_def s2_def split: prod.splits option.splits)
    then have "rv = - EINVAL" "s' = s2"
      using assms(4) by simp_all
    then show ?thesis
      using run_unmap [OF _ own s2_def] by simp
  qed
  show ?thesis
  proof (cases "z = None \<or> x_config_bar_idx (xdevs s1 d) < 0")
    case False
    then obtain ids pos where z: "z = Some (ids, pos)" and "0 \<le> x_config_bar_idx (xdevs s1 d)"
      by auto
    with inv have "bars_loop_inv d X [0..<XDMA_BAR_NUM] ids pos s1" "pos < length ids"
      "x_config_bar_idx (xdevs s1 d) = int (ids ! pos)"
      by (auto simp: bars_loop_inv_def config_at_def)
    moreover have "rv = 0" "s' = s1\<lparr>xdevs := (xdevs s1)(d := bar_roles ids pos (xdevs s1 d))\<rparr>"
      using assms(2,4) loop z False by (simp_all add: map_bars_def identify_bars_def bars_fresh_def)
    moreover have "x_bar (bar_roles ids pos x) = x_bar x" "bars_mem (bar_roles ids pos x) is = bars_mem x is"
      "x_config_bar_idx (bar_roles ids pos x) = x_config_bar_idx x" for x "is"
      by (auto simp: bar_roles_def intro: bars_mem_cong)
    ultimately show ?thesis
      by (auto simp: bars_loop_inv_def Let_def bar_roles_def intro!: exI [of _ pos])
  qed (rule fail)
qed

lemma run_unmap_bars:
  assumes "owned (tr s) = Some (bars_mem (xdevs s d) [0..<XDMA_BAR_NUM] + X)"
    and "run_state (do { _ \<leftarrow> unmap_bars d dev; ret 0 }) s = (r :: int, s')"
  shows "r = 0 \<and> owned (tr s') = Some X"
proof -
  define s2 where "s2 = final_of (for_each [0..<XDMA_BAR_NUM] (unmap_bar d dev)) s"
  have "r = 0 \<and> s' = s2"
    using assms(2) by (auto simp: unmap_bars_def s2_def split: prod.splits)
  then show ?thesis
    using run_unmap [OF distinct_upt assms(1) s2_def] by simp
qed

text \<open>\<open>map_bars\<close> and \<open>unmap_bars\<close> as a pair.\<close>

interpretation bars_life: bracket "map_bars E d dev" "do { _ \<leftarrow> unmap_bars d dev; ret 0 }"
  "\<lambda>s. owned (tr s)" plus "\<lambda>s. bars_mem (xdevs s d) [0..<6]" "\<lambda>s. bar_kernel E \<and> bars_fresh d s" "\<lambda>_. True"
  for E d dev
proof
  fix s s' :: "'a xworld_scheme" and X r
  assume a: "bar_kernel E \<and> bars_fresh d s" "owned (tr s) = Some X" "run_state (map_bars E d dev) s = (r, s')" "r \<noteq> 0"
  show "owned (tr s') = Some X"
    using map_bars_outcome [OF conjunct1 [OF a(1)] conjunct2 [OF a(1)] a(2,3)] unfolding if_not_P [OF a(4)] by blast
next
  fix s s' :: "'a xworld_scheme" and X
  assume a: "bar_kernel E \<and> bars_fresh d s" "owned (tr s) = Some X" "run_state (map_bars E d dev) s = (0, s')"
  show "owned (tr s') = Some (bars_mem (xdevs s' d) [0..<6] + X) \<and> True"
    using map_bars_outcome [OF conjunct1 [OF a(1)] conjunct2 [OF a(1)] a(2,3)] unfolding if_P [OF refl] by blast
next
  fix s s' :: "'a xworld_scheme" and X and r :: int
  assume "owned (tr s) = Some (bars_mem (xdevs s d) [0..<6] + X)"
    "run_state (do { _ \<leftarrow> unmap_bars d dev; ret 0 }) s = (r, s')"
  then show "r = 0 \<and> owned (tr s') = Some X"
    by (rule run_unmap_bars)
qed


text \<open>A device with two BARs, of which the second holds the interrupt and configuration blocks.\<close>

definition bar_env :: env where
  "bar_env = sample_env\<lparr>
     kres := (\<lambda>h f a. if f = K_pci_resource_len then (if a ! 1 < 2 then 0x10000 else 0)
       else if f = K_pci_iomap then (if a ! 1 = 0 then 0x400000 else 0x500000) else 0),
     mmio_rd := (\<lambda>h a. if a = 0x502000 then IRQ_BLOCK_ID else if a = 0x503000 then CONFIG_BLOCK_ID else 0)\<rparr>"

definition bar_world :: xworld where
  "bar_world = sample_world\<lparr>xdevs := (\<lambda>_. sample_xdev\<lparr>x_bar := (\<lambda>_. 0), x_config_bar_idx := -1\<rparr>)\<rparr>"

lemma run_bar_world: "fst (run_state (map_bars bar_env 0x100 0x200) bar_world) = 0"
  by (simp add: map_bars_def map_bars_fail_def upt_rec map_single_bar_def bar_env_def find_config_def
      is_config_bar_def bar_world_def set_bar_def identify_bars_def sample_xdev_def bar_roles_def)


text \<open>
  C30: no two roles fall on one BAR, with one exception: when three BARs are present and the config
  BAR is the last of them, the config BAR is also taken for the bypass BAR.
\<close>

theorem bar_roles_conflict:
  assumes "distinct ids" "pos < length ids" "x_config_bar_idx x = int (ids ! pos)"
    and "x_user_bar_idx x = -1" "x_bypass_bar_idx x = -1"
  shows "let y = bar_roles ids pos x in
    (x_bypass_bar_idx y = x_config_bar_idx y \<longleftrightarrow> length ids = 3 \<and> pos = 2) \<and>
    x_user_bar_idx y \<noteq> x_config_bar_idx y \<and>
    (x_user_bar_idx y = x_bypass_bar_idx y \<longrightarrow> x_user_bar_idx y = -1)"
  using assms by (auto simp: bar_roles_def Let_def nth_eq_iff_index_eq)

lemma bar_roles_conflict_witness:
  "x_bypass_bar_idx (bar_roles [0, 1, 2] 2 (sample_xdev\<lparr>x_config_bar_idx := 2\<rparr>)) = 2"
  using bar_roles_conflict [of "[0, 1, 2]" 2 "sample_xdev\<lparr>x_config_bar_idx := 2\<rparr>"]
  by (simp add: Let_def sample_xdev_def bar_roles_def)

end
