(* ===== verification/Irq.thy ===== *)
theory Irq
  imports EngineProbe
begin

text \<open>
  Interrupts (\<open>libxdma.c\<close>): the interrupt block of the device, the handlers, the choice between
  MSI-X, MSI and legacy interrupts, the vector tables, and requesting and freeing the lines. The
  configuration is that of kernels from 4.12 on. What a handler is registered for, its \<open>dev_id\<close>,
  says which handler it is.
\<close>

section \<open>The interrupt block\<close>

text \<open>\<open>pr_info\<close> of a register that is not zero is not modelled: only the loads are.\<close>

definition check_nonzero_interrupt_status :: "env \<Rightarrow> u64 \<Rightarrow> ('a xworld_scheme, unit) state" where
  "check_nonzero_interrupt_status E xdev = do {
     x \<leftarrow> the_xdev xdev;
     for_each [I_user_int_enable, I_channel_int_enable, I_user_int_request, I_channel_int_request,
         I_user_int_pending, I_channel_int_pending]
       (\<lambda>r. do { _ \<leftarrow> ioread32 E (irq_reg x r); ret () }) }"

definition channel_interrupts_disable :: "u64 \<Rightarrow> u32 \<Rightarrow> ('a xworld_scheme, unit) state" where
  "channel_interrupts_disable xdev msk = do {
     x \<leftarrow> the_xdev xdev;
     iowrite32 msk (irq_reg x I_channel_int_enable_w1c) }"

definition user_interrupts_enable :: "u64 \<Rightarrow> u32 \<Rightarrow> ('a xworld_scheme, unit) state" where
  "user_interrupts_enable xdev msk = do {
     x \<leftarrow> the_xdev xdev;
     iowrite32 msk (irq_reg x I_user_int_enable_w1s) }"

definition user_interrupts_disable :: "u64 \<Rightarrow> u32 \<Rightarrow> ('a xworld_scheme, unit) state" where
  "user_interrupts_disable xdev msk = do {
     x \<leftarrow> the_xdev xdev;
     iowrite32 msk (irq_reg x I_user_int_enable_w1c) }"

definition read_interrupts :: "env \<Rightarrow> u64 \<Rightarrow> ('a xworld_scheme, u32) state" where
  "read_interrupts E xdev = do {
     x \<leftarrow> the_xdev xdev;
     hi \<leftarrow> ioread32 E (irq_reg x I_user_int_request);
     lo \<leftarrow> ioread32 E (irq_reg x I_channel_int_request);
     ret (build_u32 hi lo) }"

section \<open>Handlers\<close>

abbreviation (input) IRQ_NONE :: int where "IRQ_NONE \<equiv> 0"
abbreviation (input) IRQ_HANDLED :: int where "IRQ_HANDLED \<equiv> 1"

definition upd_user_irq :: "u64 \<Rightarrow> nat \<Rightarrow> (xdma_user_irq \<Rightarrow> xdma_user_irq) \<Rightarrow> ('a xworld_scheme, unit) state" where
  "upd_user_irq xdev i f = upd_xdev xdev (\<lambda>x. x\<lparr>x_user_irq := (x_user_irq x)(i := f (x_user_irq x i))\<rparr>)"

text \<open>A pointer to an element of the array \<open>user_irq\<close> of a device, or null.\<close>

type_synonym user_ref = "(u64 \<times> nat) option"

definition user_irq_service :: "env \<Rightarrow> user_ref \<Rightarrow> ('a xworld_scheme, int) state" where
  "user_irq_service E user_irq = (case user_irq of None \<Rightarrow> ret IRQ_NONE
     | Some r \<Rightarrow> do {
         u \<leftarrow> gets_st (\<lambda>s. x_user_irq (xdevs s (fst r)) (snd r));
         if u_handler u \<noteq> 0 then kcall E K_user_handler [u_handler u, ucast (u_user_idx u), u_dev u]
         else do {
           _ \<leftarrow> lock_acquire LkEvents [unat (fst r), snd r];
           u \<leftarrow> gets_st (\<lambda>s. x_user_irq (xdevs s (fst r)) (snd r));
           _ \<leftarrow> when_st (u_events_irq u = 0) (do {
             _ \<leftarrow> upd_user_irq (fst r) (snd r) (\<lambda>u. u\<lparr>u_events_irq := 1\<rparr>);
             wake_up WqEvents [unat (fst r), snd r] });
           _ \<leftarrow> lock_release LkEvents [unat (fst r), snd r];
           ret IRQ_HANDLED } })"

text \<open>The loop over the user interrupts: \<open>n\<close> are left, from number \<open>user\<close> on.\<close>

fun isr_users :: "env \<Rightarrow> u64 \<Rightarrow> nat \<Rightarrow> nat \<Rightarrow> u32 \<Rightarrow> u32 \<Rightarrow> ('a xworld_scheme, unit) state" where
  "isr_users E xdev user 0 msk user_irq = ret ()"
| "isr_users E xdev user (Suc n) msk user_irq = (if user_irq = 0 then ret ()
     else if user_irq AND msk \<noteq> 0 then do {
       _ \<leftarrow> user_irq_service E (Some (xdev, user));
       isr_users E xdev (Suc user) n (push_bit 1 msk) (user_irq AND NOT msk) }
     else isr_users E xdev (Suc user) n (push_bit 1 msk) user_irq)"

definition schedule_work :: "eng \<Rightarrow> ('a xworld_scheme, unit) state" where
  "schedule_work e = kproc K_schedule_work (map of_nat (eng_key e))"

text \<open>The loop over the engines of one direction.\<close>

fun isr_engines :: "eng list \<Rightarrow> u32 \<Rightarrow> ('a xworld_scheme, unit) state" where
  "isr_engines [] msk = ret ()"
| "isr_engines (e # es) msk = (if msk = 0 then ret () else do {
     g \<leftarrow> the_eng e;
     if e_irq_bitmask g AND msk \<noteq> 0 \<and> e_magic g = MAGIC_ENGINE then do {
       _ \<leftarrow> schedule_work e;
       isr_engines es (msk AND NOT (e_irq_bitmask g)) }
     else isr_engines es msk })"

definition count_irq :: "u64 \<Rightarrow> ('a xworld_scheme, unit) state" where
  "count_irq xdev = upd_xdev xdev (\<lambda>x. x\<lparr>x_irq_count := x_irq_count x + 1\<rparr>)"

definition xdma_isr :: "env \<Rightarrow> u64 \<Rightarrow> ('a xworld_scheme, int) state" where
  "xdma_isr E xdev = (if xdev = 0 then ret (- IRQ_NONE) else do {
     x \<leftarrow> the_xdev xdev;
     ch_irq \<leftarrow> ioread32 E (irq_reg x I_channel_int_request);
     _ \<leftarrow> when_st (ch_irq \<noteq> 0) (channel_interrupts_disable xdev ch_irq);
     user_irq \<leftarrow> ioread32 E (irq_reg x I_user_int_request);
     _ \<leftarrow> when_st (user_irq \<noteq> 0) (isr_users E xdev 0 (x_user_max x) 1 user_irq);
     x \<leftarrow> the_xdev xdev;
     _ \<leftarrow> isr_engines (map (H2C xdev) [0..<x_h2c_channel_max x]) (ch_irq AND x_mask_irq_h2c x);
     x \<leftarrow> the_xdev xdev;
     _ \<leftarrow> isr_engines (map (C2H xdev) [0..<x_c2h_channel_max x]) (ch_irq AND x_mask_irq_c2h x);
     _ \<leftarrow> count_irq xdev;
     ret IRQ_HANDLED })"

definition xdma_user_irq_handler :: "env \<Rightarrow> user_ref \<Rightarrow> ('a xworld_scheme, int) state" where
  "xdma_user_irq_handler E dev_id = (if dev_id = None then ret IRQ_NONE else user_irq_service E dev_id)"

definition xdma_channel_irq :: "env \<Rightarrow> eng \<Rightarrow> ('a xworld_scheme, int) state" where
  "xdma_channel_irq E e = (if e = NoEngine then ret IRQ_NONE else do {
     g \<leftarrow> the_eng e;
     if e_xdev g = 0 then ret IRQ_NONE
     else do {
       x \<leftarrow> the_xdev (e_xdev g);
       _ \<leftarrow> iowrite32 (e_int_mask_value g) (eng_reg g R_interrupt_enable_mask_w1c);
       _ \<leftarrow> ioread32 E (irq_reg x I_channel_int_pending);
       _ \<leftarrow> schedule_work e;
       _ \<leftarrow> count_irq (e_xdev g);
       ret IRQ_HANDLED } })"

text \<open>What a handler is registered for, and which handler that is.\<close>

datatype irq_dev = IrqDevice u64 | IrqEngine eng | IrqUser u64 nat

fun irq_key :: "irq_dev \<Rightarrow> u64 list" where
  "irq_key (IrqDevice xdev) = [xdev]"
| "irq_key (IrqEngine e) = map of_nat (eng_key e)"
| "irq_key (IrqUser xdev i) = [2, xdev, of_nat i]"

fun irq_handler :: "env \<Rightarrow> irq_dev \<Rightarrow> ('a xworld_scheme, int) state" where
  "irq_handler E (IrqDevice xdev) = xdma_isr E xdev"
| "irq_handler E (IrqEngine e) = xdma_channel_irq E e"
| "irq_handler E (IrqUser xdev i) = xdma_user_irq_handler E (Some (xdev, i))"

section \<open>The kind of interrupts\<close>

abbreviation (input) PCI_CAP_ID_MSI :: u64 where "PCI_CAP_ID_MSI \<equiv> 0x05"
abbreviation (input) PCI_CAP_ID_MSIX :: u64 where "PCI_CAP_ID_MSIX \<equiv> 0x11"
abbreviation (input) PCI_BUS_FLAGS_NO_MSI :: u32 where "PCI_BUS_FLAGS_NO_MSI \<equiv> 1"
abbreviation (input) PCI_COMMAND :: u64 where "PCI_COMMAND \<equiv> 0x04"
abbreviation (input) PCI_COMMAND_INTX_DISABLE :: u16 where "PCI_COMMAND_INTX_DISABLE \<equiv> 0x400"
abbreviation (input) PCI_STATUS :: u64 where "PCI_STATUS \<equiv> 0x06"
abbreviation (input) PCI_STATUS_INTERRUPT :: u16 where "PCI_STATUS_INTERRUPT \<equiv> 0x08"
abbreviation (input) PCI_INTERRUPT_PIN :: u64 where "PCI_INTERRUPT_PIN \<equiv> 0x3d"

text \<open>
  The walk up the buses. A bus number has eight bits, so no device has more than 256 buses above
  it, and the fuel \<open>n = 256\<close> does not run out.
\<close>

fun bus_no_msi :: "nat \<Rightarrow> env \<Rightarrow> u64 \<Rightarrow> ('a kworld_scheme, bool) state" where
  "bus_no_msi 0 E bus = ret False"
| "bus_no_msi (Suc n) E bus = (if bus = 0 then ret False else do {
     flags \<leftarrow> kcall E K_bus_flags [bus];
     if of_int flags AND PCI_BUS_FLAGS_NO_MSI \<noteq> 0 then ret True
     else do {
       parent \<leftarrow> kptr E K_pci_bus [bus];
       bus_no_msi n E parent } })"

definition arch_msi_check_device :: "u64 \<Rightarrow> nat \<Rightarrow> u64 \<Rightarrow> int" where
  "arch_msi_check_device dev nvec type = 0"

definition msi_msix_capable :: "env \<Rightarrow> u64 \<Rightarrow> u64 \<Rightarrow> ('a kworld_scheme, bool) state" where
  "msi_msix_capable E dev type = (if dev = 0 then ret False else do {
     no_msi \<leftarrow> kcall E K_no_msi [dev];
     if no_msi \<noteq> 0 then ret False
     else do {
       bus \<leftarrow> kptr E K_pci_bus [dev];
       blocked \<leftarrow> bus_no_msi 256 E bus;
       if blocked then ret False
       else if arch_msi_check_device dev 1 type \<noteq> 0 then ret False
       else do {
         cap \<leftarrow> kcall E K_pci_find_capability [dev, type];
         ret (cap \<noteq> 0) } } })"

definition disable_msi_msix :: "u64 \<Rightarrow> u64 \<Rightarrow> ('a xworld_scheme, unit) state" where
  "disable_msi_msix xdev pdev = do {
     x \<leftarrow> the_xdev xdev;
     if x_msix_enabled x then do {
       _ \<leftarrow> kproc K_pci_disable_msix [pdev];
       upd_xdev xdev (\<lambda>x. x\<lparr>x_msix_enabled := False\<rparr>) }
     else if x_msi_enabled x then do {
       _ \<leftarrow> kproc K_pci_disable_msi [pdev];
       upd_xdev xdev (\<lambda>x. x\<lparr>x_msi_enabled := False\<rparr>) }
     else ret () }"

definition enable_msi_msix :: "env \<Rightarrow> u64 \<Rightarrow> u64 \<Rightarrow> ('a xworld_scheme, int) state" where
  "enable_msi_msix E xdev pdev =
     (if xdev = 0 then ret (- EINVAL) else if pdev = 0 then ret (- EINVAL) else do {
        mode \<leftarrow> param interrupt_mode;
        x \<leftarrow> the_xdev xdev;
        msix \<leftarrow> (if mode = 3 \<or> mode = 0 then msi_msix_capable E pdev PCI_CAP_ID_MSIX else ret False);
        if msix then do {
          let req_nvec = of_nat (x_c2h_channel_max x + x_h2c_channel_max x + x_user_max x);
          rv \<leftarrow> kcall E K_pci_alloc_irq_vectors [pdev, req_nvec, req_nvec];
          _ \<leftarrow> upd_xdev xdev (\<lambda>x. x\<lparr>x_msix_enabled := True\<rparr>);
          ret rv }
        else do {
          msi \<leftarrow> (if mode = 1 \<or> mode = 0 then msi_msix_capable E pdev PCI_CAP_ID_MSI else ret False);
          if msi then do {
            rv \<leftarrow> kcall E K_pci_enable_msi [pdev];
            _ \<leftarrow> upd_xdev xdev (\<lambda>x. x\<lparr>x_msi_enabled := True\<rparr>);
            ret rv }
          else ret 0 } })"

definition pci_check_intr_pend :: "env \<Rightarrow> u64 \<Rightarrow> ('a kworld_scheme, unit) state" where
  "pci_check_intr_pend E pdev = do {
     r \<leftarrow> kcall E K_pci_read_config [pdev, PCI_STATUS];
     when_st ((of_int r :: u16) AND PCI_STATUS_INTERRUPT \<noteq> 0)
       (kproc K_pci_write_config [pdev, PCI_STATUS, ucast PCI_STATUS_INTERRUPT]) }"

definition pci_keep_intx_enabled :: "env \<Rightarrow> u64 \<Rightarrow> ('a kworld_scheme, unit) state" where
  "pci_keep_intx_enabled E pdev = do {
     r \<leftarrow> kcall E K_pci_read_config [pdev, PCI_COMMAND];
     let pcmd = (of_int r :: u16);
     let pcmd_new = pcmd AND NOT PCI_COMMAND_INTX_DISABLE;
     when_st (pcmd_new \<noteq> pcmd) (kproc K_pci_write_config [pdev, PCI_COMMAND, ucast pcmd_new]) }"

section \<open>The vector tables\<close>

text \<open>A word of the table: \<open>k\<close> vectors are still to be put in, from number \<open>i\<close> on.\<close>

fun vector_word :: "nat \<Rightarrow> nat \<Rightarrow> nat \<Rightarrow> nat \<Rightarrow> u32 \<Rightarrow> u32" where
  "vector_word 0 i lim shift val = val"
| "vector_word (Suc k) i lim shift val =
     (if i < lim then vector_word k (i + 1) lim (shift + 8) (val OR push_bit shift (of_nat i AND 0x1f)) else val)"

text \<open>The words \<open>j\<close>, \<open>j + 1\<close>, ... of a table, for the vectors \<open>i\<close> to \<open>lim - 1\<close>.\<close>

function prog_vectors :: "(nat \<Rightarrow> u64) \<Rightarrow> bool \<Rightarrow> nat \<Rightarrow> nat \<Rightarrow> nat \<Rightarrow> ('a kworld_scheme, unit) state" where
  "prog_vectors reg clear i lim j = (if i < lim then do {
     _ \<leftarrow> iowrite32 (if clear then 0 else vector_word 4 i lim 0 0) (reg j);
     prog_vectors reg clear (if clear then i + 4 else min (i + 4) lim) lim (j + 1) }
   else ret ())"
  by pat_completeness auto
termination
  by (relation "measure (\<lambda>(_, _, i, lim, _). lim - i)") auto

declare prog_vectors.simps [simp del]

definition prog_irq_msix_user :: "u64 \<Rightarrow> bool \<Rightarrow> ('a xworld_scheme, unit) state" where
  "prog_irq_msix_user xdev clear = do {
     x \<leftarrow> the_xdev xdev;
     let i = x_c2h_channel_max x + x_h2c_channel_max x;
     prog_vectors (\<lambda>j. irq_reg x (I_user_msi_vector j)) clear i (i + x_user_max x) 0 }"

definition prog_irq_msix_channel :: "u64 \<Rightarrow> bool \<Rightarrow> ('a xworld_scheme, unit) state" where
  "prog_irq_msix_channel xdev clear = do {
     x \<leftarrow> the_xdev xdev;
     prog_vectors (\<lambda>j. irq_reg x (I_channel_msi_vector j)) clear 0 (x_c2h_channel_max x + x_h2c_channel_max x) 0 }"

section \<open>Requesting and freeing the lines\<close>

definition irq_vector :: "env \<Rightarrow> u64 \<Rightarrow> nat \<Rightarrow> ('a kworld_scheme, u32) state" where
  "irq_vector E pdev j = do { r \<leftarrow> kcall E K_pci_irq_vector [pdev, of_nat j]; ret (of_int r) }"

definition request_irq :: "env \<Rightarrow> u32 \<Rightarrow> irq_dev \<Rightarrow> ('a kworld_scheme, int) state" where
  "request_irq E vector d = kcall E K_request_irq (ucast vector # irq_key d)"

definition free_irq :: "u32 \<Rightarrow> irq_dev \<Rightarrow> ('a kworld_scheme, unit) state" where
  "free_irq vector d = kproc K_free_irq (ucast vector # irq_key d)"

text \<open>The loops over engines; each engine comes with the number of its vector.\<close>

fun request_engines :: "env \<Rightarrow> u64 \<Rightarrow> (eng \<times> nat) list \<Rightarrow> ('a xworld_scheme, int) state" where
  "request_engines E pdev [] = ret 0"
| "request_engines E pdev (p # ps) = do {
     vector \<leftarrow> irq_vector E pdev (snd p);
     rv \<leftarrow> request_irq E vector (IrqEngine (fst p));
     if rv \<noteq> 0 then ret rv
     else do {
       _ \<leftarrow> upd_eng (fst p) (\<lambda>g. g\<lparr>e_msix_irq_line := vector\<rparr>);
       request_engines E pdev ps } }"

fun free_engines :: "eng list \<Rightarrow> ('a xworld_scheme, unit) state" where
  "free_engines [] = ret ()"
| "free_engines (e # es) = do {
     g \<leftarrow> the_eng e;
     if e_msix_irq_line g = 0 then ret ()
     else do {
       _ \<leftarrow> free_irq (e_msix_irq_line g) (IrqEngine e);
       free_engines es } }"

definition h2c_lines :: "u64 \<Rightarrow> xdma_dev \<Rightarrow> (eng \<times> nat) list" where
  "h2c_lines xdev x = map (\<lambda>i. (H2C xdev i, i)) [0..<x_h2c_channel_max x]"

definition c2h_lines :: "u64 \<Rightarrow> xdma_dev \<Rightarrow> (eng \<times> nat) list" where
  "c2h_lines xdev x = map (\<lambda>i. (C2H xdev i, x_h2c_channel_max x + i)) [0..<x_c2h_channel_max x]"

definition irq_msix_channel_teardown :: "u64 \<Rightarrow> ('a xworld_scheme, unit) state" where
  "irq_msix_channel_teardown xdev = do {
     x \<leftarrow> the_xdev xdev;
     when_st (x_msix_enabled x) (do {
       _ \<leftarrow> prog_irq_msix_channel xdev True;
       _ \<leftarrow> free_engines (map fst (h2c_lines xdev x));
       free_engines (map fst (c2h_lines xdev x)) }) }"

definition irq_msix_channel_setup :: "env \<Rightarrow> u64 \<Rightarrow> ('a xworld_scheme, int) state" where
  "irq_msix_channel_setup E xdev = (if xdev = 0 then ret (- EINVAL) else do {
     x \<leftarrow> the_xdev xdev;
     if \<not> x_msix_enabled x then ret 0
     else do {
       rv \<leftarrow> request_engines E (x_pdev x) (h2c_lines xdev x);
       if rv \<noteq> 0 then ret rv
       else request_engines E (x_pdev x) (c2h_lines xdev x) } })"

definition free_user :: "env \<Rightarrow> u64 \<Rightarrow> nat \<Rightarrow> ('a xworld_scheme, unit) state" where
  "free_user E xdev i = do {
     x \<leftarrow> the_xdev xdev;
     vector \<leftarrow> irq_vector E (x_pdev x) (x_h2c_channel_max x + x_c2h_channel_max x + i);
     free_irq vector (IrqUser xdev i) }"

definition irq_msix_user_teardown :: "env \<Rightarrow> u64 \<Rightarrow> ('a xworld_scheme, unit) state" where
  "irq_msix_user_teardown E xdev = (if xdev = 0 then ret () else do {
     x \<leftarrow> the_xdev xdev;
     when_st (x_msix_enabled x) (do {
       _ \<leftarrow> prog_irq_msix_user xdev True;
       for_each [0..<x_user_max x] (free_user E xdev) }) })"

text \<open>The loop of \<open>irq_msix_user_setup\<close>: the status and where it ends.\<close>

fun request_users :: "env \<Rightarrow> u64 \<Rightarrow> nat \<Rightarrow> nat \<Rightarrow> ('a xworld_scheme, int \<times> nat) state" where
  "request_users E xdev i 0 = ret (0, i)"
| "request_users E xdev i (Suc n) = do {
     x \<leftarrow> the_xdev xdev;
     vector \<leftarrow> irq_vector E (x_pdev x) (x_h2c_channel_max x + x_c2h_channel_max x + i);
     rv \<leftarrow> request_irq E vector (IrqUser xdev i);
     if rv \<noteq> 0 then ret (rv, i) else request_users E xdev (Suc i) n }"

definition irq_msix_user_setup :: "env \<Rightarrow> u64 \<Rightarrow> ('a xworld_scheme, int) state" where
  "irq_msix_user_setup E xdev = do {
     x \<leftarrow> the_xdev xdev;
     (rv, i) \<leftarrow> request_users E xdev 0 (x_user_max x);
     _ \<leftarrow> when_st (rv \<noteq> 0) (for_each (rev [0..<i]) (free_user E xdev));
     ret rv }"

definition irq_msi_setup :: "env \<Rightarrow> u64 \<Rightarrow> u64 \<Rightarrow> ('a xworld_scheme, int) state" where
  "irq_msi_setup E xdev pdev = do {
     irq \<leftarrow> kcall E K_pdev_irq [pdev];
     _ \<leftarrow> upd_xdev xdev (\<lambda>x. x\<lparr>x_irq_line := irq\<rparr>);
     request_irq E (of_int irq) (IrqDevice xdev) }"

definition irq_legacy_setup :: "env \<Rightarrow> u64 \<Rightarrow> u64 \<Rightarrow> ('a xworld_scheme, int) state" where
  "irq_legacy_setup E xdev pdev = do {
     pin \<leftarrow> kcall E K_pci_read_config [pdev, PCI_INTERRUPT_PIN];
     let val = (of_int pin :: u8);
     if val = 0 then ret (- EINVAL)
     else do {
       x \<leftarrow> the_xdev xdev;
       _ \<leftarrow> when_st (1 < val) (do {
         let v = (ucast (val - 1) :: u32);
         let w = push_bit 24 v OR push_bit 16 v OR push_bit 8 v OR v;
         for_each [0x2080, 0x2084, 0x2088, 0x208C, 0x20A0, 0x20A4]
           (\<lambda>off. iowrite32 w (x_bar x (nat (x_config_bar_idx x)) + off)) });
       irq \<leftarrow> kcall E K_pdev_irq [pdev];
       _ \<leftarrow> upd_xdev xdev (\<lambda>x. x\<lparr>x_irq_line := irq\<rparr>);
       request_irq E (of_int irq) (IrqDevice xdev) } }"

definition irq_teardown :: "env \<Rightarrow> u64 \<Rightarrow> ('a xworld_scheme, unit) state" where
  "irq_teardown E xdev = do {
     x \<leftarrow> the_xdev xdev;
     if x_msix_enabled x then do {
       _ \<leftarrow> irq_msix_channel_teardown xdev;
       irq_msix_user_teardown E xdev }
     else when_st (x_irq_line x \<noteq> -1) (free_irq (of_int (x_irq_line x)) (IrqDevice xdev)) }"

definition irq_setup :: "env \<Rightarrow> u64 \<Rightarrow> u64 \<Rightarrow> ('a xworld_scheme, int) state" where
  "irq_setup E xdev pdev = do {
     _ \<leftarrow> pci_keep_intx_enabled E pdev;
     x \<leftarrow> the_xdev xdev;
     if x_msix_enabled x then do {
       rv \<leftarrow> irq_msix_channel_setup E xdev;
       if rv \<noteq> 0 then ret rv
       else do {
         rv \<leftarrow> irq_msix_user_setup E xdev;
         if rv \<noteq> 0 then ret rv
         else do {
           _ \<leftarrow> prog_irq_msix_channel xdev False;
           _ \<leftarrow> prog_irq_msix_user xdev False;
           ret 0 } } }
     else if x_msi_enabled x then irq_msi_setup E xdev pdev
     else irq_legacy_setup E xdev pdev }"

section \<open>What the table says\<close>

text \<open>Vector number \<open>k\<close> of the words of a table: a field of five bits in byte \<open>k mod 4\<close>.\<close>

definition table_vector :: "u32 list \<Rightarrow> nat \<Rightarrow> u32" where
  "table_vector ws k = drop_bit (8 * (k mod 4)) (ws ! (k div 4)) AND 0x1f"

definition table_words :: "bool \<Rightarrow> nat \<Rightarrow> nat \<Rightarrow> u32 list" where
  "table_words clear i lim =
     map (\<lambda>m. if clear then 0 else vector_word 4 (i + 4 * m) lim 0 0) [0..<(lim - i + 3) div 4]"

lemma run_prog_vectors:
  "run_state (prog_vectors reg clear i lim j) s = ((), s\<lparr>tr := tr s @
     map (\<lambda>m. MmioW (reg (j + m)) (table_words clear i lim ! m)) [0..<(lim - i + 3) div 4]\<rparr>)"
proof (induction reg clear i lim j arbitrary: s rule: prog_vectors.induct)
  case (1 reg clear i lim j)
  show ?case
  proof (cases "i < lim")
    case True
    define i' where "i' = (if clear then i + 4 else min (i + 4) lim)"
    define n where "n = (lim - i' + 3) div 4"
    have n: "(lim - i + 3) div 4 = Suc n"
      using True by (auto simp: n_def i'_def min_def)
    have shift: "table_words clear i' lim ! m = table_words clear i lim ! Suc m" if "m < n" for m
    proof -
      have "i' = i + 4" if "\<not> clear"
        using that \<open>m < n\<close> by (auto simp: n_def i'_def min_def split: if_splits)
      then have "vector_word 4 (i' + 4 * m) lim 0 0 = vector_word 4 (i + 4 * Suc m) lim 0 0" if "\<not> clear"
        using that by (simp add: add.assoc)
      then show ?thesis
        using that unfolding table_words_def n n_def [symmetric] by (simp del: upt_Suc)
    qed
    have "[0..<Suc n] = 0 # map Suc [0..<n]"
      by (simp add: upt_conv_Cons map_Suc_upt del: upt_Suc)
    then have "map (\<lambda>m. MmioW (reg (j + m)) (table_words clear i lim ! m)) [0..<Suc n] =
        MmioW (reg j) (table_words clear i lim ! 0) #
        map (\<lambda>m. MmioW (reg (j + 1 + m)) (table_words clear i' lim ! m)) [0..<n]"
      by (simp add: shift)
    moreover have "table_words clear i lim ! 0 = (if clear then 0 else vector_word 4 i lim 0 0)"
      by (simp add: table_words_def n del: upt_Suc)
    ultimately show ?thesis
      using True "1.IH" [OF True, folded i'_def] unfolding n
      by (subst prog_vectors.simps) (simp flip: n_def i'_def)
  qed (simp add: prog_vectors.simps)
qed

lemma and_1f: "(w :: u32) AND 0x1f = take_bit 5 w"
  by (simp add: take_bit_eq_mask mask_eq_exp_minus_1)

lemma vector_word_4:
  "vector_word 4 i lim 0 0 =
     (if i < lim then take_bit 5 (of_nat i) else 0) OR
     (if i + 1 < lim then push_bit 8 (take_bit 5 (of_nat (i + 1))) else 0) OR
     (if i + 2 < lim then push_bit 16 (take_bit 5 (of_nat (i + 2))) else 0) OR
     (if i + 3 < lim then push_bit 24 (take_bit 5 (of_nat (i + 3))) else 0)"
proof -
  have "(4 :: nat) = Suc (Suc (Suc (Suc 0)))"
    by simp
  then show ?thesis
    by (simp only: vector_word.simps) (simp add: and_1f ac_simps)
qed

lemma fields_of_word:
  fixes a b c d :: u32 and p q r s :: bool
  defines "w \<equiv> (if p then take_bit 5 a else 0) OR (if q then push_bit 8 (take_bit 5 b) else 0) OR
     (if r then push_bit 16 (take_bit 5 c) else 0) OR (if s then push_bit 24 (take_bit 5 d) else 0)"
  shows "p \<Longrightarrow> take_bit 5 w = take_bit 5 a" "q \<Longrightarrow> take_bit 5 (drop_bit 8 w) = take_bit 5 b"
    "r \<Longrightarrow> take_bit 5 (drop_bit 16 w) = take_bit 5 c" "s \<Longrightarrow> take_bit 5 (drop_bit 24 w) = take_bit 5 d"
  by (auto simp: w_def bit_simps intro!: bit_eqI)

lemma vector_word_field:
  assumes "k < 4" "i + k < lim" "lim \<le> 32"
  shows "drop_bit (8 * k) (vector_word 4 i lim 0 0) AND 0x1f = of_nat (i + k)"
proof -
  have small: "take_bit 5 (of_nat (i + k) :: u32) = of_nat (i + k)"
    using assms by (simp add: take_bit_of_nat take_bit_nat_eq_self del: of_nat_add)
  note fields = fields_of_word [where a = "of_nat i" and b = "of_nat (i + 1)" and c = "of_nat (i + 2)"
      and d = "of_nat (i + 3)" and p = "i < lim" and q = "i + 1 < lim" and r = "i + 2 < lim"
      and s = "i + 3 < lim", folded vector_word_4]
  have "k = 0 \<or> k = 1 \<or> k = 2 \<or> k = 3"
    using assms(1) by auto
  then have "take_bit 5 (drop_bit (8 * k) (vector_word 4 i lim 0 0)) = take_bit 5 (of_nat (i + k) :: u32)"
    using assms(2) by (elim disjE) (simp_all add: fields)
  then show ?thesis
    by (simp only: and_1f small)
qed

lemma table_words_vector:
  assumes "k < lim - i" "lim \<le> 32"
  shows "table_vector (table_words False i lim) k = of_nat (i + k)"
proof -
  have "(k + 4) div 4 \<le> (lim - i + 3) div 4"
    using assms(1) by (intro div_le_mono) simp
  then have "k div 4 < (lim - i + 3) div 4" "i + 4 * (k div 4) + k mod 4 = i + k"
    by (simp_all add: add.assoc)
  then show ?thesis
    using assms vector_word_field [of "k mod 4" "i + 4 * (k div 4)" lim]
    by (simp add: table_vector_def table_words_def)
qed

end
