(* ===== verification/IrqLaws.thy ===== *)
theory IrqLaws
  imports Irq
begin

text \<open>
  What the interrupt code guarantees: the vector tables name every engine's and every user
  interrupt's vector, the handler serves what was requested, and what is requested is freed.
\<close>

section \<open>Vector tables\<close>

lemma writes_map: "writes (map (\<lambda>m. MmioW (f m) (g m)) ms) = map (\<lambda>m. (f m, g m)) ms"
  by (induction ms) auto

lemma length_table_words [simp]: "length (table_words clear i lim) = (lim - i + 3) div 4"
  by (simp add: table_words_def)

text \<open>
  C17: the MSI-X vector tables. The words written to the channel table hold, in the five-bit field of
  interrupt \<open>k\<close>, vector \<open>k\<close>, which is the vector requested for the engine with that interrupt
  bit; the field of user interrupt \<open>k\<close> holds the vector that comes \<open>k\<close> after those of the engines.
\<close>

theorem irq_tables:
  assumes "x = xdevs s d" "n = x_h2c_channel_max x + x_c2h_channel_max x" "n + x_user_max x \<le> 32"
    and "run_state (prog_irq_msix_channel d False) s = (u, s1)"
    and "run_state (prog_irq_msix_user d False) s1 = (u', s2)"
  shows "\<exists>ws us. length ws = (n + 3) div 4 \<and> length us = (x_user_max x + 3) div 4 \<and>
    writes (tr s2) = writes (tr s) @ map (\<lambda>j. (irq_reg x (I_channel_msi_vector j), ws ! j)) [0..<length ws] @
      map (\<lambda>j. (irq_reg x (I_user_msi_vector j), us ! j)) [0..<length us] \<and>
    (\<forall>k<n. table_vector ws k = of_nat k \<and> snd ((h2c_lines d x @ c2h_lines d x) ! k) = k) \<and>
    (\<forall>k<x_user_max x. table_vector us k = of_nat (n + k))"
proof (intro exI conjI allI impI)
  let ?ws = "table_words False 0 n" and ?us = "table_words False n (n + x_user_max x)"
  show "length ?ws = (n + 3) div 4" "length ?us = (x_user_max x + 3) div 4"
    by simp_all
  have "writes (tr s1) = writes (tr s) @ map (\<lambda>j. (irq_reg x (I_channel_msi_vector j), ?ws ! j)) [0..<length ?ws]"
    and x: "xdevs s1 d = x"
    using assms(1,2,4) by (auto simp: prog_irq_msix_channel_def run_prog_vectors writes_map add.commute)
  moreover have "writes (tr s2) = writes (tr s1) @ map (\<lambda>j. (irq_reg x (I_user_msi_vector j), ?us ! j)) [0..<length ?us]"
    using assms(2,5) x by (auto simp: prog_irq_msix_user_def run_prog_vectors writes_map add.commute Let_def)
  ultimately show "writes (tr s2) = writes (tr s) @
      map (\<lambda>j. (irq_reg x (I_channel_msi_vector j), ?ws ! j)) [0..<length ?ws] @
      map (\<lambda>j. (irq_reg x (I_user_msi_vector j), ?us ! j)) [0..<length ?us]"
    by simp
next
  fix k
  assume k: "k < n"
  then show "table_vector (table_words False 0 n) k = of_nat k"
    using table_words_vector [of k n 0] assms(3) by simp
  have "k - x_h2c_channel_max x < x_c2h_channel_max x" if "\<not> k < x_h2c_channel_max x"
    using that k assms(2) by linarith
  then show "snd ((h2c_lines d x @ c2h_lines d x) ! k) = k"
    using k assms(2) by (simp add: h2c_lines_def c2h_lines_def nth_append)
next
  fix k
  assume "k < x_user_max x"
  then show "table_vector (table_words False n (n + x_user_max x)) k = of_nat (n + k)"
    using table_words_vector [of k "n + x_user_max x" n] assms(3) by simp
qed

lemma irq_tables_witness:
  "writes (tr (final_of (prog_irq_msix_user 0x100 False) (final_of (prog_irq_msix_channel 0x100 False) sample_world))) \<noteq> []"
  using irq_tables [of sample_xdev sample_world "0x100" 2, OF _ _ _ prod.collapse [symmetric] prod.collapse [symmetric]]
  by (auto simp: sample_xdev_def)

section \<open>The user interrupts\<close>

fun wakes :: "waitq \<Rightarrow> history \<Rightarrow> nat list list" where
  "wakes q [] = []"
| "wakes q (Wake q' i # h) = (if q' = q then i # wakes q h else wakes q h)"
| "wakes q (_ # h) = wakes q h"

lemma wakes_append [simp]: "wakes q (h @ h') = wakes q h @ wakes q h'"
  by (induction q h rule: wakes.induct) auto

text \<open>
  The user interrupts \<open>us\<close> of a device have been served: those with a handler by calling it, the
  others by an event, which is signalled if none was pending.
\<close>

definition posted :: "nat list \<Rightarrow> (nat \<Rightarrow> xdma_user_irq) \<Rightarrow> nat \<Rightarrow> xdma_user_irq" where
  "posted us f = (\<lambda>u. if u \<in> set us \<and> u_handler (f u) = 0 \<and> u_events_irq (f u) = 0
     then (f u)\<lparr>u_events_irq := 1\<rparr> else f u)"

definition handler_calls :: "nat list \<Rightarrow> (nat \<Rightarrow> xdma_user_irq) \<Rightarrow> u64 list list" where
  "handler_calls us f =
     map (\<lambda>u. [u_handler (f u), ucast (u_user_idx (f u)), u_dev (f u)]) (filter (\<lambda>u. u_handler (f u) \<noteq> 0) us)"

definition event_wakes :: "u64 \<Rightarrow> nat list \<Rightarrow> (nat \<Rightarrow> xdma_user_irq) \<Rightarrow> nat list list" where
  "event_wakes d us f = map (\<lambda>u. [unat d, u]) (filter (\<lambda>u. u_handler (f u) = 0 \<and> u_events_irq (f u) = 0) us)"

lemma served_cong:
  assumes "\<And>u. u \<in> set us \<Longrightarrow> g u = f u"
  shows "handler_calls us g = handler_calls us f" "event_wakes d us g = event_wakes d us f"
  using assms by (induction us) (auto simp: handler_calls_def event_wakes_def)

definition users_served :: "u64 \<Rightarrow> nat list \<Rightarrow> 'a xworld_scheme \<Rightarrow> 'a xworld_scheme \<Rightarrow> bool" where
  "users_served d us s s' \<longleftrightarrow> (let f = x_user_irq (xdevs s d) in
     engs s' = engs s \<and> writes (tr s') = writes (tr s) \<and>
     calls K_schedule_work (tr s') = calls K_schedule_work (tr s) \<and>
     calls K_user_handler (tr s') = calls K_user_handler (tr s) @ handler_calls us f \<and>
     wakes WqEvents (tr s') = wakes WqEvents (tr s) @ event_wakes d us f \<and>
     xdevs s' = (xdevs s)(d := (xdevs s d)\<lparr>x_user_irq := posted us f\<rparr>))"

lemma users_served_Nil [simp]: "users_served d [] s s"
  by (simp add: users_served_def posted_def Let_def handler_calls_def event_wakes_def)

lemma users_served_Cons:
  assumes "users_served d [u] s s1" "users_served d us s1 s2" "u \<notin> set us"
  shows "users_served d (u # us) s s2"
proof -
  let ?f = "x_user_irq (xdevs s d)" and ?g = "x_user_irq (xdevs s1 d)"
  have g: "?g = posted [u] ?f"
    using assms(1) by (simp add: users_served_def Let_def)
  then have same: "\<And>v. v \<in> set us \<Longrightarrow> ?g v = ?f v"
    using assms(3) by (auto simp: posted_def)
  have "posted us ?g = posted (u # us) ?f"
    using assms(3) g by (auto simp: posted_def fun_eq_iff)
  moreover have "handler_calls (u # us) ?f = handler_calls [u] ?f @ handler_calls us ?g"
    "event_wakes d (u # us) ?f = event_wakes d [u] ?f @ event_wakes d us ?g"
    using served_cong [OF same] by (simp_all add: handler_calls_def event_wakes_def)
  ultimately show ?thesis
    using assms(1,2) unfolding users_served_def Let_def by simp
qed

lemma run_user_irq_service:
  assumes "run_state (user_irq_service E (Some (d, u))) s = (r, s')"
  shows "users_served d [u] s s'"
  using assms
  by (auto simp: users_served_def Let_def posted_def handler_calls_def event_wakes_def user_irq_service_def upd_user_irq_def fun_eq_iff
      split: if_splits)

lemma run_isr_users:
  assumes "\<forall>i<user. \<not> bit w i" "user + n \<le> 32"
    and "run_state (isr_users E d user n (push_bit user 1) w) s = (r, s')"
  shows "users_served d (filter (\<lambda>u. bit w u) [user..<user + n]) s s'"
  using assms
proof (induction n arbitrary: user w s)
  case (Suc n)
  have upt: "[user..<user + Suc n] = user # [Suc user..<Suc user + n]"
    by (simp add: upt_conv_Cons del: upt_Suc)
  have hit: "w AND push_bit user 1 \<noteq> 0 \<longleftrightarrow> bit w user"
    by (simp add: bit_iff_and_push_bit_not_eq_0)
  have next_mask: "push_bit 1 (push_bit user 1 :: u32) = push_bit (Suc user) 1"
    by (simp add: push_bit_push_bit)
  consider "w = 0" | "bit w user" | "w \<noteq> 0" "\<not> bit w user"
    by blast
  then show ?case
  proof cases
    case 1
    then show ?thesis
      using Suc.prems(3) by simp
  next
    case 2
    then obtain r1 s1 where 1: "run_state (user_irq_service E (Some (d, user))) s = (r1, s1)"
      and "w \<noteq> 0"
      by fastforce
    define w' where "w' = w AND NOT (push_bit user 1)"
    have w': "bit w' u \<longleftrightarrow> bit w u \<and> u \<noteq> user" for u
      using Suc.prems(2) by (auto simp: w'_def bit_simps dest: bit_imp_le_length)
    have rest: "run_state (isr_users E d (Suc user) n (push_bit (Suc user) 1) w') s1 = (r, s')"
      using Suc.prems(3) hit 2 \<open>w \<noteq> 0\<close> 1 by (simp add: next_mask w'_def mult.commute)
    have "users_served d (filter (\<lambda>u. bit w' u) [Suc user..<Suc user + n]) s1 s'"
      using Suc.prems(1,2) by (intro Suc.IH [OF _ _ rest]) (auto simp: w' less_Suc_eq)
    moreover have "filter (\<lambda>u. bit w' u) [Suc user..<Suc user + n] = filter (\<lambda>u. bit w u) [Suc user..<Suc user + n]"
      by (rule filter_cong) (auto simp: w')
    ultimately show ?thesis
      using users_served_Cons [OF run_user_irq_service [OF 1]] 2 unfolding upt by simp
  next
    case 3
    then have rest: "run_state (isr_users E d (Suc user) n (push_bit (Suc user) 1) w) s = (r, s')"
      using Suc.prems(3) hit by (simp add: next_mask mult.commute)
    have "users_served d (filter (\<lambda>u. bit w u) [Suc user..<Suc user + n]) s s'"
      using Suc.prems(1,2) 3 by (intro Suc.IH [OF _ _ rest]) (auto simp: less_Suc_eq)
    then show ?thesis
      using 3 unfolding upt by simp
  qed
qed simp

section \<open>The engines\<close>

lemma run_isr_engines:
  assumes "distinct es" "\<forall>e\<in>set es. e_magic (engs s e) = MAGIC_ENGINE"
    and "\<forall>e\<in>set es. \<forall>f\<in>set es. e \<noteq> f \<longrightarrow> e_irq_bitmask (engs s e) AND e_irq_bitmask (engs s f) = 0"
    and "run_state (isr_engines es m) s = (r, s')"
  shows "\<exists>h. s' = s\<lparr>tr := h\<rparr> \<and> writes h = writes (tr s) \<and> calls K_user_handler h = calls K_user_handler (tr s) \<and>
    wakes WqEvents h = wakes WqEvents (tr s) \<and>
    calls K_schedule_work h = calls K_schedule_work (tr s) @
      map (\<lambda>e. map of_nat (eng_key e)) (filter (\<lambda>e. e_irq_bitmask (engs s e) AND m \<noteq> 0) es)"
  using assms
proof (induction es arbitrary: m s)
  case Nil
  then show ?case
    by (auto intro!: exI [of _ "tr s"])
next
  case (Cons e es)
  let ?b = "\<lambda>e. e_irq_bitmask (engs s e)"
  show ?case
  proof (cases "?b e AND m \<noteq> 0")
    case True
    then have "m \<noteq> 0"
      by auto
    define s1 where "s1 = final_of (schedule_work e) s"
    have s1: "s1 = s\<lparr>tr := tr s @ [KCall K_schedule_work (map of_nat (eng_key e)) 0]\<rparr>"
      by (simp add: s1_def schedule_work_def)
    have rest: "run_state (isr_engines es (m AND NOT (?b e))) s1 = (r, s')"
      using Cons.prems(2,4) True \<open>m \<noteq> 0\<close> by (simp add: s1 schedule_work_def)
    have "?b f AND (m AND NOT (?b e)) = ?b f AND m" if "f \<in> set es" for f
    proof -
      have "?b e AND ?b f = 0"
        using Cons.prems(1,3) that by auto
      then have "\<not> (bit (?b e) n \<and> bit (?b f) n)" for n
        by (metis bit_0_eq bit_and_iff bot_apply bot_bool_def)
      then show ?thesis
        by (auto simp: bit_eq_iff bit_simps)
    qed
    then have "filter (\<lambda>f. ?b f AND (m AND NOT (?b e)) \<noteq> 0) es = filter (\<lambda>f. ?b f AND m \<noteq> 0) es"
      by (auto intro: filter_cong)
    then show ?thesis
      using Cons.IH [OF _ _ _ rest] Cons.prems(1-3) True by (auto simp: s1)
  next
    case False
    have "filter (\<lambda>f. ?b f AND m \<noteq> 0) es = []" if "m = 0"
      using that by simp
    then show ?thesis
      using Cons.IH [of s m] Cons.prems False by (cases "m = 0") (auto intro!: exI [of _ "tr s"])
  qed
qed

lemma engine_of_dir [simp]: "engine_of d DMA_TO_DEVICE = H2C d" "engine_of d DMA_FROM_DEVICE = C2H d"
  by (simp_all add: engine_of_def fun_eq_iff)

text \<open>The engines of a device that has been probed.\<close>

definition live_engines :: "u64 \<Rightarrow> xdma_dev \<Rightarrow> eng list" where
  "live_engines d x = map (H2C d) [0..<x_h2c_channel_max x] @ map (C2H d) [0..<x_c2h_channel_max x]"

lemma irq_bits_disjoint:
  assumes "irq_assigned d es s" "e \<in> set es" "f \<in> set es" "e \<noteq> f"
  shows "e_irq_bitmask (engs s e) AND e_irq_bitmask (engs s f) = 0"
proof -
  obtain i j where "i < length es" "e = es ! i" "j < length es" "f = es ! j" "i \<noteq> j"
    using assms(2-4) by (metis in_set_conv_nth)
  then show ?thesis
    using assms(1) by (auto simp: irq_assigned_def bit_eq_iff bit_simps)
qed

lemma irq_bit_masked:
  assumes "irq_assigned d es s" "length es \<le> 32" "engine_of d dir c \<in> set es"
    and "dmask = (if dir = DMA_TO_DEVICE then x_mask_irq_h2c (xdevs s d) else x_mask_irq_c2h (xdevs s d))"
  shows "e_irq_bitmask (engs s (engine_of d dir c)) AND (w AND dmask) = e_irq_bitmask (engs s (engine_of d dir c)) AND w"
proof -
  obtain k where k: "k < length es" "es ! k = engine_of d dir c"
    using assms(3) by (metis in_set_conv_nth)
  then have "e_irq_bitmask (engs s (engine_of d dir c)) = push_bit k 1" "bit dmask k"
    using assms(1,2,4) by (cases dir, auto simp: irq_assigned_def dir_at_def)+
  then show ?thesis
    by (intro bit_word_eqI) (auto simp: bit_simps)
qed

lemma run_isr_direction:
  assumes "irq_assigned d es s" "length es \<le> 32" "set (map (engine_of d dir) [0..<n]) \<subseteq> set es"
    and "dmask = (if dir = DMA_TO_DEVICE then x_mask_irq_h2c (xdevs s d) else x_mask_irq_c2h (xdevs s d))"
    and "run_state (isr_engines (map (engine_of d dir) [0..<n]) (w AND dmask)) s = (r, s')"
  shows "\<exists>h. s' = s\<lparr>tr := h\<rparr> \<and> writes h = writes (tr s) \<and> calls K_user_handler h = calls K_user_handler (tr s) \<and>
    wakes WqEvents h = wakes WqEvents (tr s) \<and>
    calls K_schedule_work h = calls K_schedule_work (tr s) @
      map (\<lambda>e. map of_nat (eng_key e)) (filter (\<lambda>e. e_irq_bitmask (engs s e) AND w \<noteq> 0) (map (engine_of d dir) [0..<n]))"
proof -
  let ?es = "map (engine_of d dir) [0..<n]"
  have "distinct ?es"
    by (simp add: distinct_map inj_on_def)
  moreover have "\<forall>e\<in>set ?es. e_magic (engs s e) = MAGIC_ENGINE"
    using assms(1,3) unfolding irq_assigned_def by (metis in_set_conv_nth subsetD)
  moreover have "\<forall>e\<in>set ?es. \<forall>f\<in>set ?es. e \<noteq> f \<longrightarrow> e_irq_bitmask (engs s e) AND e_irq_bitmask (engs s f) = 0"
    using irq_bits_disjoint [OF assms(1)] assms(3) by blast
  moreover have "filter (\<lambda>e. e_irq_bitmask (engs s e) AND (w AND dmask) \<noteq> 0) ?es =
      filter (\<lambda>e. e_irq_bitmask (engs s e) AND w \<noteq> 0) ?es"
  proof (rule filter_cong [OF refl])
    fix e
    assume "e \<in> set ?es"
    then obtain c where "e = engine_of d dir c" "engine_of d dir c \<in> set es"
      using assms(3) by auto
    then show "(e_irq_bitmask (engs s e) AND (w AND dmask) \<noteq> 0) = (e_irq_bitmask (engs s e) AND w \<noteq> 0)"
      using irq_bit_masked [OF assms(1,2) _ assms(4)] by simp
  qed
  ultimately show ?thesis
    using run_isr_engines [of ?es s "w AND dmask" r s'] assms(5) by simp
qed

text \<open>Both directions, as the handler serves them: to the device first.\<close>

lemma run_isr_both:
  assumes "irq_assigned d es s" "length es \<le> 32" "set (live_engines d (xdevs s d)) \<subseteq> set es"
    and "run_state (isr_engines (map (H2C d) [0..<x_h2c_channel_max (xdevs s d)]) (ch AND x_mask_irq_h2c (xdevs s d))) s = (r1, s1)"
    and "run_state (isr_engines (map (C2H d) [0..<x_c2h_channel_max (xdevs s1 d)]) (ch AND x_mask_irq_c2h (xdevs s1 d))) s1 = (r2, s2)"
  shows "\<exists>h. s2 = s\<lparr>tr := h\<rparr> \<and> writes h = writes (tr s) \<and> calls K_user_handler h = calls K_user_handler (tr s) \<and>
    wakes WqEvents h = wakes WqEvents (tr s) \<and> calls K_schedule_work h = calls K_schedule_work (tr s) @
      map (\<lambda>e. map of_nat (eng_key e)) (filter (\<lambda>e. e_irq_bitmask (engs s e) AND ch \<noteq> 0) (live_engines d (xdevs s d)))"
proof -
  obtain h1 where s1: "s1 = s\<lparr>tr := h1\<rparr>" and w1: "writes h1 = writes (tr s)"
    "calls K_user_handler h1 = calls K_user_handler (tr s)" "wakes WqEvents h1 = wakes WqEvents (tr s)"
    "calls K_schedule_work h1 = calls K_schedule_work (tr s) @ map (\<lambda>e. map of_nat (eng_key e))
      (filter (\<lambda>e. e_irq_bitmask (engs s e) AND ch \<noteq> 0) (map (H2C d) [0..<x_h2c_channel_max (xdevs s d)]))"
    using run_isr_direction [where dir = DMA_TO_DEVICE, unfolded engine_of_dir, OF assms(1,2) _ _ assms(4)] assms(3)
    by (auto simp: live_engines_def)
  have "irq_assigned d es s1"
    using assms(1) by (simp add: s1)
  then obtain h2 where s2: "s2 = s1\<lparr>tr := h2\<rparr>" and w2: "writes h2 = writes (tr s1)"
    "calls K_user_handler h2 = calls K_user_handler (tr s1)" "wakes WqEvents h2 = wakes WqEvents (tr s1)"
    "calls K_schedule_work h2 = calls K_schedule_work (tr s1) @ map (\<lambda>e. map of_nat (eng_key e))
      (filter (\<lambda>e. e_irq_bitmask (engs s e) AND ch \<noteq> 0) (map (C2H d) [0..<x_c2h_channel_max (xdevs s d)]))"
    using run_isr_direction [where dir = DMA_FROM_DEVICE, unfolded engine_of_dir, OF _ assms(2) _ _ assms(5)] assms(3)
    by (auto simp: live_engines_def s1)
  show ?thesis
    using w1 w2 by (intro exI [of _ h2]) (simp add: s1 s2 live_engines_def)
qed

text \<open>
  C18: one run of the interrupt handler. The channel interrupts that fired are disabled by one
  write, before anything else; each engine of the device whose interrupt fired has its work
  scheduled, exactly once and in the order of the channels, and no other engine has; each user
  interrupt that fired is served once, by its handler or by an event that wakes the reader if none
  was pending. Nothing else changes but the count of interrupts.
\<close>

theorem isr_dispatch:
  assumes "d \<noteq> 0" "irq_assigned d es s" "length es \<le> 32" "set (live_engines d (xdevs s d)) \<subseteq> set es"
    and "x_user_max (xdevs s d) \<le> 32" "run_state (xdma_isr E d) s = (r, s')"
  shows "let x = xdevs s d;
      ch = mmio_rd E (tr s) (irq_reg x I_channel_int_request);
      off = (if ch \<noteq> 0 then [MmioW (irq_reg x I_channel_int_enable_w1c) ch] else []);
      usr = mmio_rd E (tr s @ [MmioR (irq_reg x I_channel_int_request) ch] @ off) (irq_reg x I_user_int_request);
      us = filter (bit usr) [0..<x_user_max x] in
    r = IRQ_HANDLED \<and> writes (tr s') = writes (tr s) @ writes off \<and>
    calls K_schedule_work (tr s') = calls K_schedule_work (tr s) @
      map (\<lambda>e. map of_nat (eng_key e)) (filter (\<lambda>e. e_irq_bitmask (engs s e) AND ch \<noteq> 0) (live_engines d x)) \<and>
    calls K_user_handler (tr s') = calls K_user_handler (tr s) @ handler_calls us (x_user_irq x) \<and>
    wakes WqEvents (tr s') = wakes WqEvents (tr s) @ event_wakes d us (x_user_irq x) \<and>
    engs s' = engs s \<and>
    xdevs s' = (xdevs s)(d := x\<lparr>x_user_irq := posted us (x_user_irq x), x_irq_count := x_irq_count x + 1\<rparr>)"
proof -
  define x where "x = xdevs s d"
  define ch where "ch = mmio_rd E (tr s) (irq_reg x I_channel_int_request)"
  define off where "off = (if ch \<noteq> 0 then [MmioW (irq_reg x I_channel_int_enable_w1c) ch] else [])"
  define h1 where "h1 = tr s @ [MmioR (irq_reg x I_channel_int_request) ch] @ off"
  define usr where "usr = mmio_rd E h1 (irq_reg x I_user_int_request)"
  define us where "us = filter (bit usr) [0..<x_user_max x]"
  define s1 where "s1 = s\<lparr>tr := h1 @ [MmioR (irq_reg x I_user_int_request) usr]\<rparr>"
  obtain r2 s2 where 2: "run_state (isr_users E d 0 (x_user_max x) (push_bit 0 1) usr) s1 = (r2, s2)"
    by (meson surj_pair)
  have served: "users_served d us s1 s2"
    using run_isr_users [OF _ _ 2] assms(5) by (simp add: us_def x_def)
  have zero: "run_state (isr_users E d 0 n (push_bit 0 1) 0) s1 = ((), s1)" for n
    by (cases n) simp_all
  have x2: "xdevs s2 d = x\<lparr>x_user_irq := posted us (x_user_irq x)\<rparr>" "engs s2 = engs s"
    using served by (simp_all add: users_served_def Let_def s1_def x_def)
  then have irq2: "irq_assigned d es s2"
    using assms(2) by (simp add: irq_assigned_def x_def)
  obtain r3 s3 where 3: "run_state (isr_engines (map (H2C d) [0..<x_h2c_channel_max (xdevs s2 d)])
      (ch AND x_mask_irq_h2c (xdevs s2 d))) s2 = (r3, s3)"
    by (meson surj_pair)
  obtain r4 s4 where 4: "run_state (isr_engines (map (C2H d) [0..<x_c2h_channel_max (xdevs s3 d)])
      (ch AND x_mask_irq_c2h (xdevs s3 d))) s3 = (r4, s4)"
    by (meson surj_pair)
  obtain h4 where s4: "s4 = s2\<lparr>tr := h4\<rparr>" and w4: "writes h4 = writes (tr s2)"
    "calls K_user_handler h4 = calls K_user_handler (tr s2)" "wakes WqEvents h4 = wakes WqEvents (tr s2)"
    "calls K_schedule_work h4 = calls K_schedule_work (tr s2) @ map (\<lambda>e. map of_nat (eng_key e))
      (filter (\<lambda>e. e_irq_bitmask (engs s e) AND ch \<noteq> 0) (live_engines d x))"
    using run_isr_both [OF irq2 assms(3) _ 3 4] assms(4) x2 by (auto simp: live_engines_def x_def)
  have users: "run_state (when_st (usr \<noteq> 0) (isr_users E d 0 (x_user_max x) 1 usr)) s1 = ((), s2)"
    using 2 zero by (cases "usr = 0") auto
  have "x_h2c_channel_max (xdevs s2 d) = x_h2c_channel_max x" "x_mask_irq_h2c (xdevs s2 d) = x_mask_irq_h2c x"
    by (simp_all add: x2)
  then have run: "(r, s') = (IRQ_HANDLED, final_of (count_irq d) s4)"
    using assms(1,6) users 3 4
    by (simp add: xdma_isr_def channel_interrupts_disable_def count_irq_def x_def [symmetric] ch_def [symmetric]
        h1_def off_def usr_def s1_def split: if_splits)
  have "tr s1 = h1 @ [MmioR (irq_reg x I_user_int_request) usr]" "writes h1 = writes (tr s) @ writes off"
    "calls f h1 = calls f (tr s)" "wakes q h1 = wakes q (tr s)" for f q
    by (simp_all add: s1_def h1_def off_def)
  then have "r = IRQ_HANDLED \<and> writes (tr s') = writes (tr s) @ writes off \<and>
    calls K_schedule_work (tr s') = calls K_schedule_work (tr s) @
      map (\<lambda>e. map of_nat (eng_key e)) (filter (\<lambda>e. e_irq_bitmask (engs s e) AND ch \<noteq> 0) (live_engines d x)) \<and>
    calls K_user_handler (tr s') = calls K_user_handler (tr s) @ handler_calls us (x_user_irq x) \<and>
    wakes WqEvents (tr s') = wakes WqEvents (tr s) @ event_wakes d us (x_user_irq x) \<and>
    engs s' = engs s \<and>
    xdevs s' = (xdevs s)(d := x\<lparr>x_user_irq := posted us (x_user_irq x), x_irq_count := x_irq_count x + 1\<rparr>)"
    using run served w4
    by (simp add: count_irq_def users_served_def Let_def s4 live_engines_def x_def s1_def)
  then show ?thesis
    by (simp only: Let_def x_def ch_def off_def usr_def us_def h1_def)
qed

definition isr_env :: env where
  "isr_env = sample_env\<lparr>mmio_rd := (\<lambda>_ _. 1)\<rparr>"

definition isr_world :: tworld where
  "isr_world = (thread_world 1)\<lparr>xdevs := (\<lambda>_. sample_xdev\<lparr>x_c2h_channel_max := 0\<rparr>)\<rparr>"

lemma isr_dispatch_witness:
  "calls K_schedule_work (tr (final_of (xdma_isr isr_env 0x100) isr_world)) = [[0, 0x100, 0]]"
proof -
  have "irq_assigned 0x100 [H2C 0x100 0] isr_world"
    by (auto simp: irq_assigned_def dir_at_def isr_world_def sample_xdev_def thread_world_def sample_engine_def bit_1_iff)
  moreover have "set (live_engines 0x100 (xdevs isr_world 0x100)) \<subseteq> set [H2C 0x100 0]" "x_user_max (xdevs isr_world 0x100) \<le> 32"
    by (simp_all add: live_engines_def isr_world_def sample_xdev_def)
  ultimately show ?thesis
    using isr_dispatch [of "0x100" "[H2C 0x100 0]" isr_world isr_env, OF _ _ _ _ _ prod.collapse [symmetric]]
    by (simp add: Let_def live_engines_def isr_world_def isr_env_def thread_world_def sample_xdev_def sample_engine_def)
qed

end
