(* ===== verification/IrqLines.thy ===== *)
theory IrqLines
  imports Irq
begin

text \<open>
  The interrupt lines that the driver holds with MSI-X: what is requested, what is freed, and what a
  failure leaves behind.
\<close>

section \<open>Lines\<close>

text \<open>
  What the kernel documents: the vector of an entry does not change, is not zero, and
  \<open>request_irq\<close> answers zero or a negative errno.
\<close>

definition irq_kernel :: "env \<Rightarrow> u64 \<Rightarrow> (nat \<Rightarrow> nat) \<Rightarrow> bool" where
  "irq_kernel E pdev v \<longleftrightarrow> (\<forall>h n. kres E h K_pci_irq_vector [pdev, of_nat n] = int (v n)) \<and>
     (\<forall>n. 0 < v n \<and> v n < 2 ^ 32) \<and> (\<forall>h a. kres E h K_request_irq a \<le> 0)"

definition line :: "nat \<Rightarrow> irq_dev \<Rightarrow> resource" where
  "line n d = (K_request_irq, ucast (of_nat n :: u32) # irq_key d)"

definition engine_lines :: "(nat \<Rightarrow> nat) \<Rightarrow> (eng \<times> nat) list \<Rightarrow> resource multiset" where
  "engine_lines v ps = mset (map (\<lambda>p. line (v (snd p)) (IrqEngine (fst p))) ps)"

definition user_lines :: "(nat \<Rightarrow> nat) \<Rightarrow> u64 \<Rightarrow> nat \<Rightarrow> nat list \<Rightarrow> resource multiset" where
  "user_lines v d base is = mset (map (\<lambda>i. line (v (base + i)) (IrqUser d i)) is)"

lemma engine_lines_simps [simp]:
  "engine_lines v [] = {#}"
  "engine_lines v (p # ps) = add_mset (line (v (snd p)) (IrqEngine (fst p))) (engine_lines v ps)"
  "engine_lines v (ps @ qs) = engine_lines v ps + engine_lines v qs"
  by (simp_all add: engine_lines_def)

lemma user_lines_simps [simp]:
  "user_lines v d b [] = {#}"
  "user_lines v d b (i # is) = add_mset (line (v (b + i)) (IrqUser d i)) (user_lines v d b is)"
  "user_lines v d b (is @ js) = user_lines v d b is + user_lines v d b js"
  "user_lines v d b (rev is) = user_lines v d b is"
  by (simp_all add: user_lines_def mset_rev flip: rev_map)

lemma run_irq_vector:
  "irq_kernel E pdev v \<Longrightarrow> run_state (irq_vector E pdev n) s =
     (of_nat (v n), s\<lparr>tr := tr s @ [KCall K_pci_irq_vector [pdev, of_nat n] (int (v n))]\<rparr>)"
  by (simp add: irq_kernel_def irq_vector_def)

lemma vector_not_0: "irq_kernel E pdev v \<Longrightarrow> (of_nat (v n) :: u32) \<noteq> 0"
proof -
  assume "irq_kernel E pdev v"
  then have "0 < v n" "v n < 2 ^ 32"
    unfolding irq_kernel_def by blast+
  then show ?thesis
    by (auto simp: word_of_nat_eq_0_iff dest!: dvd_imp_le)
qed

lemma irq_kernel_request: "irq_kernel E pdev v \<Longrightarrow> kres E h K_request_irq a \<noteq> 0 \<Longrightarrow> \<not> 0 \<le> kres E h K_request_irq a"
proof -
  assume "irq_kernel E pdev v" "kres E h K_request_irq a \<noteq> 0"
  moreover from this have "kres E h K_request_irq a \<le> 0"
    unfolding irq_kernel_def by blast
  ultimately show ?thesis
    by simp
qed

section \<open>The engines\<close>

lemma run_request_engines:
  assumes "irq_kernel E pdev v" "owned (tr s) = Some X" "distinct (map fst ps)"
    and "run_state (request_engines E pdev ps) s = (r, s')"
  shows "\<exists>k\<le>length ps. (r = 0 \<longleftrightarrow> k = length ps) \<and> owned (tr s') = Some (engine_lines v (take k ps) + X) \<and>
    xdevs s' = xdevs s \<and> (\<forall>p\<in>set (take k ps). e_msix_irq_line (engs s' (fst p)) = of_nat (v (snd p))) \<and>
    (\<forall>e. e \<notin> fst ` set ps \<longrightarrow> engs s' e = engs s e)"
  using assms(2-4)
proof (induction ps arbitrary: s X)
  case (Cons p ps)
  define h where "h = tr s @ [KCall K_pci_irq_vector [pdev, of_nat (snd p)] (int (v (snd p)))]"
  define a where "a = ucast (of_nat (v (snd p)) :: u32) # irq_key (IrqEngine (fst p))"
  define rv where "rv = kres E h K_request_irq a"
  have h: "owned h = Some X"
    using Cons.prems(1) by (simp add: h_def)
  show ?case
  proof (cases "rv = 0")
    case True
    define s1 where "s1 = s\<lparr>tr := h @ [KCall K_request_irq a 0],
      engs := (engs s)(fst p := (engs s (fst p))\<lparr>e_msix_irq_line := of_nat (v (snd p))\<rparr>)\<rparr>"
    have "owned (tr s1) = Some (add_mset (line (v (snd p)) (IrqEngine (fst p))) X)"
      using h by (simp add: s1_def line_def a_def)
    moreover have "run_state (request_engines E pdev ps) s1 = (r, s')"
      using Cons.prems(3) True by (simp add: run_irq_vector [OF assms(1)] request_irq_def h_def rv_def a_def s1_def)
    moreover have "distinct (map fst ps)" "fst p \<notin> fst ` set ps"
      using Cons.prems(2) by auto
    moreover note Cons.IH [of s1 "add_mset (line (v (snd p)) (IrqEngine (fst p))) X"]
    ultimately obtain k where k: "k \<le> length ps" "(r = 0) = (k = length ps)"
      "owned (tr s') = Some (engine_lines v (take k ps) + add_mset (line (v (snd p)) (IrqEngine (fst p))) X)"
      "xdevs s' = xdevs s1" "\<forall>p\<in>set (take k ps). e_msix_irq_line (engs s' (fst p)) = of_nat (v (snd p))"
      "\<forall>e. e \<notin> fst ` set ps \<longrightarrow> engs s' e = engs s1 e" "fst p \<notin> fst ` set ps"
      by blast
    then show ?thesis
      by (intro exI [of _ "Suc k"]) (auto simp: s1_def)
  next
    case False
    then have "r \<noteq> 0" "s' = s\<lparr>tr := h @ [KCall K_request_irq a rv]\<rparr>"
      using Cons.prems(3) by (auto simp: run_irq_vector [OF assms(1)] request_irq_def h_def rv_def a_def)
    then show ?thesis
      using h False irq_kernel_request [OF assms(1), of h a] by (intro exI [of _ 0]) (simp add: rv_def)
  qed
qed simp

lemma run_free_engines:
  assumes "irq_kernel E pdev v" "\<forall>p\<in>set ps. e_msix_irq_line (engs s (fst p)) = of_nat (v (snd p))"
    and "owned (tr s) = Some (engine_lines v ps + X)" "run_state (free_engines (map fst ps)) s = (r, s')"
  shows "owned (tr s') = Some X \<and> engs s' = engs s \<and> xdevs s' = xdevs s"
  using assms(2-4)
proof (induction ps arbitrary: s)
  case (Cons p ps)
  define s1 where "s1 = final_of (free_irq (of_nat (v (snd p))) (IrqEngine (fst p))) s"
  have s1: "owned (tr s1) = Some (engine_lines v ps + X)" "engs s1 = engs s" "xdevs s1 = xdevs s"
    using Cons.prems(2) by (simp_all add: s1_def free_irq_def line_def)
  have "run_state (free_engines (map fst ps)) s1 = (r, s')"
    using Cons.prems(1,3) vector_not_0 [OF assms(1)] by (simp add: s1_def free_irq_def)
  then show ?case
    using Cons.IH [of s1] Cons.prems(1) s1 by simp
qed simp

section \<open>The user interrupts\<close>

definition user_base :: "xdma_dev \<Rightarrow> nat" where
  "user_base x = x_h2c_channel_max x + x_c2h_channel_max x"

lemma run_free_users:
  assumes "irq_kernel E (x_pdev (xdevs s d)) v"
    and "owned (tr s) = Some (user_lines v d (user_base (xdevs s d)) is + X)"
    and "run_state (for_each is (free_user E d)) s = (r, s')"
  shows "owned (tr s') = Some X \<and> xdevs s' = xdevs s"
  using assms
proof (induction "is" arbitrary: s)
  case (Cons i "is")
  define s1 where "s1 = final_of (free_user E d i) s"
  have s1: "owned (tr s1) = Some (user_lines v d (user_base (xdevs s1 d)) is + X)" "xdevs s1 = xdevs s"
    using Cons.prems(1,2) by (simp_all add: s1_def free_user_def free_irq_def run_irq_vector line_def user_base_def)
  have "run_state (for_each is (free_user E d)) s1 = (r, s')"
    using Cons.prems(3) by (simp add: s1_def split: prod.splits)
  then show ?case
    using Cons.IH [of s1] Cons.prems(1) s1 by simp
qed simp

lemma run_request_users:
  assumes "irq_kernel E (x_pdev (xdevs s d)) v" "owned (tr s) = Some X"
    and "run_state (request_users E d i n) s = ((rv, j), s')"
  shows "i \<le> j \<and> (rv = 0 \<longleftrightarrow> j = i + n) \<and> j \<le> i + n \<and> xdevs s' = xdevs s \<and>
    owned (tr s') = Some (user_lines v d (user_base (xdevs s d)) [i..<j] + X)"
  using assms
proof (induction n arbitrary: i s X)
  case (Suc n)
  let ?b = "user_base (xdevs s d)"
  define h where "h = tr s @ [KCall K_pci_irq_vector [x_pdev (xdevs s d), of_nat (?b + i)] (int (v (?b + i)))]"
  define a where "a = ucast (of_nat (v (?b + i)) :: u32) # irq_key (IrqUser d i)"
  define q where "q = kres E h K_request_irq a"
  have h: "owned h = Some X"
    using Suc.prems(2) by (simp add: h_def)
  have run: "run_state (request_users E d i (Suc n)) s =
      (if q \<noteq> 0 then ((q, i), s\<lparr>tr := h @ [KCall K_request_irq a q]\<rparr>)
       else run_state (request_users E d (Suc i) n) (s\<lparr>tr := h @ [KCall K_request_irq a q]\<rparr>))"
    by (simp add: run_irq_vector [OF Suc.prems(1)] request_irq_def h_def q_def a_def user_base_def del: of_nat_add)
  show ?case
  proof (cases "q = 0")
    case True
    define s1 where "s1 = s\<lparr>tr := h @ [KCall K_request_irq a q]\<rparr>"
    have "owned (tr s1) = Some (add_mset (line (v (?b + i)) (IrqUser d i)) X)"
      using h True by (simp add: s1_def line_def a_def)
    moreover have "run_state (request_users E d (Suc i) n) s1 = ((rv, j), s')"
      using Suc.prems(3) True unfolding run by (simp add: s1_def)
    moreover have "irq_kernel E (x_pdev (xdevs s1 d)) v"
      using Suc.prems(1) by (simp add: s1_def)
    ultimately have "Suc i \<le> j \<and> (rv = 0 \<longleftrightarrow> j = Suc i + n) \<and> j \<le> Suc i + n \<and> xdevs s' = xdevs s1 \<and>
        owned (tr s') = Some (user_lines v d (user_base (xdevs s1 d)) [Suc i..<j] + add_mset (line (v (?b + i)) (IrqUser d i)) X)"
      by (intro Suc.IH)
    moreover have "[i..<j] = i # [Suc i..<j]" if "Suc i \<le> j"
      using that by (simp add: upt_conv_Cons)
    ultimately show ?thesis
      by (auto simp: s1_def)
  next
    case False
    then show ?thesis
      using Suc.prems(3) h irq_kernel_request [OF Suc.prems(1), of h a] unfolding run by (auto simp: q_def)
  qed
qed simp

section \<open>All lines of a device\<close>

lemma owned_from_writes [simp]: "owned_from z (map (\<lambda>m. MmioW (f m) (g m)) ms) = z"
  by (induction ms) auto

lemma owned_prog [simp]:
  "owned (tr (final_of (prog_irq_msix_channel d c) s)) = owned (tr s)"
  "owned (tr (final_of (prog_irq_msix_user d c) s)) = owned (tr s)"
  "engs (final_of (prog_irq_msix_channel d c) s) = engs s" "engs (final_of (prog_irq_msix_user d c) s) = engs s"
  "xdevs (final_of (prog_irq_msix_channel d c) s) = xdevs s" "xdevs (final_of (prog_irq_msix_user d c) s) = xdevs s"
  by (simp_all add: prog_irq_msix_channel_def prog_irq_msix_user_def run_prog_vectors Let_def)

definition dev_lines :: "u64 \<Rightarrow> xdma_dev \<Rightarrow> (eng \<times> nat) list" where
  "dev_lines d x = h2c_lines d x @ c2h_lines d x"

lemma distinct_dev_lines: "distinct (map fst (dev_lines d x))"
  by (auto simp: dev_lines_def h2c_lines_def c2h_lines_def comp_def distinct_map inj_on_def)

text \<open>The two requests of the channel set-up are one request of all engine lines, in order.\<close>

lemma request_engines_append:
  "run_state (request_engines E pdev (ps @ qs)) s =
     (let (r, s') = run_state (request_engines E pdev ps) s in
      if r \<noteq> 0 then (r, s') else run_state (request_engines E pdev qs) s')"
  by (induction ps arbitrary: s) (simp_all add: irq_vector_def request_irq_def Let_def)

lemma run_channel_setup:
  "d \<noteq> 0 \<Longrightarrow> x_msix_enabled (xdevs s d) \<Longrightarrow> run_state (irq_msix_channel_setup E d) s =
     run_state (request_engines E (x_pdev (xdevs s d)) (dev_lines d (xdevs s d))) s"
  by (auto simp: irq_msix_channel_setup_def dev_lines_def request_engines_append Let_def split: prod.splits)

lemma free_engines_append:
  "\<forall>e\<in>set es. e_msix_irq_line (engs s e) \<noteq> 0 \<Longrightarrow> run_state (free_engines (es @ fs)) s =
     run_state (free_engines fs) (final_of (free_engines es) s)"
  by (induction es arbitrary: s) (simp_all add: free_irq_def)

text \<open>The user interrupts of a device with MSI-X as a pair of operations.\<close>

definition user_ready :: "env \<Rightarrow> (nat \<Rightarrow> nat) \<Rightarrow> u64 \<Rightarrow> 'a xworld_scheme \<Rightarrow> bool" where
  "user_ready E v d s \<longleftrightarrow> d \<noteq> 0 \<and> x_msix_enabled (xdevs s d) \<and> irq_kernel E (x_pdev (xdevs s d)) v"

definition dev_user_lines :: "(nat \<Rightarrow> nat) \<Rightarrow> u64 \<Rightarrow> 'a xworld_scheme \<Rightarrow> resource multiset" where
  "dev_user_lines v d s = user_lines v d (user_base (xdevs s d)) [0..<x_user_max (xdevs s d)]"

lemma run_user_setup:
  assumes "user_ready E v d s" "owned (tr s) = Some X" "run_state (irq_msix_user_setup E d) s = (r, s')"
  shows "owned (tr s') = Some (if r = 0 then dev_user_lines v d s' + X else X) \<and> xdevs s' = xdevs s"
proof -
  let ?x = "xdevs s d"
  have k: "irq_kernel E (x_pdev ?x) v"
    using assms(1) by (simp add: user_ready_def)
  obtain rv j s1 where 1: "run_state (request_users E d 0 (x_user_max ?x)) s = ((rv, j), s1)"
    by (metis surj_pair)
  note req = run_request_users [OF k assms(2) 1]
  show ?thesis
  proof (cases "rv = 0")
    case True
    then show ?thesis
      using req 1 assms(3) by (simp add: irq_msix_user_setup_def dev_user_lines_def)
  next
    case False
    obtain u s2 where 2: "run_state (for_each (rev [0..<j]) (free_user E d)) s1 = (u, s2)"
      by (metis surj_pair)
    have "owned (tr s2) = Some X \<and> xdevs s2 = xdevs s1"
      by (rule run_free_users [OF _ _ 2, where v = v]) (use k req in simp_all)
    then show ?thesis
      using req 1 2 False assms(3) by (simp add: irq_msix_user_setup_def)
  qed
qed

lemma run_user_teardown:
  assumes "user_ready E v d s" "owned (tr s) = Some (dev_user_lines v d s + X)"
    and "run_state (irq_msix_user_teardown E d) s = (r, s')"
  shows "owned (tr s') = Some X \<and> xdevs s' = xdevs s"
proof -
  let ?s1 = "final_of (prog_irq_msix_user d True) s"
  have run: "run_state (for_each [0..<x_user_max (xdevs s d)] (free_user E d)) ?s1 = (r, s')"
    using assms(1,3) by (simp add: irq_msix_user_teardown_def user_ready_def split: prod.splits)
  have "owned (tr s') = Some X \<and> xdevs s' = xdevs ?s1"
    by (rule run_free_users [OF _ _ run, where v = v])
      (use assms(1,2) in \<open>simp_all add: user_ready_def dev_user_lines_def\<close>)
  then show ?thesis
    by simp
qed

interpretation user_irqs: bracket "irq_msix_user_setup E d" "do { _ \<leftarrow> irq_msix_user_teardown E d; ret 0 }"
  "\<lambda>s. owned (tr s)" plus "dev_user_lines v d" "user_ready E v d" "user_ready E v d" for E v d
proof
  fix s s' :: "'a xworld_scheme" and X and r :: int
  assume "user_ready E v d s" "owned (tr s) = Some X" "run_state (irq_msix_user_setup E d) s = (r, s')" "r \<noteq> 0"
  then show "owned (tr s') = Some X"
    using run_user_setup by fastforce
next
  fix s s' :: "'a xworld_scheme" and X
  assume a: "user_ready E v d s" "owned (tr s) = Some X" "run_state (irq_msix_user_setup E d) s = (0, s')"
  then show "owned (tr s') = Some (dev_user_lines v d s' + X) \<and> user_ready E v d s'"
    using run_user_setup [OF a] by (simp add: user_ready_def)
next
  fix s s' :: "'a xworld_scheme" and X and r :: int
  assume a: "user_ready E v d s" "owned (tr s) = Some (dev_user_lines v d s + X)"
    "run_state (do { _ \<leftarrow> irq_msix_user_teardown E d; ret 0 }) s = (r, s')"
  obtain u s1 where "run_state (irq_msix_user_teardown E d) s = (u, s1)"
    by (metis surj_pair)
  with a run_user_teardown [OF a(1,2)] show "r = 0 \<and> owned (tr s') = Some X"
    by simp
qed

lemma keep_intx_frame [simp]:
  "owned (tr (final_of (pci_keep_intx_enabled E pdev) s)) = owned (tr s)"
  "engs (final_of (pci_keep_intx_enabled E pdev) s) = engs s"
  "xdevs (final_of (pci_keep_intx_enabled E pdev) s) = xdevs s"
  by (cases "owned (tr s)", simp_all add: pci_keep_intx_enabled_def Let_def)

lemma user_setup_engs:
  assumes "run_state (irq_msix_user_setup E d) s = (r, s')"
  shows "engs s' = engs s"
proof -
  have inv: "tr_free (\<lambda>t. engs t = engs s)"
    by (simp add: tr_free_def)
  have users: "keeps (\<lambda>t. engs t = engs s) (request_users E d i n)" for i n
    by (induction n arbitrary: i) (auto simp: irq_vector_def request_irq_def intro!: hoare_rules inv)
  have "keeps (\<lambda>t. engs t = engs s) (irq_msix_user_setup E d)"
    unfolding irq_msix_user_setup_def free_user_def irq_vector_def free_irq_def
    by (intro hoare_rules users inv)
  then show ?thesis
    using hoareD [OF _ _ assms] by blast
qed

lemma run_channel_teardown:
  assumes "irq_kernel E pdev v" "x_msix_enabled (xdevs s d)"
    and "\<forall>p\<in>set (dev_lines d (xdevs s d)). e_msix_irq_line (engs s (fst p)) = of_nat (v (snd p))"
    and "owned (tr s) = Some (engine_lines v (dev_lines d (xdevs s d)) + X)"
    and "run_state (irq_msix_channel_teardown d) s = (r, s')"
  shows "owned (tr s') = Some X \<and> engs s' = engs s \<and> xdevs s' = xdevs s"
proof -
  let ?s1 = "final_of (prog_irq_msix_channel d True) s" and ?x = "xdevs s d"
  have "\<forall>e\<in>set (map fst (h2c_lines d ?x)). e_msix_irq_line (engs ?s1 e) \<noteq> 0"
    using assms(3) vector_not_0 [OF assms(1)] by (auto simp: dev_lines_def)
  then have "run_state (free_engines (map fst (dev_lines d ?x))) ?s1 = (r, s')"
    using assms(2,5) by (simp add: irq_msix_channel_teardown_def dev_lines_def free_engines_append split: prod.splits)
  from run_free_engines [OF assms(1) _ _ this] show ?thesis
    using assms(3,4) by simp
qed


definition line_env :: env where
  "line_env = sample_env\<lparr>kres := (\<lambda>h f a. if f = K_pci_irq_vector then 5 else 0)\<rparr>"

definition line_world :: xworld where
  "line_world = sample_world\<lparr>xdevs := (\<lambda>_. sample_xdev\<lparr>x_user_max := 1\<rparr>)\<rparr>"

lemma run_line_world: "fst (run_state (irq_setup line_env 0x100 0x200) line_world) = 0"
  by (simp add: irq_setup_def irq_msix_channel_setup_def irq_msix_user_setup_def h2c_lines_def c2h_lines_def
      pci_keep_intx_enabled_def irq_vector_def request_irq_def line_env_def line_world_def sample_xdev_def
      case_prod_beta)


end
