(* ===== verification/Device.thy ===== *)
theory Device
  imports IrqLines Bars
begin

text \<open>
  A device from probe to removal (\<open>libxdma.c\<close>): the list of devices, the stages of
  \<open>xdma_device_open\<close> with their error labels, closing, taking a device off line and back on
  line, and registering for user interrupts. The list that readers walk under RCU has the members
  of \<open>xdev_list\<close> and is not kept a second time.
\<close>

section \<open>The list of devices\<close>

text \<open>\<open>cpus\<close> are the CPUs that are on line.\<close>

definition xdev_list_append :: "u64 \<Rightarrow> ('a xworld_scheme, unit) state" where
  "xdev_list_append xdev = modify_st (\<lambda>s. s\<lparr>xdev_list := xdev_list s @ [xdev]\<rparr>)"

definition xdev_list_add :: "env \<Rightarrow> nat list \<Rightarrow> u64 \<Rightarrow> ('a tworld_scheme, int) state" where
  "xdev_list_add E cpus xdev = do {
     _ \<leftarrow> lock_acquire LkList [];
     ds \<leftarrow> gets_st xdev_list;
     rv \<leftarrow> (if ds = [] then do {
         _ \<leftarrow> upd_xdev xdev (\<lambda>x. x\<lparr>x_idx := 0\<rparr>);
         poll \<leftarrow> param poll_mode;
         x \<leftarrow> the_xdev xdev;
         if poll then xdma_threads_create E cpus (x_h2c_channel_max x + x_c2h_channel_max x) else ret 0 }
       else do {
         y \<leftarrow> the_xdev (last ds);
         _ \<leftarrow> upd_xdev xdev (\<lambda>x. x\<lparr>x_idx := x_idx y + 1\<rparr>);
         ret 0 });
     if rv < 0 then do { _ \<leftarrow> lock_release LkList []; ret rv }
     else do {
       _ \<leftarrow> xdev_list_append xdev;
       _ \<leftarrow> lock_release LkList [];
       ret 0 } }"

definition xdev_list_remove :: "env \<Rightarrow> u64 \<Rightarrow> ('a tworld_scheme, unit) state" where
  "xdev_list_remove E xdev = do {
     _ \<leftarrow> lock_acquire LkList [];
     _ \<leftarrow> modify_st (\<lambda>s. s\<lparr>xdev_list := remove1 xdev (xdev_list s)\<rparr>);
     poll \<leftarrow> param poll_mode;
     ds \<leftarrow> gets_st xdev_list;
     _ \<leftarrow> when_st (poll \<and> ds = []) (xdma_threads_destroy E);
     _ \<leftarrow> lock_release LkList [];
     kproc K_synchronize_rcu [] }"

section \<open>Setting up\<close>

text \<open>
  The structure as \<open>alloc_dev_instance\<close> leaves it: cleared, but for the fields that are set.
\<close>

definition new_user_irq :: "nat \<Rightarrow> xdma_user_irq" where
  "new_user_irq i = \<lparr>u_user_idx = (if i < 16 then of_nat i else 0), u_events_irq = 0, u_handler = 0, u_dev = 0\<rparr>"

definition new_xdev :: "u64 \<Rightarrow> xdma_dev" where
  "new_xdev pdev = \<lparr>x_magic = MAGIC_DEVICE, x_pdev = pdev, x_idx = 0, x_flags = 0, x_bar = (\<lambda>_. 0),
     x_user_bar_idx = -1, x_config_bar_idx = -1, x_bypass_bar_idx = -1, x_regions_in_use = False,
     x_got_regions = False, x_user_max = 0, x_c2h_channel_max = 0, x_h2c_channel_max = 0,
     x_irq_count = 0, x_irq_line = -1, x_msi_enabled = False, x_msix_enabled = False,
     x_user_irq = new_user_irq, x_mask_irq_user = 0, x_engines_num = 0, x_mask_irq_h2c = 0,
     x_mask_irq_c2h = 0\<rparr>"

definition clear_engine :: "eng \<Rightarrow> ('a xworld_scheme, unit) state" where
  "clear_engine e = upd_eng e (\<lambda>g. zero_engine (e_dir g))"

definition alloc_dev_instance :: "env \<Rightarrow> u64 \<Rightarrow> ('a xworld_scheme, u64) state" where
  "alloc_dev_instance E pdev = (if pdev = 0 then ret 0 else do {
     xdev \<leftarrow> kptr E K_kzalloc [1];
     if xdev = 0 then ret 0
     else do {
       _ \<leftarrow> upd_xdev xdev (\<lambda>_. new_xdev pdev);
       _ \<leftarrow> for_each [0..<XDMA_CHANNEL_NUM_MAX] (\<lambda>i. clear_engine (H2C xdev i));
       _ \<leftarrow> for_each [0..<XDMA_CHANNEL_NUM_MAX] (\<lambda>i. clear_engine (C2H xdev i));
       ret xdev } })"

definition request_regions :: "env \<Rightarrow> u64 \<Rightarrow> u64 \<Rightarrow> ('a xworld_scheme, int) state" where
  "request_regions E xdev pdev =
     (if xdev = 0 then ret (- EINVAL) else if pdev = 0 then ret (- EINVAL) else do {
        rv \<leftarrow> kcall E K_pci_request_regions [pdev];
        _ \<leftarrow> (if rv \<noteq> 0 then upd_xdev xdev (\<lambda>x. x\<lparr>x_regions_in_use := True\<rparr>)
               else upd_xdev xdev (\<lambda>x. x\<lparr>x_got_regions := True\<rparr>));
        ret rv })"

abbreviation (input) DMA_BIT_MASK_64 :: u64 where "DMA_BIT_MASK_64 \<equiv> 0xFFFFFFFFFFFFFFFF"
abbreviation (input) DMA_BIT_MASK_32 :: u64 where "DMA_BIT_MASK_32 \<equiv> 0xFFFFFFFF"

definition set_dma_mask :: "env \<Rightarrow> u64 \<Rightarrow> ('a kworld_scheme, int) state" where
  "set_dma_mask E pdev = (if pdev = 0 then ret (- EINVAL) else do {
     r \<leftarrow> kcall E K_pci_set_dma_mask [pdev, DMA_BIT_MASK_64];
     if r = 0 then do {
       _ \<leftarrow> kcall E K_pci_set_consistent_dma_mask [pdev, DMA_BIT_MASK_64];
       ret 0 }
     else do {
       r \<leftarrow> kcall E K_pci_set_dma_mask [pdev, DMA_BIT_MASK_32];
       if r = 0 then do {
         _ \<leftarrow> kcall E K_pci_set_consistent_dma_mask [pdev, DMA_BIT_MASK_32];
         ret 0 }
       else ret (- EINVAL) } })"

abbreviation (input) PCI_EXP_DEVCTL_RELAX_EN :: u64 where "PCI_EXP_DEVCTL_RELAX_EN \<equiv> 0x0010"
abbreviation (input) PCI_EXP_DEVCTL_EXT_TAG :: u64 where "PCI_EXP_DEVCTL_EXT_TAG \<equiv> 0x0100"

definition pci_enable_capability :: "u64 \<Rightarrow> u64 \<Rightarrow> ('a kworld_scheme, unit) state" where
  "pci_enable_capability pdev cap = kproc K_pcie_capability_set [pdev, cap]"

section \<open>Opening\<close>

text \<open>The error labels of \<open>xdma_device_open\<close>, the last one first. Each falls into the next.\<close>

definition open_free_xdev :: "u64 \<Rightarrow> ('a kworld_scheme, u64) state" where
  "open_free_xdev xdev = do { _ \<leftarrow> kproc K_kfree [xdev]; ret 0 }"

definition open_err_enable :: "env \<Rightarrow> u64 \<Rightarrow> ('a tworld_scheme, u64) state" where
  "open_err_enable E xdev = do { _ \<leftarrow> xdev_list_remove E xdev; open_free_xdev xdev }"

definition open_err_regions :: "env \<Rightarrow> u64 \<Rightarrow> u64 \<Rightarrow> ('a tworld_scheme, u64) state" where
  "open_err_regions E xdev pdev = do {
     x \<leftarrow> the_xdev xdev;
     _ \<leftarrow> when_st (\<not> x_regions_in_use x) (kproc K_pci_disable_device [pdev]);
     open_err_enable E xdev }"

definition open_err_map :: "env \<Rightarrow> u64 \<Rightarrow> u64 \<Rightarrow> ('a tworld_scheme, u64) state" where
  "open_err_map E xdev pdev = do {
     x \<leftarrow> the_xdev xdev;
     _ \<leftarrow> when_st (x_got_regions x) (kproc K_pci_release_regions [pdev]);
     open_err_regions E xdev pdev }"

definition open_err_mask :: "env \<Rightarrow> u64 \<Rightarrow> u64 \<Rightarrow> ('a tworld_scheme, u64) state" where
  "open_err_mask E xdev pdev = do { _ \<leftarrow> unmap_bars xdev pdev; open_err_map E xdev pdev }"

definition open_err_engines :: "env \<Rightarrow> u64 \<Rightarrow> u64 \<Rightarrow> ('a tworld_scheme, u64) state" where
  "open_err_engines E xdev pdev = do { _ \<leftarrow> remove_engines xdev; open_err_mask E xdev pdev }"

definition open_err_msix :: "env \<Rightarrow> u64 \<Rightarrow> u64 \<Rightarrow> ('a tworld_scheme, u64) state" where
  "open_err_msix E xdev pdev = do { _ \<leftarrow> disable_msi_msix xdev pdev; open_err_engines E xdev pdev }"

text \<open>The last stage: the interrupts.\<close>

definition open_irqs :: "env \<Rightarrow> u64 \<Rightarrow> u64 \<Rightarrow> ('a tworld_scheme, u64) state" where
  "open_irqs E xdev pdev = do {
     rv \<leftarrow> enable_msi_msix E xdev pdev;
     if rv < 0 then open_err_engines E xdev pdev
     else do {
       rv \<leftarrow> irq_setup E xdev pdev;
       if rv < 0 then open_err_msix E xdev pdev
       else do {
         poll \<leftarrow> param poll_mode;
         _ \<leftarrow> when_st (\<not> poll) (channel_interrupts_enable xdev (NOT 0));
         _ \<leftarrow> read_interrupts E xdev;
         _ \<leftarrow> xdma_device_flag_clear xdev XDEV_FLAG_OFFLINE;
         ret xdev } } }"

text \<open>The stage before: the registers are mapped.\<close>

definition open_mapped :: "env \<Rightarrow> u64 \<Rightarrow> u64 \<Rightarrow> ('a tworld_scheme, u64) state" where
  "open_mapped E xdev pdev = do {
     rv \<leftarrow> set_dma_mask E pdev;
     if rv \<noteq> 0 then open_err_mask E xdev pdev
     else do {
       _ \<leftarrow> check_nonzero_interrupt_status E xdev;
       _ \<leftarrow> channel_interrupts_disable xdev (NOT 0);
       _ \<leftarrow> user_interrupts_disable xdev (NOT 0);
       _ \<leftarrow> read_interrupts E xdev;
       rv \<leftarrow> probe_engines E xdev;
       if rv \<noteq> 0 then open_err_mask E xdev pdev
       else open_irqs E xdev pdev } }"

text \<open>The stage before: the PCI device is enabled.\<close>

definition open_enabled :: "env \<Rightarrow> u64 \<Rightarrow> u64 \<Rightarrow> ('a tworld_scheme, u64) state" where
  "open_enabled E xdev pdev = do {
     _ \<leftarrow> pci_check_intr_pend E pdev;
     _ \<leftarrow> pci_enable_capability pdev PCI_EXP_DEVCTL_RELAX_EN;
     _ \<leftarrow> pci_enable_capability pdev PCI_EXP_DEVCTL_EXT_TAG;
     _ \<leftarrow> kcall E K_pcie_set_readrq [pdev, 512];
     _ \<leftarrow> kproc K_pci_set_master [pdev];
     rv \<leftarrow> request_regions E xdev pdev;
     if rv \<noteq> 0 then open_err_regions E xdev pdev
     else do {
       rv \<leftarrow> map_bars E xdev pdev;
       if rv \<noteq> 0 then open_err_map E xdev pdev
       else open_mapped E xdev pdev } }"

definition limit_channels :: "nat \<Rightarrow> nat \<Rightarrow> nat" where
  "limit_channels most n = (if n = 0 \<or> most < n then most else n)"

text \<open>
  The three limits go in and come out: with the handle, the caller gets what the device has. On a
  failure the handle is null and the limits are left as they were.
\<close>

definition xdma_device_open ::
  "env \<Rightarrow> nat list \<Rightarrow> u64 \<Rightarrow> nat \<Rightarrow> nat \<Rightarrow> nat \<Rightarrow> ('a tworld_scheme, u64 \<times> nat \<times> nat \<times> nat) state" where
  "xdma_device_open E cpus pdev user_max h2c_channel_max c2h_channel_max = do {
     xdev \<leftarrow> alloc_dev_instance E pdev;
     if xdev = 0 then ret (0, user_max, h2c_channel_max, c2h_channel_max)
     else do {
       _ \<leftarrow> upd_xdev xdev (\<lambda>x. x\<lparr>x_user_max := user_max, x_h2c_channel_max := h2c_channel_max,
              x_c2h_channel_max := c2h_channel_max\<rparr>);
       _ \<leftarrow> xdma_device_flag_set xdev XDEV_FLAG_OFFLINE;
       _ \<leftarrow> upd_xdev xdev (\<lambda>x. x\<lparr>x_user_max := limit_channels MAX_USER_IRQ (x_user_max x),
              x_h2c_channel_max := limit_channels XDMA_CHANNEL_NUM_MAX (x_h2c_channel_max x),
              x_c2h_channel_max := limit_channels XDMA_CHANNEL_NUM_MAX (x_c2h_channel_max x)\<rparr>);
       rv \<leftarrow> xdev_list_add E cpus xdev;
       hndl \<leftarrow> (if rv < 0 then open_free_xdev xdev
         else do {
           rv \<leftarrow> kcall E K_pci_enable_device [pdev];
           if rv \<noteq> 0 then open_err_enable E xdev else open_enabled E xdev pdev });
       x \<leftarrow> the_xdev xdev;
       if hndl = 0 then ret (0, user_max, h2c_channel_max, c2h_channel_max)
       else ret (hndl, x_user_max x, x_h2c_channel_max x, x_c2h_channel_max x) } }"

section \<open>Closing, off line, on line\<close>

definition quiet_interrupts :: "env \<Rightarrow> u64 \<Rightarrow> ('a xworld_scheme, unit) state" where
  "quiet_interrupts E xdev = do {
     _ \<leftarrow> channel_interrupts_disable xdev (NOT 0);
     _ \<leftarrow> user_interrupts_disable xdev (NOT 0);
     _ \<leftarrow> read_interrupts E xdev;
     ret () }"

definition xdma_device_close :: "env \<Rightarrow> u64 \<Rightarrow> u64 \<Rightarrow> ('a tworld_scheme, unit) state" where
  "xdma_device_close E pdev dev_hndl = (if dev_hndl = 0 then ret () else do {
     rv \<leftarrow> debug_check_dev_hndl pdev dev_hndl;
     if rv < 0 then ret ()
     else do {
       _ \<leftarrow> quiet_interrupts E dev_hndl;
       _ \<leftarrow> irq_teardown E dev_hndl;
       _ \<leftarrow> disable_msi_msix dev_hndl pdev;
       _ \<leftarrow> remove_engines dev_hndl;
       _ \<leftarrow> unmap_bars dev_hndl pdev;
       x \<leftarrow> the_xdev dev_hndl;
       _ \<leftarrow> when_st (x_got_regions x) (kproc K_pci_release_regions [pdev]);
       _ \<leftarrow> when_st (\<not> x_regions_in_use x) (kproc K_pci_disable_device [pdev]);
       _ \<leftarrow> xdev_list_remove E dev_hndl;
       kproc K_kfree [dev_hndl] } })"

definition all_channels :: "u64 \<Rightarrow> xdma_dev \<Rightarrow> eng list" where
  "all_channels xdev x = map (H2C xdev) [0..<x_h2c_channel_max x] @ map (C2H xdev) [0..<x_c2h_channel_max x]"

text \<open>The body of the loops of \<open>xdma_device_offline\<close> and \<open>xdma_device_online\<close>.\<close>

definition engine_offline :: "eng \<Rightarrow> ('a xworld_scheme, unit) state" where
  "engine_offline e = do {
     g \<leftarrow> the_eng e;
     when_st (e_magic g = MAGIC_ENGINE) (do {
       _ \<leftarrow> lock_acquire LkEngine (eng_key e);
       _ \<leftarrow> upd_eng e (\<lambda>g. g\<lparr>e_shutdown := e_shutdown g OR ENGINE_SHUTDOWN_REQUEST\<rparr>);
       _ \<leftarrow> xdma_engine_stop e;
       lock_release LkEngine (eng_key e) }) }"

definition engine_online :: "env \<Rightarrow> eng \<Rightarrow> ('a xworld_scheme, unit) state" where
  "engine_online E e = do {
     g \<leftarrow> the_eng e;
     when_st (e_magic g = MAGIC_ENGINE) (do {
       _ \<leftarrow> engine_init_regs E e;
       _ \<leftarrow> lock_acquire LkEngine (eng_key e);
       _ \<leftarrow> upd_eng e (\<lambda>g. g\<lparr>e_shutdown := e_shutdown g AND NOT ENGINE_SHUTDOWN_REQUEST\<rparr>);
       lock_release LkEngine (eng_key e) }) }"

definition xdma_device_offline :: "env \<Rightarrow> u64 \<Rightarrow> u64 \<Rightarrow> ('a xworld_scheme, unit) state" where
  "xdma_device_offline E pdev dev_hndl = (if dev_hndl = 0 then ret () else do {
     rv \<leftarrow> debug_check_dev_hndl pdev dev_hndl;
     if rv < 0 then ret ()
     else do {
       _ \<leftarrow> xdma_device_flag_set dev_hndl XDEV_FLAG_OFFLINE;
       x \<leftarrow> the_xdev dev_hndl;
       _ \<leftarrow> for_each (all_channels dev_hndl x) engine_offline;
       _ \<leftarrow> quiet_interrupts E dev_hndl;
       irq_teardown E dev_hndl } })"

definition xdma_device_online :: "env \<Rightarrow> u64 \<Rightarrow> u64 \<Rightarrow> ('a xworld_scheme, unit) state" where
  "xdma_device_online E pdev dev_hndl = (if dev_hndl = 0 then ret () else do {
     rv \<leftarrow> debug_check_dev_hndl pdev dev_hndl;
     if rv < 0 then ret ()
     else do {
       x \<leftarrow> the_xdev dev_hndl;
       _ \<leftarrow> for_each (all_channels dev_hndl x) (engine_online E);
       poll \<leftarrow> param poll_mode;
       _ \<leftarrow> when_st (\<not> poll) (do {
         _ \<leftarrow> irq_setup E dev_hndl pdev;
         _ \<leftarrow> channel_interrupts_enable dev_hndl (NOT 0);
         x \<leftarrow> the_xdev dev_hndl;
         _ \<leftarrow> user_interrupts_enable dev_hndl (x_mask_irq_user x);
         _ \<leftarrow> read_interrupts E dev_hndl;
         ret () });
       xdma_device_flag_clear dev_hndl XDEV_FLAG_OFFLINE } })"

definition xdma_device_restart :: "u64 \<Rightarrow> u64 \<Rightarrow> ('a xworld_scheme, int) state" where
  "xdma_device_restart pdev dev_hndl = (if dev_hndl = 0 then ret (- EINVAL) else do {
     rv \<leftarrow> debug_check_dev_hndl pdev dev_hndl;
     if rv < 0 then ret (- EINVAL) else ret (- EINVAL) })"

section \<open>User interrupts\<close>

text \<open>The loop over the user interrupts: \<open>n\<close> are left, from number \<open>i\<close> on.\<close>

fun isr_register :: "u64 \<Rightarrow> u64 \<Rightarrow> u64 \<Rightarrow> nat \<Rightarrow> nat \<Rightarrow> u32 \<Rightarrow> ('a xworld_scheme, unit) state" where
  "isr_register xdev handler dev i 0 msk = ret ()"
| "isr_register xdev handler dev i (Suc n) msk = (if msk = 0 then ret ()
     else if push_bit i 1 AND msk = 0 then isr_register xdev handler dev (Suc i) n msk
     else do {
       _ \<leftarrow> upd_user_irq xdev i (\<lambda>u. u\<lparr>u_handler := handler, u_dev := dev\<rparr>);
       isr_register xdev handler dev (Suc i) n (msk AND NOT (push_bit i 1)) })"

definition xdma_user_isr_register :: "u64 \<Rightarrow> u32 \<Rightarrow> u64 \<Rightarrow> u64 \<Rightarrow> ('a xworld_scheme, int) state" where
  "xdma_user_isr_register dev_hndl msk handler dev = (if dev_hndl = 0 then ret (- EINVAL) else do {
     x \<leftarrow> the_xdev dev_hndl;
     rv \<leftarrow> debug_check_dev_hndl (x_pdev x) dev_hndl;
     if rv < 0 then ret (- EINVAL)
     else do {
       _ \<leftarrow> isr_register dev_hndl handler dev 0 (x_user_max x) msk;
       ret 0 } })"

definition xdma_user_isr_enable :: "env \<Rightarrow> u64 \<Rightarrow> u32 \<Rightarrow> ('a xworld_scheme, int) state" where
  "xdma_user_isr_enable E dev_hndl msk = (if dev_hndl = 0 then ret (- EINVAL) else do {
     x \<leftarrow> the_xdev dev_hndl;
     rv \<leftarrow> debug_check_dev_hndl (x_pdev x) dev_hndl;
     if rv < 0 then ret (- EINVAL)
     else do {
       _ \<leftarrow> upd_xdev dev_hndl (\<lambda>x. x\<lparr>x_mask_irq_user := x_mask_irq_user x OR msk\<rparr>);
       _ \<leftarrow> user_interrupts_enable dev_hndl msk;
       _ \<leftarrow> read_interrupts E dev_hndl;
       ret 0 } })"

definition xdma_user_isr_disable :: "env \<Rightarrow> u64 \<Rightarrow> u32 \<Rightarrow> ('a xworld_scheme, int) state" where
  "xdma_user_isr_disable E dev_hndl msk = (if dev_hndl = 0 then ret (- EINVAL) else do {
     x \<leftarrow> the_xdev dev_hndl;
     rv \<leftarrow> debug_check_dev_hndl (x_pdev x) dev_hndl;
     if rv < 0 then ret (- EINVAL)
     else do {
       _ \<leftarrow> upd_xdev dev_hndl (\<lambda>x. x\<lparr>x_mask_irq_user := x_mask_irq_user x AND NOT msk\<rparr>);
       _ \<leftarrow> user_interrupts_disable dev_hndl msk;
       _ \<leftarrow> read_interrupts E dev_hndl;
       ret 0 } })"

end
