(* ===== verification/XdmaCdev.thy ===== *)
theory XdmaCdev
  imports Threads
begin

text \<open>
  The character devices of the PCIe driver (\<open>xdma_mod.h\<close>, \<open>xdma_cdev.h\<close>, \<open>xdma_cdev.c\<close>): the
  structures, the sanity checks, and opening and closing a node.
\<close>

section \<open>Structures\<close>

record xdma_cdev =
  k_magic :: u64
  k_xpdev :: u64
  k_xdev :: u64
  k_cdevno :: u64
  k_bar :: int
  k_base :: u64
  k_engine :: eng
  k_user_irq :: "nat option"
  k_sys_device :: int

record sha256_dev = xdma_cdev +
  sh_unit :: u64
  sh_hash_buf :: "u32 list"
  sh_submit_cnt :: u32

definition zero_sha256 :: sha256_dev where
  "zero_sha256 = \<lparr>k_magic = 0, k_xpdev = 0, k_xdev = 0, k_cdevno = 0, k_bar = 0, k_base = 0,
     k_engine = NoEngine, k_user_irq = None, k_sys_device = 0,
     sh_unit = 0, sh_hash_buf = replicate 8 0, sh_submit_cnt = 0\<rparr>"

record xdma_pci_dev =
  xp_magic :: u64
  xp_pdev :: u64
  xp_xdev :: u64
  xp_major :: u32
  xp_instance :: int
  xp_user_max :: nat
  xp_c2h_channel_max :: nat
  xp_h2c_channel_max :: nat
  xp_flags :: u32

text \<open>
  An asynchronous request of several buffers. \<open>ca_cb\<close> is the array of its control blocks. The fields
  \<open>wrk_itm\<close> and \<open>next\<close> are not used by the source.
\<close>

record cdev_async_io =
  ca_iocb :: u64
  ca_cb :: u64
  ca_write :: bool
  ca_cancel :: bool
  ca_cmpl_cnt :: int
  ca_req_cnt :: int
  ca_res :: int
  ca_res2 :: int
  ca_err_cnt :: int

definition zero_caio :: cdev_async_io where
  "zero_caio = \<lparr>ca_iocb = 0, ca_cb = 0, ca_write = False, ca_cancel = False, ca_cmpl_cnt = 0, ca_req_cnt = 0,
     ca_res = 0, ca_res2 = 0, ca_err_cnt = 0\<rparr>"

text \<open>
  \<open>&xpdev->sha256[i]\<close>: an address inside the structure. The offsets are the compiler's; what
  matters is that the elements have addresses of their own.
\<close>

definition sha256_addr :: "u64 \<Rightarrow> nat \<Rightarrow> u64" where
  "sha256_addr xpdev i = xpdev + 0x40 + 0x100 * of_nat i"

text \<open>An open file: \<open>private_data\<close>, the position, and whether \<open>O_NONBLOCK\<close> is set.\<close>

record open_file =
  f_private_data :: u64
  f_pos :: int
  f_nonblock :: bool

record hworld = tworld +
  shas :: "u64 \<Rightarrow> sha256_dev"
  xpdevs :: "u64 \<Rightarrow> xdma_pci_dev"
  fl :: open_file
  g_xdma_class :: int
  cdev_cache :: u64
  xpdev_cnt :: int
  drvdata :: "u64 \<Rightarrow> u64"
  caios :: "u64 \<Rightarrow> cdev_async_io"
  iocb_node :: "u64 \<Rightarrow> u64"
  perf_ptr :: "eng \<Rightarrow> u64"

text \<open>
  \<open>iocb_node\<close> is the \<open>private_data\<close> of the file of a \<open>kiocb\<close>, and \<open>perf_ptr\<close> the address of the structure
  of a performance test, whose contents are in the engine.
\<close>

definition upd_sha :: "u64 \<Rightarrow> (sha256_dev \<Rightarrow> sha256_dev) \<Rightarrow> (hworld, unit) state" where
  "upd_sha a f = modify_st (\<lambda>s. s\<lparr>shas := (shas s)(a := f (shas s a))\<rparr>)"

definition upd_xpdev :: "u64 \<Rightarrow> (xdma_pci_dev \<Rightarrow> xdma_pci_dev) \<Rightarrow> (hworld, unit) state" where
  "upd_xpdev a f = modify_st (\<lambda>s. s\<lparr>xpdevs := (xpdevs s)(a := f (xpdevs s a))\<rparr>)"

lemma run_upd_sha [simp]:
  "run_state (upd_sha a f) s = ((), s\<lparr>shas := (shas s)(a := f (shas s a))\<rparr>)"
  by (simp add: upd_sha_def)

lemma run_upd_xpdev [simp]:
  "run_state (upd_xpdev a g) s = ((), s\<lparr>xpdevs := (xpdevs s)(a := g (xpdevs s a))\<rparr>)"
  by (simp add: upd_xpdev_def)

lemma hworld_order [simp]:
  "tr_update a (shas_update b s) = shas_update b (tr_update a s)"
  "tr_update a (fl_update c s) = fl_update c (tr_update a s)"
  "engs_update d (shas_update b s) = shas_update b (engs_update d s)"
  "engs_update d (fl_update c s) = fl_update c (engs_update d s)"
  "shas_update b (fl_update c s) = fl_update c (shas_update b s)"
  "cbs_update e (shas_update b s) = shas_update b (cbs_update e s)"
  "cbs_update e (fl_update c s) = fl_update c (cbs_update e s)"
  "sgts_update f (shas_update b s) = shas_update b (sgts_update f s)"
  "sgts_update f (fl_update c s) = fl_update c (sgts_update f s)"
  by simp_all

abbreviation (input) the_sha :: "u64 \<Rightarrow> (hworld, sha256_dev) state" where
  "the_sha a \<equiv> gets_st (\<lambda>s. shas s a)"

abbreviation (input) the_xpdev :: "u64 \<Rightarrow> (hworld, xdma_pci_dev) state" where
  "the_xpdev a \<equiv> gets_st (\<lambda>s. xpdevs s a)"

abbreviation (input) private_data :: "(hworld, u64) state" where
  "private_data \<equiv> gets_st (\<lambda>s. f_private_data (fl s))"

section \<open>Flags\<close>

datatype xpdev_flag =
    XDF_CDEV_USER | XDF_CDEV_CTRL | XDF_CDEV_XVC | XDF_CDEV_EVENT | XDF_CDEV_SG | XDF_CDEV_BYPASS

fun xpdev_flag_bit :: "xpdev_flag \<Rightarrow> u32" where
  "xpdev_flag_bit XDF_CDEV_USER = 1"
| "xpdev_flag_bit XDF_CDEV_CTRL = 2"
| "xpdev_flag_bit XDF_CDEV_XVC = 4"
| "xpdev_flag_bit XDF_CDEV_EVENT = 8"
| "xpdev_flag_bit XDF_CDEV_SG = 16"
| "xpdev_flag_bit XDF_CDEV_BYPASS = 32"

definition xpdev_flag_set :: "u64 \<Rightarrow> xpdev_flag \<Rightarrow> (hworld, unit) state" where
  "xpdev_flag_set xp f = upd_xpdev xp (\<lambda>p. p\<lparr>xp_flags := xp_flags p OR xpdev_flag_bit f\<rparr>)"

definition xcdev_flag_clear :: "u64 \<Rightarrow> xpdev_flag \<Rightarrow> (hworld, unit) state" where
  "xcdev_flag_clear xp f = upd_xpdev xp (\<lambda>p. p\<lparr>xp_flags := xp_flags p AND NOT (xpdev_flag_bit f)\<rparr>)"

definition xpdev_flag_test :: "u64 \<Rightarrow> xpdev_flag \<Rightarrow> (hworld, u32) state" where
  "xpdev_flag_test xp f = gets_st (\<lambda>s. xp_flags (xpdevs s xp) AND xpdev_flag_bit f)"

section \<open>Checks, open and close\<close>

definition xcdev_check :: "u64 \<Rightarrow> bool \<Rightarrow> (hworld, int) state" where
  "xcdev_check xcdev check_engine = do {
     k \<leftarrow> the_sha xcdev;
     if xcdev = 0 \<or> k_magic k \<noteq> MAGIC_CHAR then ret (- EINVAL)
     else do {
       x \<leftarrow> the_xdev (k_xdev k);
       if k_xdev k = 0 \<or> x_magic x \<noteq> MAGIC_DEVICE then ret (- EINVAL)
       else if check_engine then do {
         g \<leftarrow> the_eng (k_engine k);
         if k_engine k = NoEngine \<or> e_magic g \<noteq> MAGIC_ENGINE then ret (- EINVAL) else ret 0 }
       else ret 0 } }"

text \<open>\<open>xcdev\<close> is the structure that contains the \<open>cdev\<close> of the inode.\<close>

definition char_open :: "u64 \<Rightarrow> (hworld, int) state" where
  "char_open xcdev = do {
     k \<leftarrow> the_sha xcdev;
     if k_magic k \<noteq> MAGIC_CHAR then ret (- EINVAL)
     else do {
       _ \<leftarrow> modify_st (\<lambda>s. s\<lparr>fl := (fl s)\<lparr>f_private_data := xcdev\<rparr>\<rparr>);
       ret 0 } }"

definition char_close :: "(hworld, int) state" where
  "char_close = do {
     xcdev \<leftarrow> private_data;
     k \<leftarrow> the_sha xcdev;
     x \<leftarrow> the_xdev (k_xdev k);
     if xcdev = 0 then ret (- EINVAL)
     else if k_magic k \<noteq> MAGIC_CHAR then ret (- EINVAL)
     else if k_xdev k = 0 then ret (- EINVAL)
     else if x_magic x \<noteq> MAGIC_DEVICE then ret (- EINVAL)
     else ret 0 }"

text \<open>What the check establishes: the structures behind the node are the live ones.\<close>

definition xcdev_live :: "hworld \<Rightarrow> u64 \<Rightarrow> bool" where
  "xcdev_live s a \<longleftrightarrow> a \<noteq> 0 \<and> k_magic (shas s a) = MAGIC_CHAR \<and> k_xdev (shas s a) \<noteq> 0 \<and>
     x_magic (xdevs s (k_xdev (shas s a))) = MAGIC_DEVICE"

definition xcdev_engine_live :: "hworld \<Rightarrow> u64 \<Rightarrow> bool" where
  "xcdev_engine_live s a \<longleftrightarrow> xcdev_live s a \<and> k_engine (shas s a) \<noteq> NoEngine \<and>
     e_magic (engs s (k_engine (shas s a))) = MAGIC_ENGINE"

lemma run_xcdev_check:
  "run_state (xcdev_check a b) s =
     (if (if b then xcdev_engine_live s a else xcdev_live s a) then 0 else - EINVAL, s)"
  by (auto simp: xcdev_check_def xcdev_live_def xcdev_engine_live_def)

end
