(* ===== verification/HshaPcie.thy ===== *)
theory HshaPcie
  imports XdmaCdev
begin

text \<open>
  The PCIe driver of the hash units (\<open>hsha256.h\<close>, \<open>hsha256.c\<close> of \<open>pcie_linux_driver\<close>): the file
  operations, the mapping of user buffers, the completion handler that the DMA library calls
  back, and the creation and destruction of the device nodes.
\<close>

abbreviation (input) SHA256_STATUS_RESET :: u32 where "SHA256_STATUS_RESET \<equiv> 0x00000001"
abbreviation (input) PAGE_SIZE :: u64 where "PAGE_SIZE \<equiv> 0x1000"
abbreviation (input) POLLIN :: int where "POLLIN \<equiv> 1"
abbreviation (input) POLLOUT :: int where "POLLOUT \<equiv> 4"
abbreviation (input) XDMA_MINOR_BASE :: u64 where "XDMA_MINOR_BASE \<equiv> 0"
abbreviation (input) XDMA_MINOR_COUNT :: u64 where "XDMA_MINOR_COUNT \<equiv> 255"

datatype sha256_reg = U_status | U_reg1 | U_reg2 | U_reg3 | U_place nat | U_hash nat

fun sha256_reg_off :: "sha256_reg \<Rightarrow> u64" where
  "sha256_reg_off U_status = 0x00"
| "sha256_reg_off U_reg1 = 0x04"
| "sha256_reg_off U_reg2 = 0x08"
| "sha256_reg_off U_reg3 = 0x0c"
| "sha256_reg_off (U_place i) = 0x10 + 4 * of_nat i"
| "sha256_reg_off (U_hash i) = 0x20 + 4 * of_nat i"

section \<open>Open and release\<close>

text \<open>
  The result of \<open>char_open\<close> is not looked at: when it refused, \<open>private_data\<close> is what it was
  before, null in a new file.
\<close>

definition sha256_open :: "u64 \<Rightarrow> (hworld, int) state" where
  "sha256_open inode = do {
     _ \<leftarrow> char_open inode;
     xcdev \<leftarrow> private_data;
     if xcdev = 0 then do { _ \<leftarrow> emit Oops; ret 0 }
     else do {
       k \<leftarrow> the_sha xcdev;
       g \<leftarrow> the_eng (k_engine k);
       if e_device_open g then ret (- EBUSY)
       else do {
         _ \<leftarrow> iowrite32 SHA256_STATUS_RESET (sh_unit k + sha256_reg_off U_status);
         _ \<leftarrow> upd_eng (k_engine k) (\<lambda>g. g\<lparr>e_device_open := True\<rparr>);
         _ \<leftarrow> upd_sha xcdev (\<lambda>k. k\<lparr>sh_submit_cnt := 0\<rparr>);
         ret 0 } } }"

definition sha256_release :: "(hworld, int) state" where
  "sha256_release = do {
     xcdev \<leftarrow> private_data;
     k \<leftarrow> the_sha xcdev;
     _ \<leftarrow> upd_eng (k_engine k) (\<lambda>g. g\<lparr>e_device_open := False\<rparr>);
     ret 0 }"

section \<open>Read\<close>

text \<open>The loop over the eight digest registers.\<close>

definition read_hash_regs :: "env \<Rightarrow> u64 \<Rightarrow> (hworld, unit) state" where
  "read_hash_regs E xcdev = for_each [0..<8] (\<lambda>i. do {
     k \<leftarrow> the_sha xcdev;
     v \<leftarrow> ioread32 E (sh_unit k + sha256_reg_off (U_hash i));
     upd_sha xcdev (\<lambda>k. k\<lparr>sh_hash_buf := (sh_hash_buf k)[i := v]\<rparr>) })"

text \<open>
  The result and the new \<open>*pos\<close>. The bytes copied are the first ones of the digest, whatever
  the position; a position beyond the digest makes the unsigned difference wrap around, and
  the copy leaves the buffer.
\<close>

definition sha256_read :: "env \<Rightarrow> u64 \<Rightarrow> u64 \<Rightarrow> int \<Rightarrow> (hworld, int \<times> int) state" where
  "sha256_read E buf cnt pos = do {
     xcdev \<leftarrow> private_data;
     let remain = 32 - (of_int pos :: u64);
     let should_copy = (if cnt < remain then cnt else remain);
     if should_copy \<noteq> 0 then do {
       _ \<leftarrow> read_hash_regs E xcdev;
       k \<leftarrow> the_sha xcdev;
       if 32 < should_copy then do { _ \<leftarrow> emit Oops; ret (0, pos) }
       else do {
         left \<leftarrow> copy_to_user E buf (take (unat should_copy) (concat (map le_bytes (sh_hash_buf k))));
         if left \<noteq> 0 then ret (int left, pos)
         else ret (sint should_copy, sint (of_int pos + should_copy :: u64)) } }
     else ret (0, pos) }"

section \<open>Alignment\<close>

text \<open>
  \<open>x & (align - 1)\<close> with the low 32 bits of \<open>x\<close> and an alignment of eight bits, in \<open>int\<close>.
\<close>

definition lsb_of :: "u64 \<Rightarrow> u8 \<Rightarrow> u32" where
  "lsb_of x align = ucast x AND (ucast align - 1)"

definition check_transfer_align :: "eng \<Rightarrow> u64 \<Rightarrow> u64 \<Rightarrow> u64 \<Rightarrow> bool \<Rightarrow> (hworld, int) state" where
  "check_transfer_align e buf cnt pos sync =
     (if e = NoEngine then ret (- EINVAL) else do {
        g \<leftarrow> the_eng e;
        let buf_lsb = lsb_of buf (e_addr_align g);
        let pos_lsb = lsb_of pos (e_addr_align g);
        if e_non_incr_addr g then do {
          let len_lsb = cnt AND (ucast (e_len_granularity g) - 1);
          if buf_lsb \<noteq> 0 then ret (- EINVAL)
          else if pos_lsb \<noteq> 0 \<and> sync then ret (- EINVAL)
          else if len_lsb \<noteq> 0 then ret (- EINVAL)
          else ret 0 }
        else if buf_lsb \<noteq> pos_lsb then ret (- EINVAL)
        else ret 0 })"

section \<open>Mapping the user buffer\<close>

text \<open>The table of the control block at \<open>cb\<close> is known by the same address.\<close>

fun unmap_pages :: "u64 list \<Rightarrow> bool \<Rightarrow> (hworld, unit) state" where
  "unmap_pages [] write = ret ()"
| "unmap_pages (p # ps) write =
     (if p = 0 then ret ()
      else do {
        _ \<leftarrow> when_st (\<not> write) (kproc K_set_page_dirty_lock [p]);
        _ \<leftarrow> kproc K_put_page [p];
        unmap_pages ps write })"

definition char_sgdma_unmap_user_buf :: "u64 \<Rightarrow> bool \<Rightarrow> (hworld, unit) state" where
  "char_sgdma_unmap_user_buf cb write = do {
     _ \<leftarrow> kproc K_sg_free_table [cb];
     _ \<leftarrow> upd_sgt cb (\<lambda>_. \<lparr>g_ents = [], g_dma = [], g_nents = 0, g_orig_nents = 0\<rparr>);
     c \<leftarrow> the_cb cb;
     if c_pages_ptr c = 0 \<or> c_pages_nr c = 0 then ret ()
     else do {
       _ \<leftarrow> unmap_pages (take (unat (c_pages_nr c)) (c_pages c)) write;
       _ \<leftarrow> kproc K_kfree [c_pages_ptr c];
       upd_cb cb (\<lambda>c. c\<lparr>c_pages_ptr := 0, c_pages := []\<rparr>) } }"

definition pages_of :: "u64 \<Rightarrow> u64 \<Rightarrow> u32" where
  "pages_of buf len = ucast (drop_bit 12 (buf + len + PAGE_SIZE - 1 - (buf AND NOT 0xFFF)))"

text \<open>
  The loop that fills the table: one entry (page, bytes, offset) per page, and what is left of
  the length.
\<close>

fun fill_sgl :: "u64 list \<Rightarrow> u64 \<Rightarrow> u64 \<Rightarrow> (u64 \<times> u32 \<times> u32) list \<times> u64" where
  "fill_sgl [] buf len = ([], len)"
| "fill_sgl (p # ps) buf len =
     (let off = (ucast (buf AND 0xFFF) :: u32);
          nbytes = min_u32 (0x1000 - off) (ucast len);
          (ents, rest) = fill_sgl ps (buf + ucast nbytes) (len - ucast nbytes)
      in ((p, nbytes, off) # ents, rest))"

fun adjacent_equal :: "u64 list \<Rightarrow> bool" where
  "adjacent_equal (p # q # ps) \<longleftrightarrow> p = q \<or> adjacent_equal (q # ps)"
| "adjacent_equal _ \<longleftrightarrow> False"

text \<open>The part once all \<open>n\<close> pages are pinned: the test for duplicates and the table.\<close>

definition map_filled :: "u64 \<Rightarrow> bool \<Rightarrow> u32 \<Rightarrow> (hworld, int) state" where
  "map_filled cb write n = do {
     c \<leftarrow> the_cb cb;
     let ps = take (unat n) (c_pages c);
     if adjacent_equal ps then do {
       _ \<leftarrow> upd_cb cb (\<lambda>c. c\<lparr>c_pages_nr := n\<rparr>);
       _ \<leftarrow> char_sgdma_unmap_user_buf cb write;
       ret (- EFAULT) }
     else do {
       let (ents, rest) = fill_sgl ps (c_buf c) (c_len c);
       _ \<leftarrow> for_each ps (\<lambda>p. kproc K_flush_dcache_page [p]);
       _ \<leftarrow> upd_sgt cb (\<lambda>g. g\<lparr>g_ents := ents\<rparr>);
       if rest \<noteq> 0 then ret (- EINVAL)
       else do {
         _ \<leftarrow> upd_cb cb (\<lambda>c. c\<lparr>c_pages_nr := n\<rparr>);
         ret 0 } } }"

text \<open>The part that pins them; \<open>rv\<close> is the number of pages the kernel pinned.\<close>

definition map_pinned :: "env \<Rightarrow> u64 \<Rightarrow> bool \<Rightarrow> u32 \<Rightarrow> (hworld, int) state" where
  "map_pinned E cb write n = do {
     c \<leftarrow> the_cb cb;
     h \<leftarrow> gets_st tr;
     rv \<leftarrow> kcall E K_get_user_pages_fast [c_buf c, ucast n];
     let got = take (nat rv) (pinned E h (c_buf c) (unat n));
     _ \<leftarrow> upd_cb cb (\<lambda>c. c\<lparr>c_pages := got @ drop (length got) (c_pages c)\<rparr>);
     if rv < 0 then do { _ \<leftarrow> char_sgdma_unmap_user_buf cb write; ret rv }
     else if rv \<noteq> uint n then do {
       _ \<leftarrow> upd_cb cb (\<lambda>c. c\<lparr>c_pages_nr := of_int rv\<rparr>);
       _ \<leftarrow> char_sgdma_unmap_user_buf cb write;
       ret (- EFAULT) }
     else map_filled cb write n }"

definition char_sgdma_map_user_buf_to_sgl :: "env \<Rightarrow> u64 \<Rightarrow> bool \<Rightarrow> (hworld, int) state" where
  "char_sgdma_map_user_buf_to_sgl E cb write = do {
     c \<leftarrow> the_cb cb;
     let n = pages_of (c_buf c) (c_len c);
     if n = 0 then ret (- EINVAL)
     else do {
       oom \<leftarrow> kcall E K_sg_alloc_table [cb, ucast n];
       if oom \<noteq> 0 then ret (- ENOMEM)
       else do {
         _ \<leftarrow> upd_sgt cb (\<lambda>_. \<lparr>g_ents = replicate (unat n) (0, 0, 0), g_dma = [],
                g_nents = unat n, g_orig_nents = unat n\<rparr>);
         p \<leftarrow> kptr E K_kzalloc [ucast n];
         _ \<leftarrow> upd_cb cb (\<lambda>c. c\<lparr>c_pages_ptr := p, c_pages := replicate (unat n) 0\<rparr>);
         if p = 0 then do { _ \<leftarrow> char_sgdma_unmap_user_buf cb write; ret (- ENOMEM) }
         else map_pinned E cb write n } } }"

section \<open>Transfers\<close>

text \<open>The completion handler: \<open>cb->io_done\<close> of the asynchronous transfers.\<close>

definition transfer_io_handler :: "env \<Rightarrow> u64 \<Rightarrow> int \<Rightarrow> (hworld, unit) state" where
  "transfer_io_handler E cb err = do {
     c \<leftarrow> the_cb cb;
     let xcdev = c_private c;
     rv \<leftarrow> xcdev_check xcdev True;
     if rv < 0 then ret ()
     else do {
       k \<leftarrow> the_sha xcdev;
       g \<leftarrow> the_eng (k_engine k);
       _ \<leftarrow> (if err = 0
              then do { _ \<leftarrow> xdma_xfer_completion E cb (k_xdev k) (e_channel g) (c_write c) cb False; ret () }
              else ret ());
       _ \<leftarrow> lock_acquire LkSha [unat xcdev];
       _ \<leftarrow> upd_sha xcdev (\<lambda>k. k\<lparr>sh_submit_cnt := sh_submit_cnt k - 1\<rparr>);
       _ \<leftarrow> wake_up WqSha [unat xcdev];
       _ \<leftarrow> lock_release LkSha [unat xcdev];
       _ \<leftarrow> char_sgdma_unmap_user_buf cb (c_write c);
       kproc K_kfree [cb] } }"

definition zero_cb :: xdma_io_cb where
  "zero_cb = \<lparr>c_buf = 0, c_len = 0, c_private = 0, c_pages_nr = 0, c_sgt = 0, c_pages = [],
     c_pages_ptr = 0, c_count = 0, c_ep_addr = 0, c_req = 0, c_write = False, c_io_done = False\<rparr>"

text \<open>The control block of a blocking transfer is on the stack, at this address.\<close>

abbreviation (input) stack_cb :: u64 where "stack_cb \<equiv> 0xFFFFC90000000000"

definition transfer_blocking ::
  "env \<Rightarrow> u64 \<Rightarrow> nat \<Rightarrow> u64 \<Rightarrow> u64 \<Rightarrow> u64 \<Rightarrow> bool \<Rightarrow> (hworld, int) state" where
  "transfer_blocking E xdev channel buf cnt pos write = do {
     _ \<leftarrow> upd_cb stack_cb (\<lambda>_. zero_cb\<lparr>c_buf := buf, c_len := cnt, c_ep_addr := pos, c_write := write\<rparr>);
     rv \<leftarrow> char_sgdma_map_user_buf_to_sgl E stack_cb write;
     if rv < 0 then ret rv
     else do {
       h2c \<leftarrow> param h2c_timeout;
       c2h \<leftarrow> param c2h_timeout;
       res \<leftarrow> xdma_xfer_submit E (transfer_io_handler E) xdev channel write pos stack_cb False
                (sint ((if write then h2c else c2h) * 1000));
       _ \<leftarrow> char_sgdma_unmap_user_buf stack_cb write;
       ret res } }"

definition transfer_nonblocking ::
  "env \<Rightarrow> u64 \<Rightarrow> u64 \<Rightarrow> nat \<Rightarrow> u64 \<Rightarrow> u64 \<Rightarrow> u64 \<Rightarrow> bool \<Rightarrow> (hworld, int) state" where
  "transfer_nonblocking E xcdev xdev channel buf cnt pos write = do {
     cb \<leftarrow> kptr E K_kzalloc [0];
     if cb = 0 then do { _ \<leftarrow> emit Oops; ret 0 }
     else do {
       _ \<leftarrow> upd_cb cb (\<lambda>_. zero_cb\<lparr>c_buf := buf, c_len := cnt, c_ep_addr := pos, c_write := write,
              c_private := xcdev, c_io_done := True\<rparr>);
       rv \<leftarrow> char_sgdma_map_user_buf_to_sgl E cb write;
       if rv < 0 then do { _ \<leftarrow> kproc K_kfree [cb]; ret rv }
       else do {
         rv \<leftarrow> xdma_xfer_submit_nowait E (transfer_io_handler E) cb xdev channel write pos cb False;
         if rv \<noteq> - EIOCBQUEUED then ret rv
         else do {
           _ \<leftarrow> lock_acquire LkSha [unat xcdev];
           _ \<leftarrow> upd_sha xcdev (\<lambda>k. k\<lparr>sh_submit_cnt := sh_submit_cnt k + 1\<rparr>);
           _ \<leftarrow> lock_release LkSha [unat xcdev];
           ret (sint cnt) } } } }"

definition char_sgdma_read_write ::
  "env \<Rightarrow> u64 \<Rightarrow> u64 \<Rightarrow> u64 \<Rightarrow> bool \<Rightarrow> bool \<Rightarrow> (hworld, int) state" where
  "char_sgdma_read_write E buf cnt pos write block = do {
     xcdev \<leftarrow> private_data;
     rv \<leftarrow> xcdev_check xcdev True;
     if rv < 0 then ret rv
     else do {
       k \<leftarrow> the_sha xcdev;
       g \<leftarrow> the_eng (k_engine k);
       if write \<and> e_dir g \<noteq> DMA_TO_DEVICE \<or> \<not> write \<and> e_dir g \<noteq> DMA_FROM_DEVICE then ret (- EINVAL)
       else do {
         rv \<leftarrow> check_transfer_align (k_engine k) buf cnt pos True;
         if rv \<noteq> 0 then ret rv
         else if block then transfer_blocking E (k_xdev k) (e_channel g) buf cnt pos write
         else transfer_nonblocking E xcdev (k_xdev k) (e_channel g) buf cnt pos write } } }"

definition sha256_write :: "env \<Rightarrow> u64 \<Rightarrow> u64 \<Rightarrow> u64 \<Rightarrow> (hworld, int) state" where
  "sha256_write E buf cnt pos = do {
     nonblock \<leftarrow> gets_st (\<lambda>s. f_nonblock (fl s));
     char_sgdma_read_write E buf cnt pos True (\<not> nonblock) }"

section \<open>Seek, flush, poll\<close>

definition sha256_llseek :: "int \<Rightarrow> whence \<Rightarrow> (hworld, int) state" where
  "sha256_llseek off wherece = do {
     pos \<leftarrow> gets_st (\<lambda>s. f_pos (fl s));
     case wherece of SEEK_OTHER \<Rightarrow> ret (- EINVAL) | _ \<Rightarrow> do {
       let newpos = (case wherece of SEEK_SET \<Rightarrow> off
                     | SEEK_CUR \<Rightarrow> sint (of_int pos + of_int off :: u64)
                     | _ \<Rightarrow> 32);
       if newpos < 0 \<or> 32 < newpos then ret (- EINVAL)
       else do {
         _ \<leftarrow> modify_st (\<lambda>s. s\<lparr>fl := (fl s)\<lparr>f_pos := newpos\<rparr>\<rparr>);
         ret newpos } } }"

definition sha256_flush :: "(hworld, int) state" where
  "sha256_flush = do {
     xcdev \<leftarrow> private_data;
     k \<leftarrow> the_sha xcdev;
     _ \<leftarrow> iowrite32 SHA256_STATUS_RESET (sh_unit k + sha256_reg_off U_status);
     ret 0 }"

definition sha256_poll :: "(hworld, int) state" where
  "sha256_poll = do {
     xcdev \<leftarrow> private_data;
     _ \<leftarrow> lock_acquire LkSha [unat xcdev];
     k \<leftarrow> the_sha xcdev;
     let msk = (if sh_submit_cnt k = 0 then POLLOUT + POLLIN else 0);
     _ \<leftarrow> lock_release LkSha [unat xcdev];
     ret msk }"

section \<open>Creating and destroying the nodes\<close>

abbreviation (input) MKDEV :: "u32 \<Rightarrow> u64 \<Rightarrow> u64" where
  "MKDEV major minor \<equiv> push_bit 20 (ucast major) OR minor"

definition create_node :: "env \<Rightarrow> u64 \<Rightarrow> int \<Rightarrow> eng \<Rightarrow> u64 \<Rightarrow> u64 \<Rightarrow> int \<Rightarrow> (hworld, int) state" where
  "create_node E sha bar e xpdev xdev cls = do {
     g \<leftarrow> the_eng e;
     p \<leftarrow> the_xpdev xpdev;
     d \<leftarrow> the_xdev xdev;
     _ \<leftarrow> upd_sha sha (\<lambda>k. k\<lparr>k_magic := MAGIC_CHAR, k_xpdev := xpdev, k_xdev := xdev,
            k_cdevno := MKDEV (xp_major p) (64 + of_nat (e_channel g)), k_bar := bar, k_engine := e\<rparr>);
     _ \<leftarrow> kproc K_cdev_init [sha];
     let cdevno = MKDEV (xp_major p) (64 + of_nat (e_channel g));
     rv \<leftarrow> kcall E K_cdev_add [sha, cdevno, 1];
     if rv < 0 then do {
       _ \<leftarrow> kproc K_unregister_chrdev_region [cdevno, XDMA_MINOR_COUNT];
       ret rv }
     else if cls \<noteq> 0 then do {
       device \<leftarrow> kcall E K_device_create [of_int cls, x_pdev d, cdevno];
       _ \<leftarrow> upd_sha sha (\<lambda>k. k\<lparr>k_sys_device := device\<rparr>);
       if device = 0 then do {
         _ \<leftarrow> kproc K_cdev_del [sha];
         _ \<leftarrow> kproc K_unregister_chrdev_region [cdevno, XDMA_MINOR_COUNT];
         ret rv }
       else ret 0 }
     else ret 0 }"

text \<open>
  \<open>major\<close> is the major number the kernel chooses. The byte \<open>0x55\<close> is stored at the start of
  BAR 0.
\<close>

definition sha256_create :: "env \<Rightarrow> u32 \<Rightarrow> u64 \<Rightarrow> u64 \<Rightarrow> int \<Rightarrow> eng \<Rightarrow> int \<Rightarrow> (hworld, int) state" where
  "sha256_create E major xpdev sha bar e cls = do {
     p \<leftarrow> the_xpdev xpdev;
     x \<leftarrow> the_xdev (xp_xdev p);
     g \<leftarrow> the_eng e;
     let un = x_bar x (nat (x_user_bar_idx x)) + 0x10000 * (of_nat (e_channel g) + 1);
     _ \<leftarrow> upd_sha sha (\<lambda>k. k\<lparr>sh_unit := un\<rparr>);
     _ \<leftarrow> ioread32 E (un + sha256_reg_off (U_hash 0));
     _ \<leftarrow> emit (MmioW (x_bar x 0) 0x55);
     if xp_major p = 0 then do {
       rv \<leftarrow> kcall E K_alloc_chrdev_region [XDMA_MINOR_BASE, XDMA_MINOR_COUNT];
       if rv \<noteq> 0 then ret rv
       else do {
         _ \<leftarrow> upd_xpdev xpdev (\<lambda>p. p\<lparr>xp_major := major\<rparr>);
         create_node E sha bar e xpdev (xp_xdev p) cls } }
     else create_node E sha bar e xpdev (xp_xdev p) cls }"

definition sha256_destory :: "u64 \<Rightarrow> int \<Rightarrow> (hworld, int) state" where
  "sha256_destory sha cls = do {
     k \<leftarrow> the_sha sha;
     if sha = 0 then ret (- EINVAL)
     else if k_magic k \<noteq> MAGIC_CHAR then ret (- EINVAL)
     else if k_xdev k = 0 then ret (- EINVAL)
     else do {
       _ \<leftarrow> when_st (cls \<noteq> 0 \<and> k_sys_device k \<noteq> 0) (kproc K_device_destroy [of_int cls, k_cdevno k]);
       _ \<leftarrow> kproc K_cdev_del [sha];
       ret 0 } }"

section \<open>The mapping covers the buffer\<close>

text \<open>The bytes a scatter-gather table names, each as a page and an offset in it.\<close>

definition sg_bytes :: "(u64 \<times> u32 \<times> u32) list \<Rightarrow> (u64 \<times> nat) list" where
  "sg_bytes ents = concat (map (\<lambda>(p, n, off). map (\<lambda>j. (p, unat off + j)) [0..<unat n]) ents)"

lemma sg_bytes_simps [simp]:
  "sg_bytes [] = []"
  "sg_bytes ((p, n, off) # ents) = map (\<lambda>j. (p, unat off + j)) [0..<unat n] @ sg_bytes ents"
  by (simp_all add: sg_bytes_def)

lemma page_offset: "unat (ucast (buf AND 0xFFF) :: u32) = unat (buf :: u64) mod 4096"
proof -
  have "buf AND 0xFFF = take_bit 12 buf"
    by (simp add: take_bit_eq_mask mask_eq_exp_minus_1)
  then have "unat (buf AND 0xFFF) = unat buf mod 4096"
    by (simp add: unsigned_take_bit_eq take_bit_eq_mod unat_mod_distrib)
  moreover have "unat (ucast (buf AND 0xFFF) :: u32) = unat (buf AND 0xFFF) mod 2 ^ 32"
    by (simp add: unsigned_ucast_eq take_bit_eq_mod)
  moreover have "unat buf mod 4096 mod 2 ^ 32 = unat buf mod 4096"
    by (rule mod_less) (simp add: order.strict_trans1 [OF _ mod_less_divisor])
  ultimately show ?thesis by simp
qed

text \<open>One page of the loop: how far it gets, and what is left.\<close>

definition page_take :: "u64 \<Rightarrow> u64 \<Rightarrow> u32" where
  "page_take buf len = min_u32 (0x1000 - ucast (buf AND 0xFFF)) (ucast len)"

lemma page_take_unat:
  assumes "unat len < 2 ^ 32" "unat buf + unat len < 2 ^ 64"
  shows "unat (page_take buf len) = min (4096 - unat buf mod 4096) (unat len)"
    and "unat (buf + ucast (page_take buf len)) = unat buf + unat (page_take buf len)"
    and "unat (len - ucast (page_take buf len)) = unat len - unat (page_take buf len)"
proof -
  have "unat (0x1000 - ucast (buf AND 0xFFF) :: u32) = 4096 - unat buf mod 4096"
    using mod_less_divisor [of 4096 "unat buf"] page_offset [of buf] by (subst unat_sub) (simp_all add: word_le_nat_alt)
  moreover have "unat (ucast len :: u32) = unat len"
    using assms(1) by (simp add: unsigned_ucast_eq take_bit_eq_mod)
  ultimately show nb: "unat (page_take buf len) = min (4096 - unat buf mod 4096) (unat len)"
    by (simp only: page_take_def unat_min_u32)
  have wide: "unat (ucast (page_take buf len) :: u64) = unat (page_take buf len)"
    using u32_bound [of "page_take buf len"] by (simp add: unsigned_ucast_eq take_bit_eq_mod)
  show "unat (buf + ucast (page_take buf len)) = unat buf + unat (page_take buf len)"
    using assms(2) nb wide by (simp add: unat_word_ariths)
  show "unat (len - ucast (page_take buf len)) = unat len - unat (page_take buf len)"
    using nb wide by (subst unat_sub) (simp_all add: word_le_nat_alt)
qed

lemma fill_sgl_step:
  assumes "len \<noteq> 0"
  shows "fill_sgl (p # ps) buf len =
    ((p, page_take buf len, ucast (buf AND 0xFFF)) # fst (fill_sgl ps (buf + ucast (page_take buf len)) (len - ucast (page_take buf len))),
     snd (fill_sgl ps (buf + ucast (page_take buf len)) (len - ucast (page_take buf len))))"
  by (simp add: page_take_def Let_def split: prod.split)

lemma page_next: "(b + (4096 - b mod 4096)) mod 4096 = (0 :: nat)"
proof -
  define r where "r = b mod 4096"
  obtain q where "b = 4096 * q + r"
    using mult_div_mod_eq [of 4096 b] unfolding r_def by metis
  moreover have "r < 4096"
    by (simp add: r_def)
  ultimately have "b + (4096 - r) = 4096 * (q + 1)"
    by simp
  then show ?thesis
    by (simp add: r_def)
qed

lemma pages_step:
  assumes "Suc n = (k + l + 4095) div 4096" "k < (4096 :: nat)"
  shows "n = (if l \<le> 4096 - k then 0 else (l - (4096 - k) + 4095) div 4096)"
proof (cases "l \<le> 4096 - k")
  case True
  then have "(k + l + 4095) div 4096 < 2"
    using assms(2) by (simp add: less_mult_imp_div_less)
  then show ?thesis
    using True assms(1) by simp
next
  case False
  then have "k + l + 4095 = 4096 + (l - (4096 - k) + 4095)"
    using assms(2) by simp
  then show ?thesis
    using False assms(1) by simp
qed

lemma page_split:
  assumes "k < 4096" "4096 - k < l"
  shows "map (\<lambda>j. (p, k + j)) [0..<4096 - k] @ map (\<lambda>i. (ps ! (i div 4096), i mod 4096)) [0..<l - (4096 - k)] =
    map (\<lambda>i. ((p # ps) ! ((k + i) div 4096), (k + i) mod 4096)) [0..<l]"
proof -
  define F where "F = (\<lambda>i. ((p # ps) ! ((k + i) div 4096), (k + i) mod 4096))"
  have "map (\<lambda>j. (p, k + j)) [0..<4096 - k] = map F [0..<4096 - k]"
    by (simp add: F_def)
  moreover have "map (\<lambda>i. (ps ! (i div 4096), i mod 4096)) [0..<l - (4096 - k)] = map (\<lambda>i. F (4096 - k + i)) [0..<l - (4096 - k)]"
  proof (rule map_cong [OF refl])
    fix i
    have "k + (4096 - k + i) = i + 4096"
      using assms(1) by simp
    then show "(ps ! (i div 4096), i mod 4096) = F (4096 - k + i)"
      unfolding F_def by (simp only: div_add_self2) simp
  qed
  ultimately show ?thesis
    unfolding F_def [symmetric] using assms(2) by (simp only:) (rule map_upt_split, simp)
qed

lemma fill_sgl_bytes:
  assumes "unat len < 2 ^ 32" "unat buf + unat len < 2 ^ 64"
    and "length ps = (unat buf mod 4096 + unat len + 4095) div 4096" "len = 0 \<longrightarrow> ps = []"
  shows "snd (fill_sgl ps buf len) = 0 \<and>
    sg_bytes (fst (fill_sgl ps buf len)) =
      map (\<lambda>i. (ps ! ((unat buf mod 4096 + i) div 4096), (unat buf mod 4096 + i) mod 4096)) [0..<unat len]"
  using assms
proof (induction ps arbitrary: buf len)
  case (Nil buf len)
  then have "unat len = 0" by auto
  then show ?case by (simp add: unat_eq_zero)
next
  case (Cons p ps buf len)
  let ?k = "unat buf mod 4096" and ?n = "page_take buf len"
  let ?buf = "buf + ucast ?n" and ?len = "len - ucast ?n"
  note nb = page_take_unat [OF Cons.prems(1,2)]
  have fill: "fill_sgl (p # ps) buf len = ((p, ?n, ucast (buf AND 0xFFF)) # fst (fill_sgl ps ?buf ?len), snd (fill_sgl ps ?buf ?len))"
    using Cons.prems(4) by (intro fill_sgl_step) auto
  have k: "?k < 4096"
    by simp
  have pages: "length ps = (if unat len \<le> 4096 - ?k then 0 else (unat len - (4096 - ?k) + 4095) div 4096)"
    using Cons.prems(3) by (intro pages_step k) simp
  show ?case
  proof (cases "unat len \<le> 4096 - ?k")
    case True
    then have "?len = 0"
      using nb by (simp add: unat_eq_zero [symmetric])
    then show ?thesis
      using True k nb pages page_offset [of buf] fill by simp
  next
    case False
    then have n: "unat ?n = 4096 - ?k"
      using nb(1) by simp
    have mod0: "unat ?buf mod 4096 = 0"
      unfolding nb(2) n by (rule page_next)
    have rest: "unat ?len = unat len - (4096 - ?k)" "?len \<noteq> 0"
      using nb(3) n False by (simp_all add: unat_eq_zero [symmetric])
    have "unat ?len < 2 ^ 32" "unat ?buf + unat ?len < 2 ^ 64"
      using Cons.prems(1,2) nb by linarith+
    moreover have "length ps = (unat ?buf mod 4096 + unat ?len + 4095) div 4096"
      unfolding mod0 rest(1) using False pages by simp
    ultimately have "snd (fill_sgl ps ?buf ?len) = 0"
      "sg_bytes (fst (fill_sgl ps ?buf ?len)) = map (\<lambda>i. (ps ! (i div 4096), i mod 4096)) [0..<unat len - (4096 - ?k)]"
      using Cons.IH [of ?len ?buf] rest(2) unfolding mod0 rest(1) add_0 by blast+
    then show ?thesis
      unfolding fill fst_conv snd_conv sg_bytes_simps page_offset n using page_split [OF k, of "unat len" p ps] False by simp
  qed
qed

lemma unat_pages_of:
  assumes "len \<noteq> 0" "unat len < 2 ^ 32" "unat buf + unat len + 4096 \<le> 2 ^ 64"
  shows "unat (pages_of buf len) = (unat buf mod 4096 + unat len + 4095) div 4096"
proof -
  have low: "unat (buf AND 0xFFF) = unat buf mod 4096"
  proof -
    have "buf AND 0xFFF = take_bit 12 buf"
      by (simp add: take_bit_eq_mask mask_eq_exp_minus_1)
    then show ?thesis
      by (simp add: unsigned_take_bit_eq take_bit_eq_mod unat_mod_distrib)
  qed
  have "buf AND NOT 0xFFF = buf - (buf AND 0xFFF)"
  proof -
    have "buf - (buf AND 0xFFF) = buf AND NOT (buf AND 0xFFF)"
      by (rule disjunctive_diff_eq_and_not) (simp add: bit_eq_iff bit_simps)
    also have "\<dots> = buf AND NOT 0xFFF"
      by (rule bit_eqI) (auto simp: bit_simps)
    finally show ?thesis ..
  qed
  then have e: "buf + len + PAGE_SIZE - 1 - (buf AND NOT 0xFFF) = (buf AND 0xFFF) + len + 4095"
    by simp
  have "unat buf mod 4096 \<le> unat buf"
    by simp
  then have u: "unat ((buf AND 0xFFF) + len + 4095) = unat buf mod 4096 + unat len + 4095"
    using low assms(3) by (simp add: unat_word_ariths)
  have "(unat buf mod 4096 + unat len + 4095) div 4096 < 2 ^ 32"
    using assms(2) mod_less_divisor [of 4096 "unat buf"] by (simp add: less_mult_imp_div_less)
  then show ?thesis
    unfolding pages_of_def e
    by (simp add: unsigned_ucast_eq u take_bit_eq_mod drop_bit_eq_div unat_div_distrib)
qed

end
