(* ===== verification/HshaZynq.thy ===== *)
theory HshaZynq
  imports Resources
begin

text \<open>
  The Zynq platform driver of the hash unit (\<open>bench/zynq_linux_driver\<close>: \<open>hsha256.h\<close>,
  \<open>hsha256.c\<close>, \<open>hsha256_ops.c\<close>, \<open>hsha256_proc.c\<close>). The unit is an AXI-Lite register file
  whose input is fed by a DMA channel. A machine with 32-bit pointers: \<open>size_t\<close> is a 32-bit
  word; kernel addresses are kept in the 64-bit words of the environment.

  A call that would sleep for ever has the result \<open>None\<close>.
\<close>

section \<open>The driver's state\<close>

abbreviation (input) SHA256_STATUS_RESET :: u32 where "SHA256_STATUS_RESET \<equiv> 0x00000001"
abbreviation (input) SHA256_STATUS_BUSY :: u32 where "SHA256_STATUS_BUSY \<equiv> 0x00000100"
abbreviation (input) ZYNQ_DMA_BUF_SIZE :: u32 where "ZYNQ_DMA_BUF_SIZE \<equiv> 0x1000 * 0x100"

datatype lite_reg = L_status | L_reg1 | L_reg2 | L_reg3 | L_place nat | L_hash nat

fun lite_reg_off :: "lite_reg \<Rightarrow> u64" where
  "lite_reg_off L_status = 0x00"
| "lite_reg_off L_reg1 = 0x04"
| "lite_reg_off L_reg2 = 0x08"
| "lite_reg_off L_reg3 = 0x0c"
| "lite_reg_off (L_place i) = 0x10 + 4 * of_nat i"
| "lite_reg_off (L_hash i) = 0x20 + 4 * of_nat i"

text \<open>\<open>struct sha256_driver_data\<close>; \<open>z_tx_mem\<close> is the memory that \<open>tx_buf\<close> points to.\<close>

record sha256_driver_data =
  z_dev :: u64
  z_cls :: u64
  z_device :: int
  z_chan :: u64
  z_tx_buf :: u64
  z_tx_addr :: u64
  z_dev_name :: string
  z_inited :: int
  z_busy :: int
  z_unit :: u64
  z_writen :: u32

record zworld = kworld +
  zd :: sha256_driver_data
  z_tx_mem :: "u8 list"
  z_private_data :: u64
  z_f_pos :: int
  z_nonblock :: bool

lemma zworld_order [simp]:
  "tr_update a (zd_update b s) = zd_update b (tr_update a s)"
  "tr_update a (z_tx_mem_update c s) = z_tx_mem_update c (tr_update a s)"
  "zd_update b (z_tx_mem_update c s) = z_tx_mem_update c (zd_update b s)"
  by simp_all

definition upd_zd :: "(sha256_driver_data \<Rightarrow> sha256_driver_data) \<Rightarrow> (zworld, unit) state" where
  "upd_zd f = modify_st (\<lambda>s. s\<lparr>zd := f (zd s)\<rparr>)"

lemma run_upd_zd [simp]: "run_state (upd_zd f) s = ((), s\<lparr>zd := f (zd s)\<rparr>)"
  by (simp add: upd_zd_def)

abbreviation (input) the_zd :: "(zworld, sha256_driver_data) state" where
  "the_zd \<equiv> gets_st zd"

text \<open>\<open>SHA256_IS_BUSY\<close>: a load of the status register.\<close>

definition sha256_is_busy :: "env \<Rightarrow> (zworld, bool) state" where
  "sha256_is_busy E = do {
     d \<leftarrow> the_zd;
     v \<leftarrow> ioread32 E (z_unit d + lite_reg_off L_status);
     ret (v AND SHA256_STATUS_BUSY \<noteq> 0) }"

section \<open>Probe and remove\<close>

text \<open>The error labels of \<open>sha256_probe\<close>: each falls through to the one before it.\<close>

definition err_request_dma :: "u64 \<Rightarrow> (zworld, unit) state" where
  "err_request_dma data = kproc K_kfree [data]"

definition err_alloc_dev :: "u64 \<Rightarrow> (zworld, unit) state" where
  "err_alloc_dev data = do {
     d \<leftarrow> the_zd;
     _ \<leftarrow> kproc K_dma_release_channel [z_chan d];
     err_request_dma data }"

definition err_cdev_add :: "u64 \<Rightarrow> u64 \<Rightarrow> (zworld, unit) state" where
  "err_cdev_add data dev = do {
     _ \<leftarrow> kproc K_unregister_chrdev_region [dev, 1];
     err_alloc_dev data }"

definition err_create_dev :: "u64 \<Rightarrow> u64 \<Rightarrow> (zworld, unit) state" where
  "err_create_dev data dev = do {
     d \<leftarrow> the_zd;
     _ \<leftarrow> kproc K_class_destroy [z_cls d];
     _ \<leftarrow> kproc K_cdev_del [data];
     err_cdev_add data dev }"

definition err_request_mem :: "u64 \<Rightarrow> u64 \<Rightarrow> (zworld, unit) state" where
  "err_request_mem data dev = do {
     d \<leftarrow> the_zd;
     _ \<leftarrow> kproc K_device_destroy [z_cls d, dev];
     err_create_dev data dev }"

definition err_ioremap :: "u64 \<Rightarrow> u64 \<Rightarrow> u32 \<Rightarrow> u32 \<Rightarrow> (zworld, unit) state" where
  "err_ioremap data dev start len = do {
     _ \<leftarrow> kproc K_release_mem_region [ucast start, ucast len];
     err_request_mem data dev }"

text \<open>
  \<open>start\<close> and \<open>len\<close> are the fields of the platform resource; the device number that
  \<open>alloc_chrdev_region\<close> chooses is \<open>dev\<close>.
\<close>

definition zynq_probe :: "env \<Rightarrow> u64 \<Rightarrow> u32 \<Rightarrow> u32 \<Rightarrow> u64 \<Rightarrow> (zworld, int) state" where
  "zynq_probe E pdev start len dev = do {
     res \<leftarrow> kptr E K_platform_get_resource [pdev, 0];
     if res = 0 then ret (- ENOMEM)
     else do {
       data \<leftarrow> kptr E K_kzalloc [0];
       if data = 0 then ret (- ENOMEM)
       else do {
         _ \<leftarrow> modify_st (\<lambda>s. s\<lparr>z_private_data := data\<rparr>);
         _ \<leftarrow> upd_zd (\<lambda>d. d\<lparr>z_inited := 0, z_dev_name := ''sha256@'' @ hex8 start\<rparr>);
         chan \<leftarrow> kptr E K_dma_request_chan [pdev];
         if chan = 0 then do { _ \<leftarrow> err_request_dma data; ret (- EFAULT) }
         else do {
           _ \<leftarrow> upd_zd (\<lambda>d. d\<lparr>z_chan := chan\<rparr>);
           rv \<leftarrow> kcall E K_alloc_chrdev_region [0, 1];
           if rv < 0 then do { _ \<leftarrow> err_alloc_dev data; ret rv }
           else do {
             _ \<leftarrow> kproc K_cdev_init [data];
             rv \<leftarrow> kcall E K_cdev_add [data, dev, 1];
             if rv \<noteq> 0 then do { _ \<leftarrow> err_cdev_add data dev; ret rv }
             else do {
               _ \<leftarrow> upd_zd (\<lambda>d. d\<lparr>z_dev := dev\<rparr>);
               cls \<leftarrow> kptr E K_class_create [];
               _ \<leftarrow> upd_zd (\<lambda>d. d\<lparr>z_cls := cls\<rparr>);
               device \<leftarrow> kcall E K_device_create [cls, pdev, dev];
               _ \<leftarrow> upd_zd (\<lambda>d. d\<lparr>z_device := device\<rparr>);
               if is_err device then do { _ \<leftarrow> err_create_dev data dev; ret (- EFAULT) }
               else do {
                 region \<leftarrow> kptr E K_request_mem_region [ucast start, ucast len];
                 if region = 0 then do { _ \<leftarrow> err_request_mem data dev; ret (- EBUSY) }
                 else do {
                   un \<leftarrow> kptr E K_ioremap [ucast start, ucast len];
                   _ \<leftarrow> upd_zd (\<lambda>d. d\<lparr>z_unit := un\<rparr>);
                   if un = 0 then do { _ \<leftarrow> err_ioremap data dev start len; ret (- EBUSY) }
                   else ret 0 } } } } } } } }"

definition zynq_remove :: "env \<Rightarrow> u64 \<Rightarrow> u32 \<Rightarrow> u32 \<Rightarrow> (zworld, int) state" where
  "zynq_remove E pdev start len = do {
     d \<leftarrow> the_zd;
     data \<leftarrow> gets_st z_private_data;
     _ \<leftarrow> kptr E K_platform_get_resource [pdev, 0];
     let dev = z_dev d;
     _ \<leftarrow> kproc K_iounmap [z_unit d];
     _ \<leftarrow> kproc K_release_mem_region [ucast start, ucast len];
     _ \<leftarrow> kproc K_device_destroy [z_cls d, dev];
     _ \<leftarrow> kproc K_class_destroy [z_cls d];
     _ \<leftarrow> kproc K_cdev_del [data];
     _ \<leftarrow> kproc K_unregister_chrdev_region [dev, 1];
     _ \<leftarrow> kproc K_dma_release_channel [z_chan d];
     _ \<leftarrow> kproc K_kfree [data];
     ret 0 }"

section \<open>Open, release, seek\<close>

text \<open>The buffer of \<open>dma_alloc_coherent\<close> is used without a check for \<open>NULL\<close>.\<close>

definition zynq_open :: "env \<Rightarrow> (zworld, int) state" where
  "zynq_open E = do {
     d \<leftarrow> the_zd;
     if z_inited d \<noteq> 0 then ret (- EBUSY)
     else do {
       buf \<leftarrow> kptr E K_dma_alloc_coherent [ucast ZYNQ_DMA_BUF_SIZE];
       h \<leftarrow> gets_st tr;
       _ \<leftarrow> upd_zd (\<lambda>d. d\<lparr>z_tx_buf := buf, z_tx_addr := dma_bus E h buf\<rparr>);
       _ \<leftarrow> iowrite32 SHA256_STATUS_RESET (z_unit d + lite_reg_off L_status);
       _ \<leftarrow> upd_zd (\<lambda>d. d\<lparr>z_inited := 1, z_writen := 0\<rparr>);
       ret 0 } }"

definition zynq_release :: "(zworld, int) state" where
  "zynq_release = do {
     d \<leftarrow> the_zd;
     _ \<leftarrow> kproc K_dma_free_coherent [ucast ZYNQ_DMA_BUF_SIZE, z_tx_buf d, z_tx_addr d];
     _ \<leftarrow> upd_zd (\<lambda>d. d\<lparr>z_inited := 0\<rparr>);
     ret 0 }"

text \<open>\<open>loff_t\<close> has 64 bits: the sum wraps around.\<close>

definition zynq_llseek :: "int \<Rightarrow> whence \<Rightarrow> (zworld, int) state" where
  "zynq_llseek off wherece = do {
     pos \<leftarrow> gets_st z_f_pos;
     case wherece of SEEK_OTHER \<Rightarrow> ret (- EINVAL) | _ \<Rightarrow> do {
       let newpos = (case wherece of SEEK_SET \<Rightarrow> off
                     | SEEK_CUR \<Rightarrow> sint (of_int pos + of_int off :: u64)
                     | _ \<Rightarrow> 32);
       if newpos < 0 \<or> 32 < newpos then ret (- EINVAL)
       else do {
         _ \<leftarrow> modify_st (\<lambda>s. s\<lparr>z_f_pos := newpos\<rparr>);
         ret newpos } } }"

section \<open>Read\<close>

text \<open>The C remainder, which has the sign of the dividend.\<close>

definition c_rem :: "int \<Rightarrow> int \<Rightarrow> int" where
  "c_rem a b = (if a < 0 then - ((- a) mod b) else a mod b)"

text \<open>A byte of a register file, as a little-endian load of its word gives it.\<close>

definition dev_byte :: "env \<Rightarrow> history \<Rightarrow> u64 \<Rightarrow> u8" where
  "dev_byte E h a = le_bytes (mmio_rd E h (a AND NOT 3)) ! unat (a AND 3)"

definition dev_bytes :: "env \<Rightarrow> history \<Rightarrow> u64 \<Rightarrow> nat \<Rightarrow> u8 list" where
  "dev_bytes E h a n = map (\<lambda>i. dev_byte E h (a + of_nat i)) [0..<n]"

definition zynq_read_bytes :: "env \<Rightarrow> u64 \<Rightarrow> u32 \<Rightarrow> int \<Rightarrow> (zworld, int \<times> int) state" where
  "zynq_read_bytes E buf cnt pos = do {
     let pos = c_rem pos 32;
     let remain = (of_int (32 - c_rem pos 32) :: u32);
     let should = min_u32 remain cnt;
     d \<leftarrow> the_zd;
     h \<leftarrow> gets_st tr;
     left \<leftarrow> copy_to_user E buf (dev_bytes E h (z_unit d + lite_reg_off (L_hash 0) + of_int pos) (unat should));
     if left \<noteq> 0 then ret (- EFAULT, pos)
     else ret (sint should, pos + uint should) }"

text \<open>
  The result is the returned value and the new \<open>*pos\<close>. The kernel's answer to \<open>K_wait\<close> is
  whether a signal ends the wait; it ends otherwise when the unit is no longer busy.
\<close>

definition zynq_read :: "env \<Rightarrow> u64 \<Rightarrow> u32 \<Rightarrow> int \<Rightarrow> (zworld, (int \<times> int) option) state" where
  "zynq_read E buf cnt pos = do {
     busy \<leftarrow> sha256_is_busy E;
     if busy then do {
       nonblock \<leftarrow> gets_st z_nonblock;
       if nonblock then ret (Some (- EAGAIN, pos))
       else do {
         busy \<leftarrow> sha256_is_busy E;
         signal \<leftarrow> (if busy then kcall E K_wait [] else ret 0);
         busy \<leftarrow> (if busy then sha256_is_busy E else ret False);
         if signal \<noteq> 0 \<and> busy then ret (Some (- ERESTARTSYS, pos))
         else if busy then ret None
         else do { r \<leftarrow> zynq_read_bytes E buf cnt pos; ret (Some r) } } }
     else do { r \<leftarrow> zynq_read_bytes E buf cnt pos; ret (Some r) } }"

section \<open>Write\<close>

definition dma_callback :: "env \<Rightarrow> (zworld, unit) state" where
  "dma_callback E = do {
     busy \<leftarrow> sha256_is_busy E;
     _ \<leftarrow> when_st (\<not> busy) (wake_up WqRead []);
     _ \<leftarrow> wake_up WqWrite [];
     d \<leftarrow> the_zd;
     _ \<leftarrow> kproc K_dma_terminate_all [z_chan d];
     upd_zd (\<lambda>d. d\<lparr>z_busy := 0\<rparr>) }"

text \<open>The callback runs as often as the environment says at this point: \<open>works\<close>.\<close>

definition run_callbacks :: "env \<Rightarrow> (zworld, unit) state" where
  "run_callbacks E = do {
     h \<leftarrow> gets_st tr;
     for_each [0..<works E h] (\<lambda>_. dma_callback E) }"

text \<open>
  \<open>wait_event_interruptible (w_wqh, !busy)\<close>: \<open>Some True\<close> when the condition holds, \<open>Some False\<close>
  when a signal ends the wait, \<open>None\<close> when neither ever happens. The kernel's answer to
  \<open>K_wait\<close> is whether there is a signal; callbacks run while the writer sleeps.
\<close>

definition wait_not_busy :: "env \<Rightarrow> (zworld, bool option) state" where
  "wait_not_busy E = do {
     d \<leftarrow> the_zd;
     if z_busy d = 0 then ret (Some True)
     else do {
       signal \<leftarrow> kcall E K_wait [];
       _ \<leftarrow> run_callbacks E;
       d \<leftarrow> the_zd;
       ret (if z_busy d = 0 then Some True else if signal \<noteq> 0 then Some False else None) } }"

text \<open>
  One round of the loop of \<open>sha256_write\<close> for \<open>n\<close> bytes from user address \<open>a\<close>: whether it
  went through. \<open>dma_async_issue_pending\<close> hands the buffer to the channel; the callback may
  run before \<open>busy\<close> is set.
\<close>

definition write_chunk :: "env \<Rightarrow> u64 \<Rightarrow> u32 \<Rightarrow> (zworld, bool option) state" where
  "write_chunk E a n = do {
     (left, bytes) \<leftarrow> copy_from_user E a (unat n);
     if left \<noteq> 0 then ret (Some False)
     else do {
       _ \<leftarrow> modify_st (\<lambda>s. s\<lparr>z_tx_mem := bytes @ drop (length bytes) (z_tx_mem s)\<rparr>);
       d \<leftarrow> the_zd;
       desc \<leftarrow> kptr E K_dma_prep_cyclic [z_chan d, z_tx_addr d, ucast n, ucast n];
       if desc = 0 then ret (Some False)
       else do {
         _ \<leftarrow> kproc K_dma_submit [desc];
         _ \<leftarrow> kproc K_dma_issue_pending [z_chan d];
         m \<leftarrow> gets_st z_tx_mem;
         _ \<leftarrow> emit (DmaOut (z_tx_addr d) (take (unat n) m));
         _ \<leftarrow> run_callbacks E;
         _ \<leftarrow> upd_zd (\<lambda>d. d\<lparr>z_busy := 1\<rparr>);
         wait_not_busy E } } }"

text \<open>
  The loop: a round copies at least one byte, so \<open>fuel\<close> equal to the bytes that are left is
  enough. The result is the number of bytes copied.
\<close>

fun write_loop :: "nat \<Rightarrow> env \<Rightarrow> u64 \<Rightarrow> u32 \<Rightarrow> u32 \<Rightarrow> (zworld, u32 option) state" where
  "write_loop 0 E buf cnt copied = ret (Some copied)"
| "write_loop (Suc fuel) E buf cnt copied =
     (if \<not> copied < cnt then ret (Some copied)
      else do {
        let n = min_u32 ZYNQ_DMA_BUF_SIZE (cnt - copied);
        r \<leftarrow> write_chunk E (buf + ucast copied) n;
        case r of None \<Rightarrow> ret None
        | Some False \<Rightarrow> ret (Some copied)
        | Some True \<Rightarrow> write_loop fuel E buf cnt (copied + n) })"

definition zynq_write :: "env \<Rightarrow> u64 \<Rightarrow> u32 \<Rightarrow> (zworld, int option) state" where
  "zynq_write E buf cnt = do {
     let cnt = cnt AND NOT 3;
     r \<leftarrow> write_loop (unat cnt) E buf cnt 0;
     case r of None \<Rightarrow> ret None | Some copied \<Rightarrow> do {
       _ \<leftarrow> upd_zd (\<lambda>d. d\<lparr>z_writen := z_writen d + copied\<rparr>);
       ret (Some (sint copied)) } }"

text \<open>\<open>dat_show\<close> of the proc file: the two numbers it prints.\<close>

definition dat_show :: "env \<Rightarrow> (zworld, u32 \<times> u32) state" where
  "dat_show E = do {
     d \<leftarrow> the_zd;
     v \<leftarrow> ioread32 E (z_unit d + lite_reg_off L_status);
     ret (v, z_writen d) }"


section \<open>Probe and remove give back what they take\<close>

text \<open>
  What the kernel documents of the calls of \<open>sha256_probe\<close>: an allocation gives an object or
  null, \<open>device_create\<close> an object or an error, a status is zero or negative. The last
  conjunct is what the driver takes for granted: \<open>class_create\<close> succeeds.
\<close>

definition zynq_kernel :: "env \<Rightarrow> bool" where
  "zynq_kernel E \<longleftrightarrow>
     pointer_answers E K_kzalloc \<and> pointer_answers E K_dma_request_chan \<and>
     pointer_answers E K_request_mem_region \<and> pointer_answers E K_ioremap \<and>
     (\<forall>r. answers E K_device_create r \<longrightarrow> r \<noteq> 0) \<and> (\<forall>r. answers E K_cdev_add r \<longrightarrow> r \<le> 0) \<and>
     (\<forall>r. answers E K_class_create r \<longrightarrow> 0 < r)"

definition zynq_res :: "u32 \<Rightarrow> u32 \<Rightarrow> zworld \<Rightarrow> resource list" where
  "zynq_res start len s =
     [(K_ioremap, [z_unit (zd s)]), (K_request_mem_region, [ucast start, ucast len]),
      (K_device_create, [z_cls (zd s), z_dev (zd s)]), (K_class_create, [z_cls (zd s)]),
      (K_cdev_add, [z_private_data s]), (K_alloc_chrdev_region, []),
      (K_dma_request_chan, [z_chan (zd s)]), (K_kzalloc, [z_private_data s])]"

lemma zynq_kernelD:
  assumes "zynq_kernel E"
  shows "pointer_answers E K_kzalloc" "pointer_answers E K_dma_request_chan"
    "pointer_answers E K_request_mem_region" "pointer_answers E K_ioremap"
    "answers E K_cdev_add r \<Longrightarrow> r \<le> 0"
    "answers E K_device_create r \<Longrightarrow> r \<noteq> 0"
    "answers E K_class_create r \<Longrightarrow> 0 < r"
  using assms unfolding zynq_kernel_def by blast+

lemma zynq_answers:
  assumes "zynq_kernel E"
  shows "answers E K_kzalloc r \<Longrightarrow> (of_int r = (0 :: u64)) = (r = 0)"
    "answers E K_dma_request_chan r \<Longrightarrow> (of_int r = (0 :: u64)) = (r = 0)"
    "answers E K_request_mem_region r \<Longrightarrow> (of_int r = (0 :: u64)) = (r = 0)"
    "answers E K_ioremap r \<Longrightarrow> (of_int r = (0 :: u64)) = (r = 0)"
    "answers E K_kzalloc r \<Longrightarrow> is_object r = (r \<noteq> 0)"
    "answers E K_dma_request_chan r \<Longrightarrow> is_object r = (r \<noteq> 0)"
    "answers E K_request_mem_region r \<Longrightarrow> is_object r = (r \<noteq> 0)"
    "answers E K_ioremap r \<Longrightarrow> is_object r = (r \<noteq> 0)"
    "answers E K_cdev_add r \<Longrightarrow> (0 \<le> r) = (r = 0)"
    "answers E K_device_create r \<Longrightarrow> is_object r = (\<not> is_err r)"
    "answers E K_class_create r \<Longrightarrow> is_object r"
  using pointer_answersD zynq_kernelD [OF assms]
  by (blast | force simp: is_object_def is_err_def)+

lemmas zynq_err_defs = err_request_dma_def err_alloc_dev_def err_cdev_add_def err_create_dev_def
  err_request_mem_def err_ioremap_def

text \<open>The error codes, and what is held afterwards.\<close>

lemma zynq_probe_outcome:
  assumes "zynq_kernel E" "held (tr s) = Some X"
  shows "sat (run_state (zynq_probe E pdev start len dev) s)
    (\<lambda>r s'. held (tr s') = Some (if r = 0 then zynq_res start len s' @ X else X))"
  using assms(2)
  unfolding zynq_probe_def zynq_err_defs upd_zd_def
  by (intro sat_rules) (simp_all add: zynq_answers [OF assms(1)] zynq_res_def)


interpretation zynq_life: bracket "zynq_probe E pdev start len dev" "zynq_remove E pdev start len"
  "\<lambda>s. held (tr s)" append "zynq_res start len" "\<lambda>_. zynq_kernel E" "\<lambda>_. True" for E pdev start len dev
proof
  fix s s' :: zworld and X r
  assume "zynq_kernel E" "held (tr s) = Some X"
  note out = zynq_probe_outcome [OF this, of pdev start len dev]
  assume run: "run_state (zynq_probe E pdev start len dev) s = (r, s')" and "r \<noteq> 0"
  then show "held (tr s') = Some X"
    using satD [OF out run] by simp
next
  fix s s' :: zworld and X
  assume "zynq_kernel E" "held (tr s) = Some X"
  note out = zynq_probe_outcome [OF this, of pdev start len dev]
  assume "run_state (zynq_probe E pdev start len dev) s = (0, s')"
  then show "held (tr s') = Some (zynq_res start len s' @ X) \<and> True"
    using satD [OF out] by simp
next
  fix s s' :: zworld and X r
  assume "held (tr s) = Some (zynq_res start len s @ X)"
    "run_state (zynq_remove E pdev start len) s = (r, s')"
  then show "r = 0 \<and> held (tr s') = Some X"
    by (auto simp: zynq_remove_def zynq_res_def Let_def)
qed

definition zynq_dma_kernel :: "env \<Rightarrow> bool" where
  "zynq_dma_kernel E \<longleftrightarrow> (\<forall>r. answers E K_dma_alloc_coherent r \<longrightarrow> is_object r)"

lemma zynq_open_outcome:
  assumes "zynq_dma_kernel E" "held (tr s) = Some X"
  shows "sat (run_state (zynq_open E) s) (\<lambda>r s'.
    if z_inited (zd s) \<noteq> 0 then r = - EBUSY \<and> s' = s
    else r = 0 \<and> held (tr s') = Some ((K_dma_alloc_coherent, [z_tx_buf (zd s')]) # X) \<and>
      z_inited (zd s') = 1 \<and> z_writen (zd s') = 0)"
  using assms
  unfolding zynq_open_def upd_zd_def
  by (intro sat_rules) (simp_all add: zynq_dma_kernel_def)

interpretation zynq_session: bracket "zynq_open E" zynq_release "\<lambda>s. held (tr s)" append
  "\<lambda>s. [(K_dma_alloc_coherent, [z_tx_buf (zd s)])]" "\<lambda>_. zynq_dma_kernel E" "\<lambda>_. True" for E
proof
  fix s s' :: zworld and X r
  assume a: "zynq_dma_kernel E" "held (tr s) = Some X" "run_state (zynq_open E) s = (r, s')" "r \<noteq> 0"
  show "held (tr s') = Some X"
    using satD [OF zynq_open_outcome [OF a(1,2)] a(3)] a(2,4) by (auto split: if_splits)
next
  fix s s' :: zworld and X
  assume a: "zynq_dma_kernel E" "held (tr s) = Some X" "run_state (zynq_open E) s = (0, s')"
  show "held (tr s') = Some ([(K_dma_alloc_coherent, [z_tx_buf (zd s')])] @ X) \<and> True"
    using satD [OF zynq_open_outcome [OF a(1,2)] a(3)] by (auto split: if_splits)
next
  fix s s' :: zworld and X r
  assume "held (tr s) = Some ([(K_dma_alloc_coherent, [z_tx_buf (zd s)])] @ X)"
    "run_state zynq_release s = (r, s')"
  then show "r = 0 \<and> held (tr s') = Some X"
    by (auto simp: zynq_release_def)
qed

section \<open>Reading the digest\<close>

definition hash_bytes :: "env \<Rightarrow> history \<Rightarrow> u64 \<Rightarrow> u8 list" where
  "hash_bytes E h u = concat (map (\<lambda>i. le_bytes (mmio_rd E h (u + lite_reg_off (L_hash i)))) [0..<8])"

lemma length_hash_bytes [simp]: "length (hash_bytes E h u) = 32"
  by (simp add: hash_bytes_def length_concat comp_def sum_list_triv)

lemma take_bit_2_add:
  assumes "take_bit 2 u = 0"
  shows "take_bit 2 (u + k) = take_bit 2 (k :: u64)"
proof -
  have u: "unat u mod 4 = 0"
    using arg_cong [OF assms, of unat]
    by (simp add: unsigned_take_bit_eq take_bit_eq_mod unat_mod_distrib)
  have "unat (u + k) mod 4 = (unat u + unat k) mod 4"
    by (simp add: unat_word_ariths mod_mod_cancel)
  also have "\<dots> = unat k mod 4"
    using u by (simp add: mod_add_left_eq [symmetric])
  finally show ?thesis
    by (simp add: word_unat_eq_iff unsigned_take_bit_eq take_bit_eq_mod unat_mod_distrib)
qed

lemma dev_byte_aligned:
  assumes "u AND 3 = 0"
  shows "dev_byte E h (u + k) = le_bytes (mmio_rd E h (u + (k - (k AND 3)))) ! unat (k AND 3)"
proof -
  have m: "a AND 3 = take_bit 2 a" for a :: u64
    by (simp add: take_bit_eq_mask mask_eq_exp_minus_1)
  have n: "a AND - 4 = a - take_bit 2 a" for a :: u64
  proof -
    have "a - (a AND 3) = a AND NOT (a AND 3)"
      by (rule disjunctive_diff_eq_and_not) (simp add: bit_eq_iff bit_simps)
    also have "\<dots> = a AND NOT 3"
      by (rule bit_eqI) (auto simp: bit_simps)
    finally show ?thesis
      by (simp add: m)
  qed
  have "take_bit 2 (u + k) = take_bit 2 k"
    using assms m take_bit_2_add by simp
  then show ?thesis
    by (simp add: dev_byte_def m n algebra_simps)
qed

lemma dev_byte_hash:
  assumes "u AND 3 = 0" "i < 32"
  shows "dev_byte E h (u + 0x20 + of_nat i) = hash_bytes E h u ! i"
proof -
  have "\<forall>i\<in>set [0..<32]. dev_byte E h (u + 0x20 + of_nat i) = hash_bytes E h u ! i"
    by (simp add: upt_rec add.assoc dev_byte_aligned [OF assms(1)] hash_bytes_def le_bytes_def)
  with assms(2) show ?thesis
    by simp
qed

lemma dev_bytes_hash:
  assumes "u AND 3 = 0" "p + n \<le> 32"
  shows "dev_bytes E h (u + 0x20 + of_nat p) n = take n (drop p (hash_bytes E h u))"
proof (rule nth_equalityI)
  fix i
  assume "i < length (dev_bytes E h (u + 0x20 + of_nat p) n)"
  then have "i < n" "p + i < 32"
    using assms(2) by (simp_all add: dev_bytes_def)
  then show "dev_bytes E h (u + 0x20 + of_nat p) n ! i = take n (drop p (hash_bytes E h u)) ! i"
    using dev_byte_hash [OF assms(1), of "p + i" E h] by (simp add: dev_bytes_def add.assoc)
qed (use assms(2) in \<open>simp add: dev_bytes_def\<close>)

lemma zynq_read_bytes_run:
  assumes "z_unit (zd s) AND 3 = 0" "0 \<le> pos" "ufault E = (\<lambda>_ _ _. 0)"
  shows "run_state (zynq_read_bytes E buf cnt pos) s =
    (let p = nat (pos mod 32); n = min (32 - p) (unat cnt) in
      ((int n, int (p + n)),
       s\<lparr>tr := tr s @ [ToUser buf (take n (drop p (hash_bytes E (tr s) (z_unit (zd s))))) 0]\<rparr>))"
proof -
  define p where "p = nat (pos mod 32)"
  have p: "p < 32" "pos mod 32 = int p"
    by (simp_all add: p_def nat_less_iff)
  have c: "c_rem pos 32 = int p" "c_rem (int p) 32 = int p"
    using assms(2) p by (simp_all add: c_rem_def)
  define should where "should = min_u32 (of_int (32 - int p)) cnt"
  have w: "unat (of_int (32 - int p) :: u32) = 32 - p"
  proof -
    have e: "(of_int (32 - int p) :: u32) = of_nat (32 - p)"
      using p(1) by (simp add: of_nat_diff)
    show ?thesis
      unfolding e using p(1) by (intro of_nat_inverse) (auto simp: of_nat_diff)
  qed
  have n: "unat should = min (32 - p) (unat cnt)"
    by (simp only: should_def unat_min_u32 w)
  then have s: "sint should = int (unat should)"
    using p(1) by (intro sint_small) (auto simp: min_def)
  have e: "min_u32 (32 - word_of_nat p) cnt = should"
    by (simp add: should_def)
  have "dev_bytes E (tr s) (z_unit (zd s) + 0x20 + of_nat p) (unat should) =
      take (unat should) (drop p (hash_bytes E (tr s) (z_unit (zd s))))"
    using p(1) n by (intro dev_bytes_hash [OF assms(1)]) simp
  then show ?thesis
    using assms(3) n by (simp add: zynq_read_bytes_def c Let_def e p_def [symmetric] s uint_nat
        del: of_nat_unat unat_min_u32)
qed

text \<open>C12: A read of an idle unit delivers the bytes of the digest registers from the position
  modulo 32 on, as many as were asked for and as the digest has left, and moves the position
  past them.\<close>

theorem zynq_read_digest:
  assumes "z_unit (zd s) AND 3 = 0" "0 \<le> pos" "ufault E = (\<lambda>_ _ _. 0)"
    and "mmio_rd E (tr s) (z_unit (zd s)) AND SHA256_STATUS_BUSY = 0"
  shows "let p = nat (pos mod 32); n = min (32 - p) (unat cnt);
             h = tr s @ [MmioR (z_unit (zd s)) (mmio_rd E (tr s) (z_unit (zd s)))] in
    run_state (zynq_read E buf cnt pos) s =
      (Some (int n, int (p + n)),
       s\<lparr>tr := h @ [ToUser buf (take n (drop p (hash_bytes E h (z_unit (zd s))))) 0]\<rparr>)"
proof -
  let ?s = "s\<lparr>tr := tr s @ [MmioR (z_unit (zd s)) (mmio_rd E (tr s) (z_unit (zd s)))]\<rparr>"
  have "run_state (sha256_is_busy E) s = (False, ?s)"
    using assms(4) by (simp add: sha256_is_busy_def)
  moreover have "z_unit (zd ?s) AND 3 = 0"
    using assms(1) by simp
  ultimately show ?thesis
    using zynq_read_bytes_run [of ?s pos E buf cnt] assms(2,3) by (simp add: zynq_read_def Let_def)
qed

section \<open>Writing\<close>

text \<open>
  The assumptions under which a write succeeds: user memory is readable and stable, the DMA
  channel accepts every descriptor, its callback runs after \<open>busy\<close> is set, while the writer
  sleeps.
\<close>

definition dma_well_timed :: "env \<Rightarrow> (u64 \<Rightarrow> u8) \<Rightarrow> bool" where
  "dma_well_timed E m \<longleftrightarrow>
     ufault E = (\<lambda>_ _ _. 0) \<and> umem E = (\<lambda>_. m) \<and>
     (\<forall>h a. (of_int (kres E h K_dma_prep_cyclic a) :: u64) \<noteq> 0) \<and>
     (\<forall>h a b. works E (h @ [DmaOut a b]) = 0) \<and> (\<forall>h r. works E (h @ [KCall K_wait [] r]) \<noteq> 0)"

lemma dma_well_timedD:
  assumes "dma_well_timed E m"
  shows "ufault E h a n = 0" "umem E h = m" "of_int (kres E h K_dma_prep_cyclic l) \<noteq> (0 :: u64)"
    "works E (h @ [DmaOut a b]) = 0" "works E (h @ [KCall K_wait [] r]) \<noteq> 0"
  using assms by (simp_all add: dma_well_timed_def)

lemma run_dma_callback:
  "\<exists>h. run_state (dma_callback E) s = ((), s\<lparr>tr := h, zd := (zd s)\<lparr>z_busy := 0\<rparr>\<rparr>) \<and>
    dma_out h = dma_out (tr s)"
  by (cases "mmio_rd E (tr s) (z_unit (zd s)) AND SHA256_STATUS_BUSY = 0")
    (simp_all add: dma_callback_def sha256_is_busy_def, (intro exI conjI, rule refl, simp)+)

lemma run_callback_loop:
  "\<exists>h. run_state (for_each [0..<k] (\<lambda>_. dma_callback E)) s =
      ((), s\<lparr>tr := h, zd := (if k = 0 then zd s else (zd s)\<lparr>z_busy := 0\<rparr>)\<rparr>) \<and>
    dma_out h = dma_out (tr s)"
proof (induction k)
  case (Suc k)
  then obtain h where "run_state (for_each [0..<k] (\<lambda>_. dma_callback E)) s =
      ((), s\<lparr>tr := h, zd := (if k = 0 then zd s else (zd s)\<lparr>z_busy := 0\<rparr>)\<rparr>)" "dma_out h = dma_out (tr s)"
    by blast
  with run_dma_callback [of E "s\<lparr>tr := h, zd := (if k = 0 then zd s else (zd s)\<lparr>z_busy := 0\<rparr>)\<rparr>"]
  show ?case by (auto split: if_splits)
qed (auto intro: exI [of _ "tr s"])

lemma run_callbacks_run:
  "\<exists>h. run_state (run_callbacks E) s =
      ((), s\<lparr>tr := h, zd := (if works E (tr s) = 0 then zd s else (zd s)\<lparr>z_busy := 0\<rparr>)\<rparr>) \<and>
    dma_out h = dma_out (tr s)"
  using run_callback_loop [of "works E (tr s)" E s] by (simp add: run_callbacks_def)

lemma run_callbacks_none: "works E (tr s) = 0 \<Longrightarrow> run_state (run_callbacks E) s = ((), s)"
  by (simp add: run_callbacks_def)

lemma write_chunk_run:
  assumes "dma_well_timed E m"
  shows "\<exists>h mem. run_state (write_chunk E a n) s =
      (Some True, s\<lparr>tr := h, zd := (zd s)\<lparr>z_busy := 0\<rparr>, z_tx_mem := mem\<rparr>) \<and>
    dma_out h = dma_out (tr s) @ map (\<lambda>i. m (a + of_nat i)) [0..<unat n]"
proof -
  note [simp] = dma_well_timedD [OF assms]
  have user: "user_bytes E h a (unat n) = map (\<lambda>i. m (a + of_nat i)) [0..<unat n]" for h
    by (simp add: user_bytes_def)
  have sleep: "\<exists>h. run_state (wait_not_busy E) s = (Some True, s\<lparr>tr := h, zd := (zd s)\<lparr>z_busy := 0\<rparr>\<rparr>) \<and>
      dma_out h = dma_out (tr s)" if "z_busy (zd s) = 1" for s
  proof -
    let ?s = "s\<lparr>tr := tr s @ [KCall K_wait [] (kres E (tr s) K_wait [])]\<rparr>"
    obtain h where "run_state (run_callbacks E) ?s = ((), ?s\<lparr>tr := h, zd := (zd s)\<lparr>z_busy := 0\<rparr>\<rparr>)"
      "dma_out h = dma_out (tr s)"
      using run_callbacks_run [of E ?s] by auto
    then show ?thesis
      using that by (auto simp: wait_not_busy_def intro!: exI [of _ h])
  qed
  let ?mem = "map (\<lambda>i. m (a + of_nat i)) [0..<unat n] @ drop (unat n) (z_tx_mem s)"
  have "\<exists>h. run_state (write_chunk E a n) s =
      run_state (wait_not_busy E) (s\<lparr>tr := h, zd := (zd s)\<lparr>z_busy := 1\<rparr>, z_tx_mem := ?mem\<rparr>) \<and>
    dma_out h = dma_out (tr s) @ map (\<lambda>i. m (a + of_nat i)) [0..<unat n]"
    by (simp add: write_chunk_def user run_callbacks_none) (intro exI conjI, rule refl, simp)
  then obtain h where h: "run_state (write_chunk E a n) s =
      run_state (wait_not_busy E) (s\<lparr>tr := h, zd := (zd s)\<lparr>z_busy := 1\<rparr>, z_tx_mem := ?mem\<rparr>)"
    "dma_out h = dma_out (tr s) @ map (\<lambda>i. m (a + of_nat i)) [0..<unat n]"
    by blast
  show ?thesis
    using sleep [of "s\<lparr>tr := h, zd := (zd s)\<lparr>z_busy := 1\<rparr>, z_tx_mem := ?mem\<rparr>"] h by auto
qed

lemma write_loop_run:
  assumes "dma_well_timed E m" "unat cnt - unat copied \<le> fuel" "copied \<le> cnt"
  shows "\<exists>h d mem. run_state (write_loop fuel E buf cnt copied) s =
      (Some cnt, s\<lparr>tr := h, zd := d, z_tx_mem := mem\<rparr>) \<and> z_writen d = z_writen (zd s) \<and>
    dma_out h = dma_out (tr s) @
      map (\<lambda>i. m (buf + of_nat (unat copied + i))) [0..<unat cnt - unat copied]"
  using assms(2,3)
proof (induction fuel arbitrary: copied s)
  case 0
  then have "copied = cnt"
    by (simp add: word_le_nat_alt word_unat_eq_iff)
  then show ?case
    by (intro exI [of _ "tr s"] exI [of _ "zd s"] exI [of _ "z_tx_mem s"]) simp
next
  case (Suc fuel)
  show ?case
  proof (cases "copied < cnt")
    case False
    then have "copied = cnt"
      using Suc.prems by simp
    then show ?thesis
      by (intro exI [of _ "tr s"] exI [of _ "zd s"] exI [of _ "z_tx_mem s"]) simp
  next
    case True
    define n where "n = min_u32 ZYNQ_DMA_BUF_SIZE (cnt - copied)"
    have n': "min_u32 1048576 (cnt - copied) = n"
      by (simp add: n_def)
    have d: "unat (cnt - copied) = unat cnt - unat copied"
      using True by (intro unat_sub) (simp add: word_le_nat_alt word_less_nat_alt)
    have n: "unat n = min 1048576 (unat cnt - unat copied)"
      by (simp add: n_def d)
    have "unat copied + unat n \<le> unat cnt" "0 < unat n"
      using True n by (auto simp: word_less_nat_alt)
    then have c: "unat (copied + n) = unat copied + unat n"
      using u32_bound [of cnt] by (simp add: unat_word_ariths)
    obtain h mem where chunk: "run_state (write_chunk E (buf + ucast copied) n) s =
        (Some True, s\<lparr>tr := h, zd := (zd s)\<lparr>z_busy := 0\<rparr>, z_tx_mem := mem\<rparr>)"
      "dma_out h = dma_out (tr s) @ map (\<lambda>i. m (buf + ucast copied + of_nat i)) [0..<unat n]"
      using write_chunk_run [OF assms(1), of "buf + ucast copied" n s] by auto
    let ?s = "s\<lparr>tr := h, zd := (zd s)\<lparr>z_busy := 0\<rparr>, z_tx_mem := mem\<rparr>"
    obtain h' d' mem' where rest: "run_state (write_loop fuel E buf cnt (copied + n)) ?s =
        (Some cnt, ?s\<lparr>tr := h', zd := d', z_tx_mem := mem'\<rparr>)"
      "z_writen d' = z_writen (zd s)"
      "dma_out h' = dma_out h @
        map (\<lambda>i. m (buf + of_nat (unat (copied + n) + i))) [0..<unat cnt - unat (copied + n)]"
    proof -
      have "unat cnt - unat (copied + n) \<le> fuel" "copied + n \<le> cnt"
        using Suc.prems(1) \<open>0 < unat n\<close> \<open>unat copied + unat n \<le> unat cnt\<close> c
        by (simp_all add: word_le_nat_alt)
      then show thesis
        using Suc.IH [of "copied + n" ?s] that by auto
    qed
    have "dma_out h' = dma_out (tr s) @
        map (\<lambda>i. m (buf + of_nat (unat copied + i))) [0..<unat cnt - unat copied]"
      using map_upt_split [of "unat n" "unat cnt - unat copied" "\<lambda>i. m (buf + of_nat (unat copied + i))"]
        \<open>unat copied + unat n \<le> unat cnt\<close>
      by (simp add: rest(3) chunk(2) c add.assoc)
    then show ?thesis
      using True chunk rest(1,2) n' by (auto simp: Let_def)
  qed
qed


text \<open>When the callback comes between \<open>dma_async_issue_pending\<close> and the store to \<open>busy\<close>,
  and no signal arrives, a write of at least one word never returns.\<close>

lemma zynq_write_lost_wakeup:
  assumes "ufault E = (\<lambda>_ _ _. 0)" "\<And>h a. (of_int (kres E h K_dma_prep_cyclic a) :: u64) \<noteq> 0"
    and "\<And>h r. works E (h @ [KCall K_wait [] r]) = 0" "\<And>h. kres E h K_wait [] = 0"
    and "cnt AND NOT 3 \<noteq> 0"
  shows "fst (run_state (zynq_write E buf cnt) s) = None"
proof -
  have callbacks: "\<exists>h d. run_state (run_callbacks E) s = ((), s\<lparr>tr := h, zd := d\<rparr>)" for s :: zworld
    using run_callbacks_run [of E s] by blast
  have chunk: "\<exists>s'. run_state (write_chunk E a n) s = (None, s')" for a n
  proof -
    have "\<exists>h mem. run_state (write_chunk E a n) s =
        run_state (do { _ \<leftarrow> run_callbacks E; _ \<leftarrow> upd_zd (\<lambda>d. d\<lparr>z_busy := 1\<rparr>); wait_not_busy E })
          (s\<lparr>tr := h, z_tx_mem := mem\<rparr>)"
      using assms(1,2) by (simp add: write_chunk_def) (intro exI, rule refl)
    then obtain h mem where "run_state (write_chunk E a n) s =
        run_state (do { _ \<leftarrow> run_callbacks E; _ \<leftarrow> upd_zd (\<lambda>d. d\<lparr>z_busy := 1\<rparr>); wait_not_busy E })
          (s\<lparr>tr := h, z_tx_mem := mem\<rparr>)"
      by blast
    moreover obtain h' d' where "run_state (run_callbacks E) (s\<lparr>tr := h, z_tx_mem := mem\<rparr>) =
        ((), s\<lparr>tr := h', zd := d', z_tx_mem := mem\<rparr>)"
      using callbacks [of "s\<lparr>tr := h, z_tx_mem := mem\<rparr>"] by auto
    ultimately show ?thesis
      using assms(3,4) by (simp add: wait_not_busy_def run_callbacks_none)
  qed
  obtain fuel where "unat (cnt AND NOT 3) = Suc fuel"
    using assms(5) by (metis not0_implies_Suc unat_eq_zero)
  moreover obtain s' where "run_state (write_chunk E buf (min_u32 ZYNQ_DMA_BUF_SIZE (cnt AND NOT 3))) s = (None, s')"
    using chunk by blast
  ultimately show ?thesis
    using assms(5) by (simp add: zynq_write_def Let_def word_gt_0)
qed

section \<open>The race between the writer and the callback\<close>

text \<open>
  The same chunk at the grain of single statements: the writer of \<open>sha256_write\<close> from
  \<open>dma_async_issue_pending\<close> to the end of the wait, and \<open>dma_callback\<close>, which the DMA
  interrupt starts once the transfer is in flight. \<open>Issue\<close>, \<open>Set\<close>, \<open>Check\<close>, \<open>Sleep\<close>, \<open>Next\<close>
  name the statement the writer is about to run; the callback is \<open>Off\<close> before the transfer,
  then \<open>Flying\<close>, about to \<open>Wake\<close>, about to \<open>Clear\<close> the busy flag, \<open>Over\<close>.
\<close>

datatype writer_pc = Issue | Set | Check | Sleep | Next

datatype callback_pc = Off | Flying | AtWake | AtClear | Over

record chunk_state =
  w_pc :: writer_pc
  cb_pc :: callback_pc
  w_busy :: bool

inductive chunk_step :: "chunk_state \<Rightarrow> chunk_state \<Rightarrow> bool" where
  issue: "w_pc c = Issue \<Longrightarrow> cb_pc c = Off \<Longrightarrow> chunk_step c (c\<lparr>w_pc := Set, cb_pc := Flying\<rparr>)"
| set_busy: "w_pc c = Set \<Longrightarrow> chunk_step c (c\<lparr>w_pc := Check, w_busy := True\<rparr>)"
| check_done: "w_pc c = Check \<Longrightarrow> \<not> w_busy c \<Longrightarrow> chunk_step c (c\<lparr>w_pc := Next\<rparr>)"
| check_sleep: "w_pc c = Check \<Longrightarrow> w_busy c \<Longrightarrow> chunk_step c (c\<lparr>w_pc := Sleep\<rparr>)"
| interrupt: "cb_pc c = Flying \<Longrightarrow> chunk_step c (c\<lparr>cb_pc := AtWake\<rparr>)"
| wake: "cb_pc c = AtWake \<Longrightarrow>
    chunk_step c (c\<lparr>cb_pc := AtClear, w_pc := (if w_pc c = Sleep then Check else w_pc c)\<rparr>)"
| clear: "cb_pc c = AtClear \<Longrightarrow> chunk_step c (c\<lparr>cb_pc := Over, w_busy := False\<rparr>)"

definition chunk_init :: "chunk_state \<Rightarrow> bool" where
  "chunk_init c \<longleftrightarrow> w_pc c = Issue \<and> cb_pc c = Off \<and> \<not> w_busy c"

inductive_simps chunk_step_from: "chunk_step c c'"

inductive_cases chunk_stepE: "chunk_step c c'"

text \<open>The invariant: how far the callback is when the writer is where it is.\<close>

definition chunk_inv :: "chunk_state \<Rightarrow> bool" where
  "chunk_inv c \<longleftrightarrow> (w_pc c = Issue \<longleftrightarrow> cb_pc c = Off) \<and>
     (w_pc c = Check \<or> w_pc c = Sleep \<longrightarrow> w_busy c \<or> cb_pc c = Over) \<and>
     (w_pc c = Next \<longrightarrow> cb_pc c = Over \<and> \<not> w_busy c)"

lemma chunk_inv_step: "chunk_inv c \<Longrightarrow> chunk_step c c' \<Longrightarrow> chunk_inv c'"
  by (elim chunk_stepE) (auto simp: chunk_inv_def)

text \<open>Every run is finite: this measure falls with every step.\<close>

fun writer_rank :: "writer_pc \<Rightarrow> nat" where
  "writer_rank Issue = 4" | "writer_rank Set = 3" | "writer_rank Check = 2"
| "writer_rank Sleep = 1" | "writer_rank Next = 0"

fun callback_rank :: "callback_pc \<Rightarrow> nat" where
  "callback_rank Off = 8" | "callback_rank Flying = 6" | "callback_rank AtWake = 4"
| "callback_rank AtClear = 2" | "callback_rank Over = 0"

definition chunk_rank :: "chunk_state \<Rightarrow> nat" where
  "chunk_rank c = writer_rank (w_pc c) + callback_rank (cb_pc c)"

interpretation chunk: step_system chunk_init chunk_inv chunk_step chunk_rank
proof
  show "chunk_init c \<Longrightarrow> chunk_inv c" for c
    by (auto simp: chunk_init_def chunk_inv_def)
  show "chunk_inv c \<Longrightarrow> chunk_step c c' \<Longrightarrow> chunk_inv c'" for c c'
    by (rule chunk_inv_step)
  show "chunk_step c c' \<Longrightarrow> chunk_rank c' < chunk_rank c" for c c'
    by (elim chunk_stepE) (auto simp: chunk_rank_def)
qed

text \<open>The schedule as a list of statements: \<open>True\<close> for the writer, \<open>False\<close> for the callback.\<close>

definition writer_move :: "chunk_state \<Rightarrow> chunk_state" where
  "writer_move c = (case w_pc c of
     Issue \<Rightarrow> c\<lparr>w_pc := Set, cb_pc := Flying\<rparr>
   | Set \<Rightarrow> c\<lparr>w_pc := Check, w_busy := True\<rparr>
   | Check \<Rightarrow> c\<lparr>w_pc := (if w_busy c then Sleep else Next)\<rparr>
   | _ \<Rightarrow> c)"

definition callback_move :: "chunk_state \<Rightarrow> chunk_state" where
  "callback_move c = (case cb_pc c of
     Flying \<Rightarrow> c\<lparr>cb_pc := AtWake\<rparr>
   | AtWake \<Rightarrow> c\<lparr>cb_pc := AtClear, w_pc := (if w_pc c = Sleep then Check else w_pc c)\<rparr>
   | AtClear \<Rightarrow> c\<lparr>cb_pc := Over, w_busy := False\<rparr>
   | _ \<Rightarrow> c)"

fun run_schedule :: "bool list \<Rightarrow> chunk_state \<Rightarrow> chunk_state" where
  "run_schedule [] c = c"
| "run_schedule (True # bs) c = run_schedule bs (writer_move c)"
| "run_schedule (False # bs) c = run_schedule bs (callback_move c)"

abbreviation (input) chunk_reach :: "chunk_state \<Rightarrow> bool" where
  "chunk_reach \<equiv> reach chunk_init chunk_step"

lemma chunk_reach_writer: "chunk_reach c \<Longrightarrow> chunk_reach (writer_move c)"
  using chunk.reach_inv [of c]
  by (auto simp: writer_move_def chunk_inv_def split: writer_pc.splits intro: reach.step chunk_step.intros)

lemma chunk_reach_callback: "chunk_reach c \<Longrightarrow> chunk_reach (callback_move c)"
  by (auto simp: callback_move_def split: callback_pc.splits intro: reach.step chunk_step.intros
      simp del: if_split_eq1 split del: if_split)

lemma chunk_reach_schedule: "chunk_reach c \<Longrightarrow> chunk_reach (run_schedule bs c)"
  by (induction bs c rule: run_schedule.induct) (auto intro: chunk_reach_writer chunk_reach_callback)

definition chunk_start :: chunk_state where
  "chunk_start = \<lparr>w_pc = Issue, cb_pc = Off, w_busy = False\<rparr>"

lemma chunk_reach_start: "chunk_reach chunk_start"
  by (rule reach.start) (simp add: chunk_init_def chunk_start_def)




section \<open>The remaining properties of the Zynq driver\<close>


definition zynq_env :: env where
  "zynq_env = \<lparr>mmio_rd = (\<lambda>_ _. 0),
     kres = (\<lambda>_ f _. if f = K_cdev_add \<or> f = K_wait then 0 else 0x4000),
     umem = (\<lambda>_ a. ucast a), ufault = (\<lambda>_ _ _. 0), dma_mem = (\<lambda>_ _. 0), dma_map = (\<lambda>_ _. []),
     dma_bus = (\<lambda>_ a. a), pinned = (\<lambda>_ _ _. []),
     works = (\<lambda>h. case rev h of KCall f _ _ # _ \<Rightarrow> if f = K_wait then 1 else 0 | _ \<Rightarrow> 0)\<rparr>"

definition zynq_fail_env :: env where
  "zynq_fail_env = zynq_env\<lparr>kres := (\<lambda>_ f _. if f = K_ioremap \<or> f = K_cdev_add then 0 else 0x4000)\<rparr>"

definition zynq_world :: zworld where
  "zynq_world = \<lparr>tr = [], zd = \<lparr>z_dev = 0, z_cls = 0, z_device = 0, z_chan = 0, z_tx_buf = 0, z_tx_addr = 0,
     z_dev_name = [], z_inited = 0, z_busy = 0, z_unit = 0x100, z_writen = 0\<rparr>, z_tx_mem = [],
     z_private_data = 0, z_f_pos = 0, z_nonblock = False\<rparr>"

lemma zynq_env_kernel: "zynq_kernel zynq_env" "zynq_kernel zynq_fail_env"
  by (auto simp: zynq_kernel_def pointer_answers_def answers_def zynq_env_def zynq_fail_env_def)

lemma zynq_world_tr [simp]: "tr zynq_world = []"
  by (simp add: zynq_world_def)


text \<open>Probing the Zynq device and removing it again, any number of times and whether or not the
  probes succeed, leaves the driver holding what it held before.\<close>

lemma zynq_life_cycles:
  assumes "zynq_kernel E" "held (tr s) = Some X"
  shows "held (tr (final_of (for_each [0..<n] (\<lambda>_. do {
      r \<leftarrow> zynq_probe E pdev start len dev;
      _ \<leftarrow> (if r \<noteq> 0 then ret r else zynq_remove E pdev start len);
      ret () })) s)) = Some X"
  using zynq_life.life_cycles_neutral [where E = E and s = s and X = X and n = n] assms
  by (simp add: zynq_life.life_cycle_def)

lemma zynq_life_cycles_witness:
  "held (tr (final_of (for_each [0..<3] (\<lambda>_. do {
      r \<leftarrow> zynq_probe zynq_env 1 0x43C00000 64 5;
      _ \<leftarrow> (if r \<noteq> 0 then ret r else zynq_remove zynq_env 1 0x43C00000 64);
      ret () })) zynq_world)) = Some []"
  using zynq_life_cycles [OF zynq_env_kernel(1), of zynq_world] by simp

text \<open>While a file of the Zynq device is open every further open is refused with \<open>EBUSY\<close> and
  changes nothing; an open of the closed device clears the count of bytes written, resets the
  unit and leaves the device open, holding its DMA buffer, which release gives back.\<close>

lemma zynq_open_exclusive:
  assumes "zynq_dma_kernel E" "held (tr s) = Some X" "run_state (zynq_open E) s = (r, s')"
  shows "if z_inited (zd s) \<noteq> 0 then r = - EBUSY \<and> s' = s
    else r = 0 \<and> fst (run_state (zynq_open E) s') = - EBUSY \<and> z_writen (zd s') = 0 \<and>
      writes (tr s') = writes (tr s) @ [(z_unit (zd s), SHA256_STATUS_RESET)] \<and>
      held (tr (final_of zynq_release s')) = Some X"
proof (cases "z_inited (zd s) = 0")
  case True
  have "writes (tr s') = writes (tr s) @ [(z_unit (zd s), SHA256_STATUS_RESET)]"
    using assms(3) True by (auto simp: zynq_open_def)
  then show ?thesis
    using True satD [OF zynq_open_outcome [OF assms(1,2)] assms(3)]
      zynq_session.release_gives_back [of s' X, OF TrueI _ prod.collapse [symmetric]]
    by (simp add: zynq_open_def)
next
  case False
  then show ?thesis
    using satD [OF zynq_open_outcome [OF assms(1,2)] assms(3)] by simp
qed

lemma zynq_open_exclusive_witness:
  "fst (run_state (zynq_open zynq_env) zynq_world) = 0 \<and>
   fst (run_state (zynq_open zynq_env) (snd (run_state (zynq_open zynq_env) zynq_world))) = - EBUSY"
proof -
  have "zynq_dma_kernel zynq_env"
    by (auto simp: zynq_dma_kernel_def answers_def zynq_env_def is_object_def is_err_def)
  from zynq_open_exclusive [OF this _ prod.collapse [symmetric], of zynq_world "[]"]
  show ?thesis by (simp add: zynq_world_def)
qed

lemma zynq_world_sel [simp]:
  "z_unit (zd zynq_world) = 0x100" "ufault zynq_env = (\<lambda>_ _ _. 0)" "mmio_rd zynq_env h a = 0"
  by (simp_all add: zynq_world_def zynq_env_def)

lemma zynq_read_digest_witness:
  "fst (run_state (zynq_read zynq_env 0x5000 20 20) zynq_world) = Some (12, 32)"
  using zynq_read_digest [of zynq_world 20 zynq_env 20 "0x5000"] by (simp add: Let_def)

lemma zynq_env_well_timed: "dma_well_timed zynq_env (\<lambda>a. ucast a)"
  by (auto simp: dma_well_timed_def zynq_env_def)


definition zynq_early_env :: env where
  "zynq_early_env = zynq_env\<lparr>works := (\<lambda>h. case rev h of DmaOut _ _ # _ \<Rightarrow> 1 | _ \<Rightarrow> 0)\<rparr>"

lemma zynq_write_lost_wakeup_witness:
  "fst (run_state (zynq_write zynq_early_env 0x5000 11) zynq_world) = None"
  by (rule zynq_write_lost_wakeup) (simp_all add: zynq_early_env_def zynq_env_def)

end
