(* ===== verification/XdmaMod.thy ===== *)
theory XdmaMod
  imports Device HshaPcie
begin

text \<open>
  The PCIe driver as a module (\<open>xdma_mod.c\<close>, the live part of \<open>xdma_cdev.c\<close>): loading and
  unloading, the nodes of a device, probe and remove, and the error handlers of the PCI core. A
  function that may dereference a null pointer, which ends the task, says in its result whether it
  came to its end: \<open>False\<close> or \<open>None\<close> if it did not.
\<close>

section \<open>The nodes of a device\<close>

text \<open>
  The loop of \<open>xpdev_destroy_interfaces\<close>. The message about a node that cannot be destroyed reads
  \<open>xpdev->xdev->idx\<close>.
\<close>

fun destroy_nodes :: "u64 \<Rightarrow> nat list \<Rightarrow> (hworld, bool) state" where
  "destroy_nodes xpdev [] = ret True"
| "destroy_nodes xpdev (i # is) = do {
     cls \<leftarrow> gets_st g_xdma_class;
     rv \<leftarrow> sha256_destory (sha256_addr xpdev i) cls;
     p \<leftarrow> the_xpdev xpdev;
     if rv < 0 \<and> xp_xdev p = 0 then do { _ \<leftarrow> emit Oops; ret False }
     else destroy_nodes xpdev is }"

definition xpdev_destroy_interfaces :: "u64 \<Rightarrow> (hworld, bool) state" where
  "xpdev_destroy_interfaces xpdev = do {
     p \<leftarrow> the_xpdev xpdev;
     alive \<leftarrow> destroy_nodes xpdev [0..<xp_h2c_channel_max p];
     if alive then do {
       p \<leftarrow> the_xpdev xpdev;
       _ \<leftarrow> when_st (xp_major p \<noteq> 0)
              (kproc K_unregister_chrdev_region [MKDEV (xp_major p) XDMA_MINOR_BASE, XDMA_MINOR_COUNT]);
       ret True }
     else ret False }"

text \<open>The loop of \<open>xpdev_create_interfaces\<close>: one node for each host-to-card engine.\<close>

fun create_nodes :: "env \<Rightarrow> u32 \<Rightarrow> u64 \<Rightarrow> nat list \<Rightarrow> (hworld, int) state" where
  "create_nodes E major xpdev [] = ret 0"
| "create_nodes E major xpdev (i # is) = do {
     p \<leftarrow> the_xpdev xpdev;
     let e = H2C (xp_xdev p) i;
     g \<leftarrow> the_eng e;
     if e_magic g \<noteq> MAGIC_ENGINE then create_nodes E major xpdev is
     else do {
       cls \<leftarrow> gets_st g_xdma_class;
       rv \<leftarrow> sha256_create E major xpdev (sha256_addr xpdev i) (int i) e cls;
       if rv < 0 then ret rv else create_nodes E major xpdev is } }"

definition xpdev_create_interfaces :: "env \<Rightarrow> u32 \<Rightarrow> u64 \<Rightarrow> (hworld, int option) state" where
  "xpdev_create_interfaces E major xpdev = do {
     p \<leftarrow> the_xpdev xpdev;
     rv \<leftarrow> create_nodes E major xpdev [0..<xp_h2c_channel_max p];
     if rv < 0 then do {
       alive \<leftarrow> xpdev_destroy_interfaces xpdev;
       ret (if alive then Some (-1) else None) }
     else ret (Some 0) }"

section \<open>Loading and unloading\<close>

definition xdma_cdev_init :: "env \<Rightarrow> (hworld, int) state" where
  "xdma_cdev_init E = do {
     cls \<leftarrow> kcall E K_class_create [];
     _ \<leftarrow> modify_st (\<lambda>s. s\<lparr>g_xdma_class := cls\<rparr>);
     if is_err cls then ret (- EINVAL)
     else do {
       c \<leftarrow> kptr E K_kmem_cache_create [];
       _ \<leftarrow> modify_st (\<lambda>s. s\<lparr>cdev_cache := c\<rparr>);
       if c = 0 then ret (- ENOMEM) else ret 0 } }"

definition xdma_cdev_cleanup :: "(hworld, unit) state" where
  "xdma_cdev_cleanup = do {
     c \<leftarrow> gets_st cdev_cache;
     _ \<leftarrow> when_st (c \<noteq> 0) (kproc K_kmem_cache_destroy [c]);
     cls \<leftarrow> gets_st g_xdma_class;
     when_st (cls \<noteq> 0) (kproc K_class_destroy [of_int cls]) }"

abbreviation (input) XDMA_DESC_BLEN_MAX :: u32 where "XDMA_DESC_BLEN_MAX \<equiv> 0x0FFFFFFF"

definition xdma_mod_init :: "env \<Rightarrow> (hworld, int) state" where
  "xdma_mod_init E = do {
     blen \<leftarrow> param desc_blen_max;
     _ \<leftarrow> when_st (XDMA_DESC_BLEN_MAX < blen)
            (modify_st (\<lambda>s. s\<lparr>prm := (prm s)\<lparr>desc_blen_max := XDMA_DESC_BLEN_MAX\<rparr>\<rparr>));
     rv \<leftarrow> xdma_cdev_init E;
     if rv < 0 then ret rv else kcall E K_pci_register_driver [] }"

definition xdma_mod_exit :: "(hworld, unit) state" where
  "xdma_mod_exit = do { _ \<leftarrow> kproc K_pci_unregister_driver []; xdma_cdev_cleanup }"

section \<open>Probe and remove\<close>

definition new_xpdev :: "u64 \<Rightarrow> xdma_pci_dev" where
  "new_xpdev pdev = \<lparr>xp_magic = MAGIC_DEVICE, xp_pdev = pdev, xp_xdev = 0, xp_major = 0, xp_instance = 0,
     xp_user_max = MAX_USER_IRQ, xp_c2h_channel_max = XDMA_CHANNEL_NUM_MAX,
     xp_h2c_channel_max = XDMA_CHANNEL_NUM_MAX, xp_flags = 0\<rparr>"

definition xpdev_alloc :: "env \<Rightarrow> u64 \<Rightarrow> (hworld, u64) state" where
  "xpdev_alloc E pdev = do {
     xpdev \<leftarrow> kptr E K_kzalloc [0];
     if xpdev = 0 then ret 0
     else do {
       _ \<leftarrow> upd_xpdev xpdev (\<lambda>_. new_xpdev pdev);
       _ \<leftarrow> for_each [0..<XDMA_CHANNEL_NUM_MAX] (\<lambda>i. upd_sha (sha256_addr xpdev i) (\<lambda>_. zero_sha256));
       _ \<leftarrow> modify_st (\<lambda>s. s\<lparr>xpdev_cnt := xpdev_cnt s + 1\<rparr>);
       ret xpdev } }"

definition xpdev_free :: "env \<Rightarrow> u64 \<Rightarrow> (hworld, bool) state" where
  "xpdev_free E xpdev = do {
     p \<leftarrow> the_xpdev xpdev;
     let xdev = xp_xdev p;
     alive \<leftarrow> xpdev_destroy_interfaces xpdev;
     if alive then do {
       _ \<leftarrow> upd_xpdev xpdev (\<lambda>p. p\<lparr>xp_xdev := 0\<rparr>);
       _ \<leftarrow> xdma_device_close E (xp_pdev p) xdev;
       _ \<leftarrow> modify_st (\<lambda>s. s\<lparr>xpdev_cnt := xpdev_cnt s - 1\<rparr>);
       _ \<leftarrow> kproc K_kfree [xpdev];
       ret True }
     else ret False }"

text \<open>The label \<open>err_out\<close> of \<open>probe_one\<close>.\<close>

definition probe_err_out :: "env \<Rightarrow> u64 \<Rightarrow> int \<Rightarrow> (hworld, int option) state" where
  "probe_err_out E xpdev rv = do {
     alive \<leftarrow> xpdev_free E xpdev;
     ret (if alive then Some rv else None) }"

text \<open>The part of \<open>probe_one\<close> after the limits were checked.\<close>

definition probe_interfaces :: "env \<Rightarrow> u32 \<Rightarrow> u64 \<Rightarrow> u64 \<Rightarrow> u64 \<Rightarrow> (hworld, int option) state" where
  "probe_interfaces E major pdev xpdev hndl = do {
     xdev \<leftarrow> xdev_find_by_pdev pdev;
     if xdev = 0 then probe_err_out E xpdev (- EINVAL)
     else if hndl \<noteq> xdev then probe_err_out E xpdev (- EINVAL)
     else do {
       _ \<leftarrow> upd_xpdev xpdev (\<lambda>p. p\<lparr>xp_xdev := hndl\<rparr>);
       rv \<leftarrow> xpdev_create_interfaces E major xpdev;
       case rv of None \<Rightarrow> ret None | Some rv \<Rightarrow>
         if rv \<noteq> 0 then probe_err_out E xpdev rv
         else do {
           _ \<leftarrow> modify_st (\<lambda>s. s\<lparr>drvdata := (drvdata s)(pdev := xpdev)\<rparr>);
           ret (Some 0) } } }"

text \<open>\<open>cpus\<close> are the CPUs on line and \<open>major\<close> the device number the kernel hands out.\<close>

definition probe_one :: "env \<Rightarrow> nat list \<Rightarrow> u32 \<Rightarrow> u64 \<Rightarrow> (hworld, int option) state" where
  "probe_one E cpus major pdev = do {
     xpdev \<leftarrow> xpdev_alloc E pdev;
     if xpdev = 0 then ret (Some (- ENOMEM))
     else do {
       p \<leftarrow> the_xpdev xpdev;
       (hndl, user_max, h2c_max, c2h_max) \<leftarrow>
         xdma_device_open E cpus pdev (xp_user_max p) (xp_h2c_channel_max p) (xp_c2h_channel_max p);
       _ \<leftarrow> upd_xpdev xpdev (\<lambda>p. p\<lparr>xp_user_max := user_max, xp_h2c_channel_max := h2c_max,
              xp_c2h_channel_max := c2h_max\<rparr>);
       if hndl = 0 then probe_err_out E xpdev (- EINVAL)
       else if MAX_USER_IRQ < user_max then probe_err_out E xpdev (- EINVAL)
       else if XDMA_CHANNEL_NUM_MAX < h2c_max then probe_err_out E xpdev (- EINVAL)
       else if XDMA_CHANNEL_NUM_MAX < c2h_max then probe_err_out E xpdev (- EINVAL)
       else do {
         rv \<leftarrow> (if user_max \<noteq> 0 then xdma_user_isr_enable E hndl (push_bit (user_max + 1) 1 - 1) else ret 0);
         if rv \<noteq> 0 then probe_err_out E xpdev rv
         else probe_interfaces E major pdev xpdev hndl } } }"

definition remove_one :: "env \<Rightarrow> u64 \<Rightarrow> (hworld, bool) state" where
  "remove_one E pdev = (if pdev = 0 then ret True else do {
     xpdev \<leftarrow> gets_st (\<lambda>s. drvdata s pdev);
     if xpdev = 0 then ret True
     else do {
       alive \<leftarrow> xpdev_free E xpdev;
       if alive then do {
         _ \<leftarrow> modify_st (\<lambda>s. s\<lparr>drvdata := (drvdata s)(pdev := 0)\<rparr>);
         ret True }
       else ret False } })"

section \<open>Error handlers of the PCI core\<close>

datatype pci_channel_state =
    pci_channel_io_normal | pci_channel_io_frozen | pci_channel_io_perm_failure | pci_channel_io_other

datatype pci_ers_result =
    PCI_ERS_RESULT_CAN_RECOVER | PCI_ERS_RESULT_NEED_RESET | PCI_ERS_RESULT_DISCONNECT
  | PCI_ERS_RESULT_RECOVERED

text \<open>The handle of the device that is bound to \<open>pdev\<close>: \<open>xpdev->xdev\<close>.\<close>

definition bound_xdev :: "u64 \<Rightarrow> (hworld, u64) state" where
  "bound_xdev pdev = gets_st (\<lambda>s. xp_xdev (xpdevs s (drvdata s pdev)))"

definition xdma_error_detected :: "env \<Rightarrow> u64 \<Rightarrow> pci_channel_state \<Rightarrow> (hworld, pci_ers_result) state" where
  "xdma_error_detected E pdev st = (case st of
     pci_channel_io_normal \<Rightarrow> ret PCI_ERS_RESULT_CAN_RECOVER
   | pci_channel_io_frozen \<Rightarrow> do {
       xdev \<leftarrow> bound_xdev pdev;
       _ \<leftarrow> xdma_device_offline E pdev xdev;
       _ \<leftarrow> kproc K_pci_disable_device [pdev];
       ret PCI_ERS_RESULT_NEED_RESET }
   | pci_channel_io_perm_failure \<Rightarrow> ret PCI_ERS_RESULT_DISCONNECT
   | pci_channel_io_other \<Rightarrow> ret PCI_ERS_RESULT_NEED_RESET)"

definition xdma_slot_reset :: "env \<Rightarrow> u64 \<Rightarrow> (hworld, pci_ers_result) state" where
  "xdma_slot_reset E pdev = do {
     rv \<leftarrow> kcall E K_pci_enable_device_mem [pdev];
     if rv \<noteq> 0 then ret PCI_ERS_RESULT_DISCONNECT
     else do {
       _ \<leftarrow> kproc K_pci_set_master [pdev];
       _ \<leftarrow> kproc K_pci_restore_state [pdev];
       _ \<leftarrow> kproc K_pci_save_state [pdev];
       xdev \<leftarrow> bound_xdev pdev;
       _ \<leftarrow> xdma_device_online E pdev xdev;
       ret PCI_ERS_RESULT_RECOVERED } }"

definition xdma_error_resume :: "u64 \<Rightarrow> (hworld, unit) state" where
  "xdma_error_resume pdev = kproc K_pci_aer_clear [pdev]"

definition xdma_reset_prepare :: "env \<Rightarrow> u64 \<Rightarrow> (hworld, unit) state" where
  "xdma_reset_prepare E pdev = do { xdev \<leftarrow> bound_xdev pdev; xdma_device_offline E pdev xdev }"

definition xdma_reset_done :: "env \<Rightarrow> u64 \<Rightarrow> (hworld, unit) state" where
  "xdma_reset_done E pdev = do { xdev \<leftarrow> bound_xdev pdev; xdma_device_online E pdev xdev }"

definition xdma_reset_notify :: "env \<Rightarrow> u64 \<Rightarrow> bool \<Rightarrow> (hworld, unit) state" where
  "xdma_reset_notify E pdev prepare = do {
     xdev \<leftarrow> bound_xdev pdev;
     if prepare then xdma_device_offline E pdev xdev else xdma_device_online E pdev xdev }"

end
