(* ===== verification/CdevNodes.thy ===== *)
theory CdevNodes
  imports XdmaMod
begin

text \<open>
  The control, event and bypass nodes (\<open>cdev_ctrl.c\<close>, \<open>cdev_ctrl.h\<close>, \<open>cdev_events.c\<close>, \<open>cdev_bypass.c\<close>).
  The files are part of the module; the code that would create these nodes is commented out in
  \<open>xdma_cdev.c\<close>. A node is a \<open>struct xdma_cdev\<close>, held in \<open>shas\<close> with the fields of the hash units
  unused.
\<close>

section \<open>User memory and ioctl numbers\<close>

text \<open>
  \<open>copy_from_user\<close> into a buffer: the bytes that could not be copied are zero. The result is the
  number of those and the buffer.
\<close>

definition padded :: "nat \<Rightarrow> u8 list \<Rightarrow> u8 list" where
  "padded left bs = take (length bs - left) bs @ replicate (min left (length bs)) 0"

definition fetch_user :: "env \<Rightarrow> u64 \<Rightarrow> nat \<Rightarrow> ('a kworld_scheme, nat \<times> u8 list) state" where
  "fetch_user E a n = do { (left, bs) \<leftarrow> copy_from_user E a n; ret (left, padded left bs) }"

text \<open>A word that at most four bytes are copied into, and wider integers in memory.\<close>

fun le_word :: "u8 list \<Rightarrow> u32" where
  "le_word [] = 0"
| "le_word (b # bs) = ucast b OR push_bit 8 (le_word bs)"

definition le16 :: "u16 \<Rightarrow> u8 list" where
  "le16 w = [ucast w, ucast (drop_bit 8 w)]"

definition le64 :: "u64 \<Rightarrow> u8 list" where
  "le64 w = le_bytes (ucast w) @ le_bytes (ucast (drop_bit 32 w))"

definition le_word64 :: "u8 list \<Rightarrow> u64" where
  "le_word64 bs = ucast (le_word (take 4 bs)) OR push_bit 32 (ucast (le_word (take 4 (drop 4 bs))))"

text \<open>The command numbers \<open>_IO\<close>, \<open>_IOR\<close>, \<open>_IOW\<close> and \<open>_IOWR\<close> are made by \<open>_IOC\<close>.\<close>

definition IOC :: "u32 \<Rightarrow> u32 \<Rightarrow> u32 \<Rightarrow> u32 \<Rightarrow> u32" where
  "IOC dir type nr sz = push_bit 30 dir OR push_bit 16 sz OR push_bit 8 type OR nr"

definition IOC_DIR :: "u32 \<Rightarrow> u32" where "IOC_DIR cmd = drop_bit 30 cmd AND 3"
definition IOC_TYPE :: "u32 \<Rightarrow> u32" where "IOC_TYPE cmd = drop_bit 8 cmd AND 0xFF"
definition IOC_SIZE :: "u32 \<Rightarrow> u32" where "IOC_SIZE cmd = drop_bit 16 cmd AND 0x3FFF"

abbreviation (input) IOC_WRITE :: u32 where "IOC_WRITE \<equiv> 1"
abbreviation (input) IOC_READ :: u32 where "IOC_READ \<equiv> 2"

section \<open>The control node\<close>

datatype xdma_ioc_type = XDMA_IOC_NOP | XDMA_IOC_INFO | XDMA_IOC_OFFLINE | XDMA_IOC_ONLINE | XDMA_IOC_MAX

fun xdma_ioc_nr :: "xdma_ioc_type \<Rightarrow> u32" where
  "xdma_ioc_nr XDMA_IOC_NOP = 0"
| "xdma_ioc_nr XDMA_IOC_INFO = 1"
| "xdma_ioc_nr XDMA_IOC_OFFLINE = 2"
| "xdma_ioc_nr XDMA_IOC_ONLINE = 3"
| "xdma_ioc_nr XDMA_IOC_MAX = 4"

definition XDMA_IOC_MAGIC :: u32 where "XDMA_IOC_MAGIC = 0x78"
definition XDMA_XCL_MAGIC :: u32 where "XDMA_XCL_MAGIC = 0x586C0C6C"

definition XDMA_IOCINFO :: u32 where
  "XDMA_IOCINFO = IOC (IOC_READ OR IOC_WRITE) XDMA_IOC_MAGIC (xdma_ioc_nr XDMA_IOC_INFO) 40"
definition XDMA_IOCOFFLINE :: u32 where
  "XDMA_IOCOFFLINE = IOC 0 XDMA_IOC_MAGIC (xdma_ioc_nr XDMA_IOC_OFFLINE) 0"
definition XDMA_IOCONLINE :: u32 where
  "XDMA_IOCONLINE = IOC 0 XDMA_IOC_MAGIC (xdma_ioc_nr XDMA_IOC_ONLINE) 0"

text \<open>Read and write: the result and the new position. The number of bytes asked for is not used.\<close>

definition char_ctrl_read :: "env \<Rightarrow> u64 \<Rightarrow> u64 \<Rightarrow> int \<Rightarrow> (hworld, int \<times> int) state" where
  "char_ctrl_read E buf cnt pos = do {
     xcdev \<leftarrow> private_data;
     rv \<leftarrow> xcdev_check xcdev False;
     if rv < 0 then ret (rv, pos)
     else if pos AND 3 \<noteq> 0 then ret (- EPROTO, pos)
     else do {
       k \<leftarrow> the_sha xcdev;
       x \<leftarrow> the_xdev (k_xdev k);
       w \<leftarrow> ioread32 E (x_bar x (nat (k_bar k)) + of_int pos);
       _ \<leftarrow> copy_to_user E buf (le_bytes w);
       ret (4, pos + 4) } }"

definition char_ctrl_write :: "env \<Rightarrow> u64 \<Rightarrow> u64 \<Rightarrow> int \<Rightarrow> (hworld, int \<times> int) state" where
  "char_ctrl_write E buf cnt pos = do {
     xcdev \<leftarrow> private_data;
     rv \<leftarrow> xcdev_check xcdev False;
     if rv < 0 then ret (rv, pos)
     else if pos AND 3 \<noteq> 0 then ret (- EPROTO, pos)
     else do {
       k \<leftarrow> the_sha xcdev;
       x \<leftarrow> the_xdev (k_xdev k);
       (left, bs) \<leftarrow> fetch_user E buf 4;
       _ \<leftarrow> iowrite32 (le_word bs) (x_bar x (nat (k_bar k)) + of_int pos);
       ret (4, pos + 4) } }"

text \<open>
  The structure that \<open>version_ioctl\<close> gives back. \<open>id n\<close> are the vendor, the device and those of the
  subsystem, \<open>devfn\<close> has eight bits, and the \<open>feature_id\<close> of a device is never set.
\<close>

definition ioc_info_bytes :: "(nat \<Rightarrow> u16) \<Rightarrow> u8 \<Rightarrow> u8 list" where
  "ioc_info_bytes ident devfn =
     le_bytes 0 @ le_bytes 0 @ concat (map (\<lambda>n. le16 (ident n)) [0, 1, 2, 3]) @
     le_bytes 0 @ le_bytes 2020202 @ le64 0 @
     le16 0 @ [drop_bit 8 devfn AND 0xFF, drop_bit 3 devfn AND 0x1F, devfn AND 7] @ replicate 3 0"

definition version_ioctl :: "env \<Rightarrow> u64 \<Rightarrow> u64 \<Rightarrow> (hworld, int) state" where
  "version_ioctl E xcdev arg = do {
     k \<leftarrow> the_sha xcdev;
     x \<leftarrow> the_xdev (k_xdev k);
     (left, obj) \<leftarrow> fetch_user E arg 40;
     if left \<noteq> 0 then ret (- EFAULT)
     else do {
       v \<leftarrow> kcall E K_pdev_id [x_pdev x, 0];
       d \<leftarrow> kcall E K_pdev_id [x_pdev x, 1];
       sv \<leftarrow> kcall E K_pdev_id [x_pdev x, 2];
       sd \<leftarrow> kcall E K_pdev_id [x_pdev x, 3];
       devfn \<leftarrow> kcall E K_pdev_id [x_pdev x, 4];
       left \<leftarrow> copy_to_user E arg (ioc_info_bytes (\<lambda>n. of_int ([v, d, sv, sd] ! n)) (of_int devfn));
       if left \<noteq> 0 then ret (- EFAULT) else ret 0 } }"

definition char_ctrl_ioctl :: "env \<Rightarrow> u32 \<Rightarrow> u64 \<Rightarrow> (hworld, int) state" where
  "char_ctrl_ioctl E cmd arg = do {
     xcdev \<leftarrow> private_data;
     rv \<leftarrow> xcdev_check xcdev False;
     if rv < 0 then ret rv
     else do {
       k \<leftarrow> the_sha xcdev;
       x \<leftarrow> the_xdev (k_xdev k);
       if IOC_TYPE cmd \<noteq> XDMA_IOC_MAGIC then ret (- ENOTTY)
       else do {
         ok \<leftarrow> (if IOC_DIR cmd AND IOC_READ \<noteq> 0 \<or> IOC_DIR cmd AND IOC_WRITE \<noteq> 0
                then kcall E K_access_ok [arg, ucast (IOC_SIZE cmd)] else ret 1);
         if ok = 0 then ret (- EFAULT)
         else if cmd = XDMA_IOCINFO then do {
           (left, obj) \<leftarrow> fetch_user E arg 8;
           if left \<noteq> 0 then ret (- EFAULT)
           else if le_word (take 4 obj) \<noteq> XDMA_XCL_MAGIC then ret (- ENOTTY)
           else version_ioctl E xcdev arg }
         else if cmd = XDMA_IOCOFFLINE then do {
           _ \<leftarrow> xdma_device_offline E (x_pdev x) (k_xdev k);
           ret 0 }
         else if cmd = XDMA_IOCONLINE then do {
           _ \<leftarrow> xdma_device_online E (x_pdev x) (k_xdev k);
           ret 0 }
         else ret (- ENOTTY) } } }"

text \<open>The area of user space that is to be mapped.\<close>

record vm_area =
  vm_start :: u64
  vm_end :: u64
  vm_pgoff :: u64

definition bridge_mmap :: "env \<Rightarrow> vm_area \<Rightarrow> (hworld, int) state" where
  "bridge_mmap E vma = do {
     xcdev \<leftarrow> private_data;
     rv \<leftarrow> xcdev_check xcdev False;
     if rv < 0 then ret rv
     else do {
       k \<leftarrow> the_sha xcdev;
       x \<leftarrow> the_xdev (k_xdev k);
       let off = push_bit 12 (vm_pgoff vma);
       start \<leftarrow> kptr E K_pci_resource_start [x_pdev x, of_int (k_bar k)];
       let phys = start + off;
       let vsize = vm_end vma - vm_start vma;
       last \<leftarrow> kptr E K_pci_resource_end [x_pdev x, of_int (k_bar k)];
       start \<leftarrow> kptr E K_pci_resource_start [x_pdev x, of_int (k_bar k)];
       let psize = last - start + 1 - off;
       if psize < vsize then ret (- EINVAL)
       else do {
         rv \<leftarrow> kcall E K_io_remap_pfn_range [vm_start vma, drop_bit 12 phys, vsize];
         if rv \<noteq> 0 then ret (- EAGAIN) else ret 0 } } }"

definition cdev_ctrl_init :: "u64 \<Rightarrow> (hworld, unit) state" where
  "cdev_ctrl_init xcdev = kproc K_cdev_init [xcdev]"

section \<open>The event node\<close>

abbreviation (input) POLLRDNORM :: int where "POLLRDNORM \<equiv> 64"

text \<open>
  \<open>wait_event_interruptible\<close>: no sleep if an event is there. Otherwise the sleep ends with a signal
  (the result is not zero) or because the condition holds, which only the handler of the user
  interrupt makes true.
\<close>

definition wait_events :: "env \<Rightarrow> u64 \<Rightarrow> nat \<Rightarrow> (hworld, int) state" where
  "wait_events E xdev i = do {
     u \<leftarrow> gets_st (\<lambda>s. x_user_irq (xdevs s xdev) i);
     if u_events_irq u \<noteq> 0 then ret 0
     else do {
       rv \<leftarrow> kcall E K_wait [of_nat i];
       _ \<leftarrow> when_st (rv = 0) (do { _ \<leftarrow> user_irq_service E (Some (xdev, i)); ret () });
       ret rv } }"

definition char_events_read :: "env \<Rightarrow> u64 \<Rightarrow> u64 \<Rightarrow> int \<Rightarrow> (hworld, int) state" where
  "char_events_read E buf cnt pos = do {
     xcdev \<leftarrow> private_data;
     rv \<leftarrow> xcdev_check xcdev False;
     if rv < 0 then ret rv
     else do {
       k \<leftarrow> the_sha xcdev;
       case k_user_irq k of None \<Rightarrow> ret (- EINVAL) | Some i \<Rightarrow>
         if cnt \<noteq> 4 then ret (- EPROTO)
         else if pos AND 3 \<noteq> 0 then ret (- EPROTO)
         else do {
           rv \<leftarrow> wait_events E (k_xdev k) i;
           if rv = - ERESTARTSYS then ret (- ERESTARTSYS)
           else do {
             _ \<leftarrow> lock_acquire LkEvents [unat (k_xdev k), i];
             u \<leftarrow> gets_st (\<lambda>s. x_user_irq (xdevs s (k_xdev k)) i);
             _ \<leftarrow> upd_user_irq (k_xdev k) i (\<lambda>u. u\<lparr>u_events_irq := 0\<rparr>);
             _ \<leftarrow> lock_release LkEvents [unat (k_xdev k), i];
             _ \<leftarrow> copy_to_user E buf (le_bytes (ucast (u_events_irq u)));
             ret 4 } } } }"

definition char_events_poll :: "(hworld, int) state" where
  "char_events_poll = do {
     xcdev \<leftarrow> private_data;
     rv \<leftarrow> xcdev_check xcdev False;
     if rv < 0 then ret rv
     else do {
       k \<leftarrow> the_sha xcdev;
       case k_user_irq k of None \<Rightarrow> ret (- EINVAL) | Some i \<Rightarrow> do {
         _ \<leftarrow> lock_acquire LkEvents [unat (k_xdev k), i];
         u \<leftarrow> gets_st (\<lambda>s. x_user_irq (xdevs s (k_xdev k)) i);
         _ \<leftarrow> lock_release LkEvents [unat (k_xdev k), i];
         ret (if u_events_irq u \<noteq> 0 then POLLIN + POLLRDNORM else 0) } } }"

definition cdev_event_init :: "u64 \<Rightarrow> (hworld, unit) state" where
  "cdev_event_init xcdev = do {
     _ \<leftarrow> upd_sha xcdev (\<lambda>k. k\<lparr>k_user_irq := Some (nat (k_bar k))\<rparr>);
     kproc K_cdev_init [xcdev] }"

section \<open>The bypass node\<close>

text \<open>\<open>struct xdma_desc\<close> in memory.\<close>

definition desc_bytes :: "xdma_desc \<Rightarrow> u8 list" where
  "desc_bytes d = concat (map le_bytes [d_control d, d_bytes d, d_src_lo d, d_src_hi d, d_dst_lo d,
     d_dst_hi d, d_next_lo d, d_next_hi d])"

text \<open>
  The loop of \<open>copy_desc_data\<close>: the descriptors \<open>i\<close>, ... of the transfer, the offset in the buffer
  and the error code so far. A failure does not end the loop.
\<close>

fun copy_descs :: "env \<Rightarrow> xref \<Rightarrow> u64 \<Rightarrow> u64 \<Rightarrow> nat list \<Rightarrow> u64 \<Rightarrow> int \<Rightarrow> (hworld, int \<times> u64) state" where
  "copy_descs E x buf sz [] off rc = ret (rc, off)"
| "copy_descs E x buf sz (i # is) off rc =
     (if off + 32 \<le> sz then do {
        t \<leftarrow> the_xfer x;
        g \<leftarrow> the_eng (t_ring t);
        left \<leftarrow> copy_to_user E (buf + off) (desc_bytes (e_ring g (t_desc_virt t + int i)));
        if left \<noteq> 0 then copy_descs E x buf sz is sz (- EINVAL)
        else copy_descs E x buf sz is (off + 32) rc }
      else copy_descs E x buf sz is off (- ENOMEM))"

definition copy_desc_data :: "env \<Rightarrow> xref \<Rightarrow> u64 \<Rightarrow> u64 \<Rightarrow> u64 \<Rightarrow> (hworld, int \<times> u64) state" where
  "copy_desc_data E x buf off sz = (if buf = 0 then ret (- EINVAL, off) else do {
     t \<leftarrow> the_xfer x;
     copy_descs E x buf sz [0..<unat (t_desc_num t)] off 0 })"

text \<open>The transfers of the queue: the error code is that of the last one.\<close>

fun copy_transfers :: "env \<Rightarrow> u64 \<Rightarrow> u64 \<Rightarrow> xref list \<Rightarrow> u64 \<Rightarrow> int \<Rightarrow> (hworld, int \<times> u64) state" where
  "copy_transfers E buf sz [] off rc = ret (rc, off)"
| "copy_transfers E buf sz (x # xs) off rc = do {
     (rc, off) \<leftarrow> copy_desc_data E x buf off sz;
     copy_transfers E buf sz xs off rc }"

definition char_bypass_read :: "env \<Rightarrow> u64 \<Rightarrow> u64 \<Rightarrow> (hworld, int) state" where
  "char_bypass_read E buf cnt = do {
     xcdev \<leftarrow> private_data;
     rc \<leftarrow> xcdev_check xcdev True;
     if rc < 0 then ret rc
     else do {
       k \<leftarrow> the_sha xcdev;
       x \<leftarrow> the_xdev (k_xdev k);
       if cnt AND 3 \<noteq> 0 then ret (- EINVAL)
       else if buf = 0 then ret (- EINVAL)
       else if x_bypass_bar_idx x < 0 then ret (- ENODEV)
       else do {
         _ \<leftarrow> lock_acquire LkEngine (eng_key (k_engine k));
         g \<leftarrow> the_eng (k_engine k);
         (rc, off) \<leftarrow> copy_transfers E buf cnt (e_transfer_list g) 0 rc;
         _ \<leftarrow> lock_release LkEngine (eng_key (k_engine k));
         ret (if rc < 0 then rc else sint off) } } }"

text \<open>The words of the user buffer: \<open>n\<close> are left, from offset \<open>off\<close> on.\<close>

fun bypass_words :: "env \<Rightarrow> u64 \<Rightarrow> u64 \<Rightarrow> nat \<Rightarrow> u64 \<Rightarrow> int \<Rightarrow> (hworld, int) state" where
  "bypass_words E buf addr 0 off rc = ret rc"
| "bypass_words E buf addr (Suc n) off rc = do {
     (left, bs) \<leftarrow> fetch_user E (buf + off) 4;
     if left \<noteq> 0 then ret (- EINVAL)
     else do {
       _ \<leftarrow> iowrite32 (le_word bs) addr;
       bypass_words E buf addr n (off + 4) (sint (ucast (off + 4) :: u32)) } }"

definition char_bypass_write :: "env \<Rightarrow> u64 \<Rightarrow> u64 \<Rightarrow> (hworld, int) state" where
  "char_bypass_write E buf cnt = do {
     xcdev \<leftarrow> private_data;
     rc \<leftarrow> xcdev_check xcdev True;
     if rc < 0 then ret rc
     else do {
       k \<leftarrow> the_sha xcdev;
       x \<leftarrow> the_xdev (k_xdev k);
       if cnt AND 3 \<noteq> 0 then ret (- EINVAL)
       else if buf = 0 then ret (- EINVAL)
       else if x_bypass_bar_idx x < 0 then ret (- ENODEV)
       else do {
         _ \<leftarrow> lock_acquire LkEngine (eng_key (k_engine k));
         g \<leftarrow> the_eng (k_engine k);
         let addr = x_bar x (nat (x_bypass_bar_idx x)) + 4 * ucast (e_bypass_offset g);
         rc \<leftarrow> bypass_words E buf addr (unat (cnt div 4)) 0 rc;
         _ \<leftarrow> lock_release LkEngine (eng_key (k_engine k));
         ret rc } } }"

definition cdev_bypass_init :: "u64 \<Rightarrow> (hworld, unit) state" where
  "cdev_bypass_init xcdev = kproc K_cdev_init [xcdev]"

end
