(* ===== verification/NodeLaws.thy ===== *)
theory NodeLaws
  imports CdevNodes Samples
begin

text \<open>
  What the control and event nodes guarantee: the event nodes and the interrupt handler together
  implement a set of pending events, and a mapping of a BAR stays inside it, for some offsets.
\<close>

section \<open>Events\<close>

text \<open>
  The abstract system is the set of the pending user interrupts. A read takes its interrupt out; if
  it is not pending the read sleeps until it fires or a signal ends the sleep. The labels carry the
  operation, its result and the words it gives to the user.
\<close>

datatype event_op = Fire nat | Read nat | Poll nat

inductive event_step :: "nat set \<Rightarrow> event_op \<times> int \<times> u8 list list \<Rightarrow> nat set \<Rightarrow> bool" where
  fire: "event_step P (Fire i, IRQ_HANDLED, []) (insert i P)"
| take: "i \<in> P \<Longrightarrow> event_step P (Read i, 4, [le_bytes 1]) (P - {i})"
| sleep: "i \<notin> P \<Longrightarrow> event_step P (Read i, 4, [le_bytes 1]) P"
| signal: "i \<notin> P \<Longrightarrow> event_step P (Read i, - ERESTARTSYS, []) P"
| poll: "event_step P (Poll i, if i \<in> P then POLLIN + POLLRDNORM else 0, []) P"

inductive event_run :: "nat set \<Rightarrow> (event_op \<times> int \<times> u8 list list) list \<Rightarrow> nat set \<Rightarrow> bool" where
  stop: "event_run P [] P"
| step: "event_step P l Q \<Longrightarrow> event_run Q ls R \<Longrightarrow> event_run P (l # ls) R"

inductive_simps event_run_Nil [simp]: "event_run P [] Q"
inductive_simps event_run_Cons [simp]: "event_run P (l # ls) Q"

text \<open>What was copied to the user in a history.\<close>

fun user_copies :: "history \<Rightarrow> u8 list list" where
  "user_copies [] = []"
| "user_copies (ToUser a bs left # h) = bs # user_copies h"
| "user_copies (_ # h) = user_copies h"

lemma user_copies_append [simp]: "user_copies (h @ h') = user_copies h @ user_copies h'"
  by (induction h rule: user_copies.induct) auto

text \<open>
  The driver: user interrupt \<open>i\<close> of the device \<open>d\<close> fires, or a process reads or polls the file that was
  opened on its node, \<open>node i\<close>.
\<close>

definition event_do :: "env \<Rightarrow> u64 \<Rightarrow> (nat \<Rightarrow> u64) \<Rightarrow> u64 \<Rightarrow> event_op \<Rightarrow> (hworld, int) state" where
  "event_do E d node buf op = (case op of
     Fire i \<Rightarrow> user_irq_service E (Some (d, i))
   | Read i \<Rightarrow> do {
       _ \<leftarrow> modify_st (\<lambda>s. s\<lparr>fl := (fl s)\<lparr>f_private_data := node i\<rparr>\<rparr>);
       char_events_read E buf 4 0 }
   | Poll i \<Rightarrow> do {
       _ \<leftarrow> modify_st (\<lambda>s. s\<lparr>fl := (fl s)\<lparr>f_private_data := node i\<rparr>\<rparr>);
       char_events_poll })"

fun op_irq :: "event_op \<Rightarrow> nat" where
  "op_irq (Fire i) = i" | "op_irq (Read i) = i" | "op_irq (Poll i) = i"

text \<open>A sequence of operations, with the label of each.\<close>

fun event_trace :: "env \<Rightarrow> u64 \<Rightarrow> (nat \<Rightarrow> u64) \<Rightarrow> u64 \<Rightarrow> event_op list \<Rightarrow> hworld \<Rightarrow>
    (event_op \<times> int \<times> u8 list list) list \<times> hworld" where
  "event_trace E d node buf [] s = ([], s)"
| "event_trace E d node buf (p # ps) s =
     (let (r, s1) = run_state (event_do E d node buf p) s;
          (ls, s2) = event_trace E d node buf ps s1
      in ((p, r, user_copies (drop (length (tr s)) (tr s1))) # ls, s2))"

definition event_node :: "u64 \<Rightarrow> (nat \<Rightarrow> u64) \<Rightarrow> hworld \<Rightarrow> nat \<Rightarrow> bool" where
  "event_node d node s i \<longleftrightarrow> xcdev_live s (node i) \<and> k_xdev (shas s (node i)) = d \<and>
     k_user_irq (shas s (node i)) = Some i \<and> u_handler (x_user_irq (xdevs s d) i) = 0 \<and>
     u_events_irq (x_user_irq (xdevs s d) i) \<in> {0, 1}"

definition pending :: "u64 \<Rightarrow> hworld \<Rightarrow> nat set" where
  "pending d s = {i. u_events_irq (x_user_irq (xdevs s d) i) \<noteq> 0}"

text \<open>\<open>wait_event_interruptible\<close> answers \<open>0\<close> or that a signal came.\<close>

definition wait_kernel :: "env \<Rightarrow> bool" where
  "wait_kernel E \<longleftrightarrow> (\<forall>h a. kres E h K_wait a \<in> {0, - ERESTARTSYS})"

text \<open>Storing into the event word of one interrupt.\<close>

lemma run_upd_user_irq [simp]:
  "run_state (upd_user_irq d i f) s = ((), s\<lparr>xdevs := (xdevs s)(d := (xdevs s d)\<lparr>x_user_irq :=
     (x_user_irq (xdevs s d))(i := f (x_user_irq (xdevs s d) i))\<rparr>)\<rparr>)"
  by (simp add: upd_user_irq_def)

definition with_event :: "u64 \<Rightarrow> nat \<Rightarrow> u8 \<Rightarrow> hworld \<Rightarrow> hworld" where
  "with_event d i v s = s\<lparr>xdevs := (xdevs s)(d := (xdevs s d)\<lparr>x_user_irq :=
     (x_user_irq (xdevs s d))(i := (x_user_irq (xdevs s d) i)\<lparr>u_events_irq := v\<rparr>)\<rparr>)\<rparr>"

lemma with_event_node:
  assumes "event_node d node s j" "v \<in> {0, 1}"
  shows "event_node d node (with_event d i v s) j"
  using assms by (auto simp: event_node_def xcdev_live_def with_event_def)

lemma with_event_pending:
  "pending d (with_event d i v s) = (if v = 0 then pending d s - {i} else insert i (pending d s))"
  by (auto simp: pending_def with_event_def)

lemma event_node_frame [simp]:
  "event_node d node (s\<lparr>tr := h\<rparr>) i = event_node d node s i"
  "event_node d node (s\<lparr>fl := f\<rparr>) i = event_node d node s i"
  "pending d (s\<lparr>tr := h\<rparr>) = pending d s" "pending d (s\<lparr>fl := f\<rparr>) = pending d s"
  "tr (with_event d i v s) = tr s" "shas (with_event d i v s) = shas s" "fl (with_event d i v s) = fl s"
  "with_event d i v (s\<lparr>tr := h\<rparr>) = (with_event d i v s)\<lparr>tr := h\<rparr>"
  "with_event d i v (s\<lparr>fl := f\<rparr>) = (with_event d i v s)\<lparr>fl := f\<rparr>"
  by (simp_all add: event_node_def xcdev_live_def pending_def with_event_def)

lemma run_fire:
  assumes "u_handler (x_user_irq (xdevs s d) i) = 0"
  shows "\<exists>h. run_state (user_irq_service E (Some (d, i))) s =
      (IRQ_HANDLED, (if i \<in> pending d s then s else with_event d i 1 s)\<lparr>tr := tr s @ h\<rparr>) \<and> user_copies h = []"
  using assms by (auto simp: user_irq_service_def pending_def with_event_def)

text \<open>The sleep: the interrupt is pending at the end of it, or a signal came.\<close>

lemma run_wait_events:
  assumes "wait_kernel E" "event_node d node s i"
  shows "\<exists>h. user_copies h = [] \<and>
    (run_state (wait_events E d i) s = (0, (if i \<in> pending d s then s else with_event d i 1 s)\<lparr>tr := tr s @ h\<rparr>) \<or>
     i \<notin> pending d s \<and> run_state (wait_events E d i) s = (- ERESTARTSYS, s\<lparr>tr := tr s @ h\<rparr>))"
proof (cases "i \<in> pending d s")
  case True
  then have "run_state (wait_events E d i) s = (0, s\<lparr>tr := tr s @ []\<rparr>)"
    by (simp add: wait_events_def pending_def)
  then show ?thesis
    using True by (intro exI [of _ "[]"]) simp
next
  case False
  let ?w = "KCall K_wait [of_nat i] (kres E (tr s) K_wait [of_nat i])"
  have rv: "kres E (tr s) K_wait [of_nat i] \<in> {0, - ERESTARTSYS}"
    using assms(1) unfolding wait_kernel_def by blast
  obtain h where h: "run_state (user_irq_service E (Some (d, i))) (s\<lparr>tr := tr s @ [?w]\<rparr>) =
      (IRQ_HANDLED, (with_event d i 1 s)\<lparr>tr := tr s @ ?w # h\<rparr>)" "user_copies h = []"
    using run_fire [of "s\<lparr>tr := tr s @ [?w]\<rparr>" d i E] assms(2) False by (auto simp: event_node_def)
  have run: "run_state (wait_events E d i) s = (if kres E (tr s) K_wait [of_nat i] = 0
      then (0, (with_event d i 1 s)\<lparr>tr := tr s @ ?w # h\<rparr>)
      else (kres E (tr s) K_wait [of_nat i], s\<lparr>tr := tr s @ [?w]\<rparr>))"
    using False h(1)
    by (cases "kres E (tr s) K_wait [of_nat i] = 0") (simp_all add: wait_events_def pending_def)
  show ?thesis
  proof (cases "kres E (tr s) K_wait [of_nat i] = 0")
    case True
    then show ?thesis
      using False h(2) unfolding run by (intro exI [of _ "?w # h"]) simp
  next
    case nonzero: False
    then show ?thesis
      using rv False unfolding run by (intro exI [of _ "[?w]"]) simp
  qed
qed

lemma run_events_read:
  assumes "event_node d node s i" "run_state (wait_events E d i) (s\<lparr>fl := (fl s)\<lparr>f_private_data := node i\<rparr>\<rparr>) = (rv, t)"
  shows "\<exists>n. run_state (event_do E d node buf (Read i)) s =
    (if rv = - ERESTARTSYS then (rv, t)
     else (4, (with_event d i 0 t)\<lparr>tr := tr t @ [Lock LkEvents [unat d, i], Unlock LkEvents [unat d, i],
       ToUser buf (le_bytes (ucast (u_events_irq (x_user_irq (xdevs t d) i)))) n]\<rparr>))"
  using assms by (auto simp: event_do_def char_events_read_def run_xcdev_check event_node_def xcdev_live_def with_event_def)

lemma event_do_refines:
  assumes "wait_kernel E" "\<forall>i\<in>I. event_node d node s i" "op_irq p \<in> I"
    and run: "run_state (event_do E d node buf p) s = (r, s')"
  shows "(\<forall>i\<in>I. event_node d node s' i) \<and>
    event_step (pending d s) (p, r, user_copies (drop (length (tr s)) (tr s'))) (pending d s')"
proof (cases p)
  case (Fire i)
  then have "event_node d node s i"
    using assms(2,3) by simp
  then obtain h where h: "run_state (user_irq_service E (Some (d, i))) s =
      (IRQ_HANDLED, (if i \<in> pending d s then s else with_event d i 1 s)\<lparr>tr := tr s @ h\<rparr>)" "user_copies h = []"
    using run_fire [of s d i E] by (auto simp: event_node_def)
  have "event_step (pending d s) (Fire i, IRQ_HANDLED, []) (insert i (pending d s))"
    by (rule event_step.fire)
  then show ?thesis
    using Fire run h assms(2) by (auto simp: event_do_def with_event_pending with_event_node insert_absorb split: if_splits)
next
  case (Poll i)
  then have node: "event_node d node s i"
    using assms(2,3) by simp
  have "event_step (pending d s) (Poll i, if i \<in> pending d s then POLLIN + POLLRDNORM else 0, []) (pending d s)"
    by (rule event_step.poll)
  then show ?thesis
    using Poll run node assms(2)
    by (auto simp: event_do_def char_events_poll_def run_xcdev_check event_node_def xcdev_live_def pending_def split: if_splits)
next
  case (Read i)
  then have node: "event_node d node s i"
    using assms(2,3) by simp
  let ?s = "s\<lparr>fl := (fl s)\<lparr>f_private_data := node i\<rparr>\<rparr>"
  obtain h where h: "user_copies h = []"
    and wait: "run_state (wait_events E d i) ?s = (0, (if i \<in> pending d s then ?s else with_event d i 1 ?s)\<lparr>tr := tr s @ h\<rparr>) \<or>
      i \<notin> pending d s \<and> run_state (wait_events E d i) ?s = (- ERESTARTSYS, ?s\<lparr>tr := tr s @ h\<rparr>)"
    using run_wait_events [of E d node ?s i] assms(1) node by auto
  have word: "i \<in> pending d s \<Longrightarrow> u_events_irq (x_user_irq (xdevs s d) i) = 1"
    using node by (auto simp: event_node_def pending_def)
  show ?thesis
    using wait
  proof (elim disjE conjE)
    assume none: "i \<notin> pending d s" and "run_state (wait_events E d i) ?s = (- ERESTARTSYS, ?s\<lparr>tr := tr s @ h\<rparr>)"
    then have "(r, s') = (- ERESTARTSYS, ?s\<lparr>tr := tr s @ h\<rparr>)"
      using run_events_read [OF node] run Read by fastforce
    then show ?thesis
      using Read h assms(2) event_step.signal [OF none] by auto
  next
    let ?t = "(if i \<in> pending d s then ?s else with_event d i 1 ?s)\<lparr>tr := tr s @ h\<rparr>"
    assume "run_state (wait_events E d i) ?s = (0, ?t)"
    then obtain n where "run_state (event_do E d node buf (Read i)) s =
       (4, (with_event d i 0 ?t)\<lparr>tr := tr ?t @ [Lock LkEvents [unat d, i], Unlock LkEvents [unat d, i],
         ToUser buf (le_bytes (ucast (u_events_irq (x_user_irq (xdevs ?t d) i)))) n]\<rparr>)"
      using run_events_read [OF node] by fastforce
    moreover have "u_events_irq (x_user_irq (xdevs ?t d) i) = 1"
      using word by (simp add: with_event_def)
    moreover have "pending d ?t = insert i (pending d s)"
      by (cases "i \<in> pending d s") (simp_all add: with_event_pending insert_absorb)
    ultimately have out: "r = 4" "user_copies (drop (length (tr s)) (tr s')) = [le_bytes 1]"
      "\<forall>j\<in>I. event_node d node s' j" "pending d s' = pending d s - {i}"
      using run Read h assms(2) by (auto simp: with_event_pending with_event_node)
    have "event_step (pending d s) (Read i, 4, [le_bytes 1]) (pending d s - {i})"
      by (cases "i \<in> pending d s") (auto intro: event_step.take event_step.sleep)
    then show ?thesis
      using out Read by simp
  qed
qed


text \<open>Two event nodes of the sample device.\<close>

definition event_world :: hworld where
  "event_world = tworld.extend (xworld.extend sample_world \<lparr>cs_threads = 0, threads = (\<lambda>_. zero_kthread), thread_cnt = 0\<rparr>)
     \<lparr>shas = (\<lambda>a. zero_sha256\<lparr>k_magic := MAGIC_CHAR, k_xdev := 0x100, k_user_irq := Some (unat (a - 0x7000))\<rparr>),
      xpdevs = (\<lambda>_. new_xpdev 0x200), fl = \<lparr>f_private_data = 0x7000, f_pos = 0, f_nonblock = False\<rparr>,
      g_xdma_class = 0, cdev_cache = 0, xpdev_cnt = 0, drvdata = (\<lambda>_. 0),
      caios = (\<lambda>_. zero_caio), iocb_node = (\<lambda>_. 0), perf_ptr = (\<lambda>_. 0)\<rparr>"

lemma event_world_sel [simp]:
  "f_private_data (fl event_world) = 0x7000" "tr event_world = []"
  "shas event_world a = zero_sha256\<lparr>k_magic := MAGIC_CHAR, k_xdev := 0x100, k_user_irq := Some (unat (a - 0x7000))\<rparr>"
  by (simp_all add: event_world_def tworld.extend_def xworld.extend_def sample_world_def)

lemma event_world_nodes:
  assumes "i < 16"
  shows "event_node 0x100 (\<lambda>i. 0x7000 + of_nat i) event_world i"
proof -
  have "unat (0x7000 + of_nat i :: u64) = 0x7000 + i"
    using assms by (simp add: unat_word_ariths unat_of_nat)
  then have "(0x7000 + of_nat i :: u64) \<noteq> 0"
    by (metis add_is_0 unat_0 zero_neq_numeral)
  then show ?thesis
    using assms by (simp add: event_node_def xcdev_live_def event_world_def tworld.extend_def xworld.extend_def
        sample_world_def sample_xdev_def zero_sha256_def unat_of_nat)
qed


section \<open>Mapping a BAR\<close>

text \<open>The resource behind a BAR does not change.\<close>

definition bar_resource :: "env \<Rightarrow> u64 \<Rightarrow> u64 \<Rightarrow> u64 \<Rightarrow> u64 \<Rightarrow> bool" where
  "bar_resource E pdev bar lo hi \<longleftrightarrow>
     (\<forall>h. of_int (kres E h K_pci_resource_start [pdev, bar]) = lo \<and> of_int (kres E h K_pci_resource_end [pdev, bar]) = hi)"

text \<open>
  C32: mapping a BAR into user space. With an offset inside the BAR, the area is mapped if and only if
  it fits into what is left of the BAR. With an offset beyond its end the room that is left wraps
  around: the area is mapped, and it is memory that lies outside the BAR.
\<close>

theorem bridge_mmap_range:
  assumes "xcdev_live s a" "f_private_data (fl s) = a" "k = shas s a" "x = xdevs s (k_xdev k)"
    and "bar_resource E (x_pdev x) (of_int (k_bar k)) lo hi" "len = hi - lo + 1"
    and "off = push_bit 12 (vm_pgoff vma)" "vsize = vm_end vma - vm_start vma"
    and "run_state (bridge_mmap E vma) s = (rv, s')"
  shows "if off \<le> len \<and> unat len < unat off + unat vsize
    then rv = - EINVAL \<and> calls K_io_remap_pfn_range (tr s') = calls K_io_remap_pfn_range (tr s)
    else unat off + unat vsize \<le> unat len + (if off \<le> len then 0 else 2 ^ 64) \<longrightarrow>
      rv \<in> {0, - EAGAIN} \<and> calls K_io_remap_pfn_range (tr s') =
        calls K_io_remap_pfn_range (tr s) @ [[vm_start vma, drop_bit 12 (lo + off), vsize]]"
proof -
  have room: "hi - lo + 1 - off < vsize \<longleftrightarrow> unat len + (if off \<le> len then 0 else 2 ^ 64) < unat off + unat vsize"
  proof (cases "off \<le> len")
    case True
    then have "unat (len - off) = unat len - unat off" "unat off \<le> unat len"
      by (simp_all add: unat_sub word_le_nat_alt)
    then show ?thesis
      unfolding assms(6) [symmetric] using True by (auto simp: word_less_nat_alt)
  next
    case False
    then have "unat len < unat off"
      by (simp add: word_le_nat_alt)
    moreover have "unat (len - off) = 2 ^ 64 + unat len - unat off"
      using False by (simp add: unat_sub_if_size word_size word_le_nat_alt)
    moreover have "unat off < 2 ^ 64"
      using unsigned_less [of off] by simp
    ultimately show ?thesis
      unfolding assms(6) [symmetric] using False by (auto simp: word_less_nat_alt)
  qed
  have res: "of_int (kres E h K_pci_resource_start [x_pdev x, of_int (k_bar k)]) = lo"
    "of_int (kres E h K_pci_resource_end [x_pdev x, of_int (k_bar k)]) = hi" for h
    using assms(5) by (simp_all add: bar_resource_def)
  show ?thesis
    using assms(9) room
    by (auto simp: bridge_mmap_def run_xcdev_check assms(1,2) assms(3) [symmetric] assms(4) [symmetric]
        assms(7,8) [symmetric] res Let_def split: if_splits)
qed

lemma bridge_mmap_range_witness:
  "calls K_io_remap_pfn_range (tr (final_of (bridge_mmap sample_env \<lparr>vm_start = 0x7F0000, vm_end = 0x7F1000, vm_pgoff = 5\<rparr>)
     event_world)) = [[0x7F0000, 5, 0x1000]]"
proof -
  have live: "xcdev_live event_world 0x7000" "f_private_data (fl event_world) = 0x7000"
    using event_world_nodes [of 0] by (simp_all add: event_node_def)
  have res: "bar_resource sample_env (x_pdev (xdevs event_world (k_xdev (shas event_world 0x7000))))
      (of_int (k_bar (shas event_world 0x7000))) 0 0"
    by (simp add: bar_resource_def sample_env_def)
  have beyond: "\<not> (0x5000 :: u64) \<le> 1"
    by (simp add: word_le_nat_alt)
  show ?thesis
    using bridge_mmap_range [OF live refl refl res refl refl refl prod.collapse [symmetric],
        of "\<lparr>vm_start = 0x7F0000, vm_end = 0x7F1000, vm_pgoff = 5\<rparr>"]
    by (simp add: beyond)
qed

end
