(* ===== verification/CdevXvc.thy ===== *)
theory CdevXvc
  imports CdevNodes
begin

text \<open>
  The Xilinx virtual cable node (\<open>cdev_xvc.c\<close>, \<open>cdev_xvc.h\<close>): shifting a vector of bits through a
  JTAG chain, 32 at a time, and what the shifts return.
\<close>

section \<open>Registers and one shift\<close>

abbreviation (input) COMPLETION_LOOP_MAX :: nat where "COMPLETION_LOOP_MAX \<equiv> 100"
abbreviation (input) XVC_BAR_LENGTH_REG :: u64 where "XVC_BAR_LENGTH_REG \<equiv> 0x0"
abbreviation (input) XVC_BAR_TMS_REG :: u64 where "XVC_BAR_TMS_REG \<equiv> 0x4"
abbreviation (input) XVC_BAR_TDI_REG :: u64 where "XVC_BAR_TDI_REG \<equiv> 0x8"
abbreviation (input) XVC_BAR_TDO_REG :: u64 where "XVC_BAR_TDO_REG \<equiv> 0xC"
abbreviation (input) XVC_BAR_CTRL_REG :: u64 where "XVC_BAR_CTRL_REG \<equiv> 0x10"
abbreviation (input) XVC_BAR_OFFSET_DFLT :: u64 where "XVC_BAR_OFFSET_DFLT \<equiv> 0x40000"

definition XDMA_IOCXVC :: u32 where
  "XDMA_IOCXVC = IOC (IOC_READ OR IOC_WRITE) 0x58564344 1 32"

text \<open>The poll: \<open>cnt\<close> reads are left; what is left of the count when it ends.\<close>

fun xvc_poll :: "env \<Rightarrow> u64 \<Rightarrow> nat \<Rightarrow> ('a kworld_scheme, nat) state" where
  "xvc_poll E base 0 = ret 0"
| "xvc_poll E base (Suc n) = do {
     control \<leftarrow> ioread32 E (base + XVC_BAR_CTRL_REG);
     if control AND 1 = 0 then ret (Suc n) else xvc_poll E base n }"

text \<open>The result, and the bits that were shifted out.\<close>

definition xvc_shift_bits :: "env \<Rightarrow> u64 \<Rightarrow> u32 \<Rightarrow> u32 \<Rightarrow> ('a kworld_scheme, int \<times> u32) state" where
  "xvc_shift_bits E base tms_bits tdi_bits = do {
     _ \<leftarrow> iowrite32 tms_bits (base + XVC_BAR_TMS_REG);
     _ \<leftarrow> iowrite32 tdi_bits (base + XVC_BAR_TDI_REG);
     _ \<leftarrow> iowrite32 1 (base + XVC_BAR_CTRL_REG);
     n \<leftarrow> xvc_poll E base COMPLETION_LOOP_MAX;
     if n = 0 then ret (- ETIMEDOUT, 0)
     else do {
       tdo \<leftarrow> ioread32 E (base + XVC_BAR_TDO_REG);
       ret (0, tdo) } }"

section \<open>The loop over the vector\<close>

text \<open>\<open>memcpy\<close> of \<open>n\<close> bytes into a buffer, at an offset.\<close>

definition put_bytes :: "nat \<Rightarrow> u8 list \<Rightarrow> u8 list \<Rightarrow> u8 list" where
  "put_bytes off bs mem = take off mem @ bs @ drop (off + length bs) mem"

text \<open>How the loop ends: with the result of the last shift, or by leaving the buffers.\<close>

datatype xvc_end = Shifted int "u8 list" | Strayed

text \<open>
  The state of the loop is \<open>bits\<close> and \<open>bits_left\<close>, unsigned integers that wrap around, the buffer
  \<open>tdo\<close> and the last result. \<open>None\<close>: \<open>fuel\<close> rounds are not enough.
\<close>

fun xvc_loop ::
  "nat \<Rightarrow> env \<Rightarrow> u64 \<Rightarrow> u32 \<Rightarrow> u8 list \<Rightarrow> u8 list \<Rightarrow> u32 \<Rightarrow> u32 \<Rightarrow> u8 list \<Rightarrow> int \<Rightarrow>
   ('a kworld_scheme, xvc_end option) state" where
  "xvc_loop 0 E iobase total_bits tms tdi bits bits_left tdo rv = ret None"
| "xvc_loop (Suc fuel) E iobase total_bits tms tdi bits bits_left tdo rv =
     (if \<not> bits < total_bits then ret (Some (Shifted rv tdo))
      else do {
        let off = unat (drop_bit 3 bits);
        _ \<leftarrow> when_st (bits_left < 32) (iowrite32 bits_left (iobase + XVC_BAR_LENGTH_REG));
        let n = (if bits_left < 32 then unat (drop_bit 3 (bits_left + 7)) else 4);
        if length tdo < off + n then do { _ \<leftarrow> emit Oops; ret (Some Strayed) }
        else do {
          (rv, tdo_store) \<leftarrow> xvc_shift_bits E iobase (le_word (take n (drop off tms)))
                              (le_word (take n (drop off tdi)));
          if rv < 0 then ret (Some (Shifted rv tdo))
          else xvc_loop fuel E iobase total_bits tms tdi (bits + 32) (bits_left - 32)
                 (put_bytes off (take n (le_bytes tdo_store)) tdo) rv } })"

section \<open>The ioctl\<close>

text \<open>\<open>struct xvc_ioc\<close>: the opcode, the length in bits, and three addresses.\<close>

definition xvc_opcode :: "u8 list \<Rightarrow> u32" where "xvc_opcode obj = le_word (take 4 obj)"
definition xvc_length :: "u8 list \<Rightarrow> u32" where "xvc_length obj = le_word (take 4 (drop 4 obj))"
definition xvc_tms_ptr :: "u8 list \<Rightarrow> u64" where "xvc_tms_ptr obj = le_word64 (take 8 (drop 8 obj))"
definition xvc_tdi_ptr :: "u8 list \<Rightarrow> u64" where "xvc_tdi_ptr obj = le_word64 (take 8 (drop 16 obj))"
definition xvc_tdo_ptr :: "u8 list \<Rightarrow> u64" where "xvc_tdo_ptr obj = le_word64 (take 8 (drop 24 obj))"

definition xvc_bytes :: "u32 \<Rightarrow> u32" where
  "xvc_bytes total_bits = drop_bit 3 (total_bits + 7)"

text \<open>
  The shift under the lock and the copy of its result. With opcode 2 the vector that was shifted in
  is given back. \<open>scratch\<close> is what the allocated memory holds.
\<close>

definition xvc_transfer ::
  "nat \<Rightarrow> env \<Rightarrow> u64 \<Rightarrow> u8 list \<Rightarrow> u8 list \<Rightarrow> u8 list \<Rightarrow> u8 list \<Rightarrow> (hworld, int option) state" where
  "xvc_transfer fuel E xcdev obj tms tdi scratch = do {
     k \<leftarrow> the_sha xcdev;
     x \<leftarrow> the_xdev (k_xdev k);
     let total_bits = xvc_length obj;
     _ \<leftarrow> lock_acquire LkChar [unat xcdev];
     let iobase = x_bar x (nat (k_bar k)) + k_base k;
     _ \<leftarrow> when_st (32 \<le> total_bits) (iowrite32 0x20 (iobase + XVC_BAR_LENGTH_REG));
     z \<leftarrow> xvc_loop fuel E iobase total_bits tms tdi 0 total_bits scratch 0;
     case z of None \<Rightarrow> ret None
     | Some Strayed \<Rightarrow> ret None
     | Some (Shifted rv tdo) \<Rightarrow> do {
         rv \<leftarrow> (if rv < 0 then ret rv
                else do {
                  left \<leftarrow> copy_to_user E (xvc_tdo_ptr obj) (if xvc_opcode obj = 2 then tdi else tdo);
                  ret (int left) });
         _ \<leftarrow> lock_release LkChar [unat xcdev];
         ret (Some rv) } }"

text \<open>
  \<open>None\<close>: the call does not return. \<open>kfree\<close> of the null pointer does nothing. The number of bytes
  that could not be copied becomes the result.
\<close>

definition xvc_ioctl :: "nat \<Rightarrow> env \<Rightarrow> u8 list \<Rightarrow> u32 \<Rightarrow> u64 \<Rightarrow> (hworld, int option) state" where
  "xvc_ioctl fuel E scratch cmd arg = do {
     xcdev \<leftarrow> private_data;
     rv \<leftarrow> xcdev_check xcdev False;
     if rv < 0 then ret (Some rv)
     else if cmd \<noteq> XDMA_IOCXVC then ret (Some (- ENOIOCTLCMD))
     else do {
       (left, obj) \<leftarrow> fetch_user E arg 32;
       if left \<noteq> 0 then ret (Some (int left))
       else if xvc_opcode obj \<noteq> 1 \<and> xvc_opcode obj \<noteq> 2 then ret (Some (- EINVAL))
       else do {
         let total_bytes = xvc_bytes (xvc_length obj);
         buffer \<leftarrow> kptr E K_kzalloc [ucast (total_bytes * 3)];
         if buffer = 0 then ret (Some (- ENOMEM))
         else do {
           (left, tms) \<leftarrow> fetch_user E (xvc_tms_ptr obj) (unat total_bytes);
           rv \<leftarrow> (if left \<noteq> 0 then ret (Some (int left))
             else do {
               (left, tdi) \<leftarrow> fetch_user E (xvc_tdi_ptr obj) (unat total_bytes);
               if left \<noteq> 0 then ret (Some (int left))
               else xvc_transfer fuel E xcdev obj tms tdi
                      (take (unat total_bytes) (scratch @ replicate (unat total_bytes) 0)) });
           case rv of None \<Rightarrow> ret None
           | Some rv \<Rightarrow> do { _ \<leftarrow> kproc K_kfree [buffer]; ret (Some rv) } } } } }"

definition cdev_xvc_init :: "u64 \<Rightarrow> (hworld, unit) state" where
  "cdev_xvc_init xcdev = do {
     _ \<leftarrow> upd_sha xcdev (\<lambda>k. k\<lparr>k_base := XVC_BAR_OFFSET_DFLT\<rparr>);
     kproc K_cdev_init [xcdev] }"

section \<open>What the loop shifts\<close>

text \<open>The values that were read from one register.\<close>

fun reads_at :: "u64 \<Rightarrow> history \<Rightarrow> u32 list" where
  "reads_at a [] = []"
| "reads_at a (MmioR b v # h) = (if b = a then v # reads_at a h else reads_at a h)"
| "reads_at a (_ # h) = reads_at a h"

lemma reads_at_append [simp]: "reads_at a (h @ h') = reads_at a h @ reads_at a h'"
  by (induction h rule: reads_at.induct) auto

lemma run_xvc_poll:
  "\<exists>k h. run_state (xvc_poll E base n) s = (k, s\<lparr>tr := tr s @ h\<rparr>) \<and> writes h = [] \<and>
    reads_at (base + XVC_BAR_TDO_REG) h = []"
proof (induction n arbitrary: s)
  case 0
  have "s = s\<lparr>tr := tr s @ []\<rparr>"
    by simp
  then show ?case
    unfolding xvc_poll.simps run_state_return by (intro exI [of _ 0] exI [of _ "[]"]) simp
next
  case (Suc n)
  let ?e = "MmioR (base + XVC_BAR_CTRL_REG) (mmio_rd E (tr s) (base + XVC_BAR_CTRL_REG))"
  obtain k h where "run_state (xvc_poll E base n) (s\<lparr>tr := tr s @ [?e]\<rparr>) = (k, s\<lparr>tr := tr s @ [?e] @ h\<rparr>)"
    "writes h = []" "reads_at (base + XVC_BAR_TDO_REG) h = []"
    using Suc [of "s\<lparr>tr := tr s @ [?e]\<rparr>"] by auto
  then show ?case
    by (cases "mmio_rd E (tr s) (base + XVC_BAR_CTRL_REG) AND 1 = 0")
      (intro exI [of _ "Suc n"] exI [of _ "[?e]"], simp, intro exI [of _ k] exI [of _ "?e # h"], simp)
qed

lemma run_xvc_shift:
  "\<exists>r v h. run_state (xvc_shift_bits E base tms tdi) s = ((r, v), s\<lparr>tr := tr s @ h\<rparr>) \<and>
    writes h = [(base + XVC_BAR_TMS_REG, tms), (base + XVC_BAR_TDI_REG, tdi), (base + XVC_BAR_CTRL_REG, 1)] \<and>
    (r = 0 \<and> reads_at (base + XVC_BAR_TDO_REG) h = [v] \<or>
     r = - ETIMEDOUT \<and> reads_at (base + XVC_BAR_TDO_REG) h = [])"
proof -
  let ?w = "[MmioW (base + XVC_BAR_TMS_REG) tms, MmioW (base + XVC_BAR_TDI_REG) tdi, MmioW (base + XVC_BAR_CTRL_REG) 1]"
  obtain k h where p: "run_state (xvc_poll E base COMPLETION_LOOP_MAX) (s\<lparr>tr := tr s @ ?w\<rparr>) = (k, s\<lparr>tr := tr s @ ?w @ h\<rparr>)"
    "writes h = []" "reads_at (base + XVC_BAR_TDO_REG) h = []"
    using run_xvc_poll [of E base COMPLETION_LOOP_MAX "s\<lparr>tr := tr s @ ?w\<rparr>"] by auto
  let ?v = "mmio_rd E (tr s @ ?w @ h) (base + XVC_BAR_TDO_REG)"
  show ?thesis
  proof (cases "k = 0")
    case True
    then show ?thesis
      using p by (intro exI [of _ "- ETIMEDOUT"] exI [of _ 0] exI [of _ "?w @ h"])
        (simp add: xvc_shift_bits_def del: xvc_poll.simps)
  next
    case False
    then show ?thesis
      using p by (intro exI [of _ 0] exI [of _ ?v] exI [of _ "?w @ h @ [MmioR (base + XVC_BAR_TDO_REG) ?v]"])
        (simp add: xvc_shift_bits_def del: xvc_poll.simps)
  qed
qed

text \<open>
  What one round writes: \<open>chunk_len T j\<close> bits of a vector of \<open>T\<close>, from bit \<open>32 * j\<close> on, and how many
  bytes these take.
\<close>

definition chunk_len :: "nat \<Rightarrow> nat \<Rightarrow> nat" where
  "chunk_len T j = min 32 (T - 32 * j)"

definition chunk_bytes :: "nat \<Rightarrow> nat \<Rightarrow> nat" where
  "chunk_bytes T j = (chunk_len T j + 7) div 8"

definition chunk_writes :: "u64 \<Rightarrow> nat \<Rightarrow> u8 list \<Rightarrow> u8 list \<Rightarrow> nat \<Rightarrow> (u64 \<times> u32) list" where
  "chunk_writes base T tms tdi j =
     (if chunk_len T j < 32 then [(base + XVC_BAR_LENGTH_REG, of_nat (chunk_len T j))] else []) @
     [(base + XVC_BAR_TMS_REG, le_word (take (chunk_bytes T j) (drop (4 * j) tms))),
      (base + XVC_BAR_TDI_REG, le_word (take (chunk_bytes T j) (drop (4 * j) tdi))),
      (base + XVC_BAR_CTRL_REG, 1)]"

lemma put_chunk:
  assumes "length bs = n" "length don = off"
  shows "put_bytes off bs (don @ drop off mem) = (don @ bs) @ drop (off + n) mem"
  using assms by (simp add: put_bytes_def add.commute)

lemma div8_word: "unat (drop_bit 3 (w :: u32)) = unat w div 8"
proof -
  have "drop_bit 3 w = w div 8"
    by (simp add: drop_bit_eq_div)
  then show ?thesis
    by (simp add: unat_div_distrib)
qed

lemma chunk_end:
  assumes "32 * j < T"
  shows "4 * j + chunk_bytes T j = min (4 * (j + 1)) ((T + 7) div 8)"
proof (cases "T - 32 * j < 32")
  case True
  obtain d where d: "T = 32 * j + d" "d < 32"
    using assms True by (metis le_add_diff_inverse less_imp_le_nat)
  have "(32 * j + d + 7) div 8 = 4 * j + (d + 7) div 8"
    using div_mult_self1 [of 8 "d + 7" "4 * j"] by (simp add: algebra_simps)
  moreover have "(d + 7) div 8 \<le> 4"
    using d(2) by simp
  ultimately show ?thesis
    using d by (simp add: chunk_bytes_def chunk_len_def)
next
  case False
  then have "32 * j + 32 \<le> T"
    by simp
  then have "4 * (j + 1) \<le> (T + 7) div 8"
    by (simp add: less_eq_div_iff_mult_less_eq)
  then show ?thesis
    using False by (simp add: chunk_bytes_def chunk_len_def)
qed

lemma xvc_bytes_unat:
  assumes "unat t \<le> 4294967264"
  shows "unat (xvc_bytes t) = (unat t + 7) div 8"
  using assms by (simp add: xvc_bytes_def div8_word unat_word_ariths)

text \<open>The code computes the lengths of a chunk on words.\<close>

lemma chunk_words:
  fixes left :: u32
  assumes "unat left = T - 32 * j"
  shows "(if left < 32 then unat (drop_bit 3 (left + 7)) else 4) = chunk_bytes T j" (is ?bytes)
    and "left < 32 \<longleftrightarrow> chunk_len T j < 32" "left < 32 \<Longrightarrow> of_nat (chunk_len T j) = left"
proof -
  show ?bytes
  proof (cases "left < 32")
    case True
    then have "T - 32 * j < 32"
      using assms by (simp add: word_less_nat_alt)
    moreover from this have "unat (left + 7) = T - 32 * j + 7"
      using assms by (simp add: unat_word_ariths)
    ultimately show ?thesis
      using True by (simp add: chunk_bytes_def chunk_len_def div8_word)
  qed (use assms in \<open>simp add: word_less_nat_alt chunk_bytes_def chunk_len_def\<close>)
  show "left < 32 \<longleftrightarrow> chunk_len T j < 32"
    using assms by (auto simp: word_less_nat_alt chunk_len_def)
  assume "left < 32"
  then have "chunk_len T j = unat left"
    using assms by (simp add: chunk_len_def word_less_nat_alt)
  then show "of_nat (chunk_len T j) = left"
    by (simp only: of_nat_unat ucast_id)
qed

text \<open>Round \<open>j\<close>: it gives the device its chunk, and stores what the device shifts out behind \<open>don\<close>.\<close>

lemma run_xvc_round:
  assumes "T = unat tb" "32 * j < T" "unat bits = 32 * j" "left = tb - bits"
    and "length don = 4 * j" "4 * j + chunk_bytes T j \<le> length mem"
  obtains r v h where "writes h = chunk_writes base T tms tdi j"
    "r = 0 \<and> reads_at (base + XVC_BAR_TDO_REG) h = [v] \<or> r = - ETIMEDOUT"
    "run_state (xvc_loop (Suc fuel) E base tb tms tdi bits left (don @ drop (length don) mem) 0) s =
      (if r < 0 then (Some (Shifted r (don @ drop (length don) mem)), s\<lparr>tr := tr s @ h\<rparr>)
       else run_state (xvc_loop fuel E base tb tms tdi (bits + 32) (left - 32)
         ((don @ take (chunk_bytes T j) (le_bytes v)) @ drop (4 * j + chunk_bytes T j) mem) r) (s\<lparr>tr := tr s @ h\<rparr>))"
proof -
  let ?n = "chunk_bytes T j"
  have left: "unat left = T - 32 * j"
    unfolding assms(4) using assms(1-3) by (subst unat_sub) (simp_all add: word_le_nat_alt)
  note words = chunk_words [OF left]
  have n4: "?n \<le> 4"
    by (simp add: chunk_bytes_def chunk_len_def)
  define h0 where "h0 = (if left < 32 then [MmioW (base + XVC_BAR_LENGTH_REG) left] else [])"
  define w1 where "w1 = le_word (take ?n (drop (4 * j) tms))"
  define w2 where "w2 = le_word (take ?n (drop (4 * j) tdi))"
  obtain r v h1 where shift: "run_state (xvc_shift_bits E base w1 w2) (s\<lparr>tr := tr s @ h0\<rparr>) = ((r, v), s\<lparr>tr := tr s @ h0 @ h1\<rparr>)"
    "writes h1 = [(base + XVC_BAR_TMS_REG, w1), (base + XVC_BAR_TDI_REG, w2), (base + XVC_BAR_CTRL_REG, 1)]"
    "r = 0 \<and> reads_at (base + XVC_BAR_TDO_REG) h1 = [v] \<or> r = - ETIMEDOUT \<and> reads_at (base + XVC_BAR_TDO_REG) h1 = []"
    using run_xvc_shift [of E base w1 w2 "s\<lparr>tr := tr s @ h0\<rparr>"] by auto
  have start: "run_state (when_st (left < 32) (iowrite32 left (base + XVC_BAR_LENGTH_REG))) s = ((), s\<lparr>tr := tr s @ h0\<rparr>)"
    by (simp add: h0_def)
  have off: "bits < tb" "unat (drop_bit 3 bits) = 4 * j" "\<not> length (don @ drop (4 * j) mem) < 4 * j + ?n"
    using assms by (simp_all add: word_less_nat_alt div8_word)
  have put: "put_bytes (4 * j) (take ?n (le_bytes v)) (don @ drop (4 * j) mem) = (don @ take ?n (le_bytes v)) @ drop (4 * j + ?n) mem"
    using n4 assms(5) by (intro put_chunk) simp_all
  show thesis
  proof (rule that)
    show "writes (h0 @ h1) = chunk_writes base T tms tdi j"
      using words(2,3) shift(2) by (auto simp: h0_def chunk_writes_def w1_def w2_def)
    show "r = 0 \<and> reads_at (base + XVC_BAR_TDO_REG) (h0 @ h1) = [v] \<or> r = - ETIMEDOUT"
      using shift(3) by (auto simp: h0_def)
    show "run_state (xvc_loop (Suc fuel) E base tb tms tdi bits left (don @ drop (length don) mem) 0) s =
      (if r < 0 then (Some (Shifted r (don @ drop (length don) mem)), s\<lparr>tr := tr s @ h0 @ h1\<rparr>)
       else run_state (xvc_loop fuel E base tb tms tdi (bits + 32) (left - 32)
         ((don @ take ?n (le_bytes v)) @ drop (4 * j + ?n) mem) r) (s\<lparr>tr := tr s @ h0 @ h1\<rparr>))"
      using off shift(1) start put
      by (simp add: words(1) assms(5) w1_def w2_def Let_def del: run_when_st)
  qed
qed

text \<open>What a round stores is the beginning of what the device shifted out: only the last one stores less than a word.\<close>

lemma chunk_read:
  assumes "4 * j + n = min (4 * (j + 1)) L" "n \<le> 4" "4 * j + n + length don = L"
    and "don = take (length don) (concat (map le_bytes rs))"
  shows "take n (le_bytes v) @ don = take (n + length don) (concat (map le_bytes (v # rs)))"
proof (cases "n = 4")
  case False
  then have "4 * j + n = L"
    using assms(1,2) by (simp add: min_def split: if_splits)
  then have "length don = 0"
    using assms(3) by (metis add_eq_self_zero)
  then show ?thesis
    using assms(2) by simp
qed (use assms(4) in simp)

text \<open>The loop from round \<open>j\<close> on, with what the earlier rounds stored in front of the buffer.\<close>

lemma run_xvc_loop:
  assumes T: "T = unat tb" "T \<le> 4294967264" and L: "L = (T + 7) div 8" "length mem = L"
    and j: "j \<le> (T + 31) div 32" "(T + 31) div 32 - j < fuel"
    and don: "length don = min (4 * j) L"
    and b: "bits = of_nat (32 * j)" "bits_left = tb - bits"
  shows "\<exists>r don' h. run_state (xvc_loop fuel E base tb tms tdi bits bits_left (don @ drop (length don) mem) 0) s =
      (Some (Shifted r (don @ don' @ drop (length (don @ don')) mem)), s\<lparr>tr := tr s @ h\<rparr>) \<and>
    (r = 0 \<and> writes h = concat (map (chunk_writes base T tms tdi) [j..<(T + 31) div 32]) \<and>
       length (reads_at (base + XVC_BAR_TDO_REG) h) = (T + 31) div 32 - j \<and>
       length (don @ don') = L \<and>
       don' = take (length don') (concat (map le_bytes (reads_at (base + XVC_BAR_TDO_REG) h))) \<or>
     r = - ETIMEDOUT)"
  using j don b
proof (induction fuel arbitrary: j don bits bits_left s)
  case 0
  then show ?case by simp
next
  case (Suc fuel)
  have "32 * j \<le> T + 31"
    using Suc.prems(1) by (simp add: less_eq_div_iff_mult_less_eq)
  then have bits: "unat bits = 32 * j"
    using Suc.prems(4) T(2) by (simp only: unat_of_nat) simp
  show ?case
  proof (cases "j = (T + 31) div 32")
    case True
    then have "\<not> bits < tb"
      using bits T by (simp add: word_less_nat_alt)
    moreover have "length don = L"
      using True Suc.prems(3) L by simp
    moreover have "s = s\<lparr>tr := tr s @ []\<rparr>"
      by simp
    ultimately show ?thesis
      using True by (intro exI [of _ 0] exI [of _ "[]"]) simp
  next
    case False
    then have j1: "j + 1 \<le> (T + 31) div 32" "(T + 31) div 32 - (j + 1) < fuel"
      using Suc.prems(1,2) by simp_all
    then have j: "32 * j < T"
      by (simp add: less_eq_div_iff_mult_less_eq)
    let ?n = "chunk_bytes T j"
    have fin: "4 * j + ?n = min (4 * (j + 1)) L" and n4: "?n \<le> 4"
      using chunk_end [OF j] by (simp_all add: L(1) chunk_bytes_def chunk_len_def)
    then have inL: "4 * j + ?n \<le> L"
      by simp
    then have don: "length don = 4 * j"
      using Suc.prems(3) by simp
    obtain r v h where round: "writes h = chunk_writes base T tms tdi j"
      "r = 0 \<and> reads_at (base + XVC_BAR_TDO_REG) h = [v] \<or> r = - ETIMEDOUT"
      "run_state (xvc_loop (Suc fuel) E base tb tms tdi bits bits_left (don @ drop (length don) mem) 0) s =
        (if r < 0 then (Some (Shifted r (don @ drop (length don) mem)), s\<lparr>tr := tr s @ h\<rparr>)
         else run_state (xvc_loop fuel E base tb tms tdi (bits + 32) (bits_left - 32)
           ((don @ take ?n (le_bytes v)) @ drop (4 * j + ?n) mem) r) (s\<lparr>tr := tr s @ h\<rparr>))"
      by (rule run_xvc_round [OF T(1) j bits Suc.prems(5) don inL [folded L(2)]]) blast
    show ?thesis
    proof (cases "r = 0")
      case False
      then have "r = - ETIMEDOUT"
        using round(2) by simp
      then show ?thesis
        unfolding round(3) by (intro exI [of _ "- ETIMEDOUT"] exI [of _ "[]"] exI [of _ h]) simp
    next
      case True
      let ?don = "don @ take ?n (le_bytes v)"
      have len: "length ?don = 4 * j + ?n"
        using n4 don by simp
      have "bits + 32 = of_nat (32 * (j + 1))" "bits_left - 32 = tb - (bits + 32)"
        unfolding Suc.prems(4,5) by simp_all
      then obtain r' don' h' where rest:
        "run_state (xvc_loop fuel E base tb tms tdi (bits + 32) (bits_left - 32) (?don @ drop (length ?don) mem) 0) (s\<lparr>tr := tr s @ h\<rparr>) =
         (Some (Shifted r' (?don @ don' @ drop (length (?don @ don')) mem)), s\<lparr>tr := tr s @ h\<rparr>\<lparr>tr := tr (s\<lparr>tr := tr s @ h\<rparr>) @ h'\<rparr>)"
        "r' = 0 \<and> writes h' = concat (map (chunk_writes base T tms tdi) [j + 1..<(T + 31) div 32]) \<and>
           length (reads_at (base + XVC_BAR_TDO_REG) h') = (T + 31) div 32 - (j + 1) \<and> length (?don @ don') = L \<and>
           don' = take (length don') (concat (map le_bytes (reads_at (base + XVC_BAR_TDO_REG) h'))) \<or>
         r' = - ETIMEDOUT"
        using Suc.IH [OF j1 len [unfolded fin], of "bits + 32" "bits_left - 32" "s\<lparr>tr := tr s @ h\<rparr>"] by blast
      have run: "run_state (xvc_loop (Suc fuel) E base tb tms tdi bits bits_left (don @ drop (length don) mem) 0) s =
          (Some (Shifted r' (don @ (take ?n (le_bytes v) @ don') @ drop (length (don @ take ?n (le_bytes v) @ don')) mem)),
           s\<lparr>tr := tr s @ h @ h'\<rparr>)"
        using rest(1) True unfolding round(3) len by (simp add: don)
      have "[j..<(T + 31) div 32] = j # [j + 1..<(T + 31) div 32]"
        using j1(1) by (simp add: upt_conv_Cons)
      moreover have "take ?n (le_bytes v) @ don' = take (?n + length don') (concat (map le_bytes (v # reads_at (base + XVC_BAR_TDO_REG) h')))"
        if "length (?don @ don') = L" "don' = take (length don') (concat (map le_bytes (reads_at (base + XVC_BAR_TDO_REG) h')))"
        using that len by (intro chunk_read [OF fin n4]) simp_all
      ultimately show ?thesis
        using rest(2) round(1,2) True n4 j1(1) unfolding run
        by (intro exI [of _ r'] exI [of _ "take ?n (le_bytes v) @ don'"] exI [of _ "h @ h'"]) auto
    qed
  qed
qed

text \<open>
  C31: shifting a vector of up to \<open>2 ^ 32 - 32\<close> bits. The loop ends after at most one round for every
  32 bits and stays inside its buffers. If no shift times out, the device was given the whole of
  both vectors, 32 bits at a time and the rest with its length set, and the result holds what the
  device shifted out, byte for byte.
\<close>

theorem xvc_loop_shifts:
  assumes "unat tb \<le> 4294967264" "(unat tb + 31) div 32 < fuel" "length tdo = unat (xvc_bytes tb)"
    and "run_state (xvc_loop fuel E base tb tms tdi 0 tb tdo 0) s = (z, s')"
  shows "\<exists>r tdo' h. z = Some (Shifted r tdo') \<and> s' = s\<lparr>tr := tr s @ h\<rparr> \<and>
    (r = - ETIMEDOUT \<or>
     r = 0 \<and> writes h = concat (map (chunk_writes base (unat tb) tms tdi) [0..<(unat tb + 31) div 32]) \<and>
       length (reads_at (base + XVC_BAR_TDO_REG) h) = (unat tb + 31) div 32 \<and> length tdo' = length tdo \<and>
       tdo' = take (length tdo) (concat (map le_bytes (reads_at (base + XVC_BAR_TDO_REG) h))))"
proof -
  have L: "length tdo = (unat tb + 7) div 8"
    using assms(1,3) by (simp add: xvc_bytes_unat)
  show ?thesis
    using run_xvc_loop [of "unat tb" tb "length tdo" tdo 0 fuel "[]" 0 tb E base tms tdi s] assms(1,2,4) L
    by auto
qed

lemma xvc_loop_shifts_witness:
  "\<exists>r tdo'. result_of (xvc_loop 3 sample_env 0x100 40 [1, 2, 3, 4, 5] [6, 7, 8, 9, 10] 0 40 [0, 0, 0, 0, 0] 0) sample_world =
    Some (Shifted r tdo')"
proof -
  have "unat (xvc_bytes 40) = 5"
    by (simp add: xvc_bytes_unat)
  then show ?thesis
    using xvc_loop_shifts [where tb = 40 and fuel = 3 and tdo = "[0, 0, 0, 0, 0]" and E = sample_env and base = "0x100" and tms = "[1, 2, 3, 4, 5]" and tdi = "[6, 7, 8, 9, 10]" and s = sample_world,
        OF _ _ _ prod.collapse [symmetric]]
    by auto
qed

lemma run_poll_ready:
  assumes "\<forall>h a. mmio_rd E h a AND 1 = 0"
  shows "run_state (xvc_poll E base 100) s =
    (100, s\<lparr>tr := tr s @ [MmioR (base + XVC_BAR_CTRL_REG) (mmio_rd E (tr s) (base + XVC_BAR_CTRL_REG))]\<rparr>)"
  using assms by (simp add: numeral_nat)



end
