(* ===== verification/CdevSgdma.thy ===== *)
theory CdevSgdma
  imports CdevNodes
begin

text \<open>
  The scatter-gather nodes (\<open>cdev_sgdma.c\<close>, \<open>cdev_sgdma.h\<close>): blocking reads and writes, asynchronous
  requests of several buffers and their completion, and the ioctls. As for the other nodes, the code that
  would create them is commented out.
\<close>

section \<open>Alignment and mapping\<close>

text \<open>These functions are repeated in \<open>hsha256.c\<close>, word for word: see \<open>HshaPcie\<close>.\<close>

definition sgdma_check_transfer_align :: "eng \<Rightarrow> u64 \<Rightarrow> u64 \<Rightarrow> u64 \<Rightarrow> bool \<Rightarrow> (hworld, int) state" where
  "sgdma_check_transfer_align = check_transfer_align"

definition sgdma_unmap_user_buf :: "u64 \<Rightarrow> bool \<Rightarrow> (hworld, unit) state" where
  "sgdma_unmap_user_buf = char_sgdma_unmap_user_buf"

definition sgdma_map_user_buf_to_sgl :: "env \<Rightarrow> u64 \<Rightarrow> bool \<Rightarrow> (hworld, int) state" where
  "sgdma_map_user_buf_to_sgl = char_sgdma_map_user_buf_to_sgl"

definition xdma_io_cb_release :: "u64 \<Rightarrow> (hworld, unit) state" where
  "xdma_io_cb_release cb = do {
     c \<leftarrow> the_cb cb;
     _ \<leftarrow> for_each (take (unat (c_pages_nr c)) (c_pages c)) (\<lambda>p. kproc K_put_page [p]);
     _ \<leftarrow> kproc K_sg_free_table [cb];
     _ \<leftarrow> kproc K_kfree [c_pages_ptr c];
     upd_cb cb (\<lambda>_. zero_cb) }"

section \<open>Completion of an asynchronous request\<close>

definition upd_caio :: "u64 \<Rightarrow> (cdev_async_io \<Rightarrow> cdev_async_io) \<Rightarrow> (hworld, unit) state" where
  "upd_caio a f = modify_st (\<lambda>s. s\<lparr>caios := (caios s)(a := f (caios s a))\<rparr>)"

lemma run_upd_caio [simp]: "run_state (upd_caio a f) s = ((), s\<lparr>caios := (caios s)(a := f (caios s a))\<rparr>)"
  by (simp add: upd_caio_def)

abbreviation (input) the_caio :: "u64 \<Rightarrow> (hworld, cdev_async_io) state" where
  "the_caio a \<equiv> gets_st (\<lambda>s. caios s a)"

text \<open>The label \<open>skip_tran\<close>: the last request of a group, or a cancelled one.\<close>

definition aio_finish :: "u64 \<Rightarrow> u64 \<Rightarrow> (hworld, unit) state" where
  "aio_finish caio cb = do {
     _ \<leftarrow> lock_release LkChar [unat caio];
     cache \<leftarrow> gets_st cdev_cache;
     _ \<leftarrow> kproc K_kmem_cache_free [cache, caio];
     kproc K_kfree [cb] }"

text \<open>The bookkeeping of one finished part, whose bytes are \<open>n\<close>: is it the last one?\<close>

definition aio_count :: "u64 \<Rightarrow> int \<Rightarrow> int \<Rightarrow> (hworld, bool) state" where
  "aio_count caio err n = do {
     _ \<leftarrow> upd_caio caio (\<lambda>c. c\<lparr>ca_res2 := ca_res2 c OR (if err < 0 then err else 0)\<rparr>);
     _ \<leftarrow> upd_caio caio (\<lambda>c. if ca_res2 c \<noteq> 0 then c\<lparr>ca_err_cnt := ca_err_cnt c + 1\<rparr> else c);
     _ \<leftarrow> upd_caio caio (\<lambda>c. c\<lparr>ca_cmpl_cnt := ca_cmpl_cnt c + 1, ca_res := ca_res c + n\<rparr>);
     c \<leftarrow> the_caio caio;
     ret (ca_cmpl_cnt c = ca_req_cnt c) }"

definition async_io_handler :: "env \<Rightarrow> u64 \<Rightarrow> int \<Rightarrow> (hworld, unit) state" where
  "async_io_handler E cb err = do {
     c \<leftarrow> the_cb cb;
     let caio = c_private c;
     if caio = 0 then ret ()
     else do {
       a \<leftarrow> the_caio caio;
       xcdev \<leftarrow> gets_st (\<lambda>s. iocb_node s (ca_iocb a));
       rv \<leftarrow> xcdev_check xcdev True;
       if rv < 0 then ret ()
       else do {
         locked \<leftarrow> kcall E K_spin_trylock [caio];
         if locked = 0 then do {
           _ \<leftarrow> kproc K_ki_complete [ca_iocb a, 0, of_int (- EBUSY)];
           cache \<leftarrow> gets_st cdev_cache;
           kproc K_kmem_cache_free [cache, caio] }
         else do {
           a \<leftarrow> the_caio caio;
           if ca_cancel a then aio_finish caio cb
           else do {
             k \<leftarrow> the_sha xcdev;
             g \<leftarrow> the_eng (k_engine k);
             n \<leftarrow> (if err = 0 then xdma_xfer_completion E cb (k_xdev k) (e_channel g) (c_write c) cb False
                  else ret 0);
             _ \<leftarrow> sgdma_unmap_user_buf cb (c_write c);
             fin \<leftarrow> aio_count caio err n;
             if fin then do {
               a \<leftarrow> the_caio caio;
               _ \<leftarrow> kproc K_ki_complete [ca_iocb a, of_int (ca_res a), of_int (ca_res2 a)];
               aio_finish caio cb }
             else lock_release LkChar [unat caio] } } } } }"

section \<open>Seek\<close>

definition char_sgdma_llseek :: "int \<Rightarrow> whence \<Rightarrow> (hworld, int) state" where
  "char_sgdma_llseek off wherece = do {
     pos \<leftarrow> gets_st (\<lambda>s. f_pos (fl s));
     case wherece of SEEK_OTHER \<Rightarrow> ret (- EINVAL) | _ \<Rightarrow> do {
       let newpos = (case wherece of SEEK_SET \<Rightarrow> off
                     | SEEK_CUR \<Rightarrow> sint (of_int pos + of_int off :: u64)
                     | _ \<Rightarrow> sint (0xFFFFFFFF + of_int off :: u64));
       if newpos < 0 then ret (- EINVAL)
       else do {
         _ \<leftarrow> modify_st (\<lambda>s. s\<lparr>fl := (fl s)\<lparr>f_pos := newpos\<rparr>\<rparr>);
         ret newpos } } }"

section \<open>Blocking reads and writes\<close>

definition sgdma_read_write :: "env \<Rightarrow> u64 \<Rightarrow> u64 \<Rightarrow> u64 \<Rightarrow> bool \<Rightarrow> (hworld, int) state" where
  "sgdma_read_write E buf cnt pos write = do {
     xcdev \<leftarrow> private_data;
     rv \<leftarrow> xcdev_check xcdev True;
     if rv < 0 then ret rv
     else do {
       k \<leftarrow> the_sha xcdev;
       g \<leftarrow> the_eng (k_engine k);
       if write \<and> e_dir g \<noteq> DMA_TO_DEVICE \<or> \<not> write \<and> e_dir g \<noteq> DMA_FROM_DEVICE then ret (- EINVAL)
       else do {
         rv \<leftarrow> sgdma_check_transfer_align (k_engine k) buf cnt pos True;
         if rv \<noteq> 0 then ret rv
         else do {
           _ \<leftarrow> upd_cb stack_cb (\<lambda>_. zero_cb\<lparr>c_buf := buf, c_len := cnt, c_ep_addr := pos, c_write := write\<rparr>);
           rv \<leftarrow> sgdma_map_user_buf_to_sgl E stack_cb write;
           if rv < 0 then ret rv
           else do {
             h2c \<leftarrow> param h2c_timeout;
             c2h \<leftarrow> param c2h_timeout;
             res \<leftarrow> xdma_xfer_submit E (async_io_handler E) (k_xdev k) (e_channel g) write pos stack_cb False
                      (sint ((if write then h2c else c2h) * 1000));
             _ \<leftarrow> sgdma_unmap_user_buf stack_cb write;
             ret res } } } } }"

definition char_sgdma_write :: "env \<Rightarrow> u64 \<Rightarrow> u64 \<Rightarrow> u64 \<Rightarrow> (hworld, int) state" where
  "char_sgdma_write E buf cnt pos = sgdma_read_write E buf cnt pos True"

definition char_sgdma_read :: "env \<Rightarrow> u64 \<Rightarrow> u64 \<Rightarrow> u64 \<Rightarrow> (hworld, int) state" where
  "char_sgdma_read E buf cnt pos = sgdma_read_write E buf cnt pos False"

section \<open>Asynchronous requests\<close>

text \<open>\<open>&caio->cb[i]\<close>, with a size of the compiler's choice.\<close>

definition cb_at :: "u64 \<Rightarrow> nat \<Rightarrow> u64" where
  "cb_at base i = base + 0x80 * of_nat i"

text \<open>
  The loop over the buffers (address, bytes), the first of which is number \<open>i\<close>: the error that ends
  it, or \<open>None\<close>. The result of a submission is not looked at.
\<close>

fun aio_submit ::
  "env \<Rightarrow> eng \<Rightarrow> u64 \<Rightarrow> u64 \<Rightarrow> u64 \<Rightarrow> bool \<Rightarrow> u64 \<Rightarrow> nat \<Rightarrow> (u64 \<times> u64) list \<Rightarrow> (hworld, int option) state" where
  "aio_submit E e xdev caio arr write pos i [] = ret None"
| "aio_submit E e xdev caio arr write pos i ((base, len) # io) = do {
     let cb = cb_at arr i;
     _ \<leftarrow> upd_cb cb (\<lambda>_. zero_cb\<lparr>c_buf := base, c_len := len, c_ep_addr := pos, c_write := write,
            c_private := caio, c_io_done := True\<rparr>);
     rv \<leftarrow> sgdma_check_transfer_align e base len pos True;
     if rv \<noteq> 0 then do {
       cache \<leftarrow> gets_st cdev_cache;
       _ \<leftarrow> kproc K_kmem_cache_free [cache, caio];
       ret (Some rv) }
     else do {
       rv \<leftarrow> sgdma_map_user_buf_to_sgl E cb True;
       if rv < 0 then ret (Some rv)
       else do {
         g \<leftarrow> the_eng e;
         _ \<leftarrow> xdma_xfer_submit_nowait E (async_io_handler E) cb xdev (e_channel g) write pos cb False;
         aio_submit E e xdev caio arr write pos (Suc i) io } } }"

text \<open>
  Both functions; \<open>write\<close> tells them apart. The allocations are not checked: the structure is cleared
  at once, the array when its first element is.
\<close>

definition cdev_aio :: "env \<Rightarrow> bool \<Rightarrow> u64 \<Rightarrow> (u64 \<times> u64) list \<Rightarrow> u64 \<Rightarrow> (hworld, int) state" where
  "cdev_aio E write iocb io pos = do {
     xcdev \<leftarrow> gets_st (\<lambda>s. iocb_node s iocb);
     if xcdev = 0 then ret (- EINVAL)
     else do {
       k \<leftarrow> the_sha xcdev;
       g \<leftarrow> the_eng (k_engine k);
       if e_dir g \<noteq> dir_of write then ret (- EINVAL)
       else do {
         cache \<leftarrow> gets_st cdev_cache;
         caio \<leftarrow> kptr E K_kmem_cache_alloc [cache];
         if caio = 0 then do { _ \<leftarrow> emit Oops; ret 0 }
         else do {
           arr \<leftarrow> kptr E K_kzalloc [of_nat (length io)];
           _ \<leftarrow> upd_caio caio (\<lambda>_. zero_caio\<lparr>ca_cb := arr, ca_iocb := iocb, ca_write := write,
                  ca_req_cnt := int (length io)\<rparr>);
           if arr = 0 \<and> io \<noteq> [] then do { _ \<leftarrow> emit Oops; ret 0 }
           else do {
             res \<leftarrow> aio_submit E (k_engine k) (k_xdev k) caio arr write pos 0 io;
             case res of Some rv \<Rightarrow> ret rv
             | None \<Rightarrow> do {
                 g \<leftarrow> the_eng (k_engine k);
                 _ \<leftarrow> (case e_cmplthp g of None \<Rightarrow> ret () | Some i \<Rightarrow> xdma_kthread_wakeup i);
                 ret (- EIOCBQUEUED) } } } } } }"

definition cdev_aio_write :: "env \<Rightarrow> u64 \<Rightarrow> (u64 \<times> u64) list \<Rightarrow> u64 \<Rightarrow> (hworld, int) state" where
  "cdev_aio_write E iocb io pos = cdev_aio E True iocb io pos"

definition cdev_aio_read :: "env \<Rightarrow> u64 \<Rightarrow> (u64 \<times> u64) list \<Rightarrow> u64 \<Rightarrow> (hworld, int) state" where
  "cdev_aio_read E iocb io pos = cdev_aio E False iocb io pos"

text \<open>\<open>iov_iter\<close>: its buffers, and the offset in the first one, which is passed on as the position.\<close>

record iov_iter =
  io_iov :: "(u64 \<times> u64) list"
  io_offset :: u64

definition cdev_write_iter :: "env \<Rightarrow> u64 \<Rightarrow> iov_iter \<Rightarrow> (hworld, int) state" where
  "cdev_write_iter E iocb io = cdev_aio_write E iocb (io_iov io) (io_offset io)"

definition cdev_read_iter :: "env \<Rightarrow> u64 \<Rightarrow> iov_iter \<Rightarrow> (hworld, int) state" where
  "cdev_read_iter E iocb io = cdev_aio_read E iocb (io_iov io) (io_offset io)"

section \<open>Ioctls\<close>

definition IOCTL_XDMA_PERF_START :: u32 where "IOCTL_XDMA_PERF_START = IOC IOC_WRITE 0x71 1 8"
definition IOCTL_XDMA_PERF_STOP :: u32 where "IOCTL_XDMA_PERF_STOP = IOC IOC_WRITE 0x71 2 8"
definition IOCTL_XDMA_PERF_GET :: u32 where "IOCTL_XDMA_PERF_GET = IOC IOC_READ 0x71 3 8"
definition IOCTL_XDMA_ADDRMODE_SET :: u32 where "IOCTL_XDMA_ADDRMODE_SET = IOC IOC_WRITE 0x71 4 4"
definition IOCTL_XDMA_ADDRMODE_GET :: u32 where "IOCTL_XDMA_ADDRMODE_GET = IOC IOC_READ 0x71 5 4"
definition IOCTL_XDMA_ALIGN_GET :: u32 where "IOCTL_XDMA_ALIGN_GET = IOC IOC_READ 0x71 6 4"
definition IOCTL_XDMA_APERTURE_R :: u32 where "IOCTL_XDMA_APERTURE_R = IOC IOC_WRITE 0x71 7 8"
definition IOCTL_XDMA_APERTURE_W :: u32 where "IOCTL_XDMA_APERTURE_W = IOC IOC_WRITE 0x71 8 8"

abbreviation (input) IOCTL_XDMA_PERF_V1 :: u32 where "IOCTL_XDMA_PERF_V1 \<equiv> 1"

text \<open>\<open>struct xdma_performance_ioctl\<close> in memory.\<close>

definition perf_of_bytes :: "u8 list \<Rightarrow> xdma_performance" where
  "perf_of_bytes bs = (let w = (\<lambda>i. le_word (take 4 (drop i bs))); d = (\<lambda>i. le_word64 (take 8 (drop i bs))) in
     \<lparr>p_version = w 0, p_transfer_size = w 4, p_stopped = w 8, p_iterations = w 12,
      p_clock_cycle_count = d 16, p_data_cycle_count = d 24, p_pending_count = d 32\<rparr>)"

definition perf_bytes :: "xdma_performance \<Rightarrow> u8 list" where
  "perf_bytes p = concat (map le_bytes [p_version p, p_transfer_size p, p_stopped p, p_iterations p]) @
     concat (map le64 [p_clock_cycle_count p, p_data_cycle_count p, p_pending_count p])"

text \<open>
  The number of bytes not copied is never negative: the test of \<open>rv\<close> after the copy never holds. A
  version that is refused leaves the structure in place.
\<close>

definition ioctl_do_perf_start :: "env \<Rightarrow> eng \<Rightarrow> u64 \<Rightarrow> (hworld, int) state" where
  "ioctl_do_perf_start E e arg = (if e = NoEngine then ret (- EINVAL) else do {
     g \<leftarrow> the_eng e;
     if e_xdev g = 0 then ret (- EINVAL)
     else if e_xdma_perf g \<noteq> None then ret (- EBUSY)
     else do {
       p \<leftarrow> kptr E K_kzalloc [0];
       if p = 0 then ret (- ENOMEM)
       else do {
         (left, bs) \<leftarrow> fetch_user E arg 40;
         _ \<leftarrow> modify_st (\<lambda>s. s\<lparr>perf_ptr := (perf_ptr s)(e := p)\<rparr>);
         _ \<leftarrow> upd_eng e (\<lambda>g. g\<lparr>e_xdma_perf := Some (perf_of_bytes bs)\<rparr>);
         if p_version (perf_of_bytes bs) \<noteq> IOCTL_XDMA_PERF_V1 then ret (- EINVAL)
         else do {
           _ \<leftarrow> enable_perf E e;
           xdma_performance_submit E (e_xdev g) e } } } })"

text \<open>The address of a transfer: an object of its own, or one inside a request.\<close>

fun xref_addr :: "xref \<Rightarrow> u64" where
  "xref_addr (PerfXfer a) = a"
| "xref_addr (Tfer r i) = r + 0x40 + 0x80 * of_nat i"

definition ioctl_do_perf_stop :: "env \<Rightarrow> eng \<Rightarrow> u64 \<Rightarrow> (hworld, int) state" where
  "ioctl_do_perf_stop E e arg = (if e = NoEngine then ret (- EINVAL) else do {
     g \<leftarrow> the_eng e;
     if e_xdma_perf g = None then ret (- EINVAL)
     else do {
       transfer \<leftarrow> engine_cyclic_stop e;
       case transfer of None \<Rightarrow> ret (- EINVAL) | Some x \<Rightarrow> do {
         _ \<leftarrow> get_perf_stats E e;
         g \<leftarrow> the_eng e;
         left \<leftarrow> (case e_xdma_perf g of None \<Rightarrow> ret 0 | Some p \<Rightarrow> copy_to_user E arg (perf_bytes p));
         if left \<noteq> 0 then ret (int left)
         else do {
           _ \<leftarrow> kproc K_kfree [xref_addr x];
           p \<leftarrow> gets_st (\<lambda>s. perf_ptr s e);
           _ \<leftarrow> kproc K_kfree [p];
           _ \<leftarrow> upd_eng e (\<lambda>g. g\<lparr>e_xdma_perf := None\<rparr>);
           ret 0 } } } })"

definition ioctl_do_perf_get :: "env \<Rightarrow> eng \<Rightarrow> u64 \<Rightarrow> (hworld, int) state" where
  "ioctl_do_perf_get E e arg = (if e = NoEngine then ret (- EINVAL) else do {
     g \<leftarrow> the_eng e;
     if e_xdma_perf g = None then ret (- EPROTO)
     else do {
       _ \<leftarrow> get_perf_stats E e;
       g \<leftarrow> the_eng e;
       left \<leftarrow> (case e_xdma_perf g of None \<Rightarrow> ret 0 | Some p \<Rightarrow> copy_to_user E arg (perf_bytes p));
       ret (int left) } })"

definition ioctl_do_addrmode_set :: "env \<Rightarrow> eng \<Rightarrow> u64 \<Rightarrow> (hworld, int) state" where
  "ioctl_do_addrmode_set E e arg = engine_addrmode_set E e arg"

text \<open>\<open>put_user\<close> of an \<open>int\<close>.\<close>

definition put_user_int :: "env \<Rightarrow> u32 \<Rightarrow> u64 \<Rightarrow> (hworld, int) state" where
  "put_user_int E v arg = do {
     left \<leftarrow> copy_to_user E arg (le_bytes v);
     ret (if left \<noteq> 0 then - EFAULT else 0) }"

definition ioctl_do_addrmode_get :: "env \<Rightarrow> eng \<Rightarrow> u64 \<Rightarrow> (hworld, int) state" where
  "ioctl_do_addrmode_get E e arg = (if e = NoEngine then ret (- EINVAL) else do {
     g \<leftarrow> the_eng e;
     put_user_int E (if e_non_incr_addr g then 1 else 0) arg })"

definition ioctl_do_align_get :: "env \<Rightarrow> eng \<Rightarrow> u64 \<Rightarrow> (hworld, int) state" where
  "ioctl_do_align_get E e arg = (if e = NoEngine then ret (- EINVAL) else do {
     g \<leftarrow> the_eng e;
     put_user_int E (ucast (e_addr_align g)) arg })"

text \<open>
  \<open>struct xdma_aperture_ioctl\<close>: the address and the aperture in the device, the buffer and its length; then the
  error and the bytes done, which come back.
\<close>

definition aperture_ep_addr :: "u8 list \<Rightarrow> u64" where "aperture_ep_addr io = le_word64 (take 8 io)"
definition aperture_size :: "u8 list \<Rightarrow> u32" where "aperture_size io = le_word (take 4 (drop 8 io))"
definition aperture_buffer :: "u8 list \<Rightarrow> u64" where "aperture_buffer io = le_word64 (take 8 (drop 16 io))"
definition aperture_len :: "u8 list \<Rightarrow> u64" where "aperture_len io = le_word64 (take 8 (drop 24 io))"

definition aperture_result :: "u8 list \<Rightarrow> int \<Rightarrow> u8 list" where
  "aperture_result io res = take 32 io @
     (if res < 0 then le_bytes (of_int res) @ drop 36 io
      else le_bytes 0 @ take 4 (drop 36 io) @ le64 (of_int res))"

definition ioctl_do_aperture_dma :: "env \<Rightarrow> eng \<Rightarrow> u64 \<Rightarrow> bool \<Rightarrow> (hworld, int) state" where
  "ioctl_do_aperture_dma E e arg write = do {
     (left, io) \<leftarrow> fetch_user E arg 48;
     g \<leftarrow> the_eng e;
     if write \<and> e_dir g \<noteq> DMA_TO_DEVICE \<or> \<not> write \<and> e_dir g \<noteq> DMA_FROM_DEVICE then ret (- EINVAL)
     else do {
       rv \<leftarrow> sgdma_check_transfer_align e (aperture_buffer io) (aperture_len io) (aperture_ep_addr io) True;
       if rv \<noteq> 0 then ret rv
       else do {
         _ \<leftarrow> upd_cb stack_cb (\<lambda>_. zero_cb\<lparr>c_buf := aperture_buffer io, c_len := aperture_len io,
                c_ep_addr := aperture_ep_addr io, c_write := write\<rparr>);
         rv \<leftarrow> sgdma_map_user_buf_to_sgl E stack_cb write;
         if rv < 0 then ret rv
         else do {
           h2c \<leftarrow> param h2c_timeout;
           c2h \<leftarrow> param c2h_timeout;
           res \<leftarrow> xdma_xfer_aperture E (async_io_handler E) e write (aperture_ep_addr io) (aperture_size io) stack_cb
                    False (sint ((if write then h2c else c2h) * 1000));
           _ \<leftarrow> sgdma_unmap_user_buf stack_cb write;
           _ \<leftarrow> copy_to_user E arg (aperture_result io res);
           ret (if res < 0 then sint (of_int res :: u32) else 0) } } } }"

definition char_sgdma_ioctl :: "env \<Rightarrow> u32 \<Rightarrow> u64 \<Rightarrow> (hworld, int) state" where
  "char_sgdma_ioctl E cmd arg = do {
     xcdev \<leftarrow> private_data;
     rv \<leftarrow> xcdev_check xcdev True;
     if rv < 0 then ret rv
     else do {
       k \<leftarrow> the_sha xcdev;
       let e = k_engine k;
       if cmd = IOCTL_XDMA_PERF_START then ioctl_do_perf_start E e arg
       else if cmd = IOCTL_XDMA_PERF_STOP then ioctl_do_perf_stop E e arg
       else if cmd = IOCTL_XDMA_PERF_GET then ioctl_do_perf_get E e arg
       else if cmd = IOCTL_XDMA_ADDRMODE_SET then ioctl_do_addrmode_set E e arg
       else if cmd = IOCTL_XDMA_ADDRMODE_GET then ioctl_do_addrmode_get E e arg
       else if cmd = IOCTL_XDMA_ALIGN_GET then ioctl_do_align_get E e arg
       else if cmd = IOCTL_XDMA_APERTURE_R then ioctl_do_aperture_dma E e arg False
       else if cmd = IOCTL_XDMA_APERTURE_W then ioctl_do_aperture_dma E e arg True
       else ret (- EINVAL) } }"

section \<open>Open and close\<close>

text \<open>As in \<open>sha256_open\<close>, the result of \<open>char_open\<close> is not looked at. \<open>trunc\<close>: the flag \<open>O_TRUNC\<close> of the file.\<close>

definition char_sgdma_open :: "bool \<Rightarrow> u64 \<Rightarrow> (hworld, int) state" where
  "char_sgdma_open trunc inode = do {
     _ \<leftarrow> char_open inode;
     xcdev \<leftarrow> private_data;
     if xcdev = 0 then do { _ \<leftarrow> emit Oops; ret 0 }
     else do {
       k \<leftarrow> the_sha xcdev;
       g \<leftarrow> the_eng (k_engine k);
       if e_streaming g \<and> e_dir g = DMA_FROM_DEVICE then
         if e_device_open g then ret (- EBUSY)
         else do {
           _ \<leftarrow> upd_eng (k_engine k) (\<lambda>g. g\<lparr>e_device_open := True, e_eop_flush := trunc\<rparr>);
           ret 0 }
       else ret 0 } }"

definition char_sgdma_close :: "(hworld, int) state" where
  "char_sgdma_close = do {
     xcdev \<leftarrow> private_data;
     rv \<leftarrow> xcdev_check xcdev True;
     if rv < 0 then ret rv
     else do {
       k \<leftarrow> the_sha xcdev;
       g \<leftarrow> the_eng (k_engine k);
       _ \<leftarrow> when_st (e_streaming g \<and> e_dir g = DMA_FROM_DEVICE)
              (upd_eng (k_engine k) (\<lambda>g. g\<lparr>e_device_open := False\<rparr>));
       ret 0 } }"

definition cdev_sgdma_init :: "u64 \<Rightarrow> (hworld, unit) state" where
  "cdev_sgdma_init xcdev = kproc K_cdev_init [xcdev]"

end
