(* ===== verification/UserPages.thy ===== *)
theory UserPages
  imports NodeLaws
begin

text \<open>
  Mapping a user buffer for a transfer: the table covers the buffer, and every page that was pinned is
  released exactly once.
\<close>

section \<open>Pins and releases in a history\<close>

text \<open>
  \<open>pins_from E h es\<close>: the pages that the calls of \<open>get_user_pages_fast\<close> in \<open>es\<close> pinned, which come after the
  history \<open>h\<close>. \<open>puts\<close>: the pages released.
\<close>

fun pins_from :: "env \<Rightarrow> history \<Rightarrow> history \<Rightarrow> u64 list" where
  "pins_from E h [] = []"
| "pins_from E h (e # es) = (case e of
     KCall f args r \<Rightarrow> if f = K_get_user_pages_fast then take (nat r) (pinned E h (args ! 0) (unat (args ! 1))) else []
   | _ \<Rightarrow> []) @ pins_from E (h @ [e]) es"

definition pins :: "env \<Rightarrow> history \<Rightarrow> u64 list" where
  "pins E h = pins_from E [] h"

definition puts :: "history \<Rightarrow> u64 list" where
  "puts h = map hd (calls K_put_page h)"

lemma pins_from_append: "pins_from E h (es @ es') = pins_from E h es @ pins_from E (h @ es) es'"
  by (induction es arbitrary: h) auto

lemma pins_append: "pins E (h @ es) = pins E h @ pins_from E h es"
  by (simp add: pins_def pins_from_append)

lemma puts_append [simp]: "puts (h @ h') = puts h @ puts h'"
  by (simp add: puts_def)

text \<open>
  The kernel pins no more pages than were asked for, and a page is not the null pointer.
\<close>

definition pin_kernel :: "env \<Rightarrow> bool" where
  "pin_kernel E \<longleftrightarrow> (\<forall>h a n. kres E h K_get_user_pages_fast [a, n] \<le> uint n \<and>
     length (pinned E h a (unat n)) = unat n \<and> 0 \<notin> set (pinned E h a (unat n)))"

section \<open>Unmapping\<close>

lemma run_unmap_pages:
  assumes "0 \<notin> set ps"
  shows "\<exists>h. run_state (unmap_pages ps w) s = ((), s\<lparr>tr := tr s @ h\<rparr>) \<and> puts h = ps \<and> (\<forall>h0. pins_from E h0 h = [])"
  using assms
proof (induction ps arbitrary: s)
  case Nil
  have "s = s\<lparr>tr := tr s @ []\<rparr>"
    by simp
  then show ?case
    unfolding unmap_pages.simps run_state_return by (intro exI [of _ "[]"]) (simp add: puts_def)
next
  case (Cons p ps)
  define h0 where "h0 = (if w then [] else [KCall K_set_page_dirty_lock [p] 0]) @ [KCall K_put_page [p] 0]"
  obtain h where h: "run_state (unmap_pages ps w) (s\<lparr>tr := tr s @ h0\<rparr>) = ((), s\<lparr>tr := tr s @ h0 @ h\<rparr>)"
    "puts h = ps" "\<forall>h0. pins_from E h0 h = []"
    using Cons.IH [of "s\<lparr>tr := tr s @ h0\<rparr>"] Cons.prems by auto
  have "run_state (unmap_pages (p # ps) w) s = ((), s\<lparr>tr := tr s @ h0 @ h\<rparr>)"
    using h(1) Cons.prems by (cases w) (simp_all add: h0_def)
  moreover have "puts (h0 @ h) = p # ps" "\<forall>h1. pins_from E h1 (h0 @ h) = []"
    using h(2,3) by (cases w; simp add: h0_def puts_def pins_from_append)+
  ultimately show ?case
    by blast
qed

text \<open>The pages that are in the first \<open>pages_nr\<close> places are released; the table of the block is emptied.\<close>

lemma run_unmap_buf:
  assumes "0 \<notin> set ps" "c_pages_ptr (cbs s cb) \<noteq> 0" "take (unat (c_pages_nr (cbs s cb))) (c_pages (cbs s cb)) = ps"
    and "c_pages_nr (cbs s cb) = 0 \<Longrightarrow> ps = []"
  shows "\<exists>h. tr (final_of (char_sgdma_unmap_user_buf cb w) s) = tr s @ h \<and> puts h = ps \<and> (\<forall>h0. pins_from E h0 h = [])"
proof -
  let ?s = "s\<lparr>tr := tr s @ [KCall K_sg_free_table [cb] 0],
    sgts := (sgts s)(cb := \<lparr>g_ents = [], g_dma = [], g_nents = 0, g_orig_nents = 0\<rparr>)\<rparr>"
  obtain h where h: "run_state (unmap_pages ps w) ?s = ((), ?s\<lparr>tr := tr ?s @ h\<rparr>)" "puts h = ps" "\<forall>h0. pins_from E h0 h = []"
    using run_unmap_pages [OF assms(1), of w ?s E] by blast
  show ?thesis
  proof (cases "c_pages_nr (cbs s cb) = 0")
    case True
    then show ?thesis
      using assms by (intro exI [of _ "[KCall K_sg_free_table [cb] 0]"])
        (simp add: char_sgdma_unmap_user_buf_def puts_def)
  next
    case False
    then show ?thesis
      using assms h by (intro exI [of _ "[KCall K_sg_free_table [cb] 0] @ h @ [KCall K_kfree [c_pages_ptr (cbs s cb)] 0]"])
        (simp add: char_sgdma_unmap_user_buf_def puts_def pins_from_append)
  qed
qed

section \<open>Mapping\<close>

text \<open>The stage before the pages are pinned: it fails without a pin, or has an array for \<open>n\<close> pages.\<close>

lemma keeps_puts_flush:
  "\<exists>h. run_state (for_each ps (\<lambda>p. kproc K_flush_dcache_page [p])) s = ((), s\<lparr>tr := tr s @ h\<rparr>) \<and>
    puts h = [] \<and> (\<forall>h0. pins_from E h0 h = [])"
proof (induction ps arbitrary: s)
  case Nil
  have "s = s\<lparr>tr := tr s @ []\<rparr>"
    by simp
  then show ?case
    unfolding for_each.simps run_state_return by (intro exI [of _ "[]"]) (simp add: puts_def)
next
  case (Cons p ps)
  let ?e = "KCall K_flush_dcache_page [p] 0"
  obtain h where "run_state (for_each ps (\<lambda>p. kproc K_flush_dcache_page [p])) (s\<lparr>tr := tr s @ [?e]\<rparr>) =
      ((), s\<lparr>tr := tr s @ ?e # h\<rparr>)" "puts h = []" "\<forall>h0. pins_from E h0 h = []"
    using Cons [of "s\<lparr>tr := tr s @ [?e]\<rparr>"] by auto
  then show ?case
    by (intro exI [of _ "?e # h"]) (simp add: puts_def)
qed

text \<open>
  The bytes of the buffer of a control block, each as a page and an offset, and what a mapped block is.
\<close>

definition buf_bytes :: "xdma_io_cb \<Rightarrow> u64 list \<Rightarrow> (u64 \<times> nat) list" where
  "buf_bytes c ps = map (\<lambda>i. (ps ! ((unat (c_buf c) mod 4096 + i) div 4096),
     (unat (c_buf c) mod 4096 + i) mod 4096)) [0..<unat (c_len c)]"

definition buf_mapped :: "xdma_io_cb \<Rightarrow> u64 list \<Rightarrow> u64 \<Rightarrow> hworld \<Rightarrow> bool" where
  "buf_mapped c ps cb s \<longleftrightarrow> c_pages (cbs s cb) = ps \<and> c_pages_ptr (cbs s cb) \<noteq> 0 \<and>
     unat (c_pages_nr (cbs s cb)) = length ps \<and> sg_bytes (g_ents (sgts s cb)) = buf_bytes c ps \<and>
     length (g_ents (sgts s cb)) = length ps \<and> g_orig_nents (sgts s cb) = length ps"

lemma length_fill_sgl [simp]: "length (fst (fill_sgl ps b l)) = length ps"
  by (induction ps arbitrary: b l) (simp_all add: Let_def case_prod_beta)

lemma buf_mapped_cong:
  assumes "c_buf c' = c_buf c" "c_len c' = c_len c"
  shows "buf_mapped c' = buf_mapped c"
  using assms by (simp add: buf_mapped_def buf_bytes_def fun_eq_iff)

lemma map_filled_outcome:
  assumes "c = cbs s cb" "c_len c \<noteq> 0" "unat (c_len c) < 2 ^ 32" "unat (c_buf c) + unat (c_len c) + 4096 \<le> 2 ^ 64"
    and "n = pages_of (c_buf c) (c_len c)" "c_pages c = ps" "length ps = unat n" "0 \<notin> set ps" "c_pages_ptr c \<noteq> 0"
    and "run_state (map_filled cb w n) s = (rv, s')" "g_orig_nents (sgts s cb) = unat n"
  shows "\<exists>h. tr s' = tr s @ h \<and> (\<forall>h0. pins_from E h0 h = []) \<and>
    (if rv = 0 then puts h = [] \<and> buf_mapped c ps cb s' else puts h = ps)"
proof (cases "adjacent_equal ps")
  case True
  let ?s = "s\<lparr>cbs := (cbs s)(cb := (cbs s cb)\<lparr>c_pages_nr := n\<rparr>)\<rparr>"
  have "\<exists>h. tr (final_of (char_sgdma_unmap_user_buf cb w) ?s) = tr ?s @ h \<and> puts h = ps \<and> (\<forall>h0. pins_from E h0 h = [])"
    by (rule run_unmap_buf) (use assms(1,6-9) in auto)
  moreover have "rv = - EFAULT \<and> s' = final_of (char_sgdma_unmap_user_buf cb w) ?s"
    using assms(1,6,7,10) True by (simp add: map_filled_def split: prod.splits)
  ultimately show ?thesis
    by auto
next
  case False
  have "unat n = (unat (c_buf c) mod 4096 + unat (c_len c) + 4095) div 4096"
    unfolding assms(5) using assms(2-4) by (rule unat_pages_of)
  then have fill: "snd (fill_sgl ps (c_buf c) (c_len c)) = 0"
    "sg_bytes (fst (fill_sgl ps (c_buf c) (c_len c))) = map (\<lambda>i. (ps ! ((unat (c_buf c) mod 4096 + i) div 4096),
       (unat (c_buf c) mod 4096 + i) mod 4096)) [0..<unat (c_len c)]"
    using fill_sgl_bytes [of "c_len c" "c_buf c" ps] assms(2-4,7) by simp_all
  obtain h where h: "run_state (for_each ps (\<lambda>p. kproc K_flush_dcache_page [p])) s = ((), s\<lparr>tr := tr s @ h\<rparr>)"
    "puts h = []" "\<forall>h0. pins_from E h0 h = []"
    using keeps_puts_flush by blast
  have "rv = 0 \<and> s' = s\<lparr>tr := tr s @ h, sgts := (sgts s)(cb := (sgts s cb)\<lparr>g_ents := fst (fill_sgl ps (c_buf c) (c_len c))\<rparr>),
      cbs := (cbs s)(cb := c\<lparr>c_pages_nr := n\<rparr>)\<rparr>"
    using assms(1,6,7,10) False fill(1) h(1) by (simp add: map_filled_def case_prod_beta)
  then show ?thesis
    using h(2,3) fill(2) assms(6,7,9,11) by (intro exI [of _ h]) (simp add: buf_mapped_def buf_bytes_def)
qed

text \<open>The pages that one call of \<open>get_user_pages_fast\<close> pins, and the event that it leaves.\<close>

definition gup_result :: "env \<Rightarrow> history \<Rightarrow> u64 \<Rightarrow> u32 \<Rightarrow> int" where
  "gup_result E h buf n = kres E h K_get_user_pages_fast [buf, ucast n]"

definition gup_pages :: "env \<Rightarrow> history \<Rightarrow> u64 \<Rightarrow> u32 \<Rightarrow> u64 list" where
  "gup_pages E h buf n = take (nat (gup_result E h buf n)) (pinned E h buf (unat n))"

definition gup_event :: "env \<Rightarrow> history \<Rightarrow> u64 \<Rightarrow> u32 \<Rightarrow> ev" where
  "gup_event E h buf n = KCall K_get_user_pages_fast [buf, ucast n] (gup_result E h buf n)"

lemma gup_pins:
  assumes "pin_kernel E"
  shows "gup_result E h buf n \<le> uint n" "length (gup_pages E h buf n) = nat (gup_result E h buf n)"
    and "0 \<notin> set (gup_pages E h buf n)" "puts (gup_event E h buf n # h') = puts h'"
    and "\<forall>h0. pins_from E h0 h' = [] \<Longrightarrow> pins E (h @ gup_event E h buf n # h') = pins E h @ gup_pages E h buf n"
proof -
  have n: "unat (ucast n :: u64) = unat n"
    using u32_bound [of n] by (simp add: unsigned_ucast_eq take_bit_eq_mod)
  then have n': "uint (ucast n :: u64) = uint n"
    by (simp only: uint_nat)
  have k: "gup_result E h buf n \<le> uint (ucast n :: u64)" "length (pinned E h buf (unat n)) = unat n" "0 \<notin> set (pinned E h buf (unat n))"
    using assms n unfolding pin_kernel_def gup_result_def by metis+
  then show r: "gup_result E h buf n \<le> uint n"
    by (simp only: n')
  then show "length (gup_pages E h buf n) = nat (gup_result E h buf n)"
    using k(2) by (simp add: gup_pages_def nat_le_iff)
  show "0 \<notin> set (gup_pages E h buf n)"
    using k(3) set_take_subset unfolding gup_pages_def by fast
  show "puts (gup_event E h buf n # h') = puts h'"
    by (simp add: puts_def gup_event_def)
  have "pins_from E h [gup_event E h buf n] = gup_pages E h buf n"
    using n by (simp add: gup_event_def gup_pages_def)
  then show "\<forall>h0. pins_from E h0 h' = [] \<Longrightarrow> pins E (h @ gup_event E h buf n # h') = pins E h @ gup_pages E h buf n"
    using pins_from_append [of E h "[gup_event E h buf n]" h'] by (simp only: pins_append append_Cons append_Nil append_Nil2)
qed

lemma map_pinned_outcome:
  assumes "pin_kernel E" "c = cbs s cb" "c_len c \<noteq> 0" "unat (c_len c) < 2 ^ 32"
    and "unat (c_buf c) + unat (c_len c) + 4096 \<le> 2 ^ 64" "n = pages_of (c_buf c) (c_len c)"
    and "length (c_pages c) = unat n" "c_pages_ptr c \<noteq> 0" "c_pages_nr c = 0"
    and "run_state (map_pinned E cb w n) s = (rv, s')" "g_orig_nents (sgts s cb) = unat n"
  shows "\<exists>ps h. tr s' = tr s @ h \<and> pins E (tr s') = pins E (tr s) @ ps \<and> 0 \<notin> set ps \<and>
    (if rv = 0 then puts h = [] \<and> buf_mapped c ps cb s' else puts h = ps)"
proof -
  define r where "r = gup_result E (tr s) (c_buf c) n"
  define e where "e = gup_event E (tr s) (c_buf c) n"
  define ps where "ps = gup_pages E (tr s) (c_buf c) n"
  define c1 where "c1 = c\<lparr>c_pages := ps @ drop (length ps) (c_pages c)\<rparr>"
  define s1 where "s1 = s\<lparr>tr := tr s @ [e], cbs := (cbs s)(cb := c1)\<rparr>"
  note gup = gup_pins [OF assms(1), where h = "tr s" and buf = "c_buf c" and n = n, folded r_def e_def ps_def]
  have run: "run_state (map_pinned E cb w n) s =
    (if r < 0 then (r, final_of (char_sgdma_unmap_user_buf cb w) s1)
     else if r \<noteq> uint n then (- EFAULT, final_of (char_sgdma_unmap_user_buf cb w)
       (s1\<lparr>cbs := (cbs s1)(cb := c1\<lparr>c_pages_nr := of_int r\<rparr>)\<rparr>))
     else run_state (map_filled cb w n) s1)"
    by (simp add: map_pinned_def Let_def assms(2) [symmetric] r_def s1_def e_def c1_def ps_def gup_result_def gup_event_def
        gup_pages_def case_prod_beta)
  have tr1: "tr s1 @ h = tr s @ e # h" for h
    by (simp add: s1_def)
  have "\<exists>h. tr s' = tr s1 @ h \<and> (\<forall>h0. pins_from E h0 h = []) \<and>
    (if rv = 0 then puts h = [] \<and> buf_mapped c ps cb s' else puts h = ps)"
  proof -
    consider "r < 0" | "0 \<le> r" "r \<noteq> uint n" | "r = uint n"
      by linarith
    then show ?thesis
    proof cases
      case 1
      have "\<exists>h. tr (final_of (char_sgdma_unmap_user_buf cb w) s1) = tr s1 @ h \<and> puts h = [] \<and> (\<forall>h0. pins_from E h0 h = [])"
        by (rule run_unmap_buf) (use assms(8,9) in \<open>simp_all add: s1_def c1_def\<close>)
      moreover have "rv = r \<and> s' = final_of (char_sgdma_unmap_user_buf cb w) s1" "ps = []"
        using 1 run assms(10) gup(2) by simp_all
      ultimately show ?thesis
        using 1 by auto
    next
      case 2
      let ?s = "s1\<lparr>cbs := (cbs s1)(cb := c1\<lparr>c_pages_nr := of_int r\<rparr>)\<rparr>"
      have "unat (of_int r :: u32) = nat r"
        using 2 gup(1) uint_lt2p [of n] by (simp add: unat_eq_nat_uint uint_word_of_int)
      moreover from this have "(of_int r :: u32) = 0 \<Longrightarrow> ps = []"
        using gup(2) by auto
      ultimately have "\<exists>h. tr (final_of (char_sgdma_unmap_user_buf cb w) ?s) = tr ?s @ h \<and> puts h = ps \<and> (\<forall>h0. pins_from E h0 h = [])"
        by (intro run_unmap_buf gup(3)) (use assms(8) gup(2) in \<open>simp_all add: s1_def c1_def\<close>)
      moreover have "rv = - EFAULT \<and> s' = final_of (char_sgdma_unmap_user_buf cb w) ?s"
        using 2 run assms(10) by simp
      ultimately show ?thesis
        by auto
    next
      case 3
      then have len: "length ps = unat n"
        using gup(2) by simp
      have filled: "run_state (map_filled cb w n) s1 = (rv, s')"
        using 3 run assms(10) by simp
      have c1: "c1 = cbs s1 cb" "c_pages c1 = ps" "c_len c1 = c_len c" "c_buf c1 = c_buf c" "c_pages_ptr c1 = c_pages_ptr c"
        using len assms(7) by (simp_all add: s1_def c1_def)
      note fields = assms(3-6,8) [folded c1(3,4,5)]
      have "g_orig_nents (sgts s1 cb) = unat n"
        using assms(11) by (simp add: s1_def)
      from map_filled_outcome [OF c1(1) fields(1-4) c1(2) len gup(3) fields(5) filled this, where E = E]
      show ?thesis
        unfolding buf_mapped_cong [OF c1(4,3)] .
    qed
  qed
  then obtain h where "tr s' = tr s @ e # h" "\<forall>h0. pins_from E h0 h = []"
    "if rv = 0 then puts h = [] \<and> buf_mapped c ps cb s' else puts h = ps"
    unfolding tr1 by blast
  then show ?thesis
    using gup(3) gup(4,5) [of h] by (intro exI [of _ ps] exI [of _ "e # h"]) simp
qed

lemma map_buf_outcome:
  assumes "pin_kernel E" "c = cbs s cb" "c_len c \<noteq> 0" "unat (c_len c) < 2 ^ 32"
    and "unat (c_buf c) + unat (c_len c) + 4096 \<le> 2 ^ 64" "c_pages_nr c = 0"
    and "run_state (char_sgdma_map_user_buf_to_sgl E cb w) s = (rv, s')"
  shows "\<exists>ps h. tr s' = tr s @ h \<and> pins E (tr s') = pins E (tr s) @ ps \<and> 0 \<notin> set ps \<and>
    (if rv = 0 then puts h = [] \<and> buf_mapped c ps cb s' else puts h = ps)"
proof -
  define n where "n = pages_of (c_buf c) (c_len c)"
  have "unat n = (unat (c_buf c) mod 4096 + unat (c_len c) + 4095) div 4096"
    unfolding n_def using assms(3-5) by (rule unat_pages_of)
  moreover have "0 < unat (c_len c)"
    using assms(3) by (simp add: unat_gt_0)
  ultimately have n0: "n \<noteq> 0"
    by (auto simp: unat_eq_zero [symmetric] div_eq_0_iff)
  define e1 where "e1 = KCall K_sg_alloc_table [cb, ucast n] (kres E (tr s) K_sg_alloc_table [cb, ucast n])"
  define s1 where "s1 = s\<lparr>tr := tr s @ [e1], sgts := (sgts s)(cb := \<lparr>g_ents = replicate (unat n) (0, 0, 0), g_dma = [],
    g_nents = unat n, g_orig_nents = unat n\<rparr>)\<rparr>"
  define p :: u64 where "p = of_int (kres E (tr s1) K_kzalloc [ucast n])"
  define e2 where "e2 = KCall K_kzalloc [ucast n] (kres E (tr s1) K_kzalloc [ucast n])"
  define c2 where "c2 = c\<lparr>c_pages_ptr := p, c_pages := replicate (unat n) 0\<rparr>"
  define s2 where "s2 = s1\<lparr>tr := tr s1 @ [e2], cbs := (cbs s)(cb := c2)\<rparr>"
  have run: "run_state (char_sgdma_map_user_buf_to_sgl E cb w) s =
    (if kres E (tr s) K_sg_alloc_table [cb, ucast n] \<noteq> 0 then (- ENOMEM, s\<lparr>tr := tr s @ [e1]\<rparr>)
     else if p = 0 then (- ENOMEM, final_of (char_sgdma_unmap_user_buf cb w) s2)
     else run_state (map_pinned E cb w n) s2)"
    using n0 by (simp add: char_sgdma_map_user_buf_to_sgl_def Let_def assms(2) [symmetric] n_def [symmetric]
        p_def s1_def s2_def c2_def e1_def e2_def case_prod_beta)
  have quiet: "pins E (tr s2) = pins E (tr s)" "puts [e1, e2] = []" "tr s2 = tr s @ [e1, e2]" "pins_from E (tr s) [e1] = []"
    by (simp_all add: s2_def s1_def e1_def e2_def pins_append puts_def)
  consider "kres E (tr s) K_sg_alloc_table [cb, ucast n] \<noteq> 0"
    | "kres E (tr s) K_sg_alloc_table [cb, ucast n] = 0" "p = 0"
    | "kres E (tr s) K_sg_alloc_table [cb, ucast n] = 0" "p \<noteq> 0"
    by blast
  then show ?thesis
  proof cases
    case 1
    then show ?thesis
      using run assms(7) quiet(4) by (auto simp: pins_append puts_def e1_def)
  next
    case 2
    have "tr (final_of (char_sgdma_unmap_user_buf cb w) s2) = tr s2 @ [KCall K_sg_free_table [cb] 0]"
      using 2 by (simp add: char_sgdma_unmap_user_buf_def s2_def c2_def)
    then show ?thesis
      using 2 run assms(7) quiet by (auto simp: pins_append puts_def e1_def e2_def)
  next
    case 3
    have "run_state (map_pinned E cb w n) s2 = (rv, s')"
      using 3 run assms(7) by simp
    then have pinned: "run_state (map_pinned E cb w n) s2 = (rv, s')" .
    have c2: "c2 = cbs s2 cb" "c_len c2 = c_len c" "c_buf c2 = c_buf c" "c_pages_ptr c2 = p" "c_pages_nr c2 = 0"
      "length (c_pages c2) = unat n"
      using assms(6) by (simp_all add: s2_def c2_def)
    have same: "buf_mapped c2 = buf_mapped c"
      by (rule buf_mapped_cong [OF c2(3,2)])
    have "n = pages_of (c_buf c2) (c_len c2)"
      by (simp only: n_def c2(2,3))
    moreover have "g_orig_nents (sgts s2 cb) = unat n"
      by (simp add: s2_def s1_def)
    ultimately obtain ps h where "tr s' = tr s2 @ h" "pins E (tr s') = pins E (tr s2) @ ps" "0 \<notin> set ps"
      "if rv = 0 then puts h = [] \<and> buf_mapped c ps cb s' else puts h = ps"
      using map_pinned_outcome [OF assms(1) c2(1) assms(3-5) [folded c2(2,3)] _ c2(6) _ c2(5) pinned] 3(2)
      unfolding same c2(4) by blast
    then show ?thesis
      using quiet puts_append [of "[e1, e2]" h] by (intro exI [of _ ps] exI [of _ "[e1, e2] @ h"]) auto
  qed
qed

text \<open>
  C7: mapping a user buffer. On success the table of the control block names every byte of the buffer, in
  order and once, as a byte of the pinned page it lies in; releasing the buffer later puts exactly the
  pages that were pinned. On a failure, at whatever point, every page that was pinned has been put.
\<close>

theorem map_user_buf_covers:
  assumes "pin_kernel E" "c = cbs s cb" "c_len c \<noteq> 0" "unat (c_len c) < 2 ^ 32"
    and "unat (c_buf c) + unat (c_len c) + 4096 \<le> 2 ^ 64" "c_pages_nr c = 0"
    and "run_state (char_sgdma_map_user_buf_to_sgl E cb w) s = (rv, s1)"
    and "run_state (char_sgdma_unmap_user_buf cb w) s1 = (u, s2)"
  shows "\<exists>ps. pins E (tr s1) = pins E (tr s) @ ps \<and>
    (if rv = 0 then puts (tr s1) = puts (tr s) \<and> puts (tr s2) = puts (tr s) @ ps \<and>
        sg_bytes (g_ents (sgts s1 cb)) = buf_bytes c ps
     else puts (tr s1) = puts (tr s) @ ps)"
proof -
  obtain ps h where map: "tr s1 = tr s @ h" "pins E (tr s1) = pins E (tr s) @ ps" "0 \<notin> set ps"
    "if rv = 0 then puts h = [] \<and> buf_mapped c ps cb s1 else puts h = ps"
    using map_buf_outcome [OF assms(1-7)] by blast
  show ?thesis
  proof (cases "rv = 0")
    case True
    then have m: "buf_mapped c ps cb s1"
      using map(4) by simp
    then have "c_pages_nr (cbs s1 cb) = 0 \<Longrightarrow> ps = []"
      by (auto simp: buf_mapped_def)
    then have "\<exists>h'. tr (final_of (char_sgdma_unmap_user_buf cb w) s1) = tr s1 @ h' \<and> puts h' = ps \<and> (\<forall>h0. pins_from E h0 h' = [])"
      by (intro run_unmap_buf map(3)) (use m in \<open>auto simp: buf_mapped_def\<close>)
    then obtain h' where "tr s2 = tr s1 @ h'" "puts h' = ps"
      using assms(8) by auto
    then show ?thesis
      using True map m by (intro exI [of _ ps]) (simp add: buf_mapped_def)
  next
    case False
    then show ?thesis
      using map by (intro exI [of _ ps]) simp
  qed
qed

text \<open>A mapping that no service refuses, and whose pages are not found twice in a row, succeeds.\<close>

lemma map_buf_succeeds:
  fixes s :: hworld
  assumes "pin_kernel E" "c = cbs s cb" "c_len c \<noteq> 0" "unat (c_len c) < 2 ^ 32" "unat (c_buf c) + unat (c_len c) + 4096 \<le> 2 ^ 64"
    and "\<And>h a. kres E h K_sg_alloc_table a = 0" "\<And>h a. (of_int (kres E h K_kzalloc a) :: u64) \<noteq> 0"
    and "\<And>h a n. kres E h K_get_user_pages_fast [a, n] = uint n"
    and "\<And>h. \<not> adjacent_equal (pinned E h (c_buf c) (unat (pages_of (c_buf c) (c_len c))))"
  shows "fst (run_state (char_sgdma_map_user_buf_to_sgl E cb w) s) = 0"
proof -
  define n where "n = pages_of (c_buf c) (c_len c)"
  have n: "unat n = (unat (c_buf c) mod 4096 + unat (c_len c) + 4095) div 4096"
    unfolding n_def using assms(3-5) by (rule unat_pages_of)
  moreover have "0 < unat (c_len c)"
    using assms(3) by (simp add: unat_gt_0)
  ultimately have n0: "n \<noteq> 0"
    by (auto simp: unat_eq_zero [symmetric] div_eq_0_iff)
  have wide: "unat (ucast n :: u64) = unat n" "uint (ucast n :: u64) = uint n" "nat (uint n) = unat n"
  proof -
    show "unat (ucast n :: u64) = unat n"
      using u32_bound [of n] by (simp add: unsigned_ucast_eq take_bit_eq_mod)
    then show "uint (ucast n :: u64) = uint n"
      by (metis uint_nat)
    show "nat (uint n) = unat n"
      by simp
  qed
  have len: "length (pinned E h (c_buf c) (unat n)) = unat n" for h
    using assms(1) wide(1) unfolding pin_kernel_def by metis
  then have fill: "snd (fill_sgl (pinned E h (c_buf c) (unat n)) (c_buf c) (c_len c)) = 0" for h
    using fill_sgl_bytes [of "c_len c" "c_buf c" "pinned E h (c_buf c) (unat n)"] assms(3-5) n by simp
  show ?thesis
    using n0 assms(9)
    by (simp add: char_sgdma_map_user_buf_to_sgl_def map_pinned_def map_filled_def Let_def case_prod_beta
        assms(2) [symmetric] n_def [symmetric] assms(6-8) wide len fill)
qed

section \<open>A mapping of three pages\<close>

definition pinning_env :: env where
  "pinning_env = sample_env\<lparr>
     kres := (\<lambda>h f args. if f = K_get_user_pages_fast then uint (args ! 1) else kres sample_env h f args),
     pinned := (\<lambda>h a n. map (\<lambda>i. if even i then 0x1000 else 0x2000) [0..<n])\<rparr>"

lemma pinning_env_kernel: "pin_kernel pinning_env"
  by (auto simp: pin_kernel_def pinning_env_def)

definition pinning_cb :: xdma_io_cb where
  "pinning_cb = sample_cb\<lparr>c_buf := 0x7F00, c_len := 6000\<rparr>"

definition pinning_world :: hworld where
  "pinning_world = event_world\<lparr>cbs := (\<lambda>_. pinning_cb)\<rparr>"

lemma pinning_world_sel [simp]: "cbs pinning_world = (\<lambda>_. pinning_cb)" "tr pinning_world = []"
  by (simp_all add: pinning_world_def)

lemma pinning_env_sel [simp]:
  "kres pinning_env h f args = (if f = K_get_user_pages_fast then uint (args ! 1) else kres sample_env h f args)"
  "pinned pinning_env h a n = map (\<lambda>i. if even i then 0x1000 else 0x2000) [0..<n]"
  "kres sample_env h f args = (if f \<in> {K_kzalloc, K_vmalloc, K_dma_alloc_coherent} then 0x4000 else 0)"
  by (simp_all add: pinning_env_def sample_env_def)

lemma pinning_pages: "pages_of 0x7F00 6000 = 3"
  by (simp add: pages_of_def drop_bit_eq_div)

lemma pinning_pages_list: "map (\<lambda>i. if even i then 0x1000 else 0x2000 :: u64) [0..<3] = [0x1000, 0x2000, 0x1000]"
  by (simp add: upt_rec)

lemma pinning_runs:
  assumes "c_buf (cbs s cb) = 0x7F00" "c_len (cbs s cb) = 6000"
  shows "fst (run_state (char_sgdma_map_user_buf_to_sgl pinning_env cb True) s) = 0"
  by (rule map_buf_succeeds [OF pinning_env_kernel refl]) (simp_all add: assms pinning_pages pinning_pages_list)

lemma map_user_buf_covers_witness:
  "\<exists>ps s1. run_state (char_sgdma_map_user_buf_to_sgl pinning_env 0x9000 True) pinning_world = (0, s1) \<and>
     pins pinning_env (tr s1) = ps \<and> sg_bytes (g_ents (sgts s1 0x9000)) = buf_bytes pinning_cb ps"
proof -
  have "c_len pinning_cb \<noteq> 0" "unat (c_len pinning_cb) < 2 ^ 32"
    "unat (c_buf pinning_cb) + unat (c_len pinning_cb) + 4096 \<le> 2 ^ 64" "c_pages_nr pinning_cb = 0"
    by (simp_all add: pinning_cb_def sample_cb_def)
  moreover have "pins pinning_env [] = []"
    by (simp add: pins_def)
  moreover have ok: "fst (run_state (char_sgdma_map_user_buf_to_sgl pinning_env 0x9000 True) pinning_world) = 0"
    by (rule pinning_runs) (simp_all add: pinning_cb_def)
  ultimately show ?thesis
    using map_user_buf_covers [where c = pinning_cb and s = pinning_world and cb = "0x9000" and w = True,
        OF pinning_env_kernel _ _ _ _ _ prod.collapse [symmetric] prod.collapse [symmetric]] ok
    by (force intro!: prod_eqI)
qed

end
