(* ===== verification/SubmitLaws.thy ===== *)
theory SubmitLaws
  imports Xfer Resources
begin

text \<open>
  The blocking submission (\<open>xdma_xfer_submit\<close>) comes to an end, and gives the ring descriptors it took
  back. Both rest on what the service of an engine leaves alone while the submitter sleeps.
\<close>

section \<open>What the service of an engine leaves alone\<close>

text \<open>
  The position of an engine in its ring, its place (where the ring is and what it transfers), and the size of
  a transfer: only a submission changes them.
\<close>

definition ring_pos :: "xdma_engine \<Rightarrow> u32 \<times> u32 \<times> u32 \<times> bool" where
  "ring_pos g = (e_desc_idx g, e_desc_max g, e_desc_used g, e_streaming g)"

definition eng_place :: "xdma_engine \<Rightarrow> (u32 \<times> u32 \<times> u32 \<times> bool) \<times> u64 \<times> dma_dir \<times> bool" where
  "eng_place g = (ring_pos g, e_desc_bus g, e_dir g, e_non_incr_addr g)"

definition xfer_size :: "xdma_transfer \<Rightarrow> u32 \<times> u32" where
  "xfer_size t = (t_desc_num t, t_len t)"

lemmas place_defs = eng_place_def ring_pos_def xfer_size_def

text \<open>
  A property of the state that does not depend on the history, the tables, or on the fields of an engine
  other than its place and of a transfer other than its size.
\<close>

lemma keeps_transfer_state:
  assumes "keeps I a" "keeps I b" "keeps I c"
  shows "keeps I (case v of TRANSFER_STATE_COMPLETED \<Rightarrow> a | TRANSFER_STATE_FAILED \<Rightarrow> b | _ \<Rightarrow> c)"
  using assms by (cases v) simp_all

locale engine_frame =
  fixes I :: "'a xworld_scheme \<Rightarrow> bool"
  assumes tr_frame: "tr_free I"
    and eng_frame: "(\<And>g. eng_place (f g) = eng_place g) \<Longrightarrow> keeps I (upd_eng e f)"
    and xfer_frame: "(\<And>t. xfer_size (k t) = xfer_size t) \<Longrightarrow> keeps I (upd_xfer x k)"
    and sgt_frame: "keeps I (upd_sgt t l)"
begin

lemmas frame_rules = hoare_rules tr_frame eng_frame xfer_frame sgt_frame

lemma ring_frame: "keeps I (upd_desc e i d)"
  unfolding upd_desc_def by (rule eng_frame) (simp add: place_defs)

lemma perf_frame: "keeps I (upd_perf e p)"
  unfolding upd_perf_def by (rule eng_frame) (simp add: place_defs)

lemma done_frame: "keeps I (xdma_desc_done e p n)"
  unfolding xdma_desc_done_def by (intro frame_rules ring_frame)

lemma destroy_frame: "keeps I (transfer_destroy E d x)"
  unfolding transfer_destroy_def by (intro frame_rules done_frame)

lemma status_frame: "keeps I (engine_status_read E e c d)"
  unfolding engine_status_read_def engine_reg_dump_def Let_def
  by (intro frame_rules) (simp_all add: place_defs)

lemma stop_frame: "keeps I (xdma_engine_stop e)"
  unfolding xdma_engine_stop_def by (intro frame_rules) (simp_all add: place_defs)

lemma start_frame: "keeps I (engine_start E e)"
  unfolding engine_start_def engine_start_mode_config_def Let_def
  by (intro frame_rules status_frame) (simp_all add: place_defs)

lemma del_frame: "keeps I (queue_del_head e)"
  unfolding queue_del_head_def by (rule eng_frame) (simp add: place_defs)

lemma head_frame: "keeps I (queue_head e)"
  unfolding queue_head_def by (rule hoare_rules)

lemma shutdown_frame: "keeps I (engine_service_shutdown e)"
  unfolding engine_service_shutdown_def by (intro frame_rules stop_frame)

lemma resume_frame: "keeps I (engine_service_resume E e)"
  unfolding engine_service_resume_def
  by (intro frame_rules start_frame shutdown_frame) (simp_all add: place_defs)

lemma abort_frame: "keeps I (transfer_abort e t)"
  unfolding transfer_abort_def by (intro frame_rules del_frame head_frame) (simp add: place_defs)

lemma flag_frame: "keeps I (xdma_device_flag_check d f)"
  unfolding xdma_device_flag_check_def by (intro frame_rules)

lemma queue_frame: "keeps I (transfer_queue E e t)"
  unfolding transfer_queue_def
  by (intro frame_rules start_frame flag_frame) (simp_all add: place_defs)

lemma abandon_frame: "keeps I (abandon_transfer E e x)"
  unfolding abandon_transfer_def by (intro frame_rules status_frame abort_frame stop_frame)

lemma outcome_frame: "keeps I (submit_outcome E e x)"
  unfolding submit_outcome_def by (intro frame_rules abandon_frame keeps_transfer_state)

lemma wake_frame: "keeps I (wake_cmpl_thread e)"
  unfolding wake_cmpl_thread_def by (intro frame_rules)

text \<open>The service calls the completion callback, which has to leave the property alone as well.\<close>

lemma completion_frame:
  assumes "\<And>cb err. keeps I (H cb err)"
  shows "keeps I (engine_transfer_completion H e t)"
  unfolding engine_transfer_completion_def by (intro frame_rules assms)

lemma list_loop_frame:
  assumes "\<And>cb err. keeps I (H cb err)"
  shows "keeps I (transfer_list_loop fuel H e t n)"
proof (induction fuel arbitrary: t n)
  case (Suc fuel)
  show ?case
  proof (cases t)
    case None
    then show ?thesis
      by (simp add: keeps_return)
  next
    case (Some x)
    show ?thesis
      unfolding Some transfer_list_loop.simps Let_def
      by (intro frame_rules del_frame head_frame completion_frame assms Suc) (simp_all add: place_defs)
  qed
qed (simp add: keeps_return)

lemma final_frame:
  assumes "\<And>cb err. keeps I (H cb err)"
  shows "keeps I (engine_service_final_transfer E H e t n)"
  unfolding engine_service_final_transfer_def engine_err_handle_def eop_received_def finish_head_def
  by (intro frame_rules del_frame stop_frame shutdown_frame completion_frame assms) (simp_all add: place_defs)

lemma service_frame:
  assumes "\<And>cb err. keeps I (H cb err)"
  shows "keeps I (engine_service E H e wb)"
  unfolding engine_service_def engine_service_transfers_def engine_service_perf_def engine_service_transfer_list_def Let_def
  by (intro frame_rules status_frame shutdown_frame head_frame perf_frame resume_frame
      list_loop_frame final_frame assms)

lemma poll_loop_frame: "keeps I (wb_poll_loop n E wb want)"
proof (induction n)
  case 0
  show ?case
    by (subst wb_poll_loop.simps, simp only: nat.case) (intro frame_rules)
next
  case (Suc n)
  show ?case
    by (subst wb_poll_loop.simps, simp only: nat.case) (intro frame_rules Suc)
qed

lemma deferred_frame:
  assumes "\<And>cb err. keeps I (H cb err)"
  shows "keeps I (deferred_service E H e)"
  unfolding deferred_service_def engine_service_poll_def engine_service_wb_monitor_def engine_service_work_def
    channel_interrupts_enable_def
  by (intro frame_rules head_frame poll_loop_frame service_frame assms)

lemma wait_frame:
  assumes "\<And>cb err. keeps I (H cb err)"
  shows "keeps I (wait_transfer E H e x ms)"
  unfolding wait_transfer_def by (intro frame_rules deferred_frame assms)

end

section \<open>The rounds of a submission\<close>

text \<open>
  During a round the request is \<open>q\<close>, the engine keeps its position and the transfer its size.
  \<open>request_is\<close> is the part that the completion of other transfers leaves alone too: that only gives their
  descriptors back.
\<close>

definition request_is :: "eng \<Rightarrow> u64 \<Rightarrow> xdma_request_cb \<Rightarrow> u32 \<Rightarrow> u32 \<Rightarrow> 'a xworld_scheme \<Rightarrow> bool" where
  "request_is e req q i m s \<longleftrightarrow> reqs s req = q \<and> e_desc_idx (engs s e) = i \<and> e_desc_max (engs s e) = m"

definition round_is ::
  "eng \<Rightarrow> u64 \<Rightarrow> xref \<Rightarrow> xdma_request_cb \<Rightarrow> u32 \<times> u32 \<times> u32 \<times> bool \<Rightarrow> u32 \<times> u32 \<Rightarrow> 'a xworld_scheme \<Rightarrow> bool" where
  "round_is e req x q p z s \<longleftrightarrow> reqs s req = q \<and> ring_pos (engs s e) = p \<and> xfer_size (xfers s x) = z"

interpretation request: engine_frame "request_is e req q i m"
  by unfold_locales (auto simp: tr_free_def request_is_def hoare_def eng_place_def ring_pos_def)

interpretation round: engine_frame "round_is e req x q p z"
  by unfold_locales (auto simp: tr_free_def round_is_def hoare_def eng_place_def)

text \<open>
  A round once the transfer is set up and \<open>nents\<close> is what is left after it; the rounds that follow are \<open>K\<close>.
\<close>

definition submit_rest ::
  "env \<Rightarrow> 'a io_done \<Rightarrow> eng \<Rightarrow> xref \<Rightarrow> u64 \<Rightarrow> int \<Rightarrow> u32 \<Rightarrow> int \<Rightarrow>
   (u32 \<Rightarrow> int \<Rightarrow> ('a xworld_scheme, int \<times> int) state) \<Rightarrow> ('a xworld_scheme, int \<times> int) state" where
  "submit_rest E H e x sgt timeout_ms nents don K = do {
     _ \<leftarrow> when_st (nents = 0) (upd_xfer x (\<lambda>t. t\<lparr>t_last_in_request := True, t_sgt := sgt\<rparr>));
     rv \<leftarrow> transfer_queue E e (Some x);
     if rv < 0 then ret (rv, don)
     else do {
       _ \<leftarrow> wake_cmpl_thread e;
       _ \<leftarrow> wait_transfer E H e x timeout_ms;
       (rv, bytes, finish) \<leftarrow> submit_outcome E e x;
       t \<leftarrow> the_xfer x;
       g \<leftarrow> the_eng e;
       _ \<leftarrow> upd_eng e (\<lambda>g. g\<lparr>e_desc_used := e_desc_used g - t_desc_num t\<rparr>);
       _ \<leftarrow> transfer_destroy E (e_xdev g) x;
       if rv < 0 then ret (rv, don + bytes) else K (if finish then 0 else nents) (don + bytes) } }"

definition mark_unmap :: "bool \<Rightarrow> xref \<Rightarrow> ('a xworld_scheme, unit) state" where
  "mark_unmap dma_mapped x = when_st (\<not> dma_mapped) (upd_xfer x (\<lambda>t. t\<lparr>t_flags := XFER_FLAG_NEED_UNMAP\<rparr>))"

lemma submit_loop_Suc:
  assumes "nents \<noteq> 0"
  shows "submit_loop (Suc fuel) E H e req sgt dma_mapped timeout_ms nents don = do {
    rv \<leftarrow> transfer_init e req (Tfer req 0);
    if rv < 0 then ret (rv, don)
    else do {
      _ \<leftarrow> mark_unmap dma_mapped (Tfer req 0);
      t \<leftarrow> the_xfer (Tfer req 0);
      submit_rest E H e (Tfer req 0) sgt timeout_ms (nents - t_desc_num t) don
        (submit_loop fuel E H e req sgt dma_mapped timeout_ms) } }"
  unfolding submit_loop.simps submit_rest_def mark_unmap_def Let_def using assms by simp

text \<open>Two continuations that agree on what a round leaves behind.\<close>

lemma bind_frame_cong:
  assumes "keeps I m" "I s" "\<And>r s'. I s' \<Longrightarrow> run_state (f r) s' = run_state (g r) s'"
  shows "run_state (State_Monad.bind m f) s = run_state (State_Monad.bind m g) s"
proof -
  have "I (final_of m s)"
    using assms(1,2) by (rule hoare_final)
  then show ?thesis
    using assms(3) by (simp add: case_prod_beta)
qed

lemma if_run_cong:
  "(\<not> b \<Longrightarrow> run_state m s = run_state m' s) \<Longrightarrow> run_state (if b then n else m) s = run_state (if b then n else m') s"
  by simp

lemma submit_rest_cong:
  assumes "\<And>cb err. keeps (request_is e req q i m) (H cb err)" "request_is e req q i m s"
    and "\<And>n d s'. n \<in> {0, nents} \<Longrightarrow> request_is e req q i m s' \<Longrightarrow> run_state (K n d) s' = run_state (K' n d) s'"
  shows "run_state (submit_rest E H e x sgt timeout_ms nents don K) s =
    run_state (submit_rest E H e x sgt timeout_ms nents don K') s"
proof -
  have set: "keeps (request_is e req q i m) (upd_eng e (\<lambda>g. g\<lparr>e_desc_used := n g\<rparr>))" for n
    by (simp add: hoare_def request_is_def)
  have mark: "keeps (request_is e req q i m) (when_st b (upd_xfer x (\<lambda>t. t\<lparr>t_last_in_request := True, t_sgt := sgt\<rparr>)))" for b
    by (simp add: hoare_def request_is_def)
  note frames = mark set request.queue_frame request.wake_frame request.wait_frame [OF assms(1)]
    request.outcome_frame request.destroy_frame keeps_gets
  note step = frames [THEN bind_frame_cong [where I = "request_is e req q i m"]]
  show ?thesis
    unfolding submit_rest_def split_beta
    by (intro step if_run_cong assms(2,3)) auto
qed

section \<open>The submission ends\<close>

text \<open>Between two rounds: \<open>nents\<close> descriptors of the request are left, or the rest is dropped.\<close>

definition submit_ok :: "eng \<Rightarrow> u64 \<Rightarrow> u32 \<Rightarrow> 'a xworld_scheme \<Rightarrow> bool" where
  "submit_ok e req nents s \<longleftrightarrow> e_desc_idx (engs s e) < e_desc_max (engs s e) \<and> e_desc_max (engs s e) < 2 ^ 31 \<and>
     unat (r_sw_desc_cnt (reqs s req)) \<le> length (r_sdesc (reqs s req)) \<and> r_sw_desc_idx (reqs s req) \<le> r_sw_desc_cnt (reqs s req) \<and>
     (nents = 0 \<or> nents = r_sw_desc_cnt (reqs s req) - r_sw_desc_idx (reqs s req))"

lemma submit_ok_init:
  assumes "submit_ok e req nents s" "nents \<noteq> 0"
  defines "n \<equiv> next_count (engs s e) (reqs s req)"
  shows "\<exists>s1. run_state (transfer_init e req x) s = (0, s1) \<and> submit_ok e req (nents - t_desc_num (xfers s1 x)) s1 \<and>
    t_desc_num (xfers s1 x) = of_nat n \<and> 0 < n \<and> n \<le> unat nents \<and> n \<le> length (r_sdesc (reqs s req)) \<and>
    r_sw_desc_idx (reqs s1 req) = r_sw_desc_idx (reqs s req) + of_nat n \<and> r_sw_desc_cnt (reqs s1 req) = r_sw_desc_cnt (reqs s req) \<and>
    r_sdesc (reqs s1 req) = r_sdesc (reqs s req) \<and>
    e_desc_used (engs s1 e) = e_desc_used (engs s e) + of_nat n \<and> e_streaming (engs s1 e) = e_streaming (engs s e) \<and>
    e_shutdown (engs s1 e) = e_shutdown (engs s e) \<and> e_xdev (engs s1 e) = e_xdev (engs s e) \<and> xdevs s1 = xdevs s \<and>
    t_len (xfers s1 x) = sum_list (map snd (take n (drop (unat (r_sw_desc_idx (reqs s req))) (r_sdesc (reqs s req)))))"
proof -
  define g q where "g = engs s e" and "q = reqs s req"
  have ok: "e_desc_idx g < e_desc_max g" "e_desc_max g < 2 ^ 31" "unat (r_sw_desc_cnt q) \<le> length (r_sdesc q)"
    "r_sw_desc_idx q \<le> r_sw_desc_cnt q" "nents = r_sw_desc_cnt q - r_sw_desc_idx q"
    using assms(1,2) by (auto simp: submit_ok_def g_def q_def)
  then have less: "r_sw_desc_idx q < r_sw_desc_cnt q"
    using assms(2) by (auto simp: order.order_iff_strict)
  have left: "unat nents = unat (r_sw_desc_cnt q) - unat (r_sw_desc_idx q)"
    using ok(4,5) by (simp add: unat_sub)
  have n: "0 < n" "n \<le> unat nents" "unat (r_sw_desc_idx q) + n \<le> unat (r_sw_desc_cnt q)"
    using less ok(1) left by (auto simp: n_def next_count_def g_def [symmetric] q_def [symmetric] word_less_nat_alt)
  have w: "unat (of_nat n :: u32) = n"
    using n(2) u32_bound [of nents] by (simp add: unat_of_nat)
  have idx: "unat (r_sw_desc_idx q + of_nat n) = unat (r_sw_desc_idx q) + n"
    using n(3) w u32_bound [of "r_sw_desc_cnt q"] by (simp add: unat_word_ariths)
  obtain s1 where s1: "run_state (transfer_init e req x) s = (0, s1)"
    "e_desc_idx (engs s1 e) = (e_desc_idx g + of_nat n) mod e_desc_max g" "e_desc_max (engs s1 e) = e_desc_max g"
    "e_desc_used (engs s1 e) = e_desc_used g + of_nat n" "e_streaming (engs s1 e) = e_streaming g"
    "e_shutdown (engs s1 e) = e_shutdown g" "e_xdev (engs s1 e) = e_xdev g" "xdevs s1 = xdevs s"
    "t_desc_num (xfers s1 x) = of_nat n" "t_len (xfers s1 x) = sum_list (map snd (take n (drop (unat (r_sw_desc_idx q)) (r_sdesc q))))"
    "r_sw_desc_idx (reqs s1 req) = r_sw_desc_idx q + of_nat n" "r_sw_desc_cnt (reqs s1 req) = r_sw_desc_cnt q"
    "r_sdesc (reqs s1 req) = r_sdesc q"
    using transfer_init_run [of s req e x] less ok(1-3) by (auto simp: n_def g_def q_def)
  have "(e_desc_idx g + of_nat n) mod e_desc_max g < e_desc_max g"
    using ok(1) by (simp add: word_less_nat_alt unat_mod_distrib)
  moreover have "r_sw_desc_idx q + of_nat n \<le> r_sw_desc_cnt q"
    using n(3) idx by (simp add: word_le_nat_alt)
  ultimately have "submit_ok e req (nents - t_desc_num (xfers s1 x)) s1"
    using ok by (simp add: submit_ok_def s1(2,3,9,11-13))
  moreover have "n \<le> length (r_sdesc q)"
    using n(3) ok(3) by simp
  ultimately show ?thesis
    using s1 n by (auto simp: g_def q_def)
qed

text \<open>
  The recursion is bounded by the descriptors of the request: every round takes one at least. More fuel
  makes no difference.
\<close>

lemma submit_loop_fuel:
  assumes "\<And>q i m cb err. keeps (request_is e req q i m) (H cb err)"
    and "submit_ok e req nents s" "unat nents \<le> fuel" "unat nents \<le> fuel'"
  shows "run_state (submit_loop fuel E H e req sgt dma_mapped timeout_ms nents don) s =
    run_state (submit_loop fuel' E H e req sgt dma_mapped timeout_ms nents don) s"
  using assms(2-4)
proof (induction fuel arbitrary: fuel' nents don s)
  case 0
  then show ?case
    by (cases fuel') (simp_all add: unat_eq_zero)
next
  case (Suc fuel)
  show ?case
  proof (cases "nents = 0")
    case True
    then show ?thesis
      by (cases fuel') simp_all
  next
    case False
    let ?x = "Tfer req 0"
    obtain f where f: "fuel' = Suc f"
      using Suc.prems(3) False by (cases fuel') (simp_all add: unat_eq_zero)
    obtain s1 n where s1: "run_state (transfer_init e req ?x) s = (0, s1)"
      "submit_ok e req (nents - t_desc_num (xfers s1 ?x)) s1" "t_desc_num (xfers s1 ?x) = of_nat n" "0 < n" "n \<le> unat nents"
      using submit_ok_init [OF Suc.prems(1) False, of ?x] by blast
    define s2 where "s2 = final_of (mark_unmap dma_mapped ?x) s1"
    have s2: "request_is e req (reqs s1 req) (e_desc_idx (engs s1 e)) (e_desc_max (engs s1 e)) s2"
      "t_desc_num (xfers s2 ?x) = t_desc_num (xfers s1 ?x)" "run_state (mark_unmap dma_mapped ?x) s1 = ((), s2)"
      by (cases dma_mapped; simp add: s2_def mark_unmap_def request_is_def)+
    have "unat (nents - of_nat n) = unat nents - n"
      using s1(5) u32_bound [of nents] by (subst unat_sub) (simp_all add: word_le_nat_alt unat_of_nat)
    then have fewer: "unat k \<le> fuel \<and> unat k \<le> f" if "k \<in> {0, nents - t_desc_num (xfers s1 ?x)}" for k
      using that s1(3,4) Suc.prems(2,3) f by auto
    have agree: "run_state (submit_loop fuel E H e req sgt dma_mapped timeout_ms k d) s' =
        run_state (submit_loop f E H e req sgt dma_mapped timeout_ms k d) s'"
      if "k \<in> {0, nents - t_desc_num (xfers s1 ?x)}"
        "request_is e req (reqs s1 req) (e_desc_idx (engs s1 e)) (e_desc_max (engs s1 e)) s'" for k d s'
    proof (rule Suc.IH)
      have "submit_ok e req (nents - t_desc_num (xfers s1 ?x)) s'"
        using s1(2) that(2) by (simp add: submit_ok_def request_is_def)
      then show "submit_ok e req k s'"
        using that(1) by (auto simp: submit_ok_def)
    qed (use fewer that(1) in auto)
    show ?thesis
      unfolding f submit_loop_Suc [OF False]
      using submit_rest_cong [OF assms(1) s2(1) agree] s1(1) s2(2,3) by simp
  qed
qed

section \<open>What a submission reports and gives back\<close>

text \<open>The bytes of the request that are still to be transferred.\<close>

definition bytes_left :: "xdma_request_cb \<Rightarrow> nat" where
  "bytes_left q = sum_list (map (unat \<circ> snd) (take (unat (r_sw_desc_cnt q) - unat (r_sw_desc_idx q))
     (drop (unat (r_sw_desc_idx q)) (r_sdesc q))))"

lemma unat_sum_list:
  "sum_list (map unat xs) < 2 ^ 32 \<Longrightarrow> unat (sum_list xs :: u32) = sum_list (map unat xs)"
proof (induction xs)
  case (Cons x xs)
  then show ?case
    by (simp add: unat_word_ariths)
qed simp

text \<open>Running a part that keeps an invariant, with a fact about its result.\<close>

lemma sat_bind_frame:
  assumes "keeps J m" "J s" "\<And>s'. J s' \<Longrightarrow> s' = final_of m s \<Longrightarrow> sat (run_state (g (fst (run_state m s))) s') Q"
  shows "sat (run_state (State_Monad.bind m g) s) Q"
proof -
  have "J (final_of m s)"
    using assms(1,2) by (rule hoare_final)
  then show ?thesis
    using assms(3) by (simp add: case_prod_beta)
qed

lemma queue_codes: "fst (run_state (transfer_queue E e (Some x)) s) \<in> {0, - EINVAL, - EBUSY}"
  by (simp add: transfer_queue_def xdma_device_flag_check_def case_prod_beta)

lemma outcome_codes:
  "fst (fst (run_state (submit_outcome E e x) s)) \<in> {0, - EIO, - ERESTARTSYS}"
  "fst (fst (run_state (submit_outcome E e x) s)) = 0 \<Longrightarrow> \<not> e_streaming (engs s e) \<Longrightarrow>
     snd (fst (run_state (submit_outcome E e x) s)) = (uint (t_len (xfers s x)), False)"
  by (cases "t_state (xfers s x)"; simp add: submit_outcome_def case_prod_beta)+

text \<open>
  \<open>settled\<close>: every descriptor is given back, except when the engine refused a transfer; and without an
  error on an engine that is not a stream, the bytes reported are all that were left.
\<close>

definition settled :: "eng \<Rightarrow> 'a xworld_scheme \<Rightarrow> nat \<Rightarrow> int \<Rightarrow> int \<times> int \<Rightarrow> 'a xworld_scheme \<Rightarrow> bool" where
  "settled e s n don r s' \<longleftrightarrow> fst r \<in> {0, - EINVAL, - EBUSY, - EIO, - ERESTARTSYS} \<and>
     (fst r \<in> {0, - EIO, - ERESTARTSYS} \<longrightarrow> e_desc_used (engs s' e) = e_desc_used (engs s e)) \<and>
     (fst r = 0 \<longrightarrow> \<not> e_streaming (engs s e) \<longrightarrow> snd r = don + int n)"

lemma submit_rest_settled:
  assumes "\<And>p z cb err. keeps (round_is e req x q p z) (H cb err)" "round_is e req x q (i, m, u, st) (k, l) s"
    and "\<And>n d s'. n = nents \<or> n = 0 \<and> st \<Longrightarrow> reqs s' req = q \<Longrightarrow> ring_pos (engs s' e) = (i, m, u - k, st) \<Longrightarrow>
       sat (run_state (K n d) s') (settled e s' left d)"
  shows "sat (run_state (submit_rest E H e x sgt timeout_ms nents don K) s) (\<lambda>r s'.
    fst r \<in> {0, - EINVAL, - EBUSY, - EIO, - ERESTARTSYS} \<and>
    (fst r \<in> {0, - EIO, - ERESTARTSYS} \<longrightarrow> e_desc_used (engs s' e) = u - k) \<and>
    (fst r = 0 \<longrightarrow> \<not> st \<longrightarrow> snd r = don + uint l + int left))"
proof -
  let ?J = "round_is e req x q (i, m, u, st) (k, l)" and ?J' = "round_is e req x q (i, m, u - k, st) (k, l)"
  let ?Q = "\<lambda>r s'. fst r \<in> {0, - EINVAL, - EBUSY, - EIO, - ERESTARTSYS} \<and>
    (fst r \<in> {0, - EIO, - ERESTARTSYS} \<longrightarrow> e_desc_used (engs s' e) = u - k) \<and>
    (fst r = 0 \<longrightarrow> \<not> st \<longrightarrow> snd r = don + uint l + int left)"
  have mark: "keeps ?J (when_st b (upd_xfer x (\<lambda>t. t\<lparr>t_last_in_request := True, t_sgt := sgt\<rparr>)))" for b
    by (simp add: hoare_def round_is_def xfer_size_def)
  have last: "sat (run_state (State_Monad.bind (transfer_destroy E d x)
      (\<lambda>_. if rv < 0 then ret (rv, don + bytes) else K (if finish then 0 else nents) (don + bytes))) s') ?Q"
    if "?J' s'" "rv \<in> {0, - EIO, - ERESTARTSYS}" "rv = 0 \<Longrightarrow> \<not> st \<Longrightarrow> bytes = uint l \<and> \<not> finish"
    for s' d rv bytes finish
  proof (rule sat_bind_frame [where J = ?J', OF round.destroy_frame that(1)])
    fix s2 :: "'a xworld_scheme"
    assume J': "?J' s2"
    then have used: "e_desc_used (engs s2 e) = u - k" "e_streaming (engs s2 e) = st"
      by (simp_all add: round_is_def ring_pos_def)
    show "sat (run_state (if rv < 0 then ret (rv, don + bytes) else K (if finish then 0 else nents) (don + bytes)) s2) ?Q"
    proof (rule sat_if)
      assume "rv < 0"
      then show "sat (run_state (ret (rv, don + bytes)) s2) ?Q"
        using that(2) used by (intro sat_return) auto
    next
      assume "\<not> rv < 0"
      then have z: "rv = 0"
        using that(2) by auto
      have "sat (run_state (K (if finish then 0 else nents) (don + bytes)) s2) (settled e s2 left (don + bytes))"
        using that(3) [OF z] J' by (intro assms(3)) (auto simp: round_is_def)
      then show "sat (run_state (K (if finish then 0 else nents) (don + bytes)) s2) ?Q"
        using that(3) [OF z] used by (auto simp: sat_def settled_def split: prod.splits)
    qed
  qed
  show ?thesis
    unfolding submit_rest_def split_beta
  proof (rule sat_bind_frame [where J = ?J, OF mark assms(2)], rule sat_bind_frame [where J = ?J, OF round.queue_frame], assumption, rule sat_if)
    fix s1 s2 :: "'a xworld_scheme"
    assume "fst (run_state (transfer_queue E e (Some x)) s1) < 0" "?J s2"
    then show "sat (run_state (ret (fst (run_state (transfer_queue E e (Some x)) s1), don)) s2) ?Q"
      using queue_codes [of E e x s1] by (intro sat_return) auto
  next
    fix s1 s2 :: "'a xworld_scheme"
    assume J2: "?J s2"
    show "sat (run_state (do {
        _ \<leftarrow> wake_cmpl_thread e;
        _ \<leftarrow> wait_transfer E H e x timeout_ms;
        r \<leftarrow> submit_outcome E e x;
        t \<leftarrow> the_xfer x;
        g \<leftarrow> the_eng e;
        _ \<leftarrow> upd_eng e (\<lambda>g. g\<lparr>e_desc_used := e_desc_used g - t_desc_num t\<rparr>);
        _ \<leftarrow> transfer_destroy E (e_xdev g) x;
        if fst r < 0 then ret (fst r, don + fst (snd r))
        else K (if snd (snd r) then 0 else nents) (don + fst (snd r)) }) s2) ?Q"
    proof (rule sat_bind_frame [where J = ?J, OF round.wake_frame J2], rule sat_bind_frame [where J = ?J, OF round.wait_frame [OF assms(1)]],
        assumption, rule sat_bind_frame [where J = ?J, OF round.outcome_frame], assumption, intro sat_gets)
      fix s3 s4 :: "'a xworld_scheme"
      let ?r = "fst (run_state (submit_outcome E e x) s3)"
      assume J3: "?J s3" and J4: "?J s4"
      have "?J' (s4\<lparr>engs := (engs s4)(e := (engs s4 e)\<lparr>e_desc_used := e_desc_used (engs s4 e) - t_desc_num (xfers s4 x)\<rparr>)\<rparr>)"
        using J4 by (simp add: round_is_def ring_pos_def xfer_size_def)
      moreover have "fst ?r \<in> {0, - EIO, - ERESTARTSYS}"
        by (rule outcome_codes)
      moreover have "fst ?r = 0 \<Longrightarrow> \<not> st \<Longrightarrow> fst (snd ?r) = uint l \<and> \<not> snd (snd ?r)"
        using outcome_codes(2) [of E e x s3] J3 by (simp add: round_is_def ring_pos_def xfer_size_def)
      ultimately show "sat (run_state (do {
          _ \<leftarrow> upd_eng e (\<lambda>g. g\<lparr>e_desc_used := e_desc_used g - t_desc_num (xfers s4 x)\<rparr>);
          _ \<leftarrow> transfer_destroy E (e_xdev (engs s4 e)) x;
          if fst ?r < 0 then ret (fst ?r, don + fst (snd ?r))
          else K (if snd (snd ?r) then 0 else nents) (don + fst (snd ?r)) }) s4) ?Q"
        using last by simp
    qed
  qed
qed

lemma bytes_left_split:
  assumes "r_sw_desc_idx q' = r_sw_desc_idx q + of_nat n" "r_sw_desc_cnt q' = r_sw_desc_cnt q" "r_sdesc q' = r_sdesc q"
    and "unat (r_sw_desc_idx q) + n \<le> unat (r_sw_desc_cnt q)"
  shows "bytes_left q = sum_list (map (unat \<circ> snd) (take n (drop (unat (r_sw_desc_idx q)) (r_sdesc q)))) + bytes_left q'"
proof -
  have "unat (r_sw_desc_idx q') = unat (r_sw_desc_idx q) + n"
    using assms(1,4) u32_bound [of "r_sw_desc_cnt q"] by (simp add: unat_word_ariths unat_of_nat)
  moreover have "unat (r_sw_desc_cnt q) - unat (r_sw_desc_idx q) = n + (unat (r_sw_desc_cnt q) - (unat (r_sw_desc_idx q) + n))"
    using assms(4) by simp
  moreover have "take (n + k) (drop i xs) = take n (drop i xs) @ take k (drop (i + n) xs)" for k i and xs :: "(u64 \<times> u32) list"
    by (simp only: take_add drop_drop add.commute [of i n])
  ultimately show ?thesis
    unfolding bytes_left_def assms(2,3) by simp
qed

lemma chunk_bytes:
  assumes "sum_list (map (unat \<circ> snd) ds) < 2 ^ 32"
  shows "uint (sum_list (map snd ds) :: u32) = int (sum_list (map (unat \<circ> snd) ds))"
  using unat_sum_list [of "map snd ds"] assms by (simp add: uint_nat)

lemma settled_zero: "settled e s 0 don (0, don) s"
  by (simp add: settled_def)

lemma submit_loop_settled:
  assumes "\<And>q p z cb err. keeps (round_is e req (Tfer req 0) q p z) (H cb err)"
    and "submit_ok e req nents s" "unat nents \<le> fuel" "bytes_left (reqs s req) < 2 ^ 32"
    and "nents = r_sw_desc_cnt (reqs s req) - r_sw_desc_idx (reqs s req) \<or> e_streaming (engs s e)"
  shows "sat (run_state (submit_loop fuel E H e req sgt dma_mapped timeout_ms nents don) s)
    (settled e s (bytes_left (reqs s req)) don)"
  using assms(2-5)
proof (induction fuel arbitrary: nents don s)
  case 0
  then have "nents = 0"
    by (simp add: unat_eq_zero)
  then show ?case
    using "0.prems"(1,4) by (auto simp: sat_def settled_def bytes_left_def submit_ok_def)
next
  case (Suc fuel)
  show ?case
  proof (cases "nents = 0")
    case True
    then show ?thesis
      using Suc.prems(1,4) by (auto simp: sat_def settled_def bytes_left_def submit_ok_def)
  next
    case False
    let ?x = "Tfer req 0" and ?q = "reqs s req"
    obtain s1 n where s1: "run_state (transfer_init e req ?x) s = (0, s1)"
      "submit_ok e req (nents - t_desc_num (xfers s1 ?x)) s1" "t_desc_num (xfers s1 ?x) = of_nat n" "0 < n" "n \<le> unat nents"
      and q1: "r_sw_desc_idx (reqs s1 req) = r_sw_desc_idx ?q + of_nat n" "r_sw_desc_cnt (reqs s1 req) = r_sw_desc_cnt ?q"
        "r_sdesc (reqs s1 req) = r_sdesc ?q"
      and g1: "e_desc_used (engs s1 e) = e_desc_used (engs s e) + of_nat n" "e_streaming (engs s1 e) = e_streaming (engs s e)"
        "t_len (xfers s1 ?x) = sum_list (map snd (take n (drop (unat (r_sw_desc_idx ?q)) (r_sdesc ?q))))"
      using submit_ok_init [OF Suc.prems(1) False, of ?x] by blast
    have left: "nents = r_sw_desc_cnt ?q - r_sw_desc_idx ?q" "r_sw_desc_idx ?q \<le> r_sw_desc_cnt ?q"
      using Suc.prems(1) False by (auto simp: submit_ok_def)
    then have "unat (r_sw_desc_idx ?q) + n \<le> unat (r_sw_desc_cnt ?q)"
      using s1(5) by (simp add: unat_sub word_le_nat_alt)
    then have parts: "bytes_left ?q = sum_list (map (unat \<circ> snd) (take n (drop (unat (r_sw_desc_idx ?q)) (r_sdesc ?q)))) + bytes_left (reqs s1 req)"
      using q1 by (intro bytes_left_split)
    have len: "uint (t_len (xfers s1 ?x)) + int (bytes_left (reqs s1 req)) = int (bytes_left ?q)"
      using Suc.prems(3) parts unfolding g1(3) by (subst chunk_bytes) simp_all
    define s2 where "s2 = final_of (mark_unmap dma_mapped ?x) s1"
    have s2: "reqs s2 = reqs s1" "engs s2 = engs s1" "xfer_size (xfers s2 ?x) = xfer_size (xfers s1 ?x)"
      "run_state (mark_unmap dma_mapped ?x) s1 = ((), s2)"
      by (cases dma_mapped; simp add: s2_def mark_unmap_def xfer_size_def)+
    have fewer: "unat (nents - of_nat n) \<le> fuel"
      using s1(4,5) u32_bound [of nents] Suc.prems(2) by (subst unat_sub) (simp_all add: word_le_nat_alt unat_of_nat)
    have round: "round_is e req ?x (reqs s1 req) (e_desc_idx (engs s1 e), e_desc_max (engs s1 e), e_desc_used (engs s1 e), e_streaming (engs s1 e))
        (t_desc_num (xfers s1 ?x), t_len (xfers s1 ?x)) s2"
      using s2(1-3) by (simp add: round_is_def ring_pos_def xfer_size_def)
    have rounds: "sat (run_state (submit_loop fuel E H e req sgt dma_mapped timeout_ms k d) s') (settled e s' (bytes_left (reqs s1 req)) d)"
      if "k = nents - t_desc_num (xfers s1 ?x) \<or> k = 0 \<and> e_streaming (engs s1 e)" "reqs s' req = reqs s1 req"
        "ring_pos (engs s' e) = (e_desc_idx (engs s1 e), e_desc_max (engs s1 e), e_desc_used (engs s1 e) - t_desc_num (xfers s1 ?x), e_streaming (engs s1 e))"
      for k d s'
      unfolding that(2) [symmetric]
    proof (rule Suc.IH)
      show "submit_ok e req k s'"
        using s1(2) that by (auto simp: submit_ok_def ring_pos_def)
      show "unat k \<le> fuel"
        using that(1) fewer s1(3) by auto
      show "bytes_left (reqs s' req) < 2 ^ 32"
        using that(2) parts Suc.prems(3) by simp
      show "k = r_sw_desc_cnt (reqs s' req) - r_sw_desc_idx (reqs s' req) \<or> e_streaming (engs s' e)"
        using that left(1) s1(3) q1 by (auto simp: ring_pos_def)
    qed
    let ?rest = "run_state (submit_rest E H e ?x sgt timeout_ms (nents - t_desc_num (xfers s1 ?x)) don
        (submit_loop fuel E H e req sgt dma_mapped timeout_ms)) s2"
    have "sat ?rest (\<lambda>r s'. fst r \<in> {0, - EINVAL, - EBUSY, - EIO, - ERESTARTSYS} \<and>
        (fst r \<in> {0, - EIO, - ERESTARTSYS} \<longrightarrow> e_desc_used (engs s' e) = e_desc_used (engs s1 e) - t_desc_num (xfers s1 ?x)) \<and>
        (fst r = 0 \<longrightarrow> \<not> e_streaming (engs s1 e) \<longrightarrow> snd r = don + uint (t_len (xfers s1 ?x)) + int (bytes_left (reqs s1 req))))"
      by (rule submit_rest_settled [OF assms(1) round]) (rule rounds)
    then have "sat ?rest (settled e s (bytes_left ?q) don)"
      using g1(1,2) s1(3) len by (simp add: settled_def sat_def case_prod_beta add.assoc)
    then show ?thesis
      unfolding submit_loop_Suc [OF False] using s1(1) s2(3,4) by (simp add: xfer_size_def)
  qed
qed

section \<open>The submission as a whole\<close>

text \<open>
  C5: the blocking submission ends. The loop \<open>while (nents)\<close> has no bound in the source; each of its rounds
  takes at least one descriptor off the request, whatever the engine, the interrupts and the completion of
  other transfers do meanwhile, so that as many rounds as there are descriptors are enough: with any more
  the run is the same, event for event.
\<close>

theorem submit_loop_ends:
  assumes "submit_ok e req nents s" "unat nents \<le> fuel"
    and "\<And>q i m cb err. keeps (request_is e req q i m) (H cb err)"
  shows "run_state (submit_loop fuel E H e req sgt dma_mapped timeout_ms nents don) s =
    run_state (submit_loop (unat nents) E H e req sgt dma_mapped timeout_ms nents don) s"
  using assms(3,1,2) order.refl by (rule submit_loop_fuel)


text \<open>
  C33: a refused transfer keeps its descriptors. When the engine is being shut down, the submission fails
  with \<open>-EBUSY\<close>, and the descriptors that were set up for its first transfer stay counted as in use, with
  nothing left that could give them back.
\<close>

theorem submit_refused_keeps_descs:
  assumes "submit_ok e req nents s" "nents \<noteq> 0" "e \<noteq> NoEngine" "e_xdev (engs s e) \<noteq> 0"
    and "e_shutdown (engs s e) AND ENGINE_SHUTDOWN_REQUEST \<noteq> 0"
    and "x_flags (xdevs s (e_xdev (engs s e))) AND XDEV_FLAG_OFFLINE = 0"
    and "run_state (submit_loop (unat nents) E H e req sgt dma_mapped timeout_ms nents don) s = (r, s')"
  shows "r = (- EBUSY, don) \<and>
    (\<exists>n>0. n \<le> unat nents \<and> e_desc_used (engs s' e) = e_desc_used (engs s e) + of_nat n)"
proof -
  let ?x = "Tfer req 0"
  obtain s1 n where s1: "run_state (transfer_init e req ?x) s = (0, s1)" "t_desc_num (xfers s1 ?x) = of_nat n" "0 < n" "n \<le> unat nents"
    and g1: "e_desc_used (engs s1 e) = e_desc_used (engs s e) + of_nat n" "e_shutdown (engs s1 e) = e_shutdown (engs s e)"
      "e_xdev (engs s1 e) = e_xdev (engs s e)" "xdevs s1 = xdevs s"
    using submit_ok_init [OF assms(1,2), of ?x] by blast
  have "unat (of_nat n :: u32) = n"
    using s1(4) u32_bound [of nents] by (simp add: unat_of_nat)
  then have num: "(of_nat n :: u32) \<noteq> 0"
    using s1(3) by auto
  define s2 where "s2 = final_of (mark_unmap dma_mapped ?x) s1"
  have s2: "engs s2 = engs s1" "xdevs s2 = xdevs s1" "t_desc_num (xfers s2 ?x) = of_nat n"
    "run_state (mark_unmap dma_mapped ?x) s1 = ((), s2)"
    using s1(2) by (cases dma_mapped; simp add: s2_def mark_unmap_def)+
  define s3 where "s3 = final_of (when_st (nents - of_nat n = 0) (upd_xfer ?x (\<lambda>t. t\<lparr>t_last_in_request := True, t_sgt := sgt\<rparr>))) s2"
  have s3: "engs s3 = engs s1" "xdevs s3 = xdevs s1" "t_desc_num (xfers s3 ?x) = of_nat n"
    "run_state (when_st (nents - of_nat n = 0) (upd_xfer ?x (\<lambda>t. t\<lparr>t_last_in_request := True, t_sgt := sgt\<rparr>))) s2 = ((), s3)"
    using s2 by (cases "nents - of_nat n = 0"; simp add: s3_def)+
  have queue: "\<exists>h. run_state (transfer_queue E e (Some ?x)) s3 = (- EBUSY, s3\<lparr>tr := h\<rparr>)"
    using assms(3-6) g1(2-4) s3(1-3) num
    by (intro exI [of _ "tr (final_of (transfer_queue E e (Some ?x)) s3)"]) (simp add: transfer_queue_def xdma_device_flag_check_def)
  then obtain h where h: "run_state (transfer_queue E e (Some ?x)) s3 = (- EBUSY, s3\<lparr>tr := h\<rparr>)" ..
  obtain f where "unat nents = Suc f"
    using assms(2) by (metis not0_implies_Suc unat_eq_zero)
  then have "r = (- EBUSY, don) \<and> s' = s3\<lparr>tr := h\<rparr>"
    using assms(7) s1(1) s2(3,4) s3(4) h unfolding \<open>unat nents = Suc f\<close> submit_loop_Suc [OF assms(2)]
    by (simp add: submit_rest_def)
  then show ?thesis
    using s3(1) g1(1) s1(3,4) by auto
qed

section \<open>A submission of three descriptors\<close>

lemma sample_submit_ok: "submit_ok (H2C 0x100 0) 1 3 sample_req_world"
  by (simp add: submit_ok_def)

lemma submit_loop_ends_witness:
  "run_state (submit_loop 20 sample_env (\<lambda>_ _. ret ()) (H2C 0x100 0) 1 7 False 10 3 0) sample_req_world =
    run_state (submit_loop 3 sample_env (\<lambda>_ _. ret ()) (H2C 0x100 0) 1 7 False 10 3 0) sample_req_world"
proof -
  have n: "unat (3 :: u32) = 3"
    by simp
  have "run_state (submit_loop 20 sample_env (\<lambda>_ _. ret ()) (H2C 0x100 0) 1 7 False 10 3 0) sample_req_world =
      run_state (submit_loop (unat (3 :: u32)) sample_env (\<lambda>_ _. ret ()) (H2C 0x100 0) 1 7 False 10 3 0) sample_req_world"
    by (rule submit_loop_ends [OF sample_submit_ok _ keeps_return]) simp
  then show ?thesis
    by (simp only: n)
qed


definition closing_world :: xworld where
  "closing_world = sample_req_world\<lparr>engs := (\<lambda>_. sample_engine\<lparr>e_shutdown := ENGINE_SHUTDOWN_REQUEST\<rparr>)\<rparr>"

lemma submit_refused_keeps_descs_witness:
  "fst (run_state (submit_loop 3 sample_env (\<lambda>_ _. ret ()) (H2C 0x100 0) 1 7 False 10 3 0) closing_world) = (- 16, 0)"
proof -
  have "submit_ok (H2C 0x100 0) 1 3 closing_world" "e_xdev (engs closing_world (H2C 0x100 0)) = 0x100"
    "e_shutdown (engs closing_world (H2C 0x100 0)) AND ENGINE_SHUTDOWN_REQUEST \<noteq> 0"
    "x_flags (xdevs closing_world 0x100) AND XDEV_FLAG_OFFLINE = 0"
    by (simp_all add: submit_ok_def closing_world_def sample_req_world_def sample_xdev_def)
  moreover have n: "unat (3 :: u32) = 3"
    by simp
  ultimately show ?thesis
    using submit_refused_keeps_descs [where s = closing_world and e = "H2C 0x100 0" and req = 1 and nents = 3, OF _ _ _ _ _ _ prod.collapse [symmetric]]
    unfolding n by simp
qed

end
