(* ===== verification/DataPath.thy ===== *)
theory DataPath
  imports SubmitLaws UserPages
begin

text \<open>
  From the user buffer to the hardware: which bytes the descriptors of a blocking submission name, over all
  its rounds, and how that relates to the number of bytes the submission reports.
\<close>

section \<open>The rounds, and what they hand over\<close>

text \<open>
  A round in two halves: up to the queueing of the transfer, with what is left of the request after it, and
  from the wait on.
\<close>

definition start_round ::
  "env \<Rightarrow> eng \<Rightarrow> u64 \<Rightarrow> u64 \<Rightarrow> bool \<Rightarrow> u32 \<Rightarrow> ('a xworld_scheme, int \<times> u32) state" where
  "start_round E e req sgt dma_mapped nents = do {
     rv \<leftarrow> transfer_init e req (Tfer req 0);
     if rv < 0 then ret (rv, nents)
     else do {
       _ \<leftarrow> mark_unmap dma_mapped (Tfer req 0);
       t \<leftarrow> the_xfer (Tfer req 0);
       _ \<leftarrow> when_st (nents - t_desc_num t = 0)
             (upd_xfer (Tfer req 0) (\<lambda>t. t\<lparr>t_last_in_request := True, t_sgt := sgt\<rparr>));
       rv \<leftarrow> transfer_queue E e (Some (Tfer req 0));
       ret (rv, nents - t_desc_num t) } }"

definition finish_round ::
  "env \<Rightarrow> 'a io_done \<Rightarrow> eng \<Rightarrow> xref \<Rightarrow> int \<Rightarrow> ('a xworld_scheme, int \<times> int \<times> bool) state" where
  "finish_round E H e x timeout_ms = do {
     _ \<leftarrow> wake_cmpl_thread e;
     _ \<leftarrow> wait_transfer E H e x timeout_ms;
     r \<leftarrow> submit_outcome E e x;
     t \<leftarrow> the_xfer x;
     g \<leftarrow> the_eng e;
     _ \<leftarrow> upd_eng e (\<lambda>g. g\<lparr>e_desc_used := e_desc_used g - t_desc_num t\<rparr>);
     _ \<leftarrow> transfer_destroy E (e_xdev g) x;
     ret r }"

lemma submit_loop_rounds:
  assumes "nents \<noteq> 0"
  shows "run_state (submit_loop (Suc fuel) E H e req sgt dma_mapped timeout_ms nents don) s =
    (case run_state (start_round E e req sgt dma_mapped nents) s of ((rv, left), s1) \<Rightarrow>
       if rv < 0 then ((rv, don), s1)
       else case run_state (finish_round E H e (Tfer req 0) timeout_ms) s1 of ((rv, bytes, finish), s2) \<Rightarrow>
         if rv < 0 then ((rv, don + bytes), s2)
         else run_state (submit_loop fuel E H e req sgt dma_mapped timeout_ms (if finish then 0 else left)
                (don + bytes)) s2)"
  unfolding submit_loop_Suc [OF assms] submit_rest_def start_round_def finish_round_def
  by (simp add: case_prod_beta)

text \<open>
  The descriptors the hardware finds when it follows the bus addresses of a transfer, and those it is
  handed in the course of a submission: of every transfer that was queued, at the moment it was.
\<close>

definition walk_of :: "eng \<Rightarrow> xref \<Rightarrow> 'a xworld_scheme \<Rightarrow> xdma_desc list" where
  "walk_of e x s = hw_walk (unat (t_desc_num (xfers s x))) (e_desc_bus (engs s e)) (e_ring (engs s e))
     (t_desc_bus (xfers s x))"

fun handed ::
  "nat \<Rightarrow> env \<Rightarrow> 'a io_done \<Rightarrow> eng \<Rightarrow> u64 \<Rightarrow> u64 \<Rightarrow> bool \<Rightarrow> int \<Rightarrow> u32 \<Rightarrow> 'a xworld_scheme \<Rightarrow> xdma_desc list" where
  "handed 0 E H e req sgt dma_mapped timeout_ms nents s = []"
| "handed (Suc fuel) E H e req sgt dma_mapped timeout_ms nents s =
     (if nents = 0 then []
      else case run_state (start_round E e req sgt dma_mapped nents) s of ((rv, left), s1) \<Rightarrow>
        if rv < 0 then []
        else walk_of e (Tfer req 0) s1 @
          (case run_state (finish_round E H e (Tfer req 0) timeout_ms) s1 of ((rv, bytes, finish), s2) \<Rightarrow>
             if rv < 0 then []
             else handed fuel E H e req sgt dma_mapped timeout_ms (if finish then 0 else left) s2))"

section \<open>Queueing a transfer leaves its descriptors alone\<close>

lemma walk_frame:
  "tr_free (\<lambda>s. walk_of e x s = w)"
  "(\<And>g. e_desc_bus (f g) = e_desc_bus g \<and> e_ring (f g) = e_ring g) \<Longrightarrow> keeps (\<lambda>s. walk_of e x s = w) (upd_eng e' f)"
  "(\<And>t. t_desc_num (k t) = t_desc_num t \<and> t_desc_bus (k t) = t_desc_bus t) \<Longrightarrow>
     keeps (\<lambda>s. walk_of e x s = w) (upd_xfer y k)"
  by (simp_all add: tr_free_def hoare_def walk_of_def)

lemma walk_status: "keeps (\<lambda>s. walk_of e x s = w) (engine_status_read E e' c d)"
  unfolding engine_status_read_def engine_reg_dump_def Let_def
  by (intro hoare_rules walk_frame) simp_all

lemma walk_start: "keeps (\<lambda>s. walk_of e x s = w) (engine_start E e')"
  unfolding engine_start_def engine_start_mode_config_def Let_def
  by (intro hoare_rules walk_frame walk_status) simp_all

lemma walk_queue: "keeps (\<lambda>s. walk_of e x s = w) (transfer_queue E e' t)"
  unfolding transfer_queue_def xdma_device_flag_check_def
  by (intro hoare_rules walk_frame walk_start) simp_all

section \<open>What the second half of a round leaves alone\<close>

definition e_move :: "xdma_engine \<Rightarrow> u32 \<times> u32 \<times> u64 \<times> dma_dir \<times> bool \<times> bool" where
  "e_move g = (e_desc_idx g, e_desc_max g, e_desc_bus g, e_dir g, e_streaming g, e_non_incr_addr g)"

definition moves_is ::
  "eng \<Rightarrow> u64 \<Rightarrow> xref \<Rightarrow> xdma_request_cb \<Rightarrow> u32 \<times> u32 \<times> u64 \<times> dma_dir \<times> bool \<times> bool \<Rightarrow> u32 \<times> u32 \<Rightarrow>
   'a xworld_scheme \<Rightarrow> bool" where
  "moves_is e req x q v z s \<longleftrightarrow> reqs s req = q \<and> e_move (engs s e) = v \<and> xfer_size (xfers s x) = z"

interpretation moves: engine_frame "moves_is e req x q v z"
proof unfold_locales
  fix f e' and k :: "xdma_transfer \<Rightarrow> xdma_transfer" and y
  show "keeps (moves_is e req x q v z) (upd_eng e' f)" if "\<And>g. eng_place (f g) = eng_place g"
  proof -
    have "e_move (f g) = e_move g" for g
      using that [of g] by (simp add: eng_place_def ring_pos_def e_move_def)
    then show ?thesis
      by (simp add: hoare_def moves_is_def)
  qed
  show "keeps (moves_is e req x q v z) (upd_xfer y k)" if "\<And>t. xfer_size (k t) = xfer_size t"
    using that by (simp add: hoare_def moves_is_def)
qed (simp_all add: tr_free_def moves_is_def hoare_def)

lemma outcome_moves:
  "fst (fst (run_state (submit_outcome E e x) s)) \<noteq> 0 \<Longrightarrow> fst (snd (fst (run_state (submit_outcome E e x) s))) = 0"
  "fst (fst (run_state (submit_outcome E e x) s)) = 0 \<Longrightarrow> \<not> is_st_c2h (engs s e) \<Longrightarrow>
     snd (fst (run_state (submit_outcome E e x) s)) = (uint (t_len (xfers s x)), False)"
  by (cases "t_state (xfers s x)"; cases "is_st_c2h (engs s e)";
    simp add: submit_outcome_def is_st_c2h_def [symmetric] case_prod_beta)+

lemma finish_round_moves:
  assumes "\<And>cb err. keeps (moves_is e req x q v z) (H cb err)" "moves_is e req x q v z s"
    and "run_state (finish_round E H e x timeout_ms) s = ((rv, bytes, finish), s')"
  shows "moves_is e req x q v z s' \<and> rv \<in> {0, - EIO, - ERESTARTSYS} \<and> (rv \<noteq> 0 \<longrightarrow> bytes = 0) \<and>
    (rv = 0 \<longrightarrow> \<not> is_st_c2h (engs s e) \<longrightarrow> bytes = uint (snd z) \<and> \<not> finish)"
proof -
  let ?J = "moves_is e req x q v z"
  have used: "keeps ?J (upd_eng e (\<lambda>g. g\<lparr>e_desc_used := k g\<rparr>))" for k
    by (simp add: hoare_def moves_is_def e_move_def)
  define s1 where "s1 = final_of (wake_cmpl_thread e) s"
  define s2 where "s2 = final_of (wait_transfer E H e x timeout_ms) s1"
  have J: "?J s2"
    unfolding s2_def s1_def by (intro hoare_final [OF moves.wait_frame] hoare_final [OF moves.wake_frame] assms(1,2))
  have r: "(rv, bytes, finish) = fst (run_state (submit_outcome E e x) s2)"
    using assms(3) by (simp add: finish_round_def case_prod_beta s1_def s2_def)
  have "keeps ?J (finish_round E H e x timeout_ms)"
    unfolding finish_round_def
    by (intro hoare_rules moves.wake_frame moves.wait_frame moves.outcome_frame moves.destroy_frame used assms(1))
  then have "?J s'"
    using assms(2,3) by (rule hoareD)
  moreover have "is_st_c2h (engs s2 e) = is_st_c2h (engs s e)" "t_len (xfers s2 x) = snd z"
    using J assms(2) by (auto simp: moves_is_def e_move_def is_st_c2h_def xfer_size_def)
  ultimately show ?thesis
    using outcome_codes(1) [of E e x s2] outcome_moves [of E e x s2] unfolding r [symmetric] by auto
qed

section \<open>One round\<close>

lemma start_round_hands:
  fixes s s' :: "'a xworld_scheme"
  assumes "submit_ok e req nents s" "nents \<noteq> 0"
    and "ring_fits (e_desc_bus (engs s e)) (uint (e_desc_max (engs s e)))"
    and "run_state (start_round E e req sgt dma_mapped nents) s = ((rv, left), s')"
  defines "n \<equiv> next_count (engs s e) (reqs s req)"
    and "sd \<equiv> drop (unat (r_sw_desc_idx (reqs s req))) (r_sdesc (reqs s req))"
  shows "rv \<in> {0, - EINVAL, - EBUSY} \<and> left = nents - of_nat n \<and> 0 < n \<and> n \<le> unat nents \<and> n \<le> length sd \<and>
    submit_ok e req left s' \<and>
    map (\<lambda>d. (rc_addr (e_dir (engs s e)) d, d_bytes d)) (walk_of e (Tfer req 0) s') = take n sd \<and>
    (\<not> is_st_c2h (engs s e) \<longrightarrow> map (ep_addr_of (e_dir (engs s e))) (walk_of e (Tfer req 0) s') =
       map (ep_at (engs s e) (r_ep_addr (reqs s req)) sd) [0..<n]) \<and>
    t_len (xfers s' (Tfer req 0)) = sum_list (map snd (take n sd)) \<and>
    r_sw_desc_idx (reqs s' req) = r_sw_desc_idx (reqs s req) + of_nat n \<and>
    r_sw_desc_cnt (reqs s' req) = r_sw_desc_cnt (reqs s req) \<and> r_sdesc (reqs s' req) = r_sdesc (reqs s req) \<and>
    r_ep_addr (reqs s' req) = ep_at (engs s e) (r_ep_addr (reqs s req)) sd n \<and>
    snd (e_move (engs s' e)) = snd (e_move (engs s e))"
proof -
  let ?x = "Tfer req 0" and ?g = "engs s e" and ?q = "reqs s req"
  obtain s1 where s1: "run_state (transfer_init e req ?x) s = (0, s1)" "submit_ok e req (nents - t_desc_num (xfers s1 ?x)) s1"
    "t_desc_num (xfers s1 ?x) = of_nat n" "0 < n" "n \<le> unat nents" "n \<le> length (r_sdesc ?q)"
    and q1: "r_sw_desc_idx (reqs s1 req) = r_sw_desc_idx ?q + of_nat n" "r_sw_desc_cnt (reqs s1 req) = r_sw_desc_cnt ?q"
      "r_sdesc (reqs s1 req) = r_sdesc ?q" "t_len (xfers s1 ?x) = sum_list (map snd (take n sd))"
    using submit_ok_init [OF assms(1,2), of ?x] unfolding n_def sd_def by blast
  have ok: "r_sw_desc_idx ?q < r_sw_desc_cnt ?q" "unat (r_sw_desc_cnt ?q) \<le> length (r_sdesc ?q)"
    "e_desc_idx ?g < e_desc_max ?g" "e_desc_max ?g < 2 ^ 31"
    using assms(1,2) by (auto simp: submit_ok_def order.order_iff_strict)
  have len: "n \<le> length sd"
    using ok(1,2) unfolding n_def sd_def next_count_def by (simp add: word_less_nat_alt)
  have e1: "r_ep_addr (reqs s1 req) = ep_at ?g (r_ep_addr ?q) sd n" "snd (e_move (engs s1 e)) = snd (e_move ?g)"
    using transfer_init_run [OF ok, of ?x] s1(1) by (auto simp: n_def sd_def e_move_def)
  have num: "unat (t_desc_num (xfers s1 ?x)) = n"
    using s1(3,5) u32_bound [of nents] by (simp add: unat_of_nat)
  have bus: "e_desc_bus (engs s1 e) = e_desc_bus ?g"
    using e1(2) by (simp add: e_move_def)
  have w1: "map (\<lambda>d. (rc_addr (e_dir ?g) d, d_bytes d)) (walk_of e ?x s1) = take n sd"
    "\<not> is_st_c2h ?g \<Longrightarrow> map (ep_addr_of (e_dir ?g)) (walk_of e ?x s1) = map (ep_at ?g (r_ep_addr ?q) sd) [0..<n]"
    using transfer_init_hands [OF ok assms(3) _ s1(1), of n] unfolding walk_of_def num bus by (auto simp: n_def sd_def)
  define I where "I = (\<lambda>t :: 'a xworld_scheme. moves_is e req ?x (reqs s1 req) (e_move (engs s1 e)) (xfer_size (xfers s1 ?x)) t \<and>
    walk_of e ?x t = walk_of e ?x s1)"
  have mark: "keeps I (mark_unmap dma_mapped ?x)" "keeps I (when_st b (upd_xfer ?x (\<lambda>t. t\<lparr>t_last_in_request := True, t_sgt := sgt\<rparr>)))" for b
    unfolding I_def mark_unmap_def
    by (intro keeps_conj keeps_when moves.xfer_frame walk_frame; simp add: xfer_size_def)+
  have queue: "keeps I (transfer_queue E e (Some ?x))"
    unfolding I_def by (intro keeps_conj moves.queue_frame walk_queue)
  define s2 where "s2 = final_of (mark_unmap dma_mapped ?x) s1"
  define s3 where "s3 = final_of (when_st (nents - of_nat n = 0) (upd_xfer ?x (\<lambda>t. t\<lparr>t_last_in_request := True, t_sgt := sgt\<rparr>))) s2"
  have "I s1"
    by (simp add: I_def moves_is_def)
  then have "I s2"
    unfolding s2_def by (rule hoare_final [OF mark(1)])
  then have I3: "I s3"
    unfolding s3_def by (rule hoare_final [OF mark(2)])
  then have I4: "I (final_of (transfer_queue E e (Some ?x)) s3)"
    by (rule hoare_final [OF queue])
  have "t_desc_num (xfers s2 ?x) = of_nat n"
    using \<open>I s2\<close> s1(3) by (simp add: I_def moves_is_def xfer_size_def)
  moreover have "run_state (mark_unmap dma_mapped ?x) s1 = ((), s2)"
    "run_state (when_st (nents - of_nat n = 0) (upd_xfer ?x (\<lambda>t. t\<lparr>t_last_in_request := True, t_sgt := sgt\<rparr>))) s2 = ((), s3)"
    by (simp_all only: s2_def s3_def prod_eq_iff simp_thms fst_conv snd_conv unit_eq)
  ultimately have run: "rv = fst (run_state (transfer_queue E e (Some ?x)) s3)" "left = nents - of_nat n"
    "s' = final_of (transfer_queue E e (Some ?x)) s3"
    using assms(4) s1(1) by (simp_all add: start_round_def case_prod_beta del: run_when_st right_minus_eq)
  have same: "reqs s' req = reqs s1 req" "e_move (engs s' e) = e_move (engs s1 e)"
    "xfer_size (xfers s' ?x) = xfer_size (xfers s1 ?x)" "walk_of e ?x s' = walk_of e ?x s1"
    using I4 unfolding run(3) by (simp_all add: I_def moves_is_def)
  have "submit_ok e req left s'"
    using s1(2,3) same(1,2) unfolding run(2) by (simp add: submit_ok_def e_move_def)
  then show ?thesis
    using same(3) s1(4,5) q1 e1 len w1 queue_codes [of E e ?x s3]
    unfolding same(1,2,4) run(1,2) by (simp add: xfer_size_def)
qed

section \<open>All rounds\<close>

text \<open>The software descriptors of a request that no transfer has taken yet.\<close>

definition requested :: "xdma_request_cb \<Rightarrow> (u64 \<times> u32) list" where
  "requested q = take (unat (r_sw_desc_cnt q) - unat (r_sw_desc_idx q)) (drop (unat (r_sw_desc_idx q)) (r_sdesc q))"

text \<open>
  What the rounds from a request \<open>q\<close> on deliver: the first \<open>k\<close> of its descriptors are handed over, of which
  the first \<open>m\<close> are reported as done; all of them, if there is no error.
\<close>

definition desc_bytes :: "(u64 \<times> u32) list \<Rightarrow> nat" where
  "desc_bytes ds = sum_list (map (unat \<circ> snd) ds)"

definition delivers :: "xdma_engine \<Rightarrow> xdma_request_cb \<Rightarrow> xdma_desc list \<Rightarrow> int \<Rightarrow> int \<times> int \<Rightarrow> bool" where
  "delivers g q ds don r \<longleftrightarrow> (\<exists>k m. m \<le> k \<and> k \<le> length (requested q) \<and>
     map (\<lambda>d. (rc_addr (e_dir g) d, d_bytes d)) ds = take k (requested q) \<and>
     map (ep_addr_of (e_dir g)) ds = map (ep_at g (r_ep_addr q) (requested q)) [0..<k] \<and>
     snd r = don + int (desc_bytes (take m (requested q))) \<and>
     (fst r = 0 \<longrightarrow> m = length (requested q)) \<and> fst r \<le> 0)"

lemma desc_bytes_simps [simp]:
  "desc_bytes [] = 0" "desc_bytes (a @ b) = desc_bytes a + desc_bytes b"
  by (simp_all add: desc_bytes_def)

lemma desc_bytes_part: "desc_bytes (take n ds) \<le> desc_bytes ds" "desc_bytes (drop n ds) \<le> desc_bytes ds"
  using desc_bytes_simps(2) [of "take n ds" "drop n ds"] by simp_all

lemma ep_at_add: "ep_at g ep sd (n + i) = ep_at g (ep_at g ep sd n) (drop n sd) i"
  by (simp add: ep_at_def take_add add.assoc)

lemma ep_at_take: "n \<le> k \<Longrightarrow> ep_at g ep (take k sd) n = ep_at g ep sd n"
  by (simp add: ep_at_def min_absorb1)

lemma ep_at_cong: "e_non_incr_addr g = e_non_incr_addr g' \<Longrightarrow> ep_at g = ep_at g'"
  by (simp add: ep_at_def fun_eq_iff)

lemma delivers_none: "fst r \<le> 0 \<Longrightarrow> fst r < 0 \<or> requested q = [] \<Longrightarrow> snd r = don \<Longrightarrow> delivers g q [] don r"
  unfolding delivers_def by (intro exI [of _ 0]) auto

text \<open>A round that is not reported: its transfer failed, or is still in flight.\<close>

lemma delivers_lost:
  assumes "map (\<lambda>d. (rc_addr (e_dir g) d, d_bytes d)) w = take n (requested q)" "n \<le> length (requested q)"
    and "map (ep_addr_of (e_dir g)) w = map (ep_at g (r_ep_addr q) (requested q)) [0..<n]" "fst r < 0" "snd r = don"
  shows "delivers g q w don r"
  unfolding delivers_def using assms by (intro exI [of _ n] exI [of _ 0]) simp

lemma delivers_round:
  assumes "delivers g' q' ds (don + int (desc_bytes (take n (requested q)))) r"
    and "requested q' = drop n (requested q)" "n \<le> length (requested q)"
    and "map (\<lambda>d. (rc_addr (e_dir g) d, d_bytes d)) w = take n (requested q)"
    and "map (ep_addr_of (e_dir g)) w = map (ep_at g (r_ep_addr q) (requested q)) [0..<n]"
    and "r_ep_addr q' = ep_at g (r_ep_addr q) (requested q) n"
    and "e_dir g' = e_dir g" "e_non_incr_addr g' = e_non_incr_addr g"
  shows "delivers g q (w @ ds) don r"
proof -
  obtain k m where km: "m \<le> k" "k \<le> length (requested q')"
    "map (\<lambda>d. (rc_addr (e_dir g') d, d_bytes d)) ds = take k (requested q')"
    "map (ep_addr_of (e_dir g')) ds = map (ep_at g' (r_ep_addr q') (requested q')) [0..<k]"
    "snd r = don + int (desc_bytes (take n (requested q))) + int (desc_bytes (take m (requested q')))"
    "fst r = 0 \<longrightarrow> m = length (requested q')" "fst r \<le> 0"
    using assms(1) unfolding delivers_def by blast
  have "map (ep_addr_of (e_dir g)) ds = map (\<lambda>i. ep_at g (r_ep_addr q) (requested q) (n + i)) [0..<k]"
    using km(4) unfolding assms(2,6,7) ep_at_cong [OF assms(8)] ep_at_add by simp
  then have "map (ep_addr_of (e_dir g)) (w @ ds) = map (ep_at g (r_ep_addr q) (requested q)) [0..<n + k]"
    using assms(5) map_upt_split [of n "n + k" "ep_at g (r_ep_addr q) (requested q)"] by simp
  then show ?thesis
    unfolding delivers_def using km assms(2-4,7)
    by (intro exI [of _ "n + k"] exI [of _ "n + m"]) (simp add: take_add)
qed

lemma requested_drop:
  assumes "r_sw_desc_idx q' = r_sw_desc_idx q + of_nat n" "r_sw_desc_cnt q' = r_sw_desc_cnt q" "r_sdesc q' = r_sdesc q"
    and "unat (r_sw_desc_idx q) + n \<le> unat (r_sw_desc_cnt q)"
  shows "requested q' = drop n (requested q)"
proof -
  have "unat (r_sw_desc_idx q') = unat (r_sw_desc_idx q) + n"
    using assms(1,4) u32_bound [of "r_sw_desc_cnt q"] by (simp add: unat_word_ariths unat_of_nat)
  then show ?thesis
    unfolding requested_def assms(2,3) by (simp add: drop_take add.commute)
qed

lemma requested_length:
  assumes "submit_ok e req nents s" "nents = r_sw_desc_cnt (reqs s req) - r_sw_desc_idx (reqs s req)"
  shows "length (requested (reqs s req)) = unat nents"
  using assms by (auto simp: submit_ok_def requested_def unat_sub word_le_nat_alt)

text \<open>A round, in terms of the descriptors that are left: what it hands over, and what it reports.\<close>

lemma engine_same:
  assumes "snd (e_move g') = snd (e_move g)"
  shows "e_dir g' = e_dir g" "e_non_incr_addr g' = e_non_incr_addr g" "e_desc_bus g' = e_desc_bus g"
    "e_desc_max g' = e_desc_max g" "is_st_c2h g' = is_st_c2h g"
  using assms by (simp_all add: e_move_def is_st_c2h_def)

lemma start_round_requested:
  assumes "submit_ok e req nents s" "nents = r_sw_desc_cnt (reqs s req) - r_sw_desc_idx (reqs s req)" "nents \<noteq> 0"
    and "ring_fits (e_desc_bus (engs s e)) (uint (e_desc_max (engs s e)))" "\<not> is_st_c2h (engs s e)"
    and "run_state (start_round E e req sgt dma_mapped nents) s = ((rv, left), s')"
  defines "n \<equiv> next_count (engs s e) (reqs s req)" and "sd \<equiv> requested (reqs s req)"
  shows "rv \<in> {0, - EINVAL, - EBUSY}" "unat left = unat nents - n" "0 < n" "n \<le> length sd" "submit_ok e req left s'"
    and "left = r_sw_desc_cnt (reqs s' req) - r_sw_desc_idx (reqs s' req)" "requested (reqs s' req) = drop n sd"
    and "map (\<lambda>d. (rc_addr (e_dir (engs s e)) d, d_bytes d)) (walk_of e (Tfer req 0) s') = take n sd"
    and "map (ep_addr_of (e_dir (engs s e))) (walk_of e (Tfer req 0) s') = map (ep_at (engs s e) (r_ep_addr (reqs s req)) sd) [0..<n]"
    and "r_ep_addr (reqs s' req) = ep_at (engs s e) (r_ep_addr (reqs s req)) sd n"
    and "t_len (xfers s' (Tfer req 0)) = sum_list (map snd (take n sd))" "snd (e_move (engs s' e)) = snd (e_move (engs s e))"
proof -
  let ?g = "engs s e" and ?q = "reqs s req" and ?w = "walk_of e (Tfer req 0) s'"
  note round = start_round_hands [OF assms(1,3,4,6), folded n_def]
  have rv: "left = nents - of_nat n" "n \<le> unat nents"
    and q: "r_sw_desc_idx (reqs s' req) = r_sw_desc_idx ?q + of_nat n" "r_sw_desc_cnt (reqs s' req) = r_sw_desc_cnt ?q"
      "r_sdesc (reqs s' req) = r_sdesc ?q"
    using round by blast+
  have "r_sw_desc_idx ?q \<le> r_sw_desc_cnt ?q"
    using assms(1) by (simp add: submit_ok_def)
  then have n: "unat (r_sw_desc_idx ?q) + n \<le> unat (r_sw_desc_cnt ?q)"
    using rv(2) unfolding assms(2) by (simp add: unat_sub word_le_nat_alt)
  have sd: "take n (drop (unat (r_sw_desc_idx ?q)) (r_sdesc ?q)) = take n sd"
    "i \<le> n \<Longrightarrow> ep_at ?g (r_ep_addr ?q) (drop (unat (r_sw_desc_idx ?q)) (r_sdesc ?q)) i = ep_at ?g (r_ep_addr ?q) sd i" for i
    using n by (simp_all add: requested_def sd_def min_absorb1 ep_at_take)
  show "unat left = unat nents - n"
    using rv(2) u32_bound [of nents] unfolding rv(1) by (subst unat_sub) (simp_all add: word_le_nat_alt unat_of_nat)
  show "left = r_sw_desc_cnt (reqs s' req) - r_sw_desc_idx (reqs s' req)"
    unfolding rv(1) q assms(2) by simp
  show "requested (reqs s' req) = drop n sd"
    unfolding sd_def using q n by (rule requested_drop)
  show "n \<le> length sd"
    using rv(2) requested_length [OF assms(1,2)] by (simp add: sd_def)
  have "map (ep_addr_of (e_dir ?g)) ?w =
      map (ep_at ?g (r_ep_addr ?q) (drop (unat (r_sw_desc_idx ?q)) (r_sdesc ?q))) [0..<n]"
    using round assms(5) by blast
  then show "map (ep_addr_of (e_dir ?g)) ?w = map (ep_at ?g (r_ep_addr ?q) sd) [0..<n]"
    by (simp add: sd(2))
  show "rv \<in> {0, - EINVAL, - EBUSY}" "0 < n" "submit_ok e req left s'" "snd (e_move (engs s' e)) = snd (e_move ?g)"
    "map (\<lambda>d. (rc_addr (e_dir ?g) d, d_bytes d)) ?w = take n sd" "r_ep_addr (reqs s' req) = ep_at ?g (r_ep_addr ?q) sd n"
    "t_len (xfers s' (Tfer req 0)) = sum_list (map snd (take n sd))"
    using round unfolding sd(1) sd(2) [OF order.refl] by blast+
qed

lemma finish_round_requested:
  assumes "\<And>q v z cb err. keeps (moves_is e req (Tfer req 0) q v z) (H cb err)" "\<not> is_st_c2h (engs s e)"
    and "t_len (xfers s (Tfer req 0)) = sum_list (map snd (take n sd))" "desc_bytes sd < 2 ^ 32"
    and "run_state (finish_round E H e (Tfer req 0) timeout_ms) s = ((rv, bytes, finish), s')"
  shows "reqs s' req = reqs s req" "e_move (engs s' e) = e_move (engs s e)" "rv \<in> {0, - EIO, - ERESTARTSYS}"
    and "rv \<noteq> 0 \<Longrightarrow> bytes = 0" "rv = 0 \<Longrightarrow> bytes = int (desc_bytes (take n sd)) \<and> \<not> finish"
proof -
  have "moves_is e req (Tfer req 0) (reqs s req) (e_move (engs s e)) (xfer_size (xfers s (Tfer req 0))) s"
    by (simp add: moves_is_def)
  note fin = finish_round_moves [OF assms(1) this assms(5)]
  show "reqs s' req = reqs s req" "e_move (engs s' e) = e_move (engs s e)" "rv \<in> {0, - EIO, - ERESTARTSYS}"
    "rv \<noteq> 0 \<Longrightarrow> bytes = 0"
    using fin by (simp_all add: moves_is_def)
  have "uint (t_len (xfers s (Tfer req 0))) = int (desc_bytes (take n sd))"
    unfolding assms(3) desc_bytes_def
    using order.strict_trans1 [OF desc_bytes_part(1) assms(4)] by (intro chunk_bytes) (simp add: desc_bytes_def)
  then show "rv = 0 \<Longrightarrow> bytes = int (desc_bytes (take n sd)) \<and> \<not> finish"
    using fin assms(2) by (simp add: xfer_size_def)
qed

lemma submit_loop_delivers:
  assumes "\<And>q v z cb err. keeps (moves_is e req (Tfer req 0) q v z) (H cb err)"
    and "submit_ok e req nents s" "nents = r_sw_desc_cnt (reqs s req) - r_sw_desc_idx (reqs s req)"
    and "ring_fits (e_desc_bus (engs s e)) (uint (e_desc_max (engs s e)))" "\<not> is_st_c2h (engs s e)"
    and "desc_bytes (requested (reqs s req)) < 2 ^ 32" "unat nents \<le> fuel"
    and "run_state (submit_loop fuel E H e req sgt dma_mapped timeout_ms nents don) s = (r, s')"
  shows "delivers (engs s e) (reqs s req) (handed fuel E H e req sgt dma_mapped timeout_ms nents s) don r"
  using assms(2-)
proof (induction fuel arbitrary: nents don s)
  case 0
  then show ?case
    using requested_length [OF "0.prems"(1,2)] by (auto simp: unat_eq_zero intro!: delivers_none)
next
  case (Suc fuel)
  show ?case
  proof (cases "nents = 0")
    case True
    then show ?thesis
      using Suc.prems(7) requested_length [OF Suc.prems(1,2)] by (auto intro!: delivers_none)
  next
    case False
    let ?x = "Tfer req 0" and ?q = "reqs s req"
    obtain rv left s1 where start: "run_state (start_round E e req sgt dma_mapped nents) s = ((rv, left), s1)"
      by (metis prod.exhaust)
    obtain rv' bytes fin s2 where finish: "run_state (finish_round E H e ?x timeout_ms) s1 = ((rv', bytes, fin), s2)"
      by (metis prod.exhaust)
    note A = start_round_requested [OF Suc.prems(1,2) False Suc.prems(3,4) start]
    have "\<not> is_st_c2h (engs s1 e)"
      using Suc.prems(4) engine_same(5) [OF A(12)] by simp
    note B = finish_round_requested [OF assms(1) this A(11) Suc.prems(5) finish]
    have moved: "snd (e_move (engs s2 e)) = snd (e_move (engs s e))"
      using A(12) B(2) by simp
    note lost = delivers_lost [OF A(8,4,9)] and run = Suc.prems(7) [unfolded submit_loop_rounds [OF False] start finish]
    consider "rv < 0" | "rv = 0" "rv' < 0" | "rv = 0" "rv' = 0"
      using A(1) B(3) by fastforce
    then show ?thesis
    proof cases
      case 1
      then show ?thesis
        using run False start by (auto intro: delivers_none)
    next
      case 2
      then show ?thesis
        using run False start B(4) by (auto simp: finish intro!: lost)
    next
      case 3
      have "delivers (engs s2 e) (reqs s2 req) (handed fuel E H e req sgt dma_mapped timeout_ms left s2)
          (don + int (desc_bytes (take (next_count (engs s e) ?q) (requested ?q)))) r"
      proof (rule Suc.IH)
        show "submit_ok e req left s2" "left = r_sw_desc_cnt (reqs s2 req) - r_sw_desc_idx (reqs s2 req)"
          using A(5,6) B(1,2) by (simp_all add: submit_ok_def e_move_def)
        show "ring_fits (e_desc_bus (engs s2 e)) (uint (e_desc_max (engs s2 e)))" "\<not> is_st_c2h (engs s2 e)"
          using Suc.prems(3,4) by (simp_all add: engine_same [OF moved])
        show "desc_bytes (requested (reqs s2 req)) < 2 ^ 32"
          unfolding B(1) A(7) by (rule order.strict_trans1 [OF desc_bytes_part(2) Suc.prems(5)])
        show "unat left \<le> fuel"
          using A(2,3) Suc.prems(6) by simp
        show "run_state (submit_loop fuel E H e req sgt dma_mapped timeout_ms left
            (don + int (desc_bytes (take (next_count (engs s e) ?q) (requested ?q))))) s2 = (r, s')"
          using run 3 B(5) by (simp add: finish)
      qed
      then have "delivers (engs s e) ?q (walk_of e ?x s1 @ handed fuel E H e req sgt dma_mapped timeout_ms left s2) don r"
        unfolding B(1) by (rule delivers_round [OF _ A(7,4,8,9,10) engine_same(1,2) [OF moved]])
      then show ?thesis
        using 3 False start finish B(5) by simp
    qed
  qed
qed

section \<open>What the completion of other transfers leaves alone\<close>

text \<open>
  The hash units complete an asynchronous transfer in \<open>transfer_io_handler\<close>, which runs while a blocking
  submission sleeps. It gives back the descriptors, the table and the pages of its own transfer.
\<close>

locale handler_frame = engine_frame I for I :: "hworld \<Rightarrow> bool" +
  assumes used_frame: "keeps I (upd_eng e (\<lambda>g. g\<lparr>e_desc_used := k g\<rparr>))"
    and cb_frame: "keeps I (upd_cb c l)"
    and sha_frame: "keeps I (upd_sha d h)"
begin

lemma free_frame: "keeps I (xdma_request_free E req)"
  unfolding xdma_request_free_def by (intro frame_rules)

lemma unmap_sgl_frame: "keeps I (unmap_sgl pdev sgt m)"
  unfolding unmap_sgl_def by (intro frame_rules)

lemma completion_loop_frame: "keeps I (completion_loop left i E e req nents don)"
proof (induction left arbitrary: i nents don)
  case 0
  show ?case
    by (subst completion_loop.simps, simp only: nat.case) (intro frame_rules)
next
  case (Suc left)
  show ?case
    by (subst completion_loop.simps, simp only: nat.case Let_def)
      (intro frame_rules keeps_transfer_state status_frame abort_frame stop_frame destroy_frame used_frame Suc)
qed

lemma xfer_completion_frame: "keeps I (xdma_xfer_completion E cb hndl ch w sgt m)"
  unfolding xdma_xfer_completion_def select_engine_def
  by (intro frame_rules completion_loop_frame unmap_sgl_frame free_frame)

lemma unmap_pages_frame: "keeps I (unmap_pages ps w)"
  by (induction ps) (auto intro!: frame_rules)

lemma unmap_buf_frame: "keeps I (char_sgdma_unmap_user_buf cb w)"
  unfolding char_sgdma_unmap_user_buf_def by (intro frame_rules unmap_pages_frame cb_frame)

lemma io_handler_frame: "keeps I (transfer_io_handler E cb err)"
  unfolding transfer_io_handler_def xcdev_check_def Let_def
  by (intro frame_rules xfer_completion_frame unmap_buf_frame sha_frame)

end

interpretation hash_moves: handler_frame "moves_is e req x q v z"
  by unfold_locales (simp_all add: hoare_def moves_is_def e_move_def)

interpretation hash_request: handler_frame "request_is e req q i m"
  by unfold_locales (simp_all add: hoare_def request_is_def)

text \<open>The submissions of the hash units come to an end with the handler that they have.\<close>

lemma hash_submission_ends:
  assumes "submit_ok e req nents s" "unat nents \<le> fuel"
  shows "run_state (submit_loop fuel E (transfer_io_handler E') e req sgt dma_mapped timeout_ms nents don) s =
    run_state (submit_loop (unat nents) E (transfer_io_handler E') e req sgt dma_mapped timeout_ms nents don) s"
  by (rule submit_loop_fuel [OF hash_request.io_handler_frame assms order.refl])

section \<open>The bytes that move\<close>

text \<open>
  The pairs of host address and device address that descriptors move a byte between, in order; the device
  address stands still (\<open>fixed\<close>) in the non-incremental mode.
\<close>

definition moved :: "dma_dir \<Rightarrow> bool \<Rightarrow> xdma_desc list \<Rightarrow> (u64 \<times> u64) list" where
  "moved dir fixed ds = concat (map (\<lambda>d. map (\<lambda>j. (rc_addr dir d + of_nat j,
     if fixed then ep_addr_of dir d else ep_addr_of dir d + of_nat j)) [0..<unat (d_bytes d)]) ds)"

lemma moved_host:
  "map fst (moved dir fixed ds) = concat (map seg_bytes (map (\<lambda>d. (rc_addr dir d, d_bytes d)) ds))"
  by (induction ds) (simp_all add: moved_def)

lemma map_upt_add:
  "map f [0..<a] @ map g [0..<b] = map h [0..<a + b]"
  if "\<And>i. i < a \<Longrightarrow> f i = h i" "\<And>i. i < b \<Longrightarrow> g i = h (a + i)"
  using that by (intro nth_equalityI) (auto simp: nth_append)

lemma moved_device:
  assumes "map (ep_addr_of dir) ds = map (ep_at g ep sd) [0..<length ds]" "map d_bytes ds = map snd (take (length ds) sd)"
    and "length ds \<le> length sd"
  shows "map snd (moved dir (e_non_incr_addr g) ds) =
    map (\<lambda>i. if e_non_incr_addr g then ep else ep + of_nat i) [0..<desc_bytes (take (length ds) sd)]"
  using assms
proof (induction ds arbitrary: ep sd)
  case (Cons d ds)
  obtain a l sd' where sd: "sd = (a, l) # sd'"
    using Cons.prems(3) by (cases sd) auto
  have d: "d_bytes d = l" "map d_bytes ds = map snd (take (length ds) sd')" "length ds \<le> length sd'"
    using Cons.prems(2,3) by (simp_all add: sd)
  have one: "ep_at g ep sd (Suc i) = ep_at g (ep_at g ep sd 1) sd' i" for i
    using ep_at_add [of g ep sd 1 i] by (simp add: sd)
  have "ep_addr_of dir d # map (ep_addr_of dir) ds = ep_at g ep sd 0 # map (\<lambda>i. ep_at g ep sd (Suc i)) [0..<length ds]"
    using Cons.prems(1) by (simp only: list.map length_Cons map_upt_Suc)
  then have e: "ep_addr_of dir d = ep" "map (ep_addr_of dir) ds = map (ep_at g (ep_at g ep sd 1) sd') [0..<length ds]"
    unfolding one by (simp_all add: ep_at_def)
  have ep: "ep_at g ep sd 1 = (if e_non_incr_addr g then ep else ep + of_nat (unat l))"
    by (simp add: ep_at_def sd)
  have "map snd (moved dir (e_non_incr_addr g) (d # ds)) =
      map (\<lambda>j. if e_non_incr_addr g then ep else ep + of_nat j) [0..<unat l] @ map snd (moved dir (e_non_incr_addr g) ds)"
    by (simp add: moved_def d(1) e(1))
  also have "\<dots> = map (\<lambda>i. if e_non_incr_addr g then ep else ep + of_nat i) [0..<unat l + desc_bytes (take (length ds) sd')]"
    unfolding Cons.IH [OF e(2) d(2,3)] ep by (rule map_upt_add) (simp_all add: add.assoc del: of_nat_unat)
  finally show ?case
    by (simp add: sd desc_bytes_def)
qed (simp add: moved_def)

lemma desc_bytes_length: "length (concat (map seg_bytes ds)) = desc_bytes ds"
  by (induction ds) (auto simp: desc_bytes_def)

lemma delivers_moved:
  assumes "delivers g q ds 0 r" and bs: "concat (map seg_bytes (requested q)) = bs"
  shows "\<exists>k. moved (e_dir g) (e_non_incr_addr g) ds =
      map (\<lambda>i. (bs ! i, if e_non_incr_addr g then r_ep_addr q else r_ep_addr q + of_nat i)) [0..<k] \<and>
    k \<le> length bs \<and> fst r \<le> 0 \<and> 0 \<le> snd r \<and> snd r \<le> int k \<and> (fst r = 0 \<longrightarrow> snd r = int (length bs))"
proof -
  obtain k m where km: "m \<le> k" "k \<le> length (requested q)"
    "map (\<lambda>d. (rc_addr (e_dir g) d, d_bytes d)) ds = take k (requested q)"
    "map (ep_addr_of (e_dir g)) ds = map (ep_at g (r_ep_addr q) (requested q)) [0..<k]"
    "snd r = int (desc_bytes (take m (requested q)))" "fst r = 0 \<longrightarrow> m = length (requested q)" "fst r \<le> 0"
    using assms(1) unfolding delivers_def by auto
  let ?n = "desc_bytes (take k (requested q))" and ?ms = "moved (e_dir g) (e_non_incr_addr g) ds"
  have len: "length ds = k"
    using arg_cong [OF km(4), of length] by simp
  have "map d_bytes ds = map snd (take k (requested q))"
    using arg_cong [OF km(3), of "map snd"] by (simp add: comp_def)
  then have snds: "map snd ?ms = map (\<lambda>i. if e_non_incr_addr g then r_ep_addr q else r_ep_addr q + of_nat i) [0..<?n]"
    using moved_device [of "e_dir g" ds g "r_ep_addr q" "requested q"] km(2,4) by (simp add: len)
  have all: "concat (map seg_bytes (take k (requested q))) @ concat (map seg_bytes (drop k (requested q))) = bs"
    using bs by (metis append_take_drop_id concat_append map_append)
  then have fsts: "map fst ?ms = take ?n bs"
    unfolding moved_host km(3) using desc_bytes_length [of "take k (requested q)"] by auto
  have n: "?n \<le> length bs"
    using all desc_bytes_length [of "take k (requested q)"] by (metis length_append le_add1)
  have "?ms = map (\<lambda>i. (bs ! i, if e_non_incr_addr g then r_ep_addr q else r_ep_addr q + of_nat i)) [0..<?n]"
  proof (rule nth_equalityI)
    show l: "length ?ms = length (map (\<lambda>i. (bs ! i, if e_non_incr_addr g then r_ep_addr q else r_ep_addr q + of_nat i)) [0..<?n])"
      using arg_cong [OF snds, of length] by simp
    fix i
    assume "i < length ?ms"
    then have "fst (?ms ! i) = bs ! i" "snd (?ms ! i) = (if e_non_incr_addr g then r_ep_addr q else r_ep_addr q + of_nat i)"
      using l arg_cong [OF fsts, of "\<lambda>xs. xs ! i"] arg_cong [OF snds, of "\<lambda>xs. xs ! i"] by simp_all
    then show "?ms ! i = map (\<lambda>i. (bs ! i, if e_non_incr_addr g then r_ep_addr q else r_ep_addr q + of_nat i)) [0..<?n] ! i"
      using l \<open>i < length ?ms\<close> by (simp add: prod_eq_iff)
  qed
  moreover have "desc_bytes (take m (requested q)) \<le> ?n"
    using take_add [of m "k - m" "requested q"] km(1) by simp
  ultimately show ?thesis
    using n km(5-7) desc_bytes_length [of "requested q"] bs by (intro exI [of _ ?n]) auto
qed

section \<open>A submission of a mapped user buffer\<close>

text \<open>
  What \<open>dma_map_sg\<close> does with a table, in the state of the kernel at the time: it fails, or it gives
  segments, none of them empty, that name the bytes of the table in order, by their bus addresses.
\<close>

definition dma_covers :: "env \<Rightarrow> history \<Rightarrow> (u64 \<times> nat \<Rightarrow> u64) \<Rightarrow> bool" where
  "dma_covers E h bus \<longleftrightarrow> (\<forall>ents. length (sg_bytes ents) < 2 ^ 30 \<longrightarrow> dma_map E h ents = [] \<or>
     concat (map seg_bytes (dma_map E h ents)) = map bus (sg_bytes ents) \<and> (\<forall>(a, l) \<in> set (dma_map E h ents). 0 < l))"

text \<open>The descriptors that \<open>submit_request\<close> hands over, in the loop it gets to.\<close>

definition request_handed ::
  "env \<Rightarrow> 'a io_done \<Rightarrow> eng \<Rightarrow> u64 \<Rightarrow> u64 \<Rightarrow> int \<Rightarrow> 'a xworld_scheme \<Rightarrow> xdma_desc list" where
  "request_handed E H e ep_addr sgt timeout_ms s =
     (case run_state (map_sgl E (x_pdev (xdevs s (e_xdev (engs s e)))) sgt False) s of (mapped, s1) \<Rightarrow>
        if \<not> mapped then []
        else case run_state (xdma_init_request E sgt ep_addr) s1 of (req, s2) \<Rightarrow>
          if req = 0 then []
          else let n = r_sw_desc_cnt (reqs s2 req) in
            handed (unat n) E H e req sgt False timeout_ms n (final_of (lock_acquire LkDesc (eng_key e)) s2))"

lemma run_map_sgl:
  assumes "segs = dma_map E (tr s) (take (g_orig_nents (sgts s sgt)) (g_ents (sgts s sgt)))"
    and "run_state (map_sgl E pdev sgt False) s = (mapped, s1)"
  shows "mapped = (segs \<noteq> []) \<and> engs s1 = engs s \<and> prm s1 = prm s \<and>
    (mapped \<longrightarrow> g_dma (sgts s1 sgt) = segs \<and> g_nents (sgts s1 sgt) = length segs)"
  using assms by (auto simp: map_sgl_def pci_map_sg_def Let_def split: if_splits)

lemma init_request_engs: "keeps (\<lambda>s. engs s = g) (xdma_init_request E sgt ep)"
  unfolding xdma_init_request_def xdma_request_alloc_def clear_request_def xdma_request_free_def Let_def
  by (intro hoare_rules) (simp_all add: hoare_def tr_free_def)

lemma est_descs_bound: "0 < blen \<Longrightarrow> est_descs blen (map snd segs) \<le> desc_bytes segs"
proof (induction segs)
  case (Cons s segs)
  have "(unat (snd s) + unat blen - 1) div unat blen \<le> unat (snd s)" if "blen < snd s"
  proof -
    have "0 < unat blen"
      using Cons.prems by (simp add: word_less_nat_alt)
    then obtain b where b: "unat blen = Suc b"
      by (cases "unat blen") auto
    have "unat (snd s) + b < Suc (unat (snd s)) * Suc b"
      by simp
    then have "(unat (snd s) + b) div Suc b < Suc (unat (snd s))"
      by (rule less_mult_imp_div_less)
    then show ?thesis
      by (simp add: b)
  qed
  then show ?case
    using Cons by (auto simp: est_descs_def desc_bytes_def)
qed (simp add: est_descs_def)

lemma segs_bounds:
  assumes "\<forall>(a, l) \<in> set segs. 0 < l"
  shows "length segs \<le> desc_bytes segs" "\<forall>l \<in> set (map snd segs). unat l \<le> desc_bytes segs"
  using assms by (induction segs) (auto simp: desc_bytes_def word_less_nat_alt)

text \<open>The request that \<open>xdma_init_request\<close> builds from a mapped table: its descriptors are the bytes of the table.\<close>

lemma init_request_covers:
  assumes "run_state (xdma_init_request E sgt ep) s = (req, s')" "req \<noteq> 0"
    and "g_nents (sgts s sgt) = length (g_dma (sgts s sgt))" "concat (map seg_bytes (g_dma (sgts s sgt))) = bs"
    and "\<forall>(a, l) \<in> set (g_dma (sgts s sgt)). 0 < l" "length bs < 2 ^ 30"
    and "0 < desc_blen_max (prm s)" "desc_blen_max (prm s) \<le> 2 ^ 31"
  shows "concat (map seg_bytes (r_sdesc (reqs s' req))) = bs" "r_ep_addr (reqs s' req) = ep"
    "unat (r_sw_desc_cnt (reqs s' req)) = length (r_sdesc (reqs s' req))" "r_sw_desc_idx (reqs s' req) = 0"
proof -
  let ?segs = "g_dma (sgts s sgt)" and ?b = "desc_blen_max (prm s)"
  have total: "desc_bytes ?segs = length bs"
    using arg_cong [OF assms(4), of length] by (simp only: desc_bytes_length)
  have "unat ?b \<le> 2 ^ 31"
    using assms(8) by (simp add: word_le_nat_alt)
  then have "\<forall>l \<in> set (map snd ?segs). unat l + unat ?b \<le> 2 ^ 32"
    using segs_bounds(2) [OF assms(5)] assms(6) unfolding total by fastforce
  moreover have "length ?segs + est_descs ?b (map snd ?segs) < 2 ^ 31"
    using segs_bounds(1) [OF assms(5)] est_descs_bound [OF assms(7), of ?segs] assms(6) unfolding total by simp
  ultimately show "concat (map seg_bytes (r_sdesc (reqs s' req))) = bs" "r_ep_addr (reqs s' req) = ep"
    "unat (r_sw_desc_cnt (reqs s' req)) = length (r_sdesc (reqs s' req))" "r_sw_desc_idx (reqs s' req) = 0"
    using init_request_outcome [OF _ _ refl assms(7) _ _ assms(1), of ?segs] assms(2,3) unfolding assms(4) by auto
qed

lemma request_reaches:
  fixes s :: "'a xworld_scheme"
  assumes "sg_bytes (g_ents (sgts s sgt)) = bs" "g_orig_nents (sgts s sgt) = length (g_ents (sgts s sgt))" "length bs < 2 ^ 30"
    and "dma_covers E (tr s) bus" "0 < desc_blen_max (prm s)" "desc_blen_max (prm s) \<le> 2 ^ 31"
    and "run_state (submit_request E H e ep sgt False timeout_ms) s = (r, s')"
  obtains (early) "request_handed E H e ep sgt timeout_ms s = []" "r \<le> 0"
  | (loop) req n t rv d t' where "request_handed E H e ep sgt timeout_ms s = handed (unat n) E H e req sgt False timeout_ms n t"
    "run_state (submit_loop (unat n) E H e req sgt False timeout_ms n 0) t = ((rv, d), t')" "r = (if d \<noteq> 0 then d else rv)"
    "n = r_sw_desc_cnt (reqs t req)" "unat n = length (r_sdesc (reqs t req))" "r_sw_desc_idx (reqs t req) = 0"
    "concat (map seg_bytes (requested (reqs t req))) = map bus bs" "r_ep_addr (reqs t req) = ep" "engs t = engs s"
proof -
  define segs where "segs = dma_map E (tr s) (g_ents (sgts s sgt))"
  obtain mapped s1 where map: "run_state (map_sgl E (x_pdev (xdevs s (e_xdev (engs s e)))) sgt False) s = (mapped, s1)"
    by (metis prod.exhaust)
  obtain req s2 where init: "run_state (xdma_init_request E sgt ep) s1 = (req, s2)"
    by (metis prod.exhaust)
  have m: "mapped = (segs \<noteq> [])" "engs s1 = engs s" "prm s1 = prm s"
    "mapped \<Longrightarrow> g_dma (sgts s1 sgt) = segs \<and> g_nents (sgts s1 sgt) = length segs"
    using run_map_sgl [OF _ map] assms(2) by (auto simp: segs_def)
  define t where "t = final_of (lock_acquire LkDesc (eng_key e)) s2"
  have t: "reqs t = reqs s2" "engs t = engs s"
    using hoareD [OF init_request_engs m(2) init] by (simp_all add: t_def)
  let ?n = "r_sw_desc_cnt (reqs s2 req)"
  obtain rv d t' where run: "run_state (submit_loop (unat ?n) E H e req sgt False timeout_ms ?n 0) t = ((rv, d), t')"
    by (metis prod.exhaust)
  show thesis
  proof (cases "mapped \<and> req \<noteq> 0")
    case False
    then show thesis
      using assms(7) map init by (intro early) (auto simp: request_handed_def submit_request_def case_prod_beta split: if_splits)
  next
    case True
    have "concat (map seg_bytes segs) = map bus bs" "\<forall>(a, l) \<in> set segs. 0 < l"
      using assms(1,3,4) True m(1) unfolding dma_covers_def segs_def by auto
    then have q: "concat (map seg_bytes (r_sdesc (reqs s2 req))) = map bus bs" "r_ep_addr (reqs s2 req) = ep"
      "unat ?n = length (r_sdesc (reqs s2 req))" "r_sw_desc_idx (reqs s2 req) = 0"
      using init_request_covers [OF init] True m(3,4) assms(3,5,6) by simp_all
    show thesis
    proof (rule loop)
      show "request_handed E H e ep sgt timeout_ms s = handed (unat ?n) E H e req sgt False timeout_ms ?n t"
        using True map init by (simp add: request_handed_def t_def Let_def)
      show "r = (if d \<noteq> 0 then d else rv)"
        using assms(7) True map init run by (simp add: submit_request_def case_prod_beta t_def cong: if_cong)
    qed (use run q t in \<open>simp_all add: requested_def\<close>)
  qed
qed

lemma request_delivers:
  fixes s :: "'a xworld_scheme"
  assumes "\<And>req q v z cb err. keeps (moves_is e req (Tfer req 0) q v z) (H cb err)"
    and "sg_bytes (g_ents (sgts s sgt)) = bs" "g_orig_nents (sgts s sgt) = length (g_ents (sgts s sgt))" "length bs < 2 ^ 30"
    and "dma_covers E (tr s) bus" "0 < desc_blen_max (prm s)" "desc_blen_max (prm s) \<le> 2 ^ 31"
    and "e_desc_idx (engs s e) < e_desc_max (engs s e)" "e_desc_max (engs s e) < 2 ^ 31"
    and "ring_fits (e_desc_bus (engs s e)) (uint (e_desc_max (engs s e)))" "\<not> is_st_c2h (engs s e)"
    and "run_state (submit_request E H e ep sgt False timeout_ms) s = (r, s')"
  defines "fixed \<equiv> e_non_incr_addr (engs s e)"
  shows "\<exists>k. moved (e_dir (engs s e)) fixed (request_handed E H e ep sgt timeout_ms s) =
      map (\<lambda>i. (bus (bs ! i), if fixed then ep else ep + of_nat i)) [0..<k] \<and>
    k \<le> length bs \<and> r \<le> int k"
  using assms(2-7,12)
proof (cases rule: request_reaches)
  case early
  then show ?thesis
    by (intro exI [of _ 0]) (simp add: moved_def)
next
  case (loop req n t rv d t')
  have "delivers (engs t e) (reqs t req) (handed (unat n) E H e req sgt False timeout_ms n t) 0 (rv, d)"
  proof (rule submit_loop_delivers [OF assms(1) _ _ _ _ _ order.refl loop(2)])
    show "submit_ok e req n t"
      using assms(8,9) loop(4-6,9) by (simp add: submit_ok_def)
    show "desc_bytes (requested (reqs t req)) < 2 ^ 32"
      using arg_cong [OF loop(7), of length] assms(4) by (simp add: desc_bytes_length)
  qed (use assms(10,11) loop(4,6,9) in simp_all)
  from delivers_moved [OF this loop(7)] obtain k where k: "moved (e_dir (engs s e)) fixed (request_handed E H e ep sgt timeout_ms s) =
      map (\<lambda>i. (map bus bs ! i, if fixed then ep else ep + of_nat i)) [0..<k]" "k \<le> length bs" "r \<le> int k"
    unfolding loop(1,3,8,9) fixed_def by auto
  then have "map (\<lambda>i. (map bus bs ! i, if fixed then ep else ep + of_nat i)) [0..<k] =
      map (\<lambda>i. (bus (bs ! i), if fixed then ep else ep + of_nat i)) [0..<k]"
    by simp
  then show ?thesis
    using k by (intro exI [of _ k]) simp
qed

section \<open>A blocking transfer of a hash unit\<close>

text \<open>The checks of \<open>xdma_xfer_submit\<close>, up to the submission itself: a code, or the engine.\<close>

definition xfer_checks :: "u64 \<Rightarrow> nat \<Rightarrow> bool \<Rightarrow> ('a xworld_scheme, int + eng) state" where
  "xfer_checks dev_hndl channel write =
     (if dev_hndl = 0 then ret (Inl (- EINVAL))
      else do {
        x \<leftarrow> the_xdev dev_hndl;
        rv \<leftarrow> debug_check_dev_hndl (x_pdev x) dev_hndl;
        if rv < 0 then ret (Inl (- EINVAL))
        else do {
          eo \<leftarrow> select_engine dev_hndl channel write;
          case eo of None \<Rightarrow> ret (Inl (- EINVAL)) | Some e \<Rightarrow> do {
            g \<leftarrow> the_eng e;
            if e_magic g \<noteq> MAGIC_ENGINE then ret (Inl (- EINVAL))
            else do {
              offline \<leftarrow> xdma_device_flag_check (e_xdev g) XDEV_FLAG_OFFLINE;
              if offline then ret (Inl (- EBUSY))
              else if e_dir g \<noteq> dir_of write then ret (Inl (- EINVAL))
              else ret (Inr e) } } } })"

lemma submit_checks:
  "run_state (xdma_xfer_submit E H dev_hndl channel write ep sgt dma_mapped timeout_ms) s =
    (case run_state (xfer_checks dev_hndl channel write) s of
       (Inl rv, s1) \<Rightarrow> (rv, s1)
     | (Inr e, s1) \<Rightarrow> run_state (submit_request E H e ep sgt dma_mapped timeout_ms) s1)"
  by (simp add: xdma_xfer_submit_def xfer_checks_def case_prod_beta split: option.split)

text \<open>The parts of the state that neither the checks nor the mapping of the buffer change.\<close>

definition engines_are ::
  "(eng \<Rightarrow> xdma_engine) \<Rightarrow> params \<Rightarrow> (u64 \<Rightarrow> xdma_dev) \<Rightarrow> 'a xworld_scheme \<Rightarrow> bool" where
  "engines_are g p x s \<longleftrightarrow> engs s = g \<and> prm s = p \<and> xdevs s = x"

lemma engines_frame:
  "tr_free (engines_are g p x)" "tr_free (\<lambda>s. sgts s = t)" "keeps (engines_are g p x) (upd_cb c f)"
  "keeps (engines_are g p x) (upd_sgt c l)"
  by (simp_all add: tr_free_def hoare_def engines_are_def)

lemma checks_frame:
  "keeps (engines_are g p x) (xfer_checks d ch w)" "keeps (\<lambda>s. sgts s = t) (xfer_checks d ch w)"
  unfolding xfer_checks_def debug_check_dev_hndl_def xdev_find_by_pdev_def select_engine_def xdma_device_flag_check_def
  by (intro hoare_rules engines_frame)+

lemma checks_outcome:
  "case fst (run_state (xfer_checks d ch w) s) of Inl rv \<Rightarrow> rv < 0
   | Inr e \<Rightarrow> e = (if w then H2C d ch else C2H d ch) \<and> e_dir (engs s e) = dir_of w"
  by (simp add: xfer_checks_def debug_check_dev_hndl_def xdev_find_by_pdev_def select_engine_def xdma_device_flag_check_def
      case_prod_beta)

lemma unmap_keeps_engines: "keeps (engines_are g p x) (char_sgdma_unmap_user_buf cb w)"
proof -
  have "keeps (engines_are g p x) (unmap_pages ps w)" for ps
    by (induction ps) (auto intro!: hoare_rules engines_frame)
  then show ?thesis
    unfolding char_sgdma_unmap_user_buf_def by (intro hoare_rules engines_frame)
qed

lemma map_keeps_engines: "keeps (engines_are g p x) (char_sgdma_map_user_buf_to_sgl E cb w)"
  unfolding char_sgdma_map_user_buf_to_sgl_def map_pinned_def map_filled_def Let_def
  by (intro hoare_rules engines_frame unmap_keeps_engines)

lemma map_buf_codes: "fst (run_state (char_sgdma_map_user_buf_to_sgl E cb w) s) \<le> 0"
  by (simp add: char_sgdma_map_user_buf_to_sgl_def map_pinned_def map_filled_def Let_def case_prod_beta)

text \<open>The control block of a blocking transfer, and what it hands over.\<close>

definition blocking_cb :: "u64 \<Rightarrow> u64 \<Rightarrow> u64 \<Rightarrow> bool \<Rightarrow> xdma_io_cb" where
  "blocking_cb buf cnt pos w = zero_cb\<lparr>c_buf := buf, c_len := cnt, c_ep_addr := pos, c_write := w\<rparr>"

definition blocking_map :: "env \<Rightarrow> u64 \<Rightarrow> u64 \<Rightarrow> u64 \<Rightarrow> bool \<Rightarrow> (hworld, int) state" where
  "blocking_map E buf cnt pos w = do {
     _ \<leftarrow> upd_cb stack_cb (\<lambda>_. blocking_cb buf cnt pos w);
     char_sgdma_map_user_buf_to_sgl E stack_cb w }"

definition blocking_timeout :: "hworld \<Rightarrow> bool \<Rightarrow> int" where
  "blocking_timeout s w = sint ((if w then h2c_timeout (prm s) else c2h_timeout (prm s)) * 1000)"

definition blocking_handed :: "env \<Rightarrow> u64 \<Rightarrow> nat \<Rightarrow> u64 \<Rightarrow> u64 \<Rightarrow> u64 \<Rightarrow> bool \<Rightarrow> hworld \<Rightarrow> xdma_desc list" where
  "blocking_handed E xdev ch buf cnt pos w s =
     (case run_state (blocking_map E buf cnt pos w) s of (rv, s1) \<Rightarrow>
        if rv < 0 then []
        else case run_state (xfer_checks xdev ch w) s1 of
          (Inl rv, s2) \<Rightarrow> []
        | (Inr e, s2) \<Rightarrow> request_handed E (transfer_io_handler E) e pos stack_cb (blocking_timeout s1 w) s2)"

lemma run_blocking:
  "fst (run_state (transfer_blocking E xdev ch buf cnt pos w) s) =
    (case run_state (blocking_map E buf cnt pos w) s of (rv, s1) \<Rightarrow>
       if rv < 0 then rv
       else case run_state (xfer_checks xdev ch w) s1 of
         (Inl rv, s2) \<Rightarrow> rv
       | (Inr e, s2) \<Rightarrow>
           fst (run_state (submit_request E (transfer_io_handler E) e pos stack_cb False (blocking_timeout s1 w)) s2))"
  by (simp add: transfer_blocking_def blocking_map_def blocking_cb_def blocking_timeout_def submit_checks case_prod_beta
      split: sum.split)

lemma blocking_reaches:
  fixes s :: hworld
  assumes "pin_kernel E" "cnt \<noteq> 0" "unat cnt < 2 ^ 30" "unat buf + unat cnt + 4096 \<le> 2 ^ 64"
    and "g = engs s (if w then H2C xdev ch else C2H xdev ch)"
    and "run_state (transfer_blocking E xdev ch buf cnt pos w) s = (r, s')"
  obtains ps where "pins E (tr (final_of (blocking_map E buf cnt pos w) s)) = pins E (tr s) @ ps"
    "blocking_handed E xdev ch buf cnt pos w s = []" "r \<le> 0"
  | ps e n t t' where "pins E (tr (final_of (blocking_map E buf cnt pos w) s)) = pins E (tr s) @ ps"
    "blocking_handed E xdev ch buf cnt pos w s = request_handed E (transfer_io_handler E) e pos stack_cb n t"
    "run_state (submit_request E (transfer_io_handler E) e pos stack_cb False n) t = (r, t')"
    "engs t e = g" "e_dir g = dir_of w" "prm t = prm s"
    "sg_bytes (g_ents (sgts t stack_cb)) = buf_bytes (blocking_cb buf cnt pos w) ps"
    "g_orig_nents (sgts t stack_cb) = length (g_ents (sgts t stack_cb))"
proof -
  let ?c = "blocking_cb buf cnt pos w" and ?H = "transfer_io_handler E" and ?e = "if w then H2C xdev ch else C2H xdev ch"
  define s0 where "s0 = s\<lparr>cbs := (cbs s)(stack_cb := ?c)\<rparr>"
  have c: "?c = cbs s0 stack_cb" "c_len ?c = cnt" "c_buf ?c = buf" "c_pages_nr ?c = 0"
    by (simp_all add: s0_def blocking_cb_def zero_cb_def)
  obtain rv s1 where map: "run_state (char_sgdma_map_user_buf_to_sgl E stack_cb w) s0 = (rv, s1)"
    by (metis prod.exhaust)
  then have map': "run_state (blocking_map E buf cnt pos w) s = (rv, s1)"
    by (simp add: blocking_map_def s0_def)
  obtain ck t where checks: "run_state (xfer_checks xdev ch w) s1 = (ck, t)"
    by (metis prod.exhaust)
  let ?n = "blocking_timeout s1 w"
  obtain r' t' where run: "run_state (submit_request E ?H ?e pos stack_cb False ?n) t = (r', t')"
    by (metis prod.exhaust)
  have "unat cnt < 2 ^ 32"
    using assms(3) by simp
  then obtain ps where ps: "pins E (tr s1) = pins E (tr s) @ ps" "rv = 0 \<Longrightarrow> buf_mapped ?c ps stack_cb s1"
    using map_buf_outcome [OF assms(1) c(1) _ _ _ c(4) map] assms(2,4) unfolding c(2,3) by (auto simp: s0_def)
  have "engines_are (engs s) (prm s) (xdevs s) s0"
    by (simp add: engines_are_def s0_def)
  then have "engines_are (engs s) (prm s) (xdevs s) s1"
    using hoareD [OF map_keeps_engines _ map] by blast
  then have e: "engs s1 = engs s" "engs t = engs s" "prm t = prm s" "sgts t = sgts s1"
    using hoareD [OF checks_frame(1) _ checks] hoareD [OF checks_frame(2) refl checks] by (auto simp: engines_are_def)
  have ck: "case ck of Inl rv \<Rightarrow> rv < 0 | Inr i \<Rightarrow> i = ?e \<and> e_dir (engs s1 i) = dir_of w"
    using checks_outcome [where d = xdev and ch = ch and w = w and s = s1] unfolding checks by simp
  have r: "r = fst (run_state (transfer_blocking E xdev ch buf cnt pos w) s)"
    by (simp add: assms(6))
  have "rv \<le> 0"
    using map_buf_codes [of E stack_cb w s0] by (simp add: map)
  then consider "rv < 0" | rv1 where "rv = 0" "ck = Inl rv1" | "rv = 0" "ck = Inr ?e"
    using ck by (cases ck) fastforce+
  then show thesis
  proof cases
    case 3
    then show thesis
      using ps checks run e ck r map'
      by (intro that(2) [of ps ?e ?n t t']) (simp_all add: run_blocking blocking_handed_def buf_mapped_def assms(5))
  qed (rule that(1) [of ps]; use ps r map' checks ck in \<open>simp add: run_blocking blocking_handed_def\<close>)+
qed


section \<open>A write of two pages\<close>

text \<open>An environment that maps a page at its own address.\<close>

definition flat_bus :: "u64 \<times> nat \<Rightarrow> u64" where
  "flat_bus b = fst b + of_nat (snd b)"

definition flat_env :: env where
  "flat_env = pinning_env\<lparr>dma_map := (\<lambda>_ ents. filter (\<lambda>(a, l). 0 < l) (map (\<lambda>(p, l, off). (p + ucast off, l)) ents))\<rparr>"

lemma flat_env_covers: "dma_covers flat_env h flat_bus"
proof -
  have "concat (map seg_bytes (filter (\<lambda>(a, l). 0 < l) (map (\<lambda>(p, l, off). (p + ucast off, l)) ents))) = map flat_bus (sg_bytes ents)"
    for ents :: "(u64 \<times> u32 \<times> u32) list"
  proof (induction ents)
    case (Cons x ents)
    obtain p l off where x: "x = (p, l, off)"
      by (metis prod.exhaust)
    have "l = 0 \<or> 0 < l"
      by (auto simp: word_less_nat_alt unat_gt_0)
    then show ?case
      using Cons by (auto simp: x flat_bus_def add.assoc)
  qed simp
  then show ?thesis
    by (auto simp: dma_covers_def flat_env_def)
qed

lemma flat_env_pins: "pin_kernel flat_env"
  by (auto simp: pin_kernel_def flat_env_def)

definition write_world :: hworld where
  "write_world = pinning_world\<lparr>prm := sample_params, engs := (\<lambda>_. sample_engine)\<rparr>"

lemma write_world_sel [simp]:
  "tr write_world = []" "prm write_world = sample_params" "engs write_world = (\<lambda>_. sample_engine)"
  by (simp_all add: write_world_def)


end
