(* ===== verification/HshaLaws.thy ===== *)
theory HshaLaws
  imports DataPath
begin

text \<open>
  Two operations on the nodes of the hash units that do not do what a reader of the file or a non-blocking
  writer expects: the read, which does not look at the position, and the refused asynchronous transfer, which
  keeps what it took.
\<close>

section \<open>Reading the digest\<close>

text \<open>A unit that stands still: its eight digest registers read \<open>ds\<close> whenever they are read.\<close>

definition steady_digest :: "env \<Rightarrow> u64 \<Rightarrow> u32 list \<Rightarrow> bool" where
  "steady_digest E un ds \<longleftrightarrow> length ds = 8 \<and> (\<forall>i<8. \<forall>h. mmio_rd E h (un + sha256_reg_off (U_hash i)) = ds ! i)"

lemma run_hash_regs:
  assumes "steady_digest E (sh_unit (shas s x)) ds" "length (sh_hash_buf (shas s x)) = 8"
  shows "\<exists>h. run_state (read_hash_regs E x) s =
      ((), s\<lparr>tr := tr s @ h, shas := (shas s)(x := (shas s x)\<lparr>sh_hash_buf := ds\<rparr>)\<rparr>) \<and> user_copies h = []"
proof -
  let ?f = "\<lambda>i. do {
     k \<leftarrow> the_sha x;
     v \<leftarrow> ioread32 E (sh_unit k + sha256_reg_off (U_hash i));
     upd_sha x (\<lambda>k. k\<lparr>sh_hash_buf := (sh_hash_buf k)[i := v]\<rparr>) }"
  have "n \<le> 8 \<Longrightarrow> \<exists>h. run_state (for_each [0..<n] ?f) s =
      ((), s\<lparr>tr := tr s @ h, shas := (shas s)(x := (shas s x)\<lparr>sh_hash_buf := take n ds @ drop n (sh_hash_buf (shas s x))\<rparr>)\<rparr>) \<and>
      user_copies h = []" for n
  proof (induction n)
    case 0
    show ?case
      by (intro exI [of _ "[]"]) simp
  next
    case (Suc n)
    from Suc.IH [OF Suc_leD [OF Suc.prems]]
    obtain h where h: "run_state (for_each [0..<n] ?f) s = ((), s\<lparr>tr := tr s @ h,
        shas := (shas s)(x := (shas s x)\<lparr>sh_hash_buf := take n ds @ drop n (sh_hash_buf (shas s x))\<rparr>)\<rparr>)" "user_copies h = []"
      by blast
    have ds: "length ds = 8" "mmio_rd E h' (sh_unit (shas s x) + sha256_reg_off (U_hash n)) = ds ! n" for h'
      using assms(1) Suc.prems by (auto simp: steady_digest_def)
    have "(take n ds @ drop n (sh_hash_buf (shas s x)))[n := ds ! n] = take (Suc n) ds @ drop (Suc n) (sh_hash_buf (shas s x))"
      using ds(1) assms(2) Suc.prems
      by (auto intro!: nth_equalityI simp: nth_append nth_list_update not_less less_Suc_eq)
    then show ?case
      using h ds(1) Suc.prems
      by (intro exI [of _ "h @ [MmioR (sh_unit (shas s x) + sha256_reg_off (U_hash n)) (ds ! n)]"]) (simp add: ds(2) del: sha256_reg_off.simps, simp add: fun_upd_def)
  qed
  from this [of 8] show ?thesis
    using assms(2) by (simp add: read_hash_regs_def steady_digest_def assms(1) [unfolded steady_digest_def])
qed

lemma sint_small64: "unat (w :: u64) < 2 ^ 63 \<Longrightarrow> sint w = int (unat w)"
  unfolding sint_uint by (subst signed_take_bit_int_eq_self) (simp_all add: uint_nat del: of_nat_unat)

text \<open>
  C37: a read of the digest through the PCIe node, at position \<open>p\<close>. It copies the first bytes of the digest,
  as many as were asked for or as there are after \<open>p\<close>, and not the bytes from \<open>p\<close> on; the count and the new
  position are those of a read from \<open>p\<close> on. At a position beyond the digest the number of bytes left wraps
  around, and a read of more than 32 bytes leaves the buffer.
\<close>

theorem sha256_read_ignores_position:
  fixes s :: hworld
  assumes "steady_digest E (sh_unit (shas s x)) ds" "length (sh_hash_buf (shas s x)) = 8" "x = f_private_data (fl s)"
    and "\<And>h a n. ufault E h a n = 0" "p < 2 ^ 62"
    and "run_state (sha256_read E buf cnt (int p)) s = (r, s')"
  defines "n \<equiv> min (unat cnt) (32 - p)"
  shows "if p \<le> 32
    then r = (int n, int (p + n)) \<and>
      user_copies (tr s') = user_copies (tr s) @ (if n = 0 then [] else [take n (concat (map le_bytes ds))])
    else 32 < cnt \<longrightarrow> last (tr s') = Oops"
proof -
  let ?x = "f_private_data (fl s)" and ?rem = "32 - of_nat p :: u64"
  obtain h where h: "run_state (read_hash_regs E ?x) s =
      ((), s\<lparr>tr := tr s @ h, shas := (shas s)(?x := (shas s ?x)\<lparr>sh_hash_buf := ds\<rparr>)\<rparr>)" "user_copies h = []"
    using run_hash_regs assms(1-3) by blast
  have p: "unat (of_nat p :: u64) = p"
    using assms(5) by (simp add: unat_of_nat)
  show ?thesis
  proof (cases "p \<le> 32")
    case True
    then have "unat ?rem = 32 - p"
      using p by (subst unat_sub) (simp_all add: word_le_nat_alt)
    define m where "m = (if cnt < ?rem then cnt else ?rem)"
    have m: "unat m = n" "n \<le> 32"
      using \<open>unat ?rem = 32 - p\<close> by (auto simp: m_def n_def word_less_nat_alt)
    have sum: "unat (of_nat p + m) = p + n"
      using p m assms(5) by (simp add: unat_word_ariths)
    have ints: "sint m = int n" "sint (of_nat p + m) = int (p + n)"
      using m sum True by (simp_all add: sint_small64)
    have le: "\<not> 32 < m"
      using m by (simp add: word_less_nat_alt)
    show ?thesis
    proof (cases "m = 0")
      case True
      then have "n = 0" "run_state (sha256_read E buf cnt (int p)) s = ((0, int p), s)"
        using m by (simp_all add: sha256_read_def m_def [symmetric])
      then show ?thesis
        using assms(6) \<open>p \<le> 32\<close> by simp
    next
      case False
      then have "n \<noteq> 0"
        using m(1) by (auto simp: unat_eq_zero simp flip: m(1))
      then show ?thesis
        using assms(4,6) False h le ints m \<open>p \<le> 32\<close>
        by (auto simp: sha256_read_def m_def [symmetric])
    qed
  next
    case False
    have "uint ?rem = 2 ^ 64 + 32 - int p"
    proof -
      have "?rem = of_int (2 ^ 64 + 32 - int p)"
        by simp
      then show ?thesis
        using False assms(5) by (simp only: uint_word_of_int) (simp add: take_bit_int_eq_self_iff)
    qed
    then have "32 < uint ?rem"
      using assms(5) by simp
    then have "32 < ?rem"
      by (simp add: word_less_def)
    then have "32 < (if cnt < ?rem then cnt else ?rem) \<and> (if cnt < ?rem then cnt else ?rem) \<noteq> 0" if "32 < cnt"
      using that by auto
    then show ?thesis
      using False assms(6) h by (auto simp: sha256_read_def)
  qed
qed

text \<open>A unit at address 0 whose digest registers hold their own addresses.\<close>

definition reading_env :: env where
  "reading_env = sample_env\<lparr>mmio_rd := (\<lambda>_ a. ucast a)\<rparr>"

lemma reading_env_steady: "steady_digest reading_env 0 [0x20, 0x24, 0x28, 0x2C, 0x30, 0x34, 0x38, 0x3C]"
proof -
  have "i < 8 \<longleftrightarrow> i = 0 \<or> i = 1 \<or> i = 2 \<or> i = 3 \<or> i = 4 \<or> i = 5 \<or> i = 6 \<or> i = 7" for i :: nat
    by linarith
  then show ?thesis
    by (auto simp: steady_digest_def reading_env_def)
qed

lemma sha256_read_ignores_position_witness:
  "\<exists>s'. run_state (sha256_read reading_env 0x5000 16 16) event_world = ((16, 32), s') \<and>
     user_copies (tr s') = [[0x20, 0, 0, 0, 0x24, 0, 0, 0, 0x28, 0, 0, 0, 0x2C, 0, 0, 0]]"
proof -
  have dev: "sh_unit (shas event_world 0x7000) = 0" "length (sh_hash_buf (shas event_world 0x7000)) = 8"
    "0x7000 = f_private_data (fl event_world)" "ufault reading_env h a n = 0" for h a n
    by (simp_all add: zero_sha256_def reading_env_def sample_env_def)
  have "run_state (sha256_read reading_env 0x5000 16 (int 16)) event_world =
      (fst (run_state (sha256_read reading_env 0x5000 16 (int 16)) event_world), final_of (sha256_read reading_env 0x5000 16 (int 16)) event_world)"
    by simp
  from sha256_read_ignores_position [OF _ dev(2-4) _ this, of "[0x20, 0x24, 0x28, 0x2C, 0x30, 0x34, 0x38, 0x3C]"] reading_env_steady
  show ?thesis
    by (intro exI [of _ "final_of (sha256_read reading_env 0x5000 16 (int 16)) event_world"]) (simp add: zero_sha256_def prod_eq_iff le_bytes_def)
qed

section \<open>A refused asynchronous transfer\<close>

text \<open>The pages pinned and released so far.\<close>

definition books_are :: "env \<Rightarrow> u64 list \<Rightarrow> u64 list \<Rightarrow> 'a kworld_scheme \<Rightarrow> bool" where
  "books_are E p u s \<longleftrightarrow> pins E (tr s) = p \<and> puts (tr s) = u"

lemma books_lock: "keeps (books_are E p u) (lock_acquire l k)" "keeps (books_are E p u) (lock_release l k)"
  by (simp_all add: hoare_def books_are_def pins_append puts_def)

lemma checks_books: "keeps (books_are E p u) (xfer_checks d ch w)"
  unfolding xfer_checks_def debug_check_dev_hndl_def xdev_find_by_pdev_def select_engine_def xdma_device_flag_check_def
  by (intro books_lock keeps_return keeps_bind keeps_if keeps_let keeps_gets keeps_option)

lemma checks_offline:
  assumes "x_flags (xdevs s d) AND XDEV_FLAG_OFFLINE \<noteq> 0" "e_xdev (engs s (if w then H2C d ch else C2H d ch)) = d"
  shows "fst (run_state (xfer_checks d ch w) s) \<in> {Inl (- EINVAL), Inl (- EBUSY)}"
  using assms by (cases w; simp add: xfer_checks_def debug_check_dev_hndl_def xdev_find_by_pdev_def select_engine_def
      xdma_device_flag_check_def case_prod_beta)

lemma nowait_refused:
  assumes "run_state (xfer_checks d ch w) s = (Inl rv, s1)"
  shows "run_state (xdma_xfer_submit_nowait E H cb d ch w ep sgt m) s = (rv, s1)"
  using assms by (auto simp: xdma_xfer_submit_nowait_def xfer_checks_def case_prod_beta split: if_splits option.splits)

text \<open>
  C36: a non-blocking transfer to a device that is offline. The buffer is mapped before the device is looked at;
  when the submission is then refused, with \<open>-EBUSY\<close> or \<open>-EINVAL\<close>, nothing releases the pages that were pinned for
  it: no completion will be called, and the control block that knows them is not kept anywhere.
\<close>

theorem refused_nonblocking_leaks:
  fixes s :: hworld
  assumes "pin_kernel E" "cnt \<noteq> 0" "unat cnt < 2 ^ 32" "unat buf + unat cnt + 4096 \<le> 2 ^ 64"
    and "x_flags (xdevs s d) AND XDEV_FLAG_OFFLINE \<noteq> 0" "e_xdev (engs s (if w then H2C d ch else C2H d ch)) = d"
    and "run_state (kptr E K_kzalloc [0]) s = (cb, s0)" "cb \<noteq> 0"
    and "c = zero_cb\<lparr>c_buf := buf, c_len := cnt, c_ep_addr := pos, c_write := w, c_private := k, c_io_done := True\<rparr>"
    and "run_state (char_sgdma_map_user_buf_to_sgl E cb w) (s0\<lparr>cbs := (cbs s0)(cb := c)\<rparr>) = (0, s1)"
    and "run_state (transfer_nonblocking E k d ch buf cnt pos w) s = (r, s')"
  shows "r \<in> {- EINVAL, - EBUSY} \<and> puts (tr s') = puts (tr s) \<and>
    (\<exists>ps. ps \<noteq> [] \<and> pins E (tr s') = pins E (tr s) @ ps)"
proof -
  let ?s = "s0\<lparr>cbs := (cbs s0)(cb := c)\<rparr>"
  have c: "c = cbs ?s cb" "c_len c = cnt" "c_buf c = buf" "c_pages_nr c = 0"
    by (simp_all add: assms(9) zero_cb_def)
  have s0: "pins E (tr ?s) = pins E (tr s)" "puts (tr ?s) = puts (tr s)" "engines_are (engs s) (prm s) (xdevs s) ?s"
    using assms(7) by (auto simp: pins_append puts_def engines_are_def)
  obtain ps h where map: "tr s1 = tr ?s @ h" "pins E (tr s1) = pins E (tr s) @ ps" "puts h = []" "buf_mapped c ps cb s1"
    using map_buf_outcome [OF assms(1) c(1) _ _ _ c(4) assms(10)] assms(2-4) s0(1) unfolding c(2,3) by auto
  have "ps \<noteq> []"
  proof
    assume "ps = []"
    then have "buf_bytes c ps = []"
      using map(4) by (auto simp: buf_mapped_def dest: sym)
    then show False
      using assms(2) c(2) by (simp add: buf_bytes_def unat_eq_zero)
  qed
  have "engines_are (engs s) (prm s) (xdevs s) s1"
    using hoareD [OF map_keeps_engines s0(3) assms(10)] .
  then obtain rv s2 where checks: "run_state (xfer_checks d ch w) s1 = (Inl rv, s2)" "rv \<in> {- EINVAL, - EBUSY}"
    using checks_offline [where s = s1 and d = d and w = w and ch = ch] assms(5,6)
    by (cases "run_state (xfer_checks d ch w) s1") (auto simp: engines_are_def)
  then have "r = rv" "s' = s2"
    using assms(7,8,10,11) nowait_refused [OF checks(1)] by (auto simp: transfer_nonblocking_def assms(9) [symmetric])
  moreover have "books_are E (pins E (tr s) @ ps) (puts (tr s)) s2"
    using hoareD [OF checks_books _ checks(1)] map(1-3) s0(2) by (simp add: books_are_def)
  ultimately show ?thesis
    using checks(2) \<open>ps \<noteq> []\<close> by (auto simp: books_are_def)
qed

definition offline_world :: hworld where
  "offline_world = event_world\<lparr>engs := (\<lambda>_. sample_engine), xdevs := (\<lambda>_. sample_xdev\<lparr>x_flags := XDEV_FLAG_OFFLINE\<rparr>)\<rparr>"

lemma offline_world_sel [simp]:
  "tr offline_world = []" "engs offline_world = (\<lambda>_. sample_engine)"
  "xdevs offline_world = (\<lambda>_. sample_xdev\<lparr>x_flags := XDEV_FLAG_OFFLINE\<rparr>)"
  by (simp_all add: offline_world_def)

lemma refused_nonblocking_leaks_witness:
  "let (r, s') = run_state (transfer_nonblocking pinning_env 0x7000 0x100 0 0x7F00 6000 0 True) offline_world in
     r \<in> {- 22, - 16} \<and> puts (tr s') = [] \<and> pins pinning_env (tr s') \<noteq> []"
proof -
  define c where "c = zero_cb\<lparr>c_buf := 0x7F00, c_len := 6000, c_ep_addr := 0, c_write := True, c_private := 0x7000, c_io_done := True\<rparr>"
  define s0 where "s0 = offline_world\<lparr>tr := [KCall K_kzalloc [0] 0x4000]\<rparr>"
  let ?s = "s0\<lparr>cbs := (cbs s0)(0x4000 := c)\<rparr>"
  let ?map = "char_sgdma_map_user_buf_to_sgl pinning_env 0x4000 True"
  let ?run = "transfer_nonblocking pinning_env 0x7000 0x100 0 0x7F00 6000 0 True"
  have alloc: "run_state (kptr pinning_env K_kzalloc [0]) offline_world = (0x4000, s0)"
    by (simp add: s0_def)
  have "fst (run_state ?map ?s) = 0"
    by (intro pinning_runs) (simp_all add: c_def)
  then have map: "run_state ?map ?s = (0, final_of ?map ?s)"
    by (simp add: prod_eq_iff)
  have run: "run_state ?run offline_world = (fst (run_state ?run offline_world), final_of ?run offline_world)"
    by simp
  have "fst (run_state ?run offline_world) \<in> {- EINVAL, - EBUSY} \<and> puts (tr (final_of ?run offline_world)) = puts (tr offline_world) \<and>
    (\<exists>ps. ps \<noteq> [] \<and> pins pinning_env (tr (final_of ?run offline_world)) = pins pinning_env (tr offline_world) @ ps)"
    by (rule refused_nonblocking_leaks [OF pinning_env_kernel _ _ _ _ _ alloc _ c_def map run]) simp_all
  then have "fst (run_state ?run offline_world) \<in> {- EINVAL, - EBUSY}" "puts (tr (final_of ?run offline_world)) = []"
    "pins pinning_env (tr (final_of ?run offline_world)) \<noteq> []"
    by (auto simp: puts_def)
  then show ?thesis
    by (simp only: Let_def case_prod_beta) simp
qed

end
