(* ===== verification/AsyncLaws.thy ===== *)
theory AsyncLaws
  imports HshaLaws
begin

text \<open>
  The completion of an asynchronous transfer of a hash unit: \<open>transfer_io_handler\<close> gives back what the
  submission took.
\<close>

section \<open>What the completion leaves alone\<close>

text \<open>The descriptors in use, the control blocks and the nodes; and the pages released.\<close>

definition release_is ::
  "eng \<Rightarrow> u32 \<Rightarrow> (u64 \<Rightarrow> xdma_io_cb) \<Rightarrow> (u64 \<Rightarrow> sha256_dev) \<Rightarrow> hworld \<Rightarrow> bool" where
  "release_is e u a b s \<longleftrightarrow> e_desc_used (engs s e) = u \<and> cbs s = a \<and> shas s = b"

interpretation release: engine_frame "release_is e u a b"
proof unfold_locales
  fix f e' and k :: "xdma_transfer \<Rightarrow> xdma_transfer" and y
  show "keeps (release_is e u a b) (upd_eng e' f)" if "\<And>g. eng_place (f g) = eng_place g"
  proof -
    have "e_desc_used (f g) = e_desc_used g" for g
      using that [of g] by (simp add: eng_place_def ring_pos_def)
    then show ?thesis
      by (simp add: hoare_def release_is_def)
  qed
qed (simp_all add: tr_free_def release_is_def hoare_def)

text \<open>The calls of one kernel service.\<close>

definition calls_are :: "kfn \<Rightarrow> u64 list list \<Rightarrow> 'a kworld_scheme \<Rightarrow> bool" where
  "calls_are f u s \<longleftrightarrow> calls f (tr s) = u"

lemma calls_kernel:
  "g \<noteq> f \<Longrightarrow> keeps (calls_are f u) (kproc g args)" "g \<noteq> f \<Longrightarrow> keeps (calls_are f u) (kcall E g args)"
  by (simp_all add: hoare_def calls_are_def)

lemma calls_upd:
  "keeps (calls_are f u) (upd_eng e g)" "keeps (calls_are f u) (upd_sgt t l)" "keeps (calls_are f u) (upd_desc e i d)"
  "keeps (calls_are f u) (upd_cb cb q)"
  by (simp_all add: hoare_def calls_are_def upd_desc_def)

lemmas calls_rules = keeps_return keeps_bind keeps_if keeps_when keeps_let keeps_gets keeps_for_each calls_kernel calls_upd

lemma calls_destroy: "f \<noteq> K_pci_unmap_sg \<Longrightarrow> keeps (calls_are f u) (transfer_destroy E d x)"
  unfolding transfer_destroy_def xdma_desc_done_def by (intro calls_rules) auto

lemma calls_unmap_sgl: "f \<noteq> K_pci_unmap_sg \<Longrightarrow> keeps (calls_are f u) (unmap_sgl pdev sgt m)"
  unfolding unmap_sgl_def by (intro calls_rules) auto

lemma calls_request_free: "f \<notin> {K_is_vmalloc, K_vfree, K_kfree} \<Longrightarrow> keeps (calls_are f u) (xdma_request_free E req)"
  unfolding xdma_request_free_def by (intro calls_rules) auto

lemma calls_unmap_buf:
  assumes "f \<notin> {K_sg_free_table, K_kfree, K_set_page_dirty_lock, K_put_page}"
  shows "keeps (calls_are f u) (char_sgdma_unmap_user_buf cb w)"
proof -
  have "keeps (calls_are f u) (unmap_pages ps w)" for ps
    by (induction ps) (use assms in \<open>auto intro!: calls_rules\<close>)
  then show ?thesis
    unfolding char_sgdma_unmap_user_buf_def using assms by (intro calls_rules) auto
qed

text \<open>A table that is mapped is unmapped once, by the destruction of the last transfer or after it.\<close>

lemma destroy_unmaps:
  assumes "t_last_in_request (xfers s x) \<Longrightarrow> t_sgt (xfers s x) = sgt" "run_state (transfer_destroy E d x) s = (u, s1)"
    and "run_state (unmap_sgl pdev sgt False) (s1\<lparr>engs := g\<rparr>) = (v, s2)"
  shows "length (calls K_pci_unmap_sg (tr s2)) = length (calls K_pci_unmap_sg (tr s)) + (if g_nents (sgts s sgt) = 0 then 0 else 1)"
  using assms by (auto simp: transfer_destroy_def unmap_sgl_def split: if_splits)

section \<open>The completion\<close>

text \<open>How often a table was unmapped from the device.\<close>

abbreviation (input) unmaps :: "'a kworld_scheme \<Rightarrow> nat" where
  "unmaps s \<equiv> length (calls K_pci_unmap_sg (tr s))"

lemma run_completion:
  fixes s :: hworld
  assumes "e = (if w then H2C d ch else C2H d ch)" "ch < (if w then x_h2c_channel_max (xdevs s d) else x_c2h_channel_max (xdevs s d))"
    and "e_magic (engs s e) = MAGIC_ENGINE" "req = c_req (cbs s cb)" "req \<noteq> 0" "t = xfers s (Tfer req 0)"
    and "t_state t = TRANSFER_STATE_COMPLETED" "t_desc_num t = r_sw_desc_cnt (reqs s req)" "t_desc_num t \<noteq> 0"
    and "t_last_in_request t \<Longrightarrow> t_sgt t = sgt"
    and "run_state (xdma_xfer_completion E cb d ch w sgt False) s = (r, s')"
  shows "release_is e (e_desc_used (engs s e) - t_desc_num t) (cbs s) (shas s) s' \<and>
    calls K_put_page (tr s') = calls K_put_page (tr s) \<and> unmaps s' = unmaps s + (if g_nents (sgts s sgt) = 0 then 0 else 1)"
proof -
  let ?x = "Tfer req 0" and ?n = "r_sw_desc_cnt (reqs s req)" and ?P = "calls_are K_put_page (calls K_put_page (tr s))"
  define s1 where "s1 = final_of (transfer_destroy E (e_xdev (engs s e)) ?x) s"
  define g where "g = (engs s1)(e := (engs s1 e)\<lparr>e_desc_used := e_desc_used (engs s1 e) - ?n\<rparr>)"
  define s2 where "s2 = s1\<lparr>engs := g\<rparr>"
  define s3 where "s3 = final_of (unmap_sgl (x_pdev (xdevs s2 (e_xdev (engs s e)))) sgt False) s2"
  have 1: "release_is e (e_desc_used (engs s e)) (cbs s) (shas s) s1" "?P s1"
    unfolding s1_def by (rule hoare_final [OF release.destroy_frame] hoare_final [OF calls_destroy]; simp add: release_is_def calls_are_def)+
  have 2: "release_is e (e_desc_used (engs s e) - t_desc_num t) (cbs s) (shas s) s2" "?P s2"
    using 1 by (simp_all add: s2_def g_def release_is_def calls_are_def assms(8))
  have 3: "release_is e (e_desc_used (engs s e) - t_desc_num t) (cbs s) (shas s) s3" "?P s3"
    unfolding s3_def using 2 by (simp_all add: unmap_sgl_def release_is_def calls_are_def)
  have un: "unmaps s3 = unmaps s + (if g_nents (sgts s sgt) = 0 then 0 else 1)"
    unfolding s3_def s2_def s1_def
    by (rule destroy_unmaps [where x = ?x and g = g, OF _ prod.collapse [symmetric] prod.collapse [symmetric]])
      (use assms(6,10) in simp)
  have loop: "final_of (completion_loop 2 0 E e req ?n 0) s = s2"
  proof -
    have rest: "run_state (completion_loop (Suc 0) (Suc 0) E e req 0 don) s2 = (don, s2)" for don
      by (simp add: completion_loop.simps)
    show ?thesis
      using assms(7-9) unfolding numeral_2_eq_2 completion_loop.simps [of "Suc (Suc 0)"] assms(6)
      by (simp add: Let_def s1_def [symmetric] g_def [symmetric] s2_def [symmetric] rest case_prod_beta prod_eq_iff assms(6) [symmetric])
  qed
  have "s' = final_of (xdma_request_free E req) s3"
  proof -
    have "run_state (select_engine d ch w) s = (Some e, s)"
      using assms(1,2) by (cases w) (simp_all add: select_engine_def)
    then show ?thesis
      using assms(5,11) by (auto simp: xdma_xfer_completion_def assms(3) assms(4) [symmetric] loop s3_def [symmetric] case_prod_beta)
  qed
  moreover have "release_is e (e_desc_used (engs s e) - t_desc_num t) (cbs s) (shas s) (final_of (xdma_request_free E req) s3)"
    "?P (final_of (xdma_request_free E req) s3)" "calls_are K_pci_unmap_sg (calls K_pci_unmap_sg (tr s3)) (final_of (xdma_request_free E req) s3)"
    using 3 by (simp_all add: xdma_request_free_def release_is_def calls_are_def case_prod_beta)
  ultimately show ?thesis
    using un by (simp add: calls_are_def)
qed

text \<open>The end of the handler: the pages go back, and the control block.\<close>

lemma unmap_buf_keeps: "keeps (\<lambda>s. engs s = g \<and> shas s = h) (char_sgdma_unmap_user_buf cb w)"
proof -
  have frame: "tr_free (\<lambda>s. engs s = g \<and> shas s = h)" "keeps (\<lambda>s. engs s = g \<and> shas s = h) (upd_sgt t l)"
    "keeps (\<lambda>s. engs s = g \<and> shas s = h) (upd_cb q r)" for t l q r
    by (simp_all add: tr_free_def hoare_def)
  have "keeps (\<lambda>s. engs s = g \<and> shas s = h) (unmap_pages ps w)" for ps
    by (induction ps) (auto intro!: hoare_rules frame)
  then show ?thesis
    unfolding char_sgdma_unmap_user_buf_def by (intro hoare_rules frame)
qed

text \<open>
  C35: the completion of an asynchronous transfer without an error. The node, the device and the engine are
  valid, and the request went to the hardware in one transfer, which is complete. The handler gives
  everything back: the ring descriptors are no longer in use, the table is unmapped from the device exactly
  once, each page of the buffer is released exactly once, the node has one transfer less outstanding, and
  the control block is freed last.
\<close>

theorem async_completion_releases:
  fixes s :: hworld
  assumes "c = cbs s cb" "k = shas s (c_private c)" "e = k_engine k" "g = engs s e" "d = k_xdev k" "x = xdevs s d"
    and "c_private c \<noteq> 0" "k_magic k = MAGIC_CHAR" "d \<noteq> 0" "x_magic x = MAGIC_DEVICE" "e_magic g = MAGIC_ENGINE"
    and "if c_write c then e = H2C d (e_channel g) \<and> e_channel g < x_h2c_channel_max x
         else e = C2H d (e_channel g) \<and> e_channel g < x_c2h_channel_max x"
    and "t = xfers s (Tfer (c_req c) 0)" "c_req c \<noteq> 0" "t_state t = TRANSFER_STATE_COMPLETED"
    and "t_desc_num t = r_sw_desc_cnt (reqs s (c_req c))" "t_desc_num t \<noteq> 0" "t_last_in_request t" "t_sgt t = cb"
    and "g_nents (sgts s cb) \<noteq> 0"
    and "c_pages_ptr c \<noteq> 0" "take (unat (c_pages_nr c)) (c_pages c) = ps" "ps \<noteq> []" "0 \<notin> set ps"
    and "run_state (transfer_io_handler E cb 0) s = (u, s')"
  shows "puts (tr s') = puts (tr s) @ ps \<and> unmaps s' = unmaps s + 1 \<and>
    e_desc_used (engs s' e) = e_desc_used g - t_desc_num t \<and>
    sh_submit_cnt (shas s' (c_private c)) = sh_submit_cnt k - 1 \<and> last (tr s') = KCall K_kfree [cb] 0"
proof -
  let ?w = "c_write c" and ?p = "c_private c"
  obtain r s1 where run1: "run_state (xdma_xfer_completion E cb d (e_channel g) ?w cb False) s = (r, s1)"
    by (metis prod.exhaust)
  have sel: "e = (if ?w then H2C d (e_channel g) else C2H d (e_channel g))"
    "e_channel g < (if ?w then x_h2c_channel_max (xdevs s d) else x_c2h_channel_max (xdevs s d))" "e \<noteq> NoEngine"
    using assms(6,12) by (auto split: if_splits)
  have 1: "release_is e (e_desc_used g - t_desc_num t) (cbs s) (shas s) s1" "calls K_put_page (tr s1) = calls K_put_page (tr s)"
    "unmaps s1 = unmaps s + 1"
    using run_completion [OF sel(1,2) _ _ assms(14,13,15-17) _ run1] assms(1,4,11,19,20) by auto
  define h where "h = [Lock LkSha [unat ?p]] @ [Wake WqSha [unat ?p]] @ [Unlock LkSha [unat ?p]]"
  define s2 where "s2 = s1\<lparr>tr := tr s1 @ h, shas := (shas s1)(?p := (shas s1 ?p)\<lparr>sh_submit_cnt := sh_submit_cnt (shas s1 ?p) - 1\<rparr>)\<rparr>"
  define s3 where "s3 = final_of (char_sgdma_unmap_user_buf cb ?w) s2"
  have run: "s' = s3\<lparr>tr := tr s3 @ [KCall K_kfree [cb] 0]\<rparr>"
  proof -
    have fields: "cbs s cb = c" "shas s ?p = k" "engs s e = g" "k_xdev k = d" "xdevs s d = x" "k_engine k = e"
      using assms(1-6) by simp_all
    have "run_state (xcdev_check ?p True) s = (0, s)"
      using sel(3) by (simp add: xcdev_check_def fields assms(7-11))
    moreover have "s' = final_of (transfer_io_handler E cb 0) s"
      using assms(25) by simp
    ultimately show ?thesis
      by (simp add: transfer_io_handler_def Let_def fields run1 case_prod_beta s2_def h_def s3_def)
  qed
  have "cbs s2 cb = c"
    using 1(1) by (simp add: s2_def release_is_def assms(1))
  then obtain h3 where h3: "tr s3 = tr s2 @ h3" "puts h3 = ps"
    using run_unmap_buf [of ps s2 cb ?w] assms(21-24) unfolding s3_def by (cases "c_pages_nr c = 0") auto
  have "engs s3 = engs s2 \<and> shas s3 = shas s2"
    unfolding s3_def by (rule hoare_final [OF unmap_buf_keeps]) simp
  moreover have "calls_are K_pci_unmap_sg (calls K_pci_unmap_sg (tr s2)) s3"
    unfolding s3_def by (rule hoare_final [OF calls_unmap_buf]) (simp_all add: calls_are_def)
  ultimately show ?thesis
    using 1 h3 by (simp add: run s2_def h_def release_is_def calls_are_def puts_def assms(2))
qed

section \<open>A completed write of two pages\<close>

definition done_cb :: xdma_io_cb where
  "done_cb = zero_cb\<lparr>c_private := 0x7000, c_req := 1, c_write := True, c_pages := [0x1000, 0x2000], c_pages_nr := 2,
     c_pages_ptr := 0x4000\<rparr>"

definition done_world :: hworld where
  "done_world = event_world\<lparr>engs := (\<lambda>_. sample_engine), xdevs := (\<lambda>_. sample_xdev), sgts := (\<lambda>_. sample_sgt),
     reqs := (\<lambda>_. sample_request), cbs := (\<lambda>_. done_cb),
     xfers := (\<lambda>_. zero_transfer\<lparr>t_state := TRANSFER_STATE_COMPLETED, t_desc_num := 3, t_last_in_request := True,
       t_sgt := 0x9000, t_flags := XFER_FLAG_NEED_UNMAP\<rparr>),
     shas := (\<lambda>_. zero_sha256\<lparr>k_magic := MAGIC_CHAR, k_xdev := 0x100, k_engine := H2C 0x100 0, sh_submit_cnt := 1\<rparr>)\<rparr>"

lemma done_world_sel [simp]:
  "tr done_world = []" "engs done_world = (\<lambda>_. sample_engine)" "xdevs done_world = (\<lambda>_. sample_xdev)"
  "sgts done_world = (\<lambda>_. sample_sgt)" "reqs done_world = (\<lambda>_. sample_request)" "cbs done_world = (\<lambda>_. done_cb)"
  "xfers done_world = (\<lambda>_. zero_transfer\<lparr>t_state := TRANSFER_STATE_COMPLETED, t_desc_num := 3, t_last_in_request := True,
     t_sgt := 0x9000, t_flags := XFER_FLAG_NEED_UNMAP\<rparr>)"
  "shas done_world = (\<lambda>_. zero_sha256\<lparr>k_magic := MAGIC_CHAR, k_xdev := 0x100, k_engine := H2C 0x100 0, sh_submit_cnt := 1\<rparr>)"
  by (simp_all add: done_world_def)

lemma async_completion_releases_witness:
  "let s' = final_of (transfer_io_handler sample_env 0x9000 0) done_world in
   puts (tr s') = [0x1000, 0x2000] \<and> unmaps s' = 1 \<and> sh_submit_cnt (shas s' 0x7000) = 0"
proof -
  have "puts (tr (final_of (transfer_io_handler sample_env 0x9000 0) done_world)) = puts (tr done_world) @ [0x1000, 0x2000] \<and>
      unmaps (final_of (transfer_io_handler sample_env 0x9000 0) done_world) = unmaps done_world + 1 \<and>
      e_desc_used (engs (final_of (transfer_io_handler sample_env 0x9000 0) done_world) (H2C 0x100 0)) = e_desc_used sample_engine - 3 \<and>
      sh_submit_cnt (shas (final_of (transfer_io_handler sample_env 0x9000 0) done_world) 0x7000) = 1 - 1 \<and>
      last (tr (final_of (transfer_io_handler sample_env 0x9000 0) done_world)) = KCall K_kfree [0x9000] 0"
    using async_completion_releases [where s = done_world and cb = "0x9000" and E = sample_env and ps = "[0x1000, 0x2000]",
        OF refl refl refl refl refl refl _ _ _ _ _ _ refl _ _ _ _ _ _ _ _ _ _ _ prod.collapse [symmetric]]
    by (simp add: done_cb_def sample_xdev_def sample_engine_def)
  then show ?thesis
    by (simp add: puts_def)
qed

end
