(* ===== verification/DeviceLaws.thy ===== *)
theory DeviceLaws
  imports Device
begin

text \<open>
  The list of devices: devices come and go in any order, and no two that are in it have the same number.
\<close>

section \<open>The completion threads leave the list alone\<close>

definition devs_are :: "(u64 \<Rightarrow> xdma_dev) \<Rightarrow> u64 list \<Rightarrow> 'a tworld_scheme \<Rightarrow> bool" where
  "devs_are X ds s \<longleftrightarrow> xdevs s = X \<and> xdev_list s = ds"

lemma tr_free_devs: "tr_free (devs_are X ds)"
  by (simp add: tr_free_def devs_are_def)

lemma devs_thread: "keeps (devs_are X ds) (upd_thread i f)"
  by (simp add: hoare_def devs_are_def)

lemma devs_modify: "(\<And>s. xdevs (f s) = xdevs s \<and> xdev_list (f s) = xdev_list s) \<Longrightarrow> keeps (devs_are X ds) (modify_st f)"
  by (simp add: hoare_def devs_are_def)

lemmas devs_rules = hoare_rules tr_free_devs devs_thread

lemma devs_start_threads: "keeps (devs_are X ds) (start_threads E n cpus)"
  by (induction cpus) (auto simp: xdma_kthread_start_def intro!: devs_rules devs_modify)

lemma devs_threads_create: "keeps (devs_are X ds) (xdma_threads_create E cpus n)"
  unfolding xdma_threads_create_def by (intro devs_rules devs_start_threads devs_modify) simp_all

lemma devs_threads_destroy: "keeps (devs_are X ds) (xdma_threads_destroy E)"
  unfolding xdma_threads_destroy_def stop_threads_def xdma_kthread_stop_def by (intro devs_rules devs_modify) simp_all

section \<open>Adding and removing\<close>

text \<open>The number a new device gets.\<close>

definition next_idx :: "'a tworld_scheme \<Rightarrow> int" where
  "next_idx s = (if xdev_list s = [] then 0 else x_idx (xdevs s (last (xdev_list s))) + 1)"

lemma list_add_devs:
  assumes "run_state (xdev_list_add E cpus d) s = (rv, s')"
  shows "xdevs s' = (xdevs s)(d := (xdevs s d)\<lparr>x_idx := next_idx s\<rparr>) \<and>
    xdev_list s' = (if rv < 0 then xdev_list s else xdev_list s @ [d])"
proof (cases "xdev_list s = []")
  case True
  let ?s = "s\<lparr>tr := tr s @ [Lock LkList []], xdevs := (xdevs s)(d := (xdevs s d)\<lparr>x_idx := 0\<rparr>)\<rparr>"
  let ?p = "xdma_threads_create E cpus (x_h2c_channel_max (xdevs s d) + x_c2h_channel_max (xdevs s d))"
  have "devs_are (xdevs ?s) [] (final_of ?p ?s)"
    by (rule hoare_final [OF devs_threads_create]) (simp add: devs_are_def True)
  then show ?thesis
    using assms True
    by (cases "poll_mode (prm s)"; cases "run_state ?p ?s")
      (auto simp: xdev_list_add_def xdev_list_append_def next_idx_def devs_are_def split: if_splits)
next
  case False
  then show ?thesis
    using assms by (auto simp: xdev_list_add_def xdev_list_append_def next_idx_def)
qed

lemma list_remove_devs:
  assumes "s' = final_of (xdev_list_remove E d) s"
  shows "xdevs s' = xdevs s \<and> xdev_list s' = remove1 d (xdev_list s)"
proof (cases "poll_mode (prm s) \<and> remove1 d (xdev_list s) = []")
  case True
  let ?s = "s\<lparr>tr := tr s @ [Lock LkList []], xdev_list := []\<rparr>"
  have "devs_are (xdevs s) [] (final_of (xdma_threads_destroy E) ?s)"
    by (rule hoare_final [OF devs_threads_destroy]) (simp add: devs_are_def)
  then show ?thesis
    using assms True by (cases "run_state (xdma_threads_destroy E) ?s") (simp add: xdev_list_remove_def devs_are_def)
next
  case False
  then show ?thesis
    using assms by (auto simp: xdev_list_remove_def)
qed

section \<open>A history of the list\<close>

text \<open>
  The numbers grow along the list. \<open>fresh\<close>: a device that is added was allocated after the ones in the list, so
  that it is not one of them.
\<close>

definition numbered :: "'a tworld_scheme \<Rightarrow> bool" where
  "numbered s \<longleftrightarrow> sorted_wrt (<) (map (\<lambda>d. x_idx (xdevs s d)) (xdev_list s))"

datatype list_op = AddDev u64 | RemoveDev u64

fun run_op :: "env \<Rightarrow> nat list \<Rightarrow> list_op \<Rightarrow> 'a tworld_scheme \<Rightarrow> 'a tworld_scheme" where
  "run_op E cpus (AddDev d) s = final_of (xdev_list_add E cpus d) s"
| "run_op E cpus (RemoveDev d) s = final_of (xdev_list_remove E d) s"

fun fresh :: "list_op \<Rightarrow> 'a tworld_scheme \<Rightarrow> bool" where
  "fresh (AddDev d) s \<longleftrightarrow> d \<notin> set (xdev_list s)"
| "fresh (RemoveDev d) s \<longleftrightarrow> True"

lemma numbered_last:
  assumes "numbered s" "d \<in> set (xdev_list s)"
  shows "x_idx (xdevs s d) < next_idx s"
proof -
  obtain ds l where "xdev_list s = ds @ [l]"
    using assms(2) by (metis empty_iff list.set(1) rev_exhaust)
  then show ?thesis
    using assms by (auto simp: numbered_def next_idx_def sorted_wrt_append)
qed

lemma numbered_add:
  assumes "numbered s" "d \<notin> set (xdev_list s)"
  shows "numbered (final_of (xdev_list_add E cpus d) s)"
proof -
  obtain rv s' where r: "run_state (xdev_list_add E cpus d) s = (rv, s')"
    by (metis prod.exhaust)
  note devs = list_add_devs [OF r]
  have same: "map (\<lambda>e. x_idx (xdevs s' e)) (xdev_list s) = map (\<lambda>e. x_idx (xdevs s e)) (xdev_list s)"
    using devs assms(2) by auto
  have old: "sorted_wrt (<) (map (\<lambda>e. x_idx (xdevs s' e)) (xdev_list s))"
    unfolding same using assms(1) by (simp add: numbered_def)
  have "x_idx (xdevs s' d) = next_idx s" "\<forall>e\<in>set (xdev_list s). x_idx (xdevs s' e) < next_idx s"
    using devs assms(2) numbered_last [OF assms(1)] by auto
  then have "numbered s'"
    using old devs by (simp add: numbered_def sorted_wrt_append)
  then show ?thesis
    using r by simp
qed

lemma sorted_wrt_remove1: "sorted_wrt P xs \<Longrightarrow> sorted_wrt P (remove1 x xs)"
  by (induction xs) (auto dest: notin_set_remove1)

lemma numbered_remove:
  assumes "numbered s"
  shows "numbered (final_of (xdev_list_remove E d) s)"
  using assms list_remove_devs [of _ E d s] sorted_wrt_remove1 [of "\<lambda>a b. x_idx (xdevs s a) < x_idx (xdevs s b)" "xdev_list s" d]
  by (simp add: numbered_def sorted_wrt_map)

text \<open>
  C22: devices that are present at the same time have different numbers. Whatever the order in which devices
  are added and removed, and whether or not an addition fails, the numbers of the devices in the list are
  pairwise different and the devices are listed in the order of their numbers.
\<close>

theorem devices_numbered:
  assumes "numbered s" "\<And>i. i < length ops \<Longrightarrow> fresh (ops ! i) (fold (run_op E cpus) (take i ops) s)"
    and "s' = fold (run_op E cpus) ops s"
  shows "sorted_wrt (<) (map (\<lambda>d. x_idx (xdevs s' d)) (xdev_list s')) \<and> distinct (xdev_list s') \<and>
    inj_on (\<lambda>d. x_idx (xdevs s' d)) (set (xdev_list s'))"
proof -
  have "numbered s'"
    using assms
  proof (induction ops arbitrary: s)
    case (Cons op ops)
    have "numbered (run_op E cpus op s)"
      using Cons.prems(1) Cons.prems(2) [of 0] by (cases op) (simp_all add: numbered_add numbered_remove)
    moreover have "fresh (ops ! i) (fold (run_op E cpus) (take i ops) (run_op E cpus op s))" if "i < length ops" for i
      using Cons.prems(2) [of "Suc i"] that by simp
    ultimately show ?case
      using Cons.IH Cons.prems(3) by simp
  qed simp
  then have "distinct (map (\<lambda>d. x_idx (xdevs s' d)) (xdev_list s'))"
    by (simp add: numbered_def strict_sorted_iff)
  then show ?thesis
    using \<open>numbered s'\<close> by (simp add: numbered_def distinct_map)
qed

definition empty_world :: tworld where
  "empty_world = xworld.extend (sample_world\<lparr>xdev_list := []\<rparr>)
     \<lparr>cs_threads = 0, threads = (\<lambda>_. zero_kthread), thread_cnt = 0\<rparr>"

lemma empty_world_sel [simp]: "xdev_list empty_world = []" "prm empty_world = sample_params"
  by (simp_all add: empty_world_def xworld.extend_def sample_world_def)

lemma devices_numbered_witness:
  "distinct (xdev_list (fold (run_op sample_env [0]) [AddDev 0x100, AddDev 0x200, RemoveDev 0x100] empty_world))"
proof -
  let ?ops = "[AddDev 0x100, AddDev 0x200, RemoveDev 0x100]"
  have "numbered empty_world"
    by (simp add: numbered_def)
  moreover have "fresh (?ops ! i) (fold (run_op sample_env [0]) (take i ?ops) empty_world)" if "i < length ?ops" for i
  proof -
    from that consider "i = 0" | "i = 1" | "i = 2"
      by force
    then show ?thesis
      by cases (simp_all add: xdev_list_add_def xdev_list_append_def)
  qed
  ultimately show ?thesis
    using devices_numbered [of empty_world ?ops sample_env "[0]", OF _ _ refl] by blast
qed

end
