(* ===== verification/ModLaws.thy ===== *)
theory ModLaws
  imports XdmaMod NodeLaws
begin

text \<open>
  What a probe does: the library leaves the structures of the driver alone; a probe whose device cannot be
  opened finds them in its error path as \<open>xpdev_alloc\<close> left them; one that succeeds binds a well-formed
  structure to the PCI function.
\<close>

section \<open>The library leaves the driver's structures alone\<close>

text \<open>The part of the state that belongs to the driver above the library.\<close>

definition apart :: "'a \<Rightarrow> 'a tworld_scheme \<Rightarrow> bool" where
  "apart m s \<longleftrightarrow> tworld.more s = m"

lemma tr_free_apart: "tr_free (apart m)"
  by (simp add: tr_free_def apart_def)

lemma apart_upd:
  "keeps (apart m) (upd_eng e f)" "keeps (apart m) (upd_xfer x g)" "keeps (apart m) (upd_xdev d h)"
  "keeps (apart m) (upd_thread i k)"
  by (simp_all add: hoare_def apart_def)

lemma apart_modify:
  "(\<And>s. tworld.more (f s) = tworld.more s) \<Longrightarrow> keeps (apart m) (modify_st f)"
  by (simp add: hoare_def apart_def)

lemmas apart_rules = hoare_rules apart_upd tr_free_apart

subsection \<open>Completion threads\<close>

lemma apart_start_threads: "keeps (apart m) (start_threads E n cpus)"
  by (induction cpus)
    (auto simp: xdma_kthread_start_def intro!: apart_rules apart_modify)

lemma apart_threads_create: "keeps (apart m) (xdma_threads_create E cpus n)"
  unfolding xdma_threads_create_def
  by (intro apart_rules apart_start_threads apart_modify) simp_all

lemma apart_stop_threads: "keeps (apart m) (stop_threads E n)"
  unfolding stop_threads_def xdma_kthread_stop_def by (intro apart_rules)

lemma apart_threads_destroy: "keeps (apart m) (xdma_threads_destroy E)"
  unfolding xdma_threads_destroy_def
  by (intro apart_rules apart_stop_threads apart_modify) simp_all

lemma apart_pick: "keeps (apart m) (pick_thread is idx v)"
  by (induction "is" arbitrary: idx v) (auto simp: lock_thread_def unlock_thread_def intro!: apart_rules)

lemma apart_add_work: "keeps (apart m) (xdma_thread_add_work e)"
  unfolding xdma_thread_add_work_def lock_thread_def unlock_thread_def by (intro apart_rules apart_pick)

lemma apart_remove_work: "keeps (apart m) (xdma_thread_remove_work e)"
  unfolding xdma_thread_remove_work_def lock_thread_def unlock_thread_def by (intro apart_rules)

subsection \<open>Engines\<close>

lemma apart_free_resource: "keeps (apart m) (engine_free_resource e)"
  unfolding engine_free_resource_def by (intro apart_rules)

lemma apart_alloc_resource: "keeps (apart m) (engine_alloc_resource E e)"
  unfolding engine_alloc_resource_def alloc_err_out_def dma_alloc_def by (intro apart_rules apart_free_resource)

lemma apart_init_regs: "keeps (apart m) (engine_init_regs E e)"
  unfolding engine_init_regs_def engine_alignments_def engine_writeback_setup_def by (intro apart_rules)

lemma apart_engine_init: "keeps (apart m) (engine_init E e d off dir c)"
  unfolding engine_init_def engine_init_resources_def
  by (intro apart_rules apart_alloc_resource apart_init_regs apart_add_work)

lemma apart_probe_channels: "keeps (apart m) (probe_channels E d dir i n)"
  by (induction n arbitrary: i)
    (auto simp: probe_for_engine_def get_engine_id_def get_engine_channel_id_def Let_def
      intro!: apart_rules apart_engine_init)

lemma apart_probe_engines: "keeps (apart m) (probe_engines E d)"
  unfolding probe_engines_def by (intro apart_rules apart_probe_channels)

lemma apart_remove_engines: "keeps (apart m) (remove_engines d)"
  unfolding remove_engines_def remove_engine_def engine_destroy_def
  by (intro apart_rules apart_remove_work apart_free_resource)

subsection \<open>BARs and interrupts\<close>

lemma apart_unmap_bars: "keeps (apart m) (unmap_bars d dev)"
  unfolding unmap_bars_def unmap_bar_def set_bar_def by (intro apart_rules)

lemma apart_bars_loop: "keeps (apart m) (map_bars_loop E d dev is ids pos)"
  by (induction "is" arbitrary: ids pos)
    (auto simp: map_single_bar_def set_bar_def find_config_def is_config_bar_def Let_def intro!: apart_rules)

lemma apart_map_bars: "keeps (apart m) (map_bars E d dev)"
  unfolding map_bars_def map_bars_fail_def identify_bars_def by (intro apart_rules apart_bars_loop apart_unmap_bars)

lemma apart_bus: "keeps (apart m) (bus_no_msi n E bus)"
  by (induction n arbitrary: bus) (auto intro!: apart_rules)

lemma apart_enable_msi: "keeps (apart m) (enable_msi_msix E d pdev)"
  unfolding enable_msi_msix_def msi_msix_capable_def Let_def by (intro apart_rules apart_bus)

lemma apart_disable_msi: "keeps (apart m) (disable_msi_msix d pdev)"
  unfolding disable_msi_msix_def by (intro apart_rules)

lemma apart_vectors: "keeps (apart m) (prog_vectors reg clear i lim j)"
  by (simp add: hoare_def apart_def run_prog_vectors)

lemma apart_request_engines: "keeps (apart m) (request_engines E pdev ps)"
  by (induction ps) (auto simp: irq_vector_def request_irq_def intro!: apart_rules)

lemma apart_request_users: "keeps (apart m) (request_users E d i n)"
  by (induction n arbitrary: i) (auto simp: irq_vector_def request_irq_def intro!: apart_rules)

lemma apart_irq_setup: "keeps (apart m) (irq_setup E d pdev)"
  unfolding irq_setup_def pci_keep_intx_enabled_def irq_msix_channel_setup_def irq_msix_user_setup_def free_user_def
    irq_vector_def free_irq_def prog_irq_msix_channel_def prog_irq_msix_user_def irq_msi_setup_def irq_legacy_setup_def
    request_irq_def Let_def
  by (intro apart_rules apart_request_engines apart_request_users apart_vectors)

subsection \<open>Opening a device\<close>

lemma apart_list_add: "keeps (apart m) (xdev_list_add E cpus d)"
  unfolding xdev_list_add_def xdev_list_append_def
  by (intro apart_rules apart_threads_create apart_modify) simp_all

lemma apart_list_remove: "keeps (apart m) (xdev_list_remove E d)"
  unfolding xdev_list_remove_def by (intro apart_rules apart_threads_destroy apart_modify) simp_all

lemma apart_alloc_dev: "keeps (apart m) (alloc_dev_instance E pdev)"
  unfolding alloc_dev_instance_def clear_engine_def by (intro apart_rules)

lemmas apart_device = apart_list_add apart_list_remove apart_alloc_dev apart_irq_setup apart_enable_msi apart_disable_msi
  apart_map_bars apart_unmap_bars apart_probe_engines apart_remove_engines

lemma apart_open_irqs: "keeps (apart m) (open_irqs E d pdev)"
  unfolding open_irqs_def open_err_engines_def open_err_msix_def open_err_mask_def open_err_map_def open_err_regions_def
    open_err_enable_def open_free_xdev_def channel_interrupts_enable_def read_interrupts_def xdma_device_flag_clear_def
  by (intro apart_rules apart_device)

lemma apart_open_mapped: "keeps (apart m) (open_mapped E d pdev)"
  unfolding open_mapped_def set_dma_mask_def open_err_mask_def open_err_map_def open_err_regions_def
    open_err_enable_def open_free_xdev_def check_nonzero_interrupt_status_def channel_interrupts_disable_def
    user_interrupts_disable_def read_interrupts_def
  by (intro apart_rules apart_device apart_open_irqs)

lemma apart_open_enabled: "keeps (apart m) (open_enabled E d pdev)"
  unfolding open_enabled_def pci_check_intr_pend_def pci_enable_capability_def request_regions_def open_err_map_def
    open_err_regions_def open_err_enable_def open_free_xdev_def
  by (intro apart_rules apart_device apart_open_mapped)

lemma apart_open: "keeps (apart m) (xdma_device_open E cpus pdev u h c)"
  unfolding xdma_device_open_def open_err_enable_def open_free_xdev_def xdma_device_flag_set_def
  by (intro apart_rules apart_device apart_open_enabled)

lemma open_refused:
  assumes "fst (fst (run_state (xdma_device_open E cpus pdev u h c) s)) = 0"
  shows "fst (run_state (xdma_device_open E cpus pdev u h c) s) = (0, u, h, c)"
  using assms unfolding xdma_device_open_def by (auto simp: case_prod_beta split: if_splits)

section \<open>A probe that fails\<close>

lemma apart_run:
  assumes "tworld.more s = m" "keeps (apart m) p"
  shows "tworld.more (final_of p s) = m"
  using hoare_final [OF assms(2), of s] assms(1) by (simp add: apart_def)

lemma same_driver:
  fixes s s' :: hworld
  assumes "tworld.more s' = tworld.more s"
  shows "shas s' = shas s" "xpdevs s' = xpdevs s"
  using assms by (cases s; cases s'; simp)+

text \<open>The structure as \<open>xpdev_alloc\<close> leaves it: cleared, but for the limits.\<close>

lemma run_clear_shas:
  "run_state (for_each is (\<lambda>i. upd_sha (sha256_addr xpdev i) (\<lambda>_. zero_sha256))) s =
    ((), s\<lparr>shas := (\<lambda>a. if \<exists>i\<in>set is. a = sha256_addr xpdev i then zero_sha256 else shas s a)\<rparr>)"
proof (induction "is" arbitrary: s)
  case (Cons i "is")
  then show ?case
    by (simp add: upd_sha_def) (intro arg_cong [where f = "\<lambda>f. s\<lparr>shas := f\<rparr>"] ext, auto)
qed simp

lemma xpdev_alloc_leaves:
  assumes "run_state (xpdev_alloc E pdev) s = (xpdev, s')" "xpdev \<noteq> 0"
  shows "xpdevs s' xpdev = new_xpdev pdev" "i < XDMA_CHANNEL_NUM_MAX \<Longrightarrow> shas s' (sha256_addr xpdev i) = zero_sha256"
proof -
  have "i \<in> {0..<4}" if "i < XDMA_CHANNEL_NUM_MAX"
    using that by simp
  then show "xpdevs s' xpdev = new_xpdev pdev" "i < XDMA_CHANNEL_NUM_MAX \<Longrightarrow> shas s' (sha256_addr xpdev i) = zero_sha256"
    using assms by (auto simp del: atLeastLessThan_iff simp: xpdev_alloc_def upd_xpdev_def run_clear_shas split: if_splits)
qed

text \<open>The first node of a structure that was never set up ends the task.\<close>

lemma destroy_unset_dies:
  assumes "xp_h2c_channel_max (xpdevs s xpdev) \<noteq> 0" "xp_xdev (xpdevs s xpdev) = 0"
    and "k_magic (shas s (sha256_addr xpdev 0)) \<noteq> MAGIC_CHAR"
  shows "run_state (xpdev_destroy_interfaces xpdev) s = (False, s\<lparr>tr := tr s @ [Oops]\<rparr>)"
proof -
  obtain n where "[0..<xp_h2c_channel_max (xpdevs s xpdev)] = 0 # n"
    using assms(1) by (metis neq0_conv upt_conv_Cons)
  then show ?thesis
    using assms(2,3) by (simp add: xpdev_destroy_interfaces_def sha256_destory_def)
qed

text \<open>
  C20: a probe whose device cannot be opened ends in a null pointer dereference. \<open>xdma_device_open\<close> leaves
  the limits as they were when it fails, so the error path of \<open>probe_one\<close> destroys nodes that were never
  created; the message about the first one reads \<open>xpdev->xdev->idx\<close>, and \<open>xpdev->xdev\<close> is null. The error
  code of the probe is never returned.
\<close>

theorem probe_open_failure_dies:
  assumes "run_state (xpdev_alloc E pdev) s = (xpdev, s1)" "xpdev \<noteq> 0"
    and "fst (fst (run_state (xdma_device_open E cpus pdev MAX_USER_IRQ XDMA_CHANNEL_NUM_MAX XDMA_CHANNEL_NUM_MAX) s1)) = 0"
    and "run_state (probe_one E cpus major pdev) s = (r, s')"
  shows "r = None \<and> last (tr s') = Oops"
proof -
  let ?open = "xdma_device_open E cpus pdev MAX_USER_IRQ XDMA_CHANNEL_NUM_MAX XDMA_CHANNEL_NUM_MAX"
  define s2 where "s2 = final_of ?open s1"
  have new: "xpdevs s1 xpdev = new_xpdev pdev" "shas s1 (sha256_addr xpdev 0) = zero_sha256"
    using xpdev_alloc_leaves [OF assms(1,2)] by simp_all
  have "tworld.more s2 = tworld.more s1"
    unfolding s2_def by (rule apart_run [OF refl apart_open])
  note same = same_driver [OF this]
  have open': "run_state ?open s1 = ((0, MAX_USER_IRQ, XDMA_CHANNEL_NUM_MAX, XDMA_CHANNEL_NUM_MAX), s2)"
    unfolding s2_def by (rule prod_eqI) (simp_all add: open_refused [OF assms(3)])
  define s3 where "s3 = s2\<lparr>xpdevs := (xpdevs s2)(xpdev := new_xpdev pdev)\<rparr>"
  have upd: "run_state (upd_xpdev xpdev (\<lambda>p. p\<lparr>xp_user_max := MAX_USER_IRQ, xp_h2c_channel_max := XDMA_CHANNEL_NUM_MAX,
      xp_c2h_channel_max := XDMA_CHANNEL_NUM_MAX\<rparr>)) s2 = ((), s3)"
    using new(1) same(2) by (simp add: s3_def upd_xpdev_def new_xpdev_def)
  have dies: "run_state (xpdev_destroy_interfaces xpdev) s3 = (False, s3\<lparr>tr := tr s3 @ [Oops]\<rparr>)"
    by (rule destroy_unset_dies) (use new same in \<open>simp_all add: s3_def new_xpdev_def zero_sha256_def\<close>)
  have "run_state (probe_err_out E xpdev (- EINVAL)) s3 = (None, s3\<lparr>tr := tr s3 @ [Oops]\<rparr>)"
    using dies by (simp add: probe_err_out_def xpdev_free_def)
  moreover have "run_state (probe_one E cpus major pdev) s = run_state (probe_err_out E xpdev (- EINVAL)) s3"
    using assms(1,2) new(1) open' upd by (simp add: probe_one_def new_xpdev_def)
  ultimately show ?thesis
    using assms(4) by simp
qed

text \<open>The structure of the driver can be allocated, that of the device cannot.\<close>

definition short_env :: env where
  "short_env = sample_env\<lparr>kres := (\<lambda>h f args. if f = K_kzalloc \<and> args = [0] then 0x4000 else 0)\<rparr>"

lemma short_env_sel [simp]: "kres short_env h f args = (if f = K_kzalloc \<and> args = [0] then 0x4000 else 0)"
  by (simp add: short_env_def)

lemma probe_open_failure_dies_witness:
  "fst (run_state (probe_one short_env [0] 0 0x200) event_world) = None"
proof -
  have "fst (run_state (xpdev_alloc short_env 0x200) event_world) = 0x4000"
    by (simp add: xpdev_alloc_def upd_xpdev_def run_clear_shas)
  then have alloc: "run_state (xpdev_alloc short_env 0x200) event_world = (0x4000, final_of (xpdev_alloc short_env 0x200) event_world)"
    by (metis prod.collapse)
  have "fst (fst (run_state (xdma_device_open short_env [0] 0x200 MAX_USER_IRQ XDMA_CHANNEL_NUM_MAX XDMA_CHANNEL_NUM_MAX) s)) = 0" for s :: hworld
    by (simp add: xdma_device_open_def alloc_dev_instance_def)
  then show ?thesis
    using probe_open_failure_dies [OF alloc _ _ prod.collapse [symmetric], where cpus = "[0]" and major = 0] by simp
qed

section \<open>A probe that succeeds\<close>

text \<open>The structure \<open>xp\<close> has these limits and this handle, and the devices of the library are these.\<close>

definition bound_is :: "u64 \<Rightarrow> nat \<times> nat \<times> nat \<times> u64 \<Rightarrow> (u64 \<Rightarrow> xdma_dev) \<Rightarrow> u64 list \<Rightarrow> hworld \<Rightarrow> bool" where
  "bound_is xp l X ds s \<longleftrightarrow> (xp_user_max (xpdevs s xp), xp_h2c_channel_max (xpdevs s xp), xp_c2h_channel_max (xpdevs s xp),
     xp_xdev (xpdevs s xp)) = l \<and> xdevs s = X \<and> xdev_list s = ds"

lemma tr_free_bound: "tr_free (bound_is xp l X ds)"
  by (simp add: tr_free_def bound_is_def)

lemma bound_sha: "keeps (bound_is xp l X ds) (upd_sha a f)"
  by (simp add: hoare_def bound_is_def upd_sha_def)

lemma bound_major: "keeps (bound_is xp l X ds) (upd_xpdev a (\<lambda>p. p\<lparr>xp_major := m\<rparr>))"
  by (auto simp: hoare_def bound_is_def upd_xpdev_def)

lemmas bound_rules = hoare_rules tr_free_bound bound_sha bound_major

lemma bound_create_nodes: "keeps (bound_is xp l X ds) (create_nodes E major xpdev is)"
  by (induction "is") (auto simp: sha256_create_def create_node_def Let_def intro!: bound_rules)

lemma bound_destroy_nodes: "keeps (bound_is xp l X ds) (destroy_nodes xpdev is)"
  by (induction "is") (auto simp: sha256_destory_def intro!: bound_rules)

lemma bound_create: "keeps (bound_is xp l X ds) (xpdev_create_interfaces E major xpdev)"
  unfolding xpdev_create_interfaces_def xpdev_destroy_interfaces_def
  by (intro bound_rules bound_create_nodes bound_destroy_nodes)

lemma create_codes: "fst (run_state (xpdev_create_interfaces E major xpdev) s) \<in> {None, Some (-1), Some 0}"
  by (simp add: xpdev_create_interfaces_def case_prod_beta)

lemma err_out_codes: "fst (run_state (probe_err_out E xpdev rv) s) \<in> {None, Some rv}"
  by (simp add: probe_err_out_def case_prod_beta)

text \<open>What a probe that succeeds has bound to the PCI function.\<close>

definition well_bound :: "u64 \<Rightarrow> hworld \<Rightarrow> bool" where
  "well_bound pdev s \<longleftrightarrow> (let xp = xpdevs s (drvdata s pdev) in drvdata s pdev \<noteq> 0 \<and>
     xp_user_max xp \<le> MAX_USER_IRQ \<and> xp_h2c_channel_max xp \<le> XDMA_CHANNEL_NUM_MAX \<and> xp_c2h_channel_max xp \<le> XDMA_CHANNEL_NUM_MAX \<and>
     xp_xdev xp \<noteq> 0 \<and> xp_xdev xp \<in> set (xdev_list s) \<and> x_pdev (xdevs s (xp_xdev xp)) = pdev)"

abbreviation (input) bound_or_failed :: "u64 \<Rightarrow> int option \<Rightarrow> hworld \<Rightarrow> bool" where
  "bound_or_failed pdev r s \<equiv> r = Some 0 \<longrightarrow> well_bound pdev s"

lemma sat_err_out: "rv \<noteq> 0 \<Longrightarrow> sat (run_state (probe_err_out E xpdev rv) s) (bound_or_failed pdev)"
  using err_out_codes [of E xpdev rv s] by (auto simp: sat_def split: prod.splits)

lemma find_by_pdev:
  "\<exists>d h. run_state (xdev_find_by_pdev pdev) s = (d, s\<lparr>tr := h\<rparr>) \<and>
     (d \<noteq> 0 \<longrightarrow> d \<in> set (xdev_list s) \<and> x_pdev (xdevs s d) = pdev)"
proof (cases "filter (\<lambda>d. x_pdev (xdevs s d) = pdev) (xdev_list s)")
  case Nil
  then show ?thesis
    by (simp add: xdev_find_by_pdev_def) blast
next
  case (Cons d ds)
  have "d \<in> set (filter (\<lambda>d. x_pdev (xdevs s d) = pdev) (xdev_list s))"
    by (simp add: Cons)
  then have "d \<in> set (xdev_list s) \<and> x_pdev (xdevs s d) = pdev"
    by simp
  moreover have "run_state (xdev_find_by_pdev pdev) s = (d, s\<lparr>tr := tr s @ [Lock LkList [], Unlock LkList []]\<rparr>)"
    by (simp add: xdev_find_by_pdev_def Cons)
  ultimately show ?thesis
    by blast
qed

lemma interfaces_bind:
  assumes "xpdev \<noteq> 0" "bound_is xpdev (u, h, c, z) X ds s" "u \<le> MAX_USER_IRQ" "h \<le> XDMA_CHANNEL_NUM_MAX" "c \<le> XDMA_CHANNEL_NUM_MAX"
  shows "sat (run_state (probe_interfaces E major pdev xpdev hndl) s) (bound_or_failed pdev)"
proof -
  obtain d hist where d: "run_state (xdev_find_by_pdev pdev) s = (d, s\<lparr>tr := hist\<rparr>)"
    "d \<noteq> 0 \<longrightarrow> d \<in> set (xdev_list s) \<and> x_pdev (xdevs s d) = pdev"
    using find_by_pdev [of pdev s] by blast
  show ?thesis
  proof (cases "d = 0 \<or> hndl \<noteq> d")
    case True
    then show ?thesis
      using d(1) sat_err_out [of "- EINVAL" E xpdev "s\<lparr>tr := hist\<rparr>" pdev] by (auto simp: probe_interfaces_def)
  next
    case False
    define s1 where "s1 = s\<lparr>tr := hist, xpdevs := (xpdevs s)(xpdev := (xpdevs s xpdev)\<lparr>xp_xdev := d\<rparr>)\<rparr>"
    obtain r s2 where r: "run_state (xpdev_create_interfaces E major xpdev) s1 = (r, s2)"
      by (metis prod.exhaust)
    have "bound_is xpdev (u, h, c, d) X ds s1"
      using assms(2) by (simp add: bound_is_def s1_def)
    from hoare_final [OF bound_create this, of E major xpdev] have b: "bound_is xpdev (u, h, c, d) X ds s2"
      by (simp add: r)
    have member: "d \<noteq> 0" "d \<in> set ds" "x_pdev (X d) = pdev"
      using False d(2) assms(2) by (auto simp: bound_is_def)
    have run: "run_state (probe_interfaces E major pdev xpdev hndl) s = (case r of None \<Rightarrow> (None, s2)
      | Some rv \<Rightarrow> if rv \<noteq> 0 then run_state (probe_err_out E xpdev rv) s2 else (Some 0, s2\<lparr>drvdata := (drvdata s2)(pdev := xpdev)\<rparr>))"
      using d(1) False r by (simp add: probe_interfaces_def upd_xpdev_def s1_def split: option.split)
    show ?thesis
    proof (cases r)
      case None
      then show ?thesis
        unfolding run by (simp add: sat_def)
    next
      case (Some rv)
      then show ?thesis
        unfolding run using assms(1,3-5) member b sat_err_out [of rv E xpdev s2 pdev]
        by (simp add: sat_def well_bound_def bound_is_def)
    qed
  qed
qed

lemma apart_isr_enable: "keeps (apart m) (xdma_user_isr_enable E d msk)"
  unfolding xdma_user_isr_enable_def debug_check_dev_hndl_def xdev_find_by_pdev_def user_interrupts_enable_def read_interrupts_def
  by (intro apart_rules)

text \<open>
  C21: what a successful probe leaves is well formed. The driver data of the PCI function is the new
  structure; its limits fit the arrays of the driver, and its handle is a device of the library's list that
  belongs to the same PCI function.
\<close>

theorem probe_binds_well_formed:
  assumes "run_state (probe_one E cpus major pdev) s = (Some 0, s')"
  shows "well_bound pdev s'"
proof -
  obtain xpdev s1 where alloc: "run_state (xpdev_alloc E pdev) s = (xpdev, s1)"
    by (metis prod.exhaust)
  then have nz: "xpdev \<noteq> 0"
    using assms by (auto simp: probe_one_def)
  have new: "xpdevs s1 xpdev = new_xpdev pdev"
    by (rule xpdev_alloc_leaves [OF alloc nz])
  obtain hndl u h c s2 where op: "run_state (xdma_device_open E cpus pdev MAX_USER_IRQ XDMA_CHANNEL_NUM_MAX XDMA_CHANNEL_NUM_MAX) s1 = ((hndl, u, h, c), s2)"
    by (metis prod.exhaust)
  define s3 where "s3 = s2\<lparr>xpdevs := (xpdevs s2)(xpdev := (xpdevs s2 xpdev)\<lparr>xp_user_max := u, xp_h2c_channel_max := h, xp_c2h_channel_max := c\<rparr>)\<rparr>"
  define m where "m = (if u \<noteq> 0 then xdma_user_isr_enable E hndl (push_bit (u + 1) 1 - 1) else ret 0 :: (hworld, int) state)"
  obtain rv s4 where enable: "run_state m s3 = (rv, s4)"
    by (metis prod.exhaust)
  have "keeps (apart more) m" for more
    unfolding m_def by (intro hoare_rules apart_isr_enable)
  then have "tworld.more (final_of m s3) = tworld.more s3"
    by (rule apart_run [OF refl])
  then have "xpdevs s4 = xpdevs s3"
    unfolding enable snd_conv by (rule same_driver)
  then have lim: "bound_is xpdev (u, h, c, xp_xdev (xpdevs s2 xpdev)) (xdevs s4) (xdev_list s4) s4"
    by (simp add: bound_is_def s3_def)
  have "u = 0 \<Longrightarrow> rv = 0 \<and> s4 = s3" "u \<noteq> 0 \<Longrightarrow> run_state (xdma_user_isr_enable E hndl (push_bit (u + 1) 1 - 1)) s3 = (rv, s4)"
    using enable by (auto simp: m_def)
  moreover have "run_state (upd_xpdev xpdev (\<lambda>p. p\<lparr>xp_user_max := u, xp_h2c_channel_max := h, xp_c2h_channel_max := c\<rparr>)) s2 = ((), s3)"
    by (simp add: s3_def upd_xpdev_def)
  ultimately have "run_state (probe_one E cpus major pdev) s =
    (if hndl = 0 \<or> MAX_USER_IRQ < u \<or> XDMA_CHANNEL_NUM_MAX < h \<or> XDMA_CHANNEL_NUM_MAX < c
     then run_state (probe_err_out E xpdev (- EINVAL)) s3
     else if rv \<noteq> 0 then run_state (probe_err_out E xpdev rv) s4 else run_state (probe_interfaces E major pdev xpdev hndl) s4)"
    using alloc nz new op
    by (cases "u = 0") (simp_all add: probe_one_def new_xpdev_def)
  moreover have "sat \<dots> (bound_or_failed pdev)"
    using interfaces_bind [OF nz lim] sat_err_out [of "- EINVAL" E xpdev s3 pdev] sat_err_out [of rv E xpdev s4 pdev]
    by (simp add: not_less)
  ultimately have "sat (run_state (probe_one E cpus major pdev) s) (bound_or_failed pdev)"
    by (simp only:)
  then show ?thesis
    unfolding assms by (simp add: sat_def)
qed

section \<open>A probe that succeeds, run\<close>

text \<open>
  A device with one BAR, the config BAR, no channel and one interrupt line: the probe is run step by step.
\<close>

definition good_env :: env where
  "good_env = sample_env\<lparr>
     kres := (\<lambda>h f a. if f = K_kzalloc then (if a = [0] then 0x4000 else 0x100)
       else if f = K_pci_resource_len then (if a ! 1 = 0 then 0x10000 else 0)
       else if f = K_pci_iomap then 0x400000 else if f = K_pci_read_config then 1 else 0),
     mmio_rd := (\<lambda>h a. if a = 0x402000 then IRQ_BLOCK_ID else if a = 0x403000 then CONFIG_BLOCK_ID else 0)\<rparr>"

lemma good_env_sel [simp]:
  "kres good_env h f a = (if f = K_kzalloc then (if a = [0] then 0x4000 else 0x100)
       else if f = K_pci_resource_len then (if a ! 1 = 0 then 0x10000 else 0)
       else if f = K_pci_iomap then 0x400000 else if f = K_pci_read_config then 1 else 0)"
  "mmio_rd good_env h b = (if b = 0x402000 then IRQ_BLOCK_ID else if b = 0x403000 then CONFIG_BLOCK_ID else 0)"
  by (simp_all add: good_env_def)

definition new_world :: hworld where
  "new_world = event_world\<lparr>xdev_list := []\<rparr>"

lemma new_world_sel [simp]: "xdev_list new_world = []" "prm new_world = sample_params"
  by (simp_all add: new_world_def event_world_def tworld.extend_def xworld.extend_def sample_world_def)

lemma sample_mode [simp]: "interrupt_mode sample_params = 0"
  by (simp_all add: sample_params_def)

text \<open>What is known of the device on the way, before and after its registers are mapped.\<close>

definition dev_at :: "bool \<Rightarrow> 'a tworld_scheme \<Rightarrow> bool" where
  "dev_at mapped s \<longleftrightarrow> prm s = sample_params \<and> xdev_list s = [0x100] \<and> x_pdev (xdevs s 0x100) = 0x200 \<and>
     \<not> x_msix_enabled (xdevs s 0x100) \<and> \<not> x_msi_enabled (xdevs s 0x100) \<and> x_user_max (xdevs s 0x100) = 16 \<and>
     (if mapped then x_bar (xdevs s 0x100) 0 = 0x400000 \<and> x_config_bar_idx (xdevs s 0x100) = 0
      else x_config_bar_idx (xdevs s 0x100) = -1)"

definition no_channels :: "'a tworld_scheme \<Rightarrow> bool" where
  "no_channels s \<longleftrightarrow> x_h2c_channel_max (xdevs s 0x100) = 0 \<and> x_c2h_channel_max (xdevs s 0x100) = 0"

lemma good_map:
  "dev_at False s \<Longrightarrow> fst (run_state (map_bars good_env 0x100 0x200) s) = 0 \<and> dev_at True (final_of (map_bars good_env 0x100 0x200) s)"
  by (simp add: dev_at_def map_bars_def map_bars_fail_def upt_rec map_single_bar_def find_config_def
      is_config_bar_def set_bar_def identify_bars_def bar_roles_def)

lemma dev_at_tr [simp]: "dev_at b (s\<lparr>tr := h\<rparr>) = dev_at b s"
  by (simp add: dev_at_def)

lemma dev_at_channels [simp]:
  "dev_at b (s\<lparr>xdevs := (xdevs s)(0x100 := (xdevs s 0x100)\<lparr>x_h2c_channel_max := m\<rparr>)\<rparr>) = dev_at b s"
  "dev_at b (s\<lparr>xdevs := (xdevs s)(0x100 := (xdevs s 0x100)\<lparr>x_c2h_channel_max := n\<rparr>)\<rparr>) = dev_at b s"
  by (simp_all add: dev_at_def)

lemma good_channels:
  assumes "dev_at True s"
  shows "\<exists>h. run_state (probe_channels good_env 0x100 dir 0 n) s = (0, s\<lparr>tr := h\<rparr>)"
  using assms
  by (intro exI [of _ "tr (final_of (probe_channels good_env 0x100 dir 0 n) s)"], cases n; cases dir)
    (simp_all add: dev_at_def probe_for_engine_def get_engine_id_def get_engine_channel_id_def channel_offset_def Let_def)

lemma good_probe:
  assumes "dev_at True s"
  shows "\<exists>s'. run_state (probe_engines good_env 0x100) s = (0, s') \<and> dev_at True s' \<and> no_channels s'"
proof -
  obtain h where h: "run_state (probe_channels good_env 0x100 DMA_TO_DEVICE 0 (x_h2c_channel_max (xdevs s 0x100))) s = (0, s\<lparr>tr := h\<rparr>)"
    using good_channels [OF assms] by blast
  define s1 where "s1 = s\<lparr>tr := h, xdevs := (xdevs s)(0x100 := (xdevs s 0x100)\<lparr>x_h2c_channel_max := 0\<rparr>)\<rparr>"
  have s1: "dev_at True s1" "x_h2c_channel_max (xdevs s1 0x100) = 0"
    using assms by (simp_all add: s1_def dev_at_def)
  obtain k where k: "run_state (probe_channels good_env 0x100 DMA_FROM_DEVICE 0 (x_c2h_channel_max (xdevs s1 0x100))) s1 = (0, s1\<lparr>tr := k\<rparr>)"
    using good_channels [OF s1(1)] by blast
  have "run_state (probe_engines good_env 0x100) s =
      (0, s1\<lparr>tr := k, xdevs := (xdevs s1)(0x100 := (xdevs s1 0x100)\<lparr>x_c2h_channel_max := 0\<rparr>)\<rparr>)"
    using h k by (simp add: probe_engines_def s1_def)
  then show ?thesis
    using s1 by (simp add: dev_at_def no_channels_def)
qed

lemma no_bus: "run_state (bus_no_msi n E 0) s = (False, s)"
  by (cases n) simp_all

lemma good_irqs:
  assumes "dev_at True s"
  shows "fst (run_state (open_irqs good_env 0x100 0x200) s) = 0x100 \<and> dev_at True (final_of (open_irqs good_env 0x100 0x200) s) \<and>
     (no_channels s \<longrightarrow> no_channels (final_of (open_irqs good_env 0x100 0x200) s))"
  using assms by (simp add: dev_at_def no_channels_def open_irqs_def enable_msi_msix_def msi_msix_capable_def irq_setup_def pci_keep_intx_enabled_def irq_legacy_setup_def
    request_irq_def channel_interrupts_enable_def read_interrupts_def xdma_device_flag_clear_def arch_msi_check_device_def no_bus irq_reg_def Let_def)

lemma good_mapped:
  assumes "dev_at True s"
  shows "fst (run_state (open_mapped good_env 0x100 0x200) s) = 0x100 \<and> dev_at True (final_of (open_mapped good_env 0x100 0x200) s) \<and>
     no_channels (final_of (open_mapped good_env 0x100 0x200) s)"
proof -
  let ?m = "do { _ \<leftarrow> set_dma_mask good_env 0x200;
       _ \<leftarrow> check_nonzero_interrupt_status good_env 0x100;
       _ \<leftarrow> channel_interrupts_disable 0x100 (NOT 0);
       _ \<leftarrow> user_interrupts_disable 0x100 (NOT 0);
       read_interrupts good_env 0x100 }"
  define s1 where "s1 = s\<lparr>tr := tr (final_of ?m s)\<rparr>"
  have "dev_at True s1"
    using assms by (simp add: s1_def)
  then obtain s2 where s2: "run_state (probe_engines good_env 0x100) s1 = (0, s2)" "dev_at True s2" "no_channels s2"
    using good_probe by blast
  have "run_state (open_mapped good_env 0x100 0x200) s = run_state (do { rv \<leftarrow> probe_engines good_env 0x100;
       if rv \<noteq> 0 then open_err_mask good_env 0x100 0x200 else open_irqs good_env 0x100 0x200 }) s1"
    by (simp add: s1_def open_mapped_def set_dma_mask_def check_nonzero_interrupt_status_def channel_interrupts_disable_def
        user_interrupts_disable_def read_interrupts_def)
  then have "run_state (open_mapped good_env 0x100 0x200) s = run_state (open_irqs good_env 0x100 0x200) s2"
    using s2(1) by simp
  then show ?thesis
    using good_irqs [OF s2(2)] s2(3) by simp
qed

lemma good_enabled:
  assumes "dev_at False s"
  shows "fst (run_state (open_enabled good_env 0x100 0x200) s) = 0x100 \<and> dev_at True (final_of (open_enabled good_env 0x100 0x200) s) \<and>
     no_channels (final_of (open_enabled good_env 0x100 0x200) s)"
proof -
  let ?m = "do { _ \<leftarrow> pci_check_intr_pend good_env 0x200;
     _ \<leftarrow> pci_enable_capability 0x200 PCI_EXP_DEVCTL_RELAX_EN;
     _ \<leftarrow> pci_enable_capability 0x200 PCI_EXP_DEVCTL_EXT_TAG;
     _ \<leftarrow> kcall good_env K_pcie_set_readrq [0x200, 512];
     _ \<leftarrow> kproc K_pci_set_master [0x200];
     request_regions good_env 0x100 0x200 }"
  define s1 where "s1 = final_of ?m s"
  have s1: "dev_at False s1"
    using assms by (simp add: s1_def dev_at_def pci_check_intr_pend_def pci_enable_capability_def request_regions_def)
  obtain r s2 where map: "run_state (map_bars good_env 0x100 0x200) s1 = (r, s2)"
    by (metis prod.exhaust)
  from good_map [OF s1] have s2: "r = 0" "dev_at True s2"
    unfolding map by simp_all
  have "run_state (open_enabled good_env 0x100 0x200) s = run_state (do { rv \<leftarrow> map_bars good_env 0x100 0x200;
       if rv \<noteq> 0 then open_err_map good_env 0x100 0x200 else open_mapped good_env 0x100 0x200 }) s1"
    by (simp add: s1_def open_enabled_def pci_check_intr_pend_def pci_enable_capability_def request_regions_def)
  then have "run_state (open_enabled good_env 0x100 0x200) s = run_state (open_mapped good_env 0x100 0x200) s2"
    using map s2(1) by simp
  then show ?thesis
    using good_mapped [OF s2(2)] by simp
qed

lemma good_alloc:
  "\<exists>h G. run_state (alloc_dev_instance good_env 0x200) s =
    (0x100, s\<lparr>tr := h, engs := G, xdevs := (xdevs s)(0x100 := new_xdev 0x200)\<rparr>)"
  by (intro exI [of _ "tr (final_of (alloc_dev_instance good_env 0x200) s)"] exI [of _ "engs (final_of (alloc_dev_instance good_env 0x200) s)"])
    (simp add: alloc_dev_instance_def clear_engine_def upt_rec)

lemma good_open:
  fixes s :: "'a tworld_scheme"
  assumes "xdev_list s = []" "prm s = sample_params"
  shows "\<exists>s'. run_state (xdma_device_open good_env [0] 0x200 MAX_USER_IRQ XDMA_CHANNEL_NUM_MAX XDMA_CHANNEL_NUM_MAX) s =
    ((0x100, 16, 0, 0), s') \<and> dev_at True s'"
proof -
  obtain h G where alloc: "run_state (alloc_dev_instance good_env 0x200) s =
      (0x100, s\<lparr>tr := h, engs := G, xdevs := (xdevs s)(0x100 := new_xdev 0x200)\<rparr>)"
    using good_alloc by blast
  define x where "x = (new_xdev 0x200)\<lparr>x_user_max := 16, x_h2c_channel_max := 4, x_c2h_channel_max := 4,
    x_flags := XDEV_FLAG_OFFLINE, x_idx := 0\<rparr>"
  define s1 where "s1 = s\<lparr>tr := h @ [Lock LkDev [0x100], Unlock LkDev [0x100], Lock LkList [], Unlock LkList [], KCall K_pci_enable_device [0x200] 0],
    engs := G, xdevs := (xdevs s)(0x100 := x), xdev_list := [0x100]\<rparr>"
  have "dev_at False s1"
    using assms by (simp add: dev_at_def s1_def x_def new_xdev_def)
  then have en: "fst (run_state (open_enabled good_env 0x100 0x200) s1) = 0x100" "dev_at True (final_of (open_enabled good_env 0x100 0x200) s1)"
    "no_channels (final_of (open_enabled good_env 0x100 0x200) s1)"
    using good_enabled by blast+
  obtain r s2 where run: "run_state (open_enabled good_env 0x100 0x200) s1 = (r, s2)"
    by (metis prod.exhaust)
  note s2 = en [unfolded run fst_conv snd_conv]
  have nz: "r \<noteq> 0"
    using s2(1) by simp
  have "run_state (xdma_device_open good_env [0] 0x200 MAX_USER_IRQ XDMA_CHANNEL_NUM_MAX XDMA_CHANNEL_NUM_MAX) s =
      ((r, x_user_max (xdevs s2 0x100), x_h2c_channel_max (xdevs s2 0x100), x_c2h_channel_max (xdevs s2 0x100)), s2)"
    using alloc assms run [unfolded s1_def x_def new_xdev_def] nz
    by (simp add: xdma_device_open_def xdma_device_flag_set_def limit_channels_def xdev_list_add_def xdev_list_append_def new_xdev_def)
  then show ?thesis
    using s2 by (simp add: dev_at_def no_channels_def)
qed

lemma good_enable:
  assumes "dev_at True s"
  shows "\<exists>s'. run_state (xdma_user_isr_enable good_env 0x100 msk) s = (0, s') \<and> dev_at True s' \<and> tworld.more s' = tworld.more s"
  using assms by (intro exI [of _ "final_of (xdma_user_isr_enable good_env 0x100 msk) s"])
    (simp add: xdma_user_isr_enable_def debug_check_dev_hndl_def xdev_find_by_pdev_def user_interrupts_enable_def read_interrupts_def
      dev_at_def)

lemma good_interfaces:
  assumes "dev_at True s" "xp_h2c_channel_max (xpdevs s xpdev) = 0"
  shows "fst (run_state (probe_interfaces good_env 0 0x200 xpdev 0x100) s) = Some 0"
  using assms by (simp add: probe_interfaces_def xdev_find_by_pdev_def dev_at_def upd_xpdev_def xpdev_create_interfaces_def)

lemma good_new:
  "run_state (xpdev_alloc good_env 0x200) s = (0x4000, final_of (xpdev_alloc good_env 0x200) s)"
  "xdev_list (final_of (xpdev_alloc good_env 0x200) s) = xdev_list s" "prm (final_of (xpdev_alloc good_env 0x200) s) = prm s"
  "xpdevs (final_of (xpdev_alloc good_env 0x200) s) 0x4000 = new_xpdev 0x200"
  by (simp_all add: xpdev_alloc_def upd_xpdev_def run_clear_shas)

lemma good_probe_one: "fst (run_state (probe_one good_env [0] 0 0x200) new_world) = Some 0"
proof -
  define s1 where "s1 = final_of (xpdev_alloc good_env 0x200) new_world"
  have alloc: "run_state (xpdev_alloc good_env 0x200) new_world = (0x4000, s1)"
    unfolding s1_def by (rule good_new)
  have s1: "xdev_list s1 = []" "prm s1 = sample_params" "xpdevs s1 0x4000 = new_xpdev 0x200"
    by (simp_all add: s1_def good_new(2-4))
  obtain s2 where op: "run_state (xdma_device_open good_env [0] 0x200 MAX_USER_IRQ XDMA_CHANNEL_NUM_MAX XDMA_CHANNEL_NUM_MAX) s1 =
      ((0x100, 16, 0, 0), s2)" "dev_at True s2"
    using good_open [OF s1(1,2)] by blast
  define s3 where "s3 = s2\<lparr>xpdevs := (xpdevs s2)(0x4000 := (xpdevs s2 0x4000)\<lparr>xp_user_max := 16, xp_h2c_channel_max := 0, xp_c2h_channel_max := 0\<rparr>)\<rparr>"
  have upd: "run_state (upd_xpdev 0x4000 (\<lambda>p. p\<lparr>xp_user_max := 16, xp_h2c_channel_max := 0, xp_c2h_channel_max := 0\<rparr>)) s2 = ((), s3)"
    by (simp add: s3_def upd_xpdev_def)
  have "dev_at True s3"
    using op(2) by (simp add: s3_def dev_at_def)
  then obtain s4 where s4: "run_state (xdma_user_isr_enable good_env 0x100 (push_bit 17 1 - 1)) s3 = (0, s4)" "dev_at True s4" "tworld.more s4 = tworld.more s3"
    using good_enable by blast
  have "xp_h2c_channel_max (xpdevs s4 0x4000) = 0"
    using same_driver(2) [OF s4(3)] by (simp add: s3_def)
  from good_interfaces [OF s4(2) this] show ?thesis
    using alloc s1(3) op(1) upd s4(1) by (simp add: probe_one_def new_xpdev_def)
qed

lemma probe_binds_well_formed_witness:
  "well_bound 0x200 (final_of (probe_one good_env [0] 0 0x200) new_world)"
proof -
  have "run_state (probe_one good_env [0] 0 0x200) new_world = (Some 0, final_of (probe_one good_env [0] 0 0x200) new_world)"
    by (rule prod_eqI) (simp_all only: good_probe_one fst_conv snd_conv)
  then show ?thesis
    by (rule probe_binds_well_formed)
qed

end
