(* ===== verification/Spec2Isabelle.thy ===== *)
theory Spec2Isabelle
  imports Prelude KernelEnv Resources XdmaTypes Samples Desc Request Engine Xfer
    Threads EngineInit EngineProbe Bars Irq IrqLaws IrqLines Device
    XdmaCdev HshaPcie HshaZynq XdmaMod CdevNodes NodeLaws CdevXvc CdevSgdma UserPages SubmitLaws DataPath HshaLaws AsyncLaws DeviceLaws ModLaws
begin

text \<open>
  The SHA-256 accelerator drivers of zynq_sha256.

  The repository holds a hash unit in Verilog and two Linux drivers for it, in C: one for the unit in the
  programmable logic of a Zynq (\<open>bench/zynq_linux_driver\<close>), one for up to four units behind a Xilinx XDMA
  PCIe bridge (\<open>bench/pcie_linux_driver\<close>). This development models both drivers.

  The parts and how they work together.

  The Zynq driver (\<open>hsha256.c\<close>, \<open>hsha256_ops.c\<close>, \<open>hsha256_proc.c\<close>) is one platform driver: a write copies
  user bytes into a coherent buffer and hands them to a cyclic DMA channel, whose callback wakes the
  writer; a read returns digest bytes from the registers of the unit.

  The PCIe driver has a library and nodes above it. The library (\<open>libxdma.c\<close>, \<open>libxdma.h\<close>, \<open>xdma_thread.c\<close>)
  finds the BARs, the engines and the interrupts of a device; a submission turns a scatter-gather table
  into a request, cuts transfers of at most a ring's length off it, builds their descriptors in the ring
  of the engine and queues them; the interrupt handler schedules the service of the engine, or in polled
  mode a completion thread runs it, and the service completes the transfers of the queue. Above it, the
  module (\<open>xdma_mod.c\<close>, \<open>xdma_cdev.c\<close>) probes and removes devices and creates their nodes, and the nodes
  (\<open>hsha256.c\<close>, \<open>cdev_sgdma.c\<close>, \<open>cdev_ctrl.c\<close>, \<open>cdev_events.c\<close>, \<open>cdev_bypass.c\<close>, \<open>cdev_xvc.c\<close>) serve user space.
\<close>

section \<open>How the program is modelled\<close>

text \<open>
  A C function is a program of the state monad (\<open>Prelude\<close>), of the same name, whose state is a record:
  \<open>kworld\<close> is the history of what the driver did to the world (\<open>KernelEnv\<close>); \<open>xworld\<close> adds the structures of
  the library, each a map from addresses or names to records with the fields of the C structure
  (\<open>XdmaTypes\<close>); \<open>tworld\<close> adds the completion threads (\<open>Threads\<close>), \<open>hworld\<close> the structures of the PCIe driver
  and the open file (\<open>XdmaCdev\<close>), and \<open>zworld\<close> is the state of the Zynq driver (\<open>HshaZynq\<close>). A library
  function is polymorphic in what is added above it, so that one definition serves every layer.

  What is not code of the repository is the parameter \<open>E\<close>, of type \<open>env\<close>: the values of device registers,
  the results of kernel services, user memory and its faults, memory that the device writes, the pages of
  a user buffer. All are functions of the history, so that two reads of a register may differ. Effects are
  events of the history: register writes, kernel calls with their arguments and results, locks, wake-ups.
  A null dereference is the event \<open>Oops\<close>, and where it ends the task the result says so. Errors are negative
  numbers, as in the source; C integers are words of their width, and signed counters that cannot overflow
  are \<open>int\<close>. Sleeping is a call: the environment says how often deferred work runs meanwhile. The interleaving of
  the Zynq writer and its callback is a step relation of its own.

  The theories, in the order of the layers:
  \<^item> \<open>Prelude\<close>, \<open>KernelEnv\<close>, \<open>Resources\<close>: the monad and its Hoare rules, the environment, the resources that a
    history acquires and releases (a stack where the driver releases in reverse order, a multiset where not).
  \<^item> \<open>XdmaTypes\<close>, \<open>Samples\<close>: \<open>libxdma.h\<close>, and a concrete state for the witnesses.
  \<^item> \<open>Desc\<close>, \<open>Request\<close>, \<open>Engine\<close>, \<open>Xfer\<close>: descriptors; requests and transfers; engines and their service;
    submissions and completions (\<open>libxdma.c\<close>). \<open>SubmitLaws\<close>: what a blocking submission guarantees. \<open>DataPath\<close>: what it moves, from the
    user buffer to the descriptors the hardware finds. \<open>HshaLaws\<close>, \<open>AsyncLaws\<close>: reads, refused writes and
    completed writes of the hash units.
  \<^item> \<open>Threads\<close>: \<open>xdma_thread.c\<close>. \<open>EngineInit\<close>, \<open>EngineProbe\<close>: set-up, discovery and removal of engines.
    \<open>Bars\<close>; \<open>Irq\<close>, \<open>IrqLaws\<close>, \<open>IrqLines\<close>; \<open>Device\<close>, \<open>DeviceLaws\<close>: BARs, interrupts, the life of a device.
  \<^item> \<open>XdmaCdev\<close>, \<open>HshaPcie\<close>, \<open>UserPages\<close>: nodes, the hash units, the mapping of user buffers. \<open>XdmaMod\<close>,
    \<open>ModLaws\<close>: the module. \<open>CdevNodes\<close>, \<open>NodeLaws\<close>, \<open>CdevXvc\<close>, \<open>CdevSgdma\<close>: the other nodes.
  \<^item> \<open>HshaZynq\<close>: the Zynq driver.
\<close>

section \<open>What is proved\<close>

text \<open>
  \<^item> The data path: the descriptors that the hardware finds in the course of a blocking transfer name a prefix of
    the user buffer, byte by byte, against the device addresses from the position on, and no more bytes are
    reported (\<open>DataPath\<close>). \<open>handed\<close> collects those descriptors along the run of the model, \<open>moved\<close> reads the
    pairs of addresses off them; neither is code of the driver.
  \<^item> Transfers: a request covers the bytes of its table (\<open>Request\<close>); the hardware that walks the descriptors of
    a transfer finds the software descriptors of the request in order, with the right control bits, and
    the books of the ring are kept; a submission ends, reports all bytes or an error, and gives its
    descriptors back (\<open>SubmitLaws\<close>); a user buffer is mapped byte for byte, and each page that was pinned is
    put once (\<open>UserPages\<close>).
  \<^item> Service: transfers complete in the order of the queue, an error fails the head and stops the engine,
    starting programs the first descriptor before the run bit (\<open>Engine\<close>); each engine has one thread
    (\<open>Threads\<close>).
  \<^item> Interrupts and events: the vector tables, the dispatch of the handler, the lines that are held
    (\<open>IrqLaws\<close>, \<open>IrqLines\<close>); the event nodes implement a set of pending events (\<open>NodeLaws\<close>).
  \<^item> Life cycles: what probe acquires remove gives back, what a failed probe acquired is released
    (\<open>HshaZynq\<close>, \<open>EngineInit\<close>, \<open>Bars\<close>); numbers of devices and bits of engines are distinct (\<open>DeviceLaws\<close>,
    \<open>EngineProbe\<close>); what a successful probe binds is well formed (\<open>ModLaws\<close>).
  \<^item> Flaws of the code, as theorems about what it does: lost wake-ups and overlong status texts, BARs with two
    roles, refused transfers that keep their descriptors or their pages, a read that ignores the position, a
    failed probe that dereferences null, a
    mapping outside the BAR, a vector whose loop does not end.

  Contracts that several components share are locales, each interpreted on the model: \<open>step_system\<close> (an
  invariant and a measure of a step relation: writer and callback), \<open>registry\<close> (a collection that is entered
  and left: the work lists of the threads), \<open>bracket\<close> (set-up and tear-down: the Zynq probe and session,
  engines, BARs, user interrupts), \<open>engine_frame\<close> (what the service of an engine leaves alone: four times, for a
  submission and a completion) and its extension \<open>handler_frame\<close> (what the completion handler of the
  hash units leaves alone). The assumptions on the kernel are definitions like \<open>irq_kernel\<close>, \<open>thread_kernel\<close> and
  \<open>pin_kernel\<close>: they state documented results, and every theorem that has one has a witness.
\<close>

section \<open>Bounds and fuel\<close>

text \<open>
  \<^item> \<open>submit_loop\<close> gets the number of descriptors of the request: a round takes at least one, and a theorem
    says that more makes no difference. \<open>completion_loop\<close> and \<open>nowait_loop\<close> get 2, the length of the array
    \<open>tfer\<close>: beyond it the code leaves the array, which is the event \<open>Oops\<close>.
  \<^item> \<open>transfer_list_loop\<close> gets the length of the queue and one: a round removes the head.
  \<^item> \<open>write_loop\<close> of the Zynq driver gets the bytes that are left: a round copies at least one.
  \<^item> \<open>wb_poll_loop\<close> and \<open>xvc_poll\<close> poll as often as the clock or the counter of the source allows.
  \<^item> \<open>bus_no_msi\<close> gets 256: a bus number has eight bits. \<open>xvc_loop\<close> and \<open>xthread_main\<close> may not end; \<open>None\<close>
    says that the rounds given were not enough, and a theorem gives the number that is.
\<close>

section \<open>Not modelled\<close>

text \<open>
  The hash unit (\<open>sha256.v\<close>) and the test program (\<open>test_driver\<close>, in Rust): neither is C; the registers of the
  unit are answers of the environment. Messages to the log and the dumps of \<open>__LIBXDMA_DEBUG__\<close>; the code of
  other kernel versions and of \<open>__XDMA_SYSFS__\<close>; the creation of the nodes that \<open>xdma_cdev.c\<close> has commented out;
  the table of PCI identifiers and the tables of file operations, which are data for the kernel; the memory
  model of several processors: a lock is an event, and a function runs alone but for the places where it
  sleeps.
\<close>

end
